(* ===== verification/GoPrelude.thy ===== *)
theory GoPrelude
  imports Main "HOL-Library.Multiset" "HOL-Library.Sublist" "HOL-Library.AList"
begin

text \<open>
  The part of the Go language and its standard library that every component of the program
  relies on, and the lemmas the components share.

  Strings are byte sequences (\<open>char list\<close>), as Go strings are.  \<open>strings.ToLower\<close>,
  \<open>strings.TrimSpace\<close> and their kin act on the ASCII letters and the ASCII white space; a byte of
  a multi-byte UTF-8 sequence is left alone, so for text outside ASCII the Unicode case and space
  tables are not modelled.  A \<open>map[string]string\<close> is an association list under an option (\<open>None\<close>
  is the nil map, on which a read gives the zero value and a write panics); the order of the list
  is one of the iteration orders Go may choose.
\<close>

named_theorems go_string \<open>characteristic equations of the string functions\<close>
named_theorems go_sort \<open>facts about sorted slices\<close>

section \<open>Strings\<close>

definition lower_char :: "char \<Rightarrow> char" where
  "lower_char c = (let n = (of_char c :: nat) in
     if 65 \<le> n \<and> n \<le> 90 then char_of (n + 32) else c)"

definition upper_char :: "char \<Rightarrow> char" where
  "upper_char c = (let n = (of_char c :: nat) in
     if 97 \<le> n \<and> n \<le> 122 then char_of (n - 32) else c)"

definition to_lower :: "string \<Rightarrow> string" where
  "to_lower s = map lower_char s"

definition to_upper :: "string \<Rightarrow> string" where
  "to_upper s = map upper_char s"

definition equal_fold :: "string \<Rightarrow> string \<Rightarrow> bool" where
  "equal_fold s t = (to_lower s = to_lower t)"

definition is_space :: "char \<Rightarrow> bool" where
  "is_space c = (let n = (of_char c :: nat) in (9 \<le> n \<and> n \<le> 13) \<or> n = 32)"

definition trim_left :: "string \<Rightarrow> string" where
  "trim_left s = dropWhile is_space s"

definition trim_space :: "string \<Rightarrow> string" where
  "trim_space s = rev (dropWhile is_space (rev (dropWhile is_space s)))"

text \<open>What \<open>\s\<close> matches in a regular expression.\<close>

definition re_space :: "char \<Rightarrow> bool" where
  "re_space c = (c = CHR 0x09 \<or> c = CHR 0x0A \<or> c = CHR 0x0C \<or> c = CHR 0x0D \<or> c = CHR '' '')"

text \<open>\<open>strings.Contains s sub\<close>, \<open>strings.HasPrefix s p\<close>, \<open>strings.TrimPrefix s p\<close>, \<open>strings.Index s sub\<close>.\<close>

definition str_contains :: "string \<Rightarrow> string \<Rightarrow> bool" where
  "str_contains s sub = sublist sub s"

definition has_prefix :: "string \<Rightarrow> string \<Rightarrow> bool" where
  "has_prefix s p = prefix p s"

definition trim_prefix :: "string \<Rightarrow> string \<Rightarrow> string" where
  "trim_prefix s p = (if has_prefix s p then drop (length p) s else s)"

fun str_index :: "string \<Rightarrow> string \<Rightarrow> nat option" where
  "str_index [] sub = (if sub = [] then Some 0 else None)"
| "str_index (c # s) sub =
     (if prefix sub (c # s) then Some 0 else map_option Suc (str_index s sub))"

text \<open>\<open>strings.Split\<close> for a separator of one byte, \<open>strings.Join\<close>, \<open>strings.Fields\<close>.\<close>

fun split_char :: "char \<Rightarrow> string \<Rightarrow> string list" where
  "split_char c [] = [[]]"
| "split_char c (x # xs) =
     (if x = c then [] # split_char c xs
      else (case split_char c xs of [] \<Rightarrow> [[x]] | y # ys \<Rightarrow> (x # y) # ys))"

fun str_join :: "string list \<Rightarrow> string \<Rightarrow> string" where
  "str_join [] sep = []"
| "str_join [s] sep = s"
| "str_join (s # t # ts) sep = s @ sep @ str_join (t # ts) sep"

fun first_word :: "string \<Rightarrow> string" where
  "first_word [] = []"
| "first_word (c # s) = (if is_space c then [] else c # first_word s)"

fun digits_of :: "nat \<Rightarrow> string" where
  "digits_of n =
     (if n < 10 then [char_of (48 + n)] else digits_of (n div 10) @ [char_of (48 + n mod 10)])"

declare digits_of.simps [simp del]

definition itoa :: "int \<Rightarrow> string" where
  "itoa i = (if i < 0 then CHR ''-'' # digits_of (nat (- i)) else digits_of (nat i))"

text \<open>
  \<open>strconv.ParseInt(s, 10, 64)\<close>, and \<open>strconv.Atoi\<close> on a 64-bit platform: the value and the error.
  The value is 0 after a syntax error and the nearest int64 after a range error, as the
  documentation says.
\<close>

datatype num_error = ErrSyntax | ErrRange

fun parse_uint_loop :: "nat \<Rightarrow> string \<Rightarrow> num_error + nat" where
  "parse_uint_loop n [] = Inr n"
| "parse_uint_loop n (c # s) = (let d = (of_char c :: nat) in
     if d < 48 \<or> 57 < d then Inl ErrSyntax
     else if 18446744073709551616 div 10 + 1 \<le> n then Inl ErrRange
     else if 18446744073709551615 < n * 10 + (d - 48) then Inl ErrRange
     else parse_uint_loop (n * 10 + (d - 48)) s)"

definition parse_int :: "string \<Rightarrow> int \<times> num_error option" where
  "parse_int s =
     (let neg = has_prefix s ''-'';
          t = (if neg \<or> has_prefix s ''+'' then tl s else s)
      in if t = [] then (0, Some ErrSyntax)
         else case parse_uint_loop 0 t of
           Inl ErrSyntax \<Rightarrow> (0, Some ErrSyntax)
         | r \<Rightarrow> (let un = (case r of Inl _ \<Rightarrow> 18446744073709551615 | Inr n \<Rightarrow> int n) in
             if \<not> neg \<and> 9223372036854775808 \<le> un then (9223372036854775807, Some ErrRange)
             else if neg \<and> 9223372036854775808 < un then (- 9223372036854775808, Some ErrRange)
             else (if neg then - un else un, None)))"

definition atoi :: "string \<Rightarrow> int \<times> num_error option" where
  "atoi s = parse_int s"

text \<open>A line feed, the em dash U+2014 and the bullet U+2022 in UTF-8.\<close>

definition nl :: string where "nl = [CHR 0x0A]"
definition em_dash :: string where "em_dash = [CHR 0xE2, CHR 0x80, CHR 0x94]"
definition bullet :: string where "bullet = [CHR 0xE2, CHR 0x80, CHR 0xA2]"

text \<open>The \<open>%q\<close> verb on a string of printable characters without quotes or backslashes.\<close>

definition quoted :: "string \<Rightarrow> string" where "quoted s = CHR 0x22 # s @ [CHR 0x22]"

lemma to_lower_simps [simp, go_string]:
  "to_lower [] = []" "to_lower (c # s) = lower_char c # to_lower s"
  "to_lower (s @ t) = to_lower s @ to_lower t" "length (to_lower s) = length s"
  by (simp_all add: to_lower_def)

lemma trim_space_Nil [simp, go_string]: "trim_space [] = []"
  by (simp add: trim_space_def)

lemma dropWhile_dropWhile [simp]: "dropWhile P (dropWhile P xs) = dropWhile P xs"
  by (induction xs) auto

lemma dropWhile_snoc_stop: "\<not> P x \<Longrightarrow> dropWhile P (ys @ [x]) = dropWhile P ys @ [x]"
  by (induction ys) auto

lemma trim_space_idem [simp, go_string]: "trim_space (trim_space s) = trim_space s"
proof (cases "dropWhile is_space s")
  case Nil
  then show ?thesis by (simp add: trim_space_def del: dropWhile_eq_Nil_conv)
next
  case (Cons x xs)
  then have "\<not> is_space x" by (metis dropWhile_eq_Cons_conv)
  then show ?thesis using Cons by (simp add: trim_space_def dropWhile_snoc_stop)
qed

lemma length_trim_space: "length (trim_space s) \<le> length s"
  by (metis length_dropWhile_le le_trans length_rev trim_space_def)

lemma str_contains_Nil [simp, go_string]: "str_contains s []"
  by (simp add: str_contains_def)

lemma str_contains_trans: "str_contains s t \<Longrightarrow> str_contains t u \<Longrightarrow> str_contains s u"
  unfolding str_contains_def by (meson sublist_order.order_trans)

lemma str_index_bound: "str_index s sub = Some i \<Longrightarrow> i + length sub \<le> length s"
proof (induction s arbitrary: i)
  case Nil
  then show ?case by (auto split: if_splits)
next
  case (Cons c s)
  then show ?case by (fastforce split: if_splits dest: prefix_length_le)
qed

lemma str_index_contains: "str_index s sub \<noteq> None \<longleftrightarrow> str_contains s sub"
proof (induction s)
  case Nil
  then show ?case by (simp add: str_contains_def)
next
  case (Cons c s)
  then show ?case by (auto simp: str_contains_def sublist_Cons_right)
qed

lemma split_char_nonempty [simp]: "split_char c s \<noteq> []"
  by (induction s) (auto split: list.splits)

lemma join_split_char [go_string]: "str_join (split_char c s) [c] = s"
proof (induction s)
  case Nil
  then show ?case by simp
next
  case (Cons x xs)
  show ?case
  proof (cases "split_char c xs")
    case Nil
    then show ?thesis by simp
  next
    case (Cons y ys)
    with \<open>str_join (split_char c xs) [c] = xs\<close> show ?thesis
      by (cases ys) auto
  qed
qed

lemma split_char_no_sep: "p \<in> set (split_char c s) \<Longrightarrow> c \<notin> set p"
  by (induction s arbitrary: p) (fastforce split: if_splits list.splits)+

lemma digits_of_nonempty [simp]: "digits_of n \<noteq> []"
  by (subst digits_of.simps) simp

section \<open>Maps\<close>

type_synonym gomap = "(string \<times> string) list option"

text \<open>\<open>m[k]\<close>, \<open>v, ok := m[k]\<close>, the entries in iteration order, \<open>len(m)\<close>.\<close>

definition mget :: "gomap \<Rightarrow> string \<Rightarrow> string" where
  "mget m k = (case m of None \<Rightarrow> [] | Some l \<Rightarrow> (case map_of l k of None \<Rightarrow> [] | Some v \<Rightarrow> v))"

definition mlookup :: "gomap \<Rightarrow> string \<Rightarrow> string option" where
  "mlookup m k = (case m of None \<Rightarrow> None | Some l \<Rightarrow> map_of l k)"

definition mentries :: "gomap \<Rightarrow> (string \<times> string) list" where
  "mentries m = (case m of None \<Rightarrow> [] | Some l \<Rightarrow> l)"

definition mlen :: "gomap \<Rightarrow> nat" where
  "mlen m = length (mentries m)"

text \<open>\<open>m[k] = v\<close>: \<open>None\<close> is the panic of a write to a nil map.\<close>

definition mput :: "gomap \<Rightarrow> string \<Rightarrow> string \<Rightarrow> gomap option" where
  "mput m k v = (case m of None \<Rightarrow> None | Some l \<Rightarrow> Some (Some (AList.update k v l)))"

definition mmake :: gomap where "mmake = Some []"

locale go_map =
  fixes lookup :: "'m \<Rightarrow> 'k \<Rightarrow> 'v option"
    and put :: "'m \<Rightarrow> 'k \<Rightarrow> 'v \<Rightarrow> 'm option"
    and ready :: "'m \<Rightarrow> bool"
  assumes put_ready: "(\<exists>m'. put m k v = Some m') \<longleftrightarrow> ready m"
    and put_lookup: "put m k v = Some m' \<Longrightarrow> lookup m' j = (if j = k then Some v else lookup m j)"
    and put_keeps: "put m k v = Some m' \<Longrightarrow> ready m'"
begin

lemma put_then_lookup: "put m k v = Some m' \<Longrightarrow> lookup m' k = Some v"
  by (simp add: put_lookup)

lemma put_other: "put m k v = Some m' \<Longrightarrow> j \<noteq> k \<Longrightarrow> lookup m' j = lookup m j"
  by (simp add: put_lookup)

lemma not_ready_panics: "\<not> ready m \<Longrightarrow> put m k v = None"
  using put_ready by (metis not_Some_eq)

end

interpretation smap: go_map mlookup mput "\<lambda>m. m \<noteq> None"
  by unfold_locales (auto simp: mput_def mlookup_def update_conv' split: option.splits)

lemma mget_mlookup: "mget m k = (case mlookup m k of None \<Rightarrow> [] | Some v \<Rightarrow> v)"
  by (simp add: mget_def mlookup_def split: option.splits)

lemma mput_mget: "mput m k v = Some m' \<Longrightarrow> mget m' j = (if j = k then v else mget m j)"
  by (simp add: mget_mlookup smap.put_lookup)

lemma mget_simps [simp]:
  "mget None k = []" "mlookup None k = None" "mentries None = []" "mentries (Some l) = l"
  by (simp_all add: mget_def mlookup_def mentries_def)

section \<open>Keeping the first element of each key\<close>

text \<open>
  The loop \<open>if _, dup := seen[key]; !dup { seen[key] = ...; out = append(out, x) }\<close>, which the
  entity resolver, the remediation engine and the orchestrator all run, with the set of keys
  seen so far as an argument.
\<close>

fun keep_first :: "('a \<Rightarrow> 'k) \<Rightarrow> 'k list \<Rightarrow> 'a list \<Rightarrow> 'a list" where
  "keep_first key seen [] = []"
| "keep_first key seen (x # xs) =
     (if key x \<in> set seen then keep_first key seen xs
      else x # keep_first key (key x # seen) xs)"

lemma keep_first_cong_seen:
  "set seen = set seen' \<Longrightarrow> keep_first key seen xs = keep_first key seen' xs"
proof (induction xs arbitrary: seen seen')
  case Nil
  show ?case by simp
next
  case (Cons x xs)
  have "set (key x # seen) = set (key x # seen')" using Cons.prems by simp
  then have "keep_first key (key x # seen) xs = keep_first key (key x # seen') xs"
    by (rule Cons.IH)
  moreover have "keep_first key seen xs = keep_first key seen' xs"
    using Cons.prems by (rule Cons.IH)
  ultimately show ?case using Cons.prems by simp
qed

lemma keep_first_keys: "key ` set (keep_first key seen xs) = key ` set xs - set seen"
  by (induction xs arbitrary: seen) auto

lemma keep_first_distinct: "distinct (map key (keep_first key seen xs))"
  by (induction xs arbitrary: seen) (auto simp: keep_first_keys)

lemma keep_first_subseq: "subseq (keep_first key seen xs) xs"
  by (induction xs arbitrary: seen) auto

lemma keep_first_subset: "set (keep_first key seen xs) \<subseteq> set xs"
  by (induction xs arbitrary: seen) auto

lemma keep_first_append:
  "keep_first key seen (xs @ ys) =
     keep_first key seen xs @ keep_first key (map key xs @ seen) ys"
proof (induction xs arbitrary: seen)
  case Nil
  then show ?case by simp
next
  case (Cons x xs)
  have "keep_first key (map key xs @ key x # seen) ys = keep_first key (key x # map key xs @ seen) ys"
    by (rule keep_first_cong_seen) auto
  with Cons show ?case by (auto intro: keep_first_cong_seen)
qed

lemma keep_first_fresh:
  "distinct (map key xs) \<Longrightarrow> key ` set xs \<inter> set seen = {} \<Longrightarrow> keep_first key seen xs = xs"
  by (induction xs arbitrary: seen) auto

lemma keep_first_idem: "keep_first key [] (keep_first key [] xs) = keep_first key [] xs"
  by (rule keep_first_fresh) (simp_all add: keep_first_distinct)

text \<open>Each fresh key is represented by its first occurrence.\<close>

lemma keep_first_takes_first:
  "x \<in> set xs \<Longrightarrow> key x \<notin> set seen \<Longrightarrow> \<exists>i < length xs. key (xs ! i) = key x \<and>
     (\<forall>j < i. key (xs ! j) \<noteq> key x) \<and> xs ! i \<in> set (keep_first key seen xs)"
proof (induction xs arbitrary: seen)
  case (Cons y ys)
  show ?case
  proof (cases "key y = key x")
    case True
    with Cons.prems show ?thesis by (intro exI [of _ 0]) simp
  next
    case False
    have "\<exists>i < length ys. key (ys ! i) = key x \<and> (\<forall>j < i. key (ys ! j) \<noteq> key x) \<and>
      ys ! i \<in> set (keep_first key (if key y \<in> set seen then seen else key y # seen) ys)"
      by (rule Cons.IH) (use Cons.prems False in auto)
    then obtain i where "i < length ys" "key (ys ! i) = key x" "\<forall>j < i. key (ys ! j) \<noteq> key x"
      "ys ! i \<in> set (keep_first key (if key y \<in> set seen then seen else key y # seen) ys)" by blast
    with False show ?thesis by (intro exI [of _ "Suc i"]) (auto simp: less_Suc_eq_0_disj)
  qed
qed simp

lemma keep_first_skip: "key ` set xs \<subseteq> set seen \<Longrightarrow> keep_first key seen xs = []"
  by (induction xs arbitrary: seen) auto

section \<open>Sorting\<close>

text \<open>
  \<open>sort.Slice\<close> runs an insertion sort on slices of at most twelve elements: each element is moved
  to the left while it is smaller than its left neighbour.  \<open>ins_rev\<close> is that move, on the sorted
  part in reverse.
\<close>

fun ins_rev :: "('a \<Rightarrow> 'a \<Rightarrow> bool) \<Rightarrow> 'a \<Rightarrow> 'a list \<Rightarrow> 'a list" where
  "ins_rev lt x [] = [x]"
| "ins_rev lt x (y # ys) = (if lt x y then y # ins_rev lt x ys else x # y # ys)"

fun ins_sort_rev :: "('a \<Rightarrow> 'a \<Rightarrow> bool) \<Rightarrow> 'a list \<Rightarrow> 'a list \<Rightarrow> 'a list" where
  "ins_sort_rev lt acc [] = acc"
| "ins_sort_rev lt acc (x # xs) = ins_sort_rev lt (ins_rev lt x acc) xs"

definition insertion_sort :: "('a \<Rightarrow> 'a \<Rightarrow> bool) \<Rightarrow> 'a list \<Rightarrow> 'a list" where
  "insertion_sort lt xs = rev (ins_sort_rev lt [] xs)"

lemma mset_ins_rev [simp]: "mset (ins_rev lt x ys) = add_mset x (mset ys)"
  by (induction ys) auto

lemma set_ins_rev [simp]: "set (ins_rev lt x ys) = insert x (set ys)"
  by (induction ys) auto

lemma mset_ins_sort_rev [simp]: "mset (ins_sort_rev lt acc xs) = mset acc + mset xs"
  by (induction xs arbitrary: acc) auto

lemma mset_insertion_sort [simp, go_sort]: "mset (insertion_sort lt xs) = mset xs"
  by (simp add: insertion_sort_def)

lemma set_insertion_sort [simp, go_sort]: "set (insertion_sort lt xs) = set xs"
  by (metis mset_insertion_sort set_mset_mset)

lemma length_insertion_sort [simp, go_sort]: "length (insertion_sort lt xs) = length xs"
  by (metis mset_insertion_sort size_mset)

locale weak_order =
  fixes lt :: "'a \<Rightarrow> 'a \<Rightarrow> bool"
  assumes asym: "lt a b \<Longrightarrow> \<not> lt b a"
    and split_lt: "lt a c \<Longrightarrow> lt a b \<or> lt b c"
begin

abbreviation ordered :: "'a list \<Rightarrow> bool" where
  "ordered xs \<equiv> sorted_wrt (\<lambda>a b. \<not> lt b a) xs"

lemma ins_rev_ordered:
  "sorted_wrt (\<lambda>a b. \<not> lt a b) ys \<Longrightarrow> sorted_wrt (\<lambda>a b. \<not> lt a b) (ins_rev lt x ys)"
proof (induction ys)
  case Nil
  then show ?case by simp
next
  case (Cons y ys)
  show ?case
  proof (cases "lt x y")
    case True
    with Cons show ?thesis using asym by auto
  next
    case False
    with Cons.prems show ?thesis using split_lt by auto
  qed
qed

lemma ins_sort_rev_ordered:
  "sorted_wrt (\<lambda>a b. \<not> lt a b) acc \<Longrightarrow> sorted_wrt (\<lambda>a b. \<not> lt a b) (ins_sort_rev lt acc xs)"
  by (induction xs arbitrary: acc) (auto intro: ins_rev_ordered)

lemma insertion_sort_ordered: "ordered (insertion_sort lt xs)"
  unfolding insertion_sort_def sorted_wrt_rev using ins_sort_rev_ordered [of "[]"] by simp

lemma head_minimal: "ordered (x # xs) \<Longrightarrow> y \<in> set (x # xs) \<Longrightarrow> \<not> lt y x"
  using asym by auto

text \<open>Elements that the order does not separate from \<open>a\<close> stay in their order: the sort is stable.\<close>

lemma ins_rev_filter_other:
  "lt x a \<or> lt a x \<Longrightarrow>
   filter (\<lambda>y. \<not> lt y a \<and> \<not> lt a y) (ins_rev lt x ys) =
   filter (\<lambda>y. \<not> lt y a \<and> \<not> lt a y) ys"
  by (induction ys) auto

lemma ins_rev_filter_same:
  "\<not> lt x a \<Longrightarrow> \<not> lt a x \<Longrightarrow> sorted_wrt (\<lambda>a b. \<not> lt a b) ys \<Longrightarrow>
   filter (\<lambda>y. \<not> lt y a \<and> \<not> lt a y) (ins_rev lt x ys) =
   x # filter (\<lambda>y. \<not> lt y a \<and> \<not> lt a y) ys"
proof (induction ys)
  case Nil
  then show ?case by simp
next
  case (Cons y ys)
  show ?case
  proof (cases "lt x y")
    case True
    with Cons.prems have "lt a y" using split_lt by blast
    with True Cons show ?thesis by auto
  next
    case False
    with Cons.prems show ?thesis by simp
  qed
qed

lemma ins_sort_rev_stable:
  "sorted_wrt (\<lambda>a b. \<not> lt a b) acc \<Longrightarrow>
   filter (\<lambda>y. \<not> lt y a \<and> \<not> lt a y) (ins_sort_rev lt acc xs) =
   rev (filter (\<lambda>y. \<not> lt y a \<and> \<not> lt a y) xs) @ filter (\<lambda>y. \<not> lt y a \<and> \<not> lt a y) acc"
proof (induction xs arbitrary: acc)
  case Nil
  then show ?case by simp
next
  case (Cons x xs)
  then show ?case
    using ins_rev_ordered [OF Cons.prems]
    by (cases "lt x a \<or> lt a x") (auto simp: ins_rev_filter_other ins_rev_filter_same)
qed

lemma insertion_sort_stable:
  "filter (\<lambda>y. \<not> lt y a \<and> \<not> lt a y) (insertion_sort lt xs) =
   filter (\<lambda>y. \<not> lt y a \<and> \<not> lt a y) xs"
  unfolding insertion_sort_def rev_filter [symmetric] using ins_sort_rev_stable [of "[]"] by simp

end

text \<open>
  The documented contract of \<open>sort.Slice\<close>: the slice is permuted and comes out ordered; equal
  elements may change places.  The timeline builder relies on no more than that.
\<close>

locale slice_sorter = weak_order lt for lt :: "'a \<Rightarrow> 'a \<Rightarrow> bool" +
  fixes srt :: "'a list \<Rightarrow> 'a list"
  assumes srt_perm: "mset (srt xs) = mset xs"
    and srt_ordered: "sorted_wrt (\<lambda>a b. \<not> lt b a) (srt xs)"
begin

lemma srt_set: "set (srt xs) = set xs"
  by (metis srt_perm set_mset_mset)

lemma srt_length: "length (srt xs) = length xs"
  by (metis srt_perm size_mset)

end

sublocale weak_order \<subseteq> ins: slice_sorter lt "insertion_sort lt"
  by unfold_locales (simp_all add: insertion_sort_ordered)

end
