(* ===== verification/GoTime.thy ===== *)
theory GoTime
  imports GoPrelude
begin

text \<open>
  Package \<open>time\<close>: instants and durations.

  A \<open>time.Time\<close> is its instant in nanoseconds, counted from the zero \<open>Time\<close> (January 1 of year 1,
  UTC), so \<open>t.IsZero()\<close> is \<open>t = 0\<close>; locations are not modelled, every instant of the program being
  normalised to UTC.  A \<open>time.Duration\<close> is an int64 of nanoseconds.  The width matters: \<open>Sub\<close>
  saturates at the two ends of the int64 range, and the negation the program applies to a negative
  difference wraps around at the lower end.
\<close>

type_synonym gotime = int
type_synonym duration = int

definition min_duration :: duration where "min_duration = - (2 ^ 63)"
definition max_duration :: duration where "max_duration = 2 ^ 63 - 1"

definition wrap64 :: "int \<Rightarrow> int" where
  "wrap64 z = (z + 2 ^ 63) mod 2 ^ 64 - 2 ^ 63"

definition seconds :: "int \<Rightarrow> duration" where "seconds n = n * 1000000000"
definition minutes :: "int \<Rightarrow> duration" where "minutes n = n * 60000000000"
definition hours :: "int \<Rightarrow> duration" where "hours n = n * 3600000000000"

definition is_zero :: "gotime \<Rightarrow> bool" where "is_zero t = (t = 0)"
definition time_add :: "gotime \<Rightarrow> duration \<Rightarrow> gotime" where "time_add t d = t + d"

definition time_sub :: "gotime \<Rightarrow> gotime \<Rightarrow> duration" where
  "time_sub t u = (if t - u < min_duration then min_duration
                   else if max_duration < t - u then max_duration else t - u)"

definition dur_neg :: "duration \<Rightarrow> duration" where "dur_neg d = wrap64 (- d)"

text \<open>\<open>diff := t.Sub(u); if diff < 0 { diff = -diff }\<close>, as four functions of the program have it.\<close>

definition abs_sub :: "gotime \<Rightarrow> gotime \<Rightarrow> duration" where
  "abs_sub t u = (let diff = time_sub t u in if diff < 0 then dur_neg diff else diff)"

lemmas duration_bounds = min_duration_def max_duration_def

lemma wrap64_id: "min_duration \<le> z \<Longrightarrow> z \<le> max_duration \<Longrightarrow> wrap64 z = z"
  by (simp add: wrap64_def duration_bounds)

lemma wrap64_range: "min_duration \<le> wrap64 z \<and> wrap64 z \<le> max_duration"
  using pos_mod_bound [of "2 ^ 64" "z + 2 ^ 63"] pos_mod_sign [of "2 ^ 64" "z + 2 ^ 63"]
  by (simp add: wrap64_def duration_bounds)

lemma dur_neg_min: "dur_neg min_duration = min_duration"
  by (simp add: dur_neg_def wrap64_def duration_bounds)

lemma dur_neg_inner: "min_duration < d \<Longrightarrow> d \<le> max_duration \<Longrightarrow> dur_neg d = - d"
  unfolding dur_neg_def by (rule wrap64_id) (simp_all add: duration_bounds)

lemma time_sub_range: "min_duration \<le> time_sub t u \<and> time_sub t u \<le> max_duration"
  by (simp add: time_sub_def duration_bounds)

lemma time_sub_inner: "\<bar>t - u\<bar> \<le> max_duration \<Longrightarrow> time_sub t u = t - u"
  by (auto simp: time_sub_def duration_bounds)

text \<open>The difference of two instants is the distance between them, up to about 292 years \<dots>\<close>

lemma abs_sub_inner:
  assumes "\<bar>t - u\<bar> \<le> max_duration" shows "abs_sub t u = \<bar>t - u\<bar>"
proof -
  have "t - u < 0 \<Longrightarrow> dur_neg (t - u) = - (t - u)"
    using assms by (intro dur_neg_inner) (auto simp: duration_bounds)
  then show ?thesis by (auto simp: abs_sub_def Let_def time_sub_inner [OF assms])
qed

lemma abs_sub_late: "max_duration < t - u \<Longrightarrow> abs_sub t u = max_duration"
  by (simp add: abs_sub_def time_sub_def duration_bounds)

text \<open>\<dots> and the most negative duration when the first lies further than that before the second.\<close>

lemma abs_sub_early: "t - u \<le> min_duration \<Longrightarrow> abs_sub t u = min_duration"
proof -
  assume "t - u \<le> min_duration"
  then have "time_sub t u = min_duration" by (simp add: time_sub_def duration_bounds)
  then show ?thesis by (simp add: abs_sub_def dur_neg_min)
qed

lemma abs_sub_cases:
  obtains (inner) "abs_sub t u = \<bar>t - u\<bar>" "\<bar>t - u\<bar> \<le> max_duration"
  | (late) "abs_sub t u = max_duration" "max_duration < t - u"
  | (early) "abs_sub t u = min_duration" "t - u \<le> min_duration"
proof -
  consider "\<bar>t - u\<bar> \<le> max_duration" | "max_duration < t - u" | "t - u \<le> min_duration"
    unfolding duration_bounds by linarith
  then show thesis
    by cases (blast intro: inner late early abs_sub_inner abs_sub_late abs_sub_early)+
qed

lemma abs_sub_nonneg_iff: "0 \<le> abs_sub t u \<longleftrightarrow> min_duration < t - u"
  by (rule abs_sub_cases [of t u]) (auto simp: duration_bounds)

section \<open>Formatting\<close>

text \<open>Year, month and day of a day number counted from January 1 of year 1 (proleptic Gregorian).\<close>

definition civil_date :: "int \<Rightarrow> int \<times> int \<times> int" where
  "civil_date days =
     (let z = days + 306;
          era = z div 146097;
          doe = z mod 146097;
          yoe = (doe - doe div 1460 + doe div 36524 - doe div 146096) div 365;
          doy = doe - (365 * yoe + yoe div 4 - yoe div 100);
          mp = (5 * doy + 2) div 153;
          d = doy - (153 * mp + 2) div 5 + 1;
          m = (if mp < 10 then mp + 3 else mp - 9);
          y = yoe + era * 400
      in (if m \<le> 2 then y + 1 else y, m, d))"

definition pad_int :: "nat \<Rightarrow> int \<Rightarrow> string" where
  "pad_int w i = (let ds = digits_of (nat \<bar>i\<bar>) in
     (if i < 0 then ''-'' else []) @ replicate (w - length ds) (CHR ''0'') @ ds)"

definition day_ns :: int where "day_ns = 86400000000000"

definition format_date :: "gotime \<Rightarrow> string" where
  "format_date t = (case civil_date (t div day_ns) of (y, m, d) \<Rightarrow>
     pad_int 4 y @ ''-'' @ pad_int 2 m @ ''-'' @ pad_int 2 d)"

definition format_rfc3339 :: "gotime \<Rightarrow> string" where
  "format_rfc3339 t = (let s = (t mod day_ns) div 1000000000 in
     format_date t @ ''T'' @ pad_int 2 (s div 3600) @ '':'' @ pad_int 2 (s div 60 mod 60)
       @ '':'' @ pad_int 2 (s mod 60) @ ''Z'')"

end
