(* ===== verification/GoFloat.thy ===== *)
theory GoFloat
  imports Complex_Main GoPrelude
begin

text \<open>
  \<open>float64\<close>: a finite value is the rational it denotes, and every arithmetic operation rounds the
  exact result to the nearest double, ties to even (53 bits of precision, subnormals down to
  \<open>2^-1074\<close>).  Infinities and NaN are not values of this type: the quantities the program computes
  with it (confidences, scores, strengths, delays in nanoseconds) stay far below \<open>2^1024\<close>.
  The sign of zero is not modelled, and multiplications are not fused with additions.
\<close>

type_synonym f64 = rat

fun flog2 :: "nat \<Rightarrow> nat" where
  "flog2 n = (if n \<le> 1 then 0 else Suc (flog2 (n div 2)))"

fun clog2 :: "nat \<Rightarrow> nat" where
  "clog2 n = (if n \<le> 1 then 0 else Suc (clog2 ((n + 1) div 2)))"

declare flog2.simps [simp del] clog2.simps [simp del]

definition pow2 :: "int \<Rightarrow> rat" where
  "pow2 e = (if 0 \<le> e then 2 ^ nat e else 1 / 2 ^ nat (- e))"

definition ilog2 :: "rat \<Rightarrow> int" where
  "ilog2 x = (if 1 \<le> x then int (flog2 (nat \<lfloor>x\<rfloor>)) else - int (clog2 (nat \<lceil>1 / x\<rceil>)))"

definition round_even :: "rat \<Rightarrow> int" where
  "round_even y = (let f = \<lfloor>y\<rfloor>; d = y - of_int f in
     if d < 1 / 2 then f else if 1 / 2 < d then f + 1 else if even f then f else f + 1)"

definition grain :: "rat \<Rightarrow> int" where
  "grain x = max (ilog2 \<bar>x\<bar> - 52) (- 1074)"

definition fl :: "rat \<Rightarrow> f64" where
  "fl x = (if x = 0 then 0 else of_int (round_even (x / pow2 (grain x))) * pow2 (grain x))"

definition fadd :: "f64 \<Rightarrow> f64 \<Rightarrow> f64" where "fadd x y = fl (x + y)"
definition fsub :: "f64 \<Rightarrow> f64 \<Rightarrow> f64" where "fsub x y = fl (x - y)"
definition fmul :: "f64 \<Rightarrow> f64 \<Rightarrow> f64" where "fmul x y = fl (x * y)"
definition fdiv :: "f64 \<Rightarrow> f64 \<Rightarrow> f64" where "fdiv x y = fl (x / y)"

text \<open>\<open>strconv.FormatFloat(x, 'f', n, 64)\<close>, behind the \<open>%.nf\<close> verbs: exact decimal rounding.\<close>

definition format_fixed :: "nat \<Rightarrow> f64 \<Rightarrow> string" where
  "format_fixed n x = (let r = round_even (\<bar>x\<bar> * 10 ^ n); q = nat r div 10 ^ n; m = nat r mod 10 ^ n;
       ds = digits_of m
     in (if x < 0 then ''-'' else []) @ digits_of q @
        (if n = 0 then [] else ''.'' @ replicate (n - length ds) (CHR ''0'') @ ds))"

section \<open>Rounding to even\<close>

lemma round_even_int [simp]: "round_even (of_int i) = i"
  by (simp add: round_even_def)

lemma round_even_bounds: "\<lfloor>y\<rfloor> \<le> round_even y \<and> round_even y \<le> \<lceil>y\<rceil>"
proof -
  have "y - of_int \<lfloor>y\<rfloor> = 0 \<or> \<lceil>y\<rceil> = \<lfloor>y\<rfloor> + 1"
    by (metis add.commute ceiling_altdef diff_self)
  then show ?thesis
  proof
    assume "y - of_int \<lfloor>y\<rfloor> = 0"
    then have "y = of_int \<lfloor>y\<rfloor>" by simp
    then show ?thesis by (metis ceiling_of_int floor_of_int order_refl round_even_int)
  next
    assume "\<lceil>y\<rceil> = \<lfloor>y\<rfloor> + 1"
    then show ?thesis by (auto simp: round_even_def Let_def)
  qed
qed

lemma round_even_mono:
  assumes "x \<le> y" shows "round_even x \<le> round_even y"
proof (cases "\<lfloor>x\<rfloor> = \<lfloor>y\<rfloor>")
  case True
  with assms show ?thesis by (auto simp: round_even_def Let_def)
next
  case False
  with assms have "\<lfloor>x\<rfloor> + 1 \<le> \<lfloor>y\<rfloor>" using floor_mono [OF assms] by linarith
  moreover have "\<lceil>x\<rceil> \<le> \<lfloor>x\<rfloor> + 1" by linarith
  ultimately show ?thesis using round_even_bounds [of x] round_even_bounds [of y] by linarith
qed

lemma round_even_le_int: "y \<le> of_int i \<Longrightarrow> round_even y \<le> i"
  by (metis round_even_int round_even_mono)

lemma round_even_ge_int: "of_int i \<le> y \<Longrightarrow> i \<le> round_even y"
  by (metis round_even_int round_even_mono)

section \<open>Binary exponents\<close>

lemma pow2_pos [simp]: "0 < pow2 e" "pow2 e \<noteq> 0" "0 \<le> pow2 e"
  by (simp_all add: pow2_def)

lemma pow2_add: "pow2 (a + b) = pow2 a * pow2 b"
proof -
  have "pow2 e = 2 powi e" for e
    by (simp add: pow2_def power_int_def power_one_over)
  then show ?thesis by (simp add: power_int_add)
qed

lemma pow2_nat: "pow2 (int n) = 2 ^ n"
  by (simp add: pow2_def)

lemma pow2_le: "a \<le> b \<Longrightarrow> pow2 a \<le> pow2 b"
proof -
  assume "a \<le> b"
  then obtain n where "b = a + int n" using zle_iff_zadd by blast
  then show ?thesis by (simp add: pow2_add pow2_nat)
qed

lemma pow2_neg: "pow2 (- int n) = 1 / 2 ^ n"
  by (simp add: pow2_def)

lemma pow2_less: "a < b \<Longrightarrow> pow2 (a + 1) \<le> pow2 b"
  by (rule pow2_le) simp

lemma flog2_spec: "0 < n \<Longrightarrow> 2 ^ flog2 n \<le> n \<and> n < 2 ^ Suc (flog2 n)"
proof (induction n rule: flog2.induct)
  case (1 n)
  show ?case
  proof (cases "n \<le> 1")
    case True
    with "1.prems" have "n = 1" by simp
    then show ?thesis by (simp add: flog2.simps)
  next
    case False
    then have "2 ^ flog2 (n div 2) \<le> n div 2 \<and> n div 2 < 2 ^ Suc (flog2 (n div 2))"
      by (intro "1.IH") auto
    with False show ?thesis by (subst (1 2) flog2.simps) auto
  qed
qed

lemma clog2_spec: "0 < n \<Longrightarrow> n \<le> 2 ^ clog2 n \<and> (1 < n \<longrightarrow> 0 < clog2 n \<and> 2 ^ (clog2 n - 1) < n)"
proof (induction n rule: clog2.induct)
  case (1 n)
  show ?case
  proof (cases "n \<le> 1")
    case True
    with "1.prems" have "n = 1" by simp
    then show ?thesis by (simp add: clog2.simps)
  next
    case False
    let ?h = "(n + 1) div 2"
    have step: "clog2 n = Suc (clog2 ?h)" using False by (subst clog2.simps) simp
    have IH: "?h \<le> 2 ^ clog2 ?h \<and> (1 < ?h \<longrightarrow> 0 < clog2 ?h \<and> 2 ^ (clog2 ?h - 1) < ?h)"
      using False by (intro "1.IH") auto
    have "2 ^ clog2 ?h < n"
    proof (cases "1 < ?h")
      case True
      with IH have "2 ^ clog2 ?h = 2 * (2::nat) ^ (clog2 ?h - 1)" by (cases "clog2 ?h") auto
      moreover have "2 * ?h \<le> n + 1" by simp
      ultimately show ?thesis using IH True by linarith
    next
      case False
      then have "clog2 ?h = 0" by (subst clog2.simps) simp
      with \<open>\<not> n \<le> 1\<close> show ?thesis by simp
    qed
    moreover have "n \<le> 2 * ?h" by simp
    ultimately show ?thesis using IH step by auto
  qed
qed

lemma clog2_gt1: "1 < n \<Longrightarrow> n \<le> 2 ^ clog2 n \<and> 0 < clog2 n \<and> 2 ^ (clog2 n - 1) + 1 \<le> n"
  using clog2_spec [of n] by auto

lemma ilog2_spec:
  assumes "0 < x" shows "pow2 (ilog2 x) \<le> x \<and> x < pow2 (ilog2 x + 1)"
proof (cases "1 \<le> x")
  case True
  let ?n = "nat \<lfloor>x\<rfloor>"
  have n: "of_nat ?n \<le> x" "x < of_nat ?n + 1" "0 < ?n" using True by (simp_all, linarith)
  have "2 ^ flog2 ?n \<le> ?n" "?n + 1 \<le> 2 ^ Suc (flog2 ?n)" using flog2_spec [OF n(3)] by simp_all
  then have "(2::rat) ^ flog2 ?n \<le> of_nat ?n" "of_nat ?n + 1 \<le> (2::rat) ^ Suc (flog2 ?n)"
    by (metis of_nat_le_iff of_nat_power of_nat_numeral, metis of_nat_le_iff of_nat_power of_nat_numeral of_nat_Suc Suc_eq_plus1 add.commute)
  moreover have "pow2 (ilog2 x) = 2 ^ flog2 ?n" "pow2 (ilog2 x + 1) = 2 ^ Suc (flog2 ?n)"
    using True by (simp_all add: ilog2_def pow2_nat pow2_add) (simp add: pow2_def)
  ultimately show ?thesis using n by linarith
next
  case False
  let ?n = "nat \<lceil>1 / x\<rceil>"
  let ?k = "clog2 ?n"
  have gt: "1 < 1 / x" using assms False by simp
  then have n: "1 / x \<le> of_nat ?n" "of_nat ?n < 1 / x + 1" "1 < ?n" by linarith+
  have sp: "?n \<le> 2 ^ ?k" "0 < ?k" "2 ^ (?k - 1) + 1 \<le> ?n" using clog2_gt1 [OF n(3)] by blast+
  then have "of_nat ?n \<le> (2::rat) ^ ?k" "(2::rat) ^ (?k - 1) + 1 \<le> of_nat ?n"
    by (metis of_nat_le_iff of_nat_power of_nat_numeral, metis of_nat_le_iff of_nat_power of_nat_numeral of_nat_Suc Suc_eq_plus1 add.commute)
  with n have le: "1 / x \<le> 2 ^ ?k" and lt: "2 ^ (?k - 1) < 1 / x" by linarith+
  have "pow2 (ilog2 x) = 1 / 2 ^ ?k" "pow2 (ilog2 x + 1) = 1 / 2 ^ (?k - 1)"
  proof -
    have "ilog2 x = - int ?k" using False by (simp add: ilog2_def)
    moreover from this have "ilog2 x + 1 = - int (?k - 1)" using sp(2) by simp
    ultimately show "pow2 (ilog2 x) = 1 / 2 ^ ?k" "pow2 (ilog2 x + 1) = 1 / 2 ^ (?k - 1)"
      by (simp_all only: pow2_neg)
  qed
  moreover have "1 / 2 ^ ?k \<le> x" using le assms by (simp add: field_simps)
  moreover have "x < 1 / 2 ^ (?k - 1)" using lt assms by (simp add: field_simps)
  ultimately show ?thesis by simp
qed

lemma ilog2_mono:
  assumes "0 < x" "x \<le> y" shows "ilog2 x \<le> ilog2 y"
proof (rule ccontr)
  assume "\<not> ilog2 x \<le> ilog2 y"
  then have "pow2 (ilog2 y + 1) \<le> pow2 (ilog2 x)" by (intro pow2_le) simp
  then show False using ilog2_spec [of x] ilog2_spec [of y] assms by linarith
qed

lemma ilog2_less:
  assumes "0 < x" "x < pow2 e" shows "ilog2 x < e"
proof (rule ccontr)
  assume "\<not> ilog2 x < e"
  then have "pow2 e \<le> pow2 (ilog2 x)" by (intro pow2_le) simp
  then show False using ilog2_spec [of x] assms by linarith
qed

section \<open>Rounding to a double\<close>

lemma round_even_minus: "round_even (- y) = - round_even y"
proof (cases "y = of_int \<lfloor>y\<rfloor>")
  case True
  then show ?thesis by (metis of_int_minus round_even_int)
next
  case False
  then have "\<lfloor>- y\<rfloor> = - \<lfloor>y\<rfloor> - 1" by linarith
  then show ?thesis by (auto simp: round_even_def Let_def)
qed

lemma fl_minus: "fl (- x) = - fl x"
  by (simp add: fl_def grain_def round_even_minus)

lemma fl_0 [simp]: "fl 0 = 0"
  by (simp add: fl_def)

lemma fl_grid:
  assumes "0 < x" "grain x \<le> e"
  shows "of_int m * pow2 e \<le> x \<Longrightarrow> of_int m * pow2 e \<le> fl x"
    and "x \<le> of_int m * pow2 e \<Longrightarrow> fl x \<le> of_int m * pow2 e"
proof -
  obtain n where n: "e = grain x + int n" using assms(2) zle_iff_zadd by blast
  have eq: "of_int m * pow2 e / pow2 (grain x) = of_int (m * 2 ^ n)"
    by (simp add: n pow2_add pow2_nat)
  have fl: "fl x = of_int (round_even (x / pow2 (grain x))) * pow2 (grain x)"
    using assms(1) by (simp add: fl_def)
  { assume "of_int m * pow2 e \<le> x"
    then have "of_int (m * 2 ^ n) \<le> x / pow2 (grain x)" by (subst eq [symmetric]) (simp add: divide_right_mono)
    then have "m * 2 ^ n \<le> round_even (x / pow2 (grain x))" by (rule round_even_ge_int)
    then have "(of_int (m * 2 ^ n) :: rat) * pow2 (grain x) \<le> fl x" unfolding fl by (intro mult_right_mono) (simp_all only: of_int_le_iff pow2_pos)
    then show "of_int m * pow2 e \<le> fl x" by (simp add: n pow2_add pow2_nat mult.assoc mult.commute mult.left_commute) }
  { assume "x \<le> of_int m * pow2 e"
    then have "x / pow2 (grain x) \<le> of_int (m * 2 ^ n)" by (subst eq [symmetric]) (simp add: divide_right_mono)
    then have "round_even (x / pow2 (grain x)) \<le> m * 2 ^ n" by (rule round_even_le_int)
    then have "fl x \<le> (of_int (m * 2 ^ n) :: rat) * pow2 (grain x)" unfolding fl by (intro mult_right_mono) (simp_all only: of_int_le_iff pow2_pos)
    then show "fl x \<le> of_int m * pow2 e" by (simp add: n pow2_add pow2_nat mult.assoc mult.commute mult.left_commute) }
qed

lemma fl_mono_pos:
  assumes "0 < x" "x \<le> y" shows "fl x \<le> fl y"
proof (cases "grain x = grain y")
  case True
  have "x / pow2 (grain y) \<le> y / pow2 (grain y)" using assms by (simp add: divide_right_mono)
  then have "round_even (x / pow2 (grain y)) \<le> round_even (y / pow2 (grain y))" by (rule round_even_mono)
  with assms True show ?thesis by (simp add: fl_def mult_right_mono)
next
  case False
  have "ilog2 x \<le> ilog2 y" using assms by (rule ilog2_mono)
  with False assms have g: "grain y = ilog2 y - 52" "grain x < grain y" "ilog2 x < ilog2 y"
    by (auto simp: grain_def)
  have "x < pow2 (ilog2 x + 1)" "pow2 (ilog2 y) \<le> y"
    using ilog2_spec assms by (blast intro: less_le_trans)+
  moreover have "pow2 (ilog2 x + 1) \<le> pow2 (ilog2 y)" using g(3) by (rule pow2_less)
  ultimately have "x \<le> of_int 1 * pow2 (ilog2 y)" "of_int 1 * pow2 (ilog2 y) \<le> y" by simp_all
  moreover have "grain x \<le> ilog2 y" "grain y \<le> ilog2 y" using g by simp_all
  ultimately have "fl x \<le> of_int 1 * pow2 (ilog2 y)" "of_int 1 * pow2 (ilog2 y) \<le> fl y"
    using assms fl_grid by (metis, metis less_le_trans)
  then show ?thesis by linarith
qed

lemma fl_nonneg: "0 \<le> x \<Longrightarrow> 0 \<le> fl x"
proof (cases "x = 0")
  case False
  assume "0 \<le> x"
  with False have "of_int 0 * pow2 (grain x) \<le> fl x" by (intro fl_grid) simp_all
  then show ?thesis by simp
qed simp

lemma fl_mono: "x \<le> y \<Longrightarrow> fl x \<le> fl y"
proof -
  assume le: "x \<le> y"
  consider "0 < x" | "x \<le> 0" "0 \<le> y" | "y < 0" by linarith
  then show ?thesis
  proof cases
    case 1
    then show ?thesis using le by (rule fl_mono_pos)
  next
    case 2
    then have "0 \<le> fl (- x)" "0 \<le> fl y" by (simp_all only: fl_nonneg neg_0_le_iff_le)
    then show ?thesis by (simp add: fl_minus)
  next
    case 3
    with le have "fl (- y) \<le> fl (- x)" by (intro fl_mono_pos) simp_all
    then show ?thesis by (simp add: fl_minus)
  qed
qed

text \<open>A double is an integer of at most 53 bits scaled by a power of two; rounding leaves it alone.\<close>

lemma fl_exact_pos:
  assumes "0 < m" "m < 2 ^ 53" "- 1074 \<le> e"
  shows "fl (of_int m * pow2 e) = of_int m * pow2 e"
proof -
  let ?x = "of_int m * pow2 e"
  have pos: "0 < ?x" using assms(1) by simp
  have "?x < 2 ^ 53 * pow2 e" using assms(2) by (simp add: mult_strict_right_mono of_int_less_numeral_power_cancel_iff)
  also have "\<dots> = pow2 (53 + e)" by (simp add: pow2_add) (simp add: pow2_def)
  finally have "ilog2 ?x < 53 + e" using pos by (intro ilog2_less)
  then have "grain ?x \<le> e" using pos assms(3) by (simp add: grain_def)
  with pos show ?thesis by (intro antisym fl_grid) simp_all
qed

lemma fl_exact:
  assumes "\<bar>m\<bar> < 2 ^ 53" "- 1074 \<le> e"
  shows "fl (of_int m * pow2 e) = of_int m * pow2 e"
proof -
  consider "m = 0" | "0 < m" | "0 < - m" by linarith
  then show ?thesis
  proof cases
    case 3
    then have "fl (of_int (- m) * pow2 e) = of_int (- m) * pow2 e"
      using assms by (intro fl_exact_pos) simp_all
    then show ?thesis by (simp add: fl_minus)
  qed (use assms in \<open>auto intro: fl_exact_pos\<close>)
qed

lemma fl_int: "\<bar>m\<bar> < 2 ^ 53 \<Longrightarrow> fl (of_int m) = of_int m"
  using fl_exact [of m 0] by (simp add: pow2_def)

lemma fl_nat: "n < 2 ^ 53 \<Longrightarrow> fl (of_nat n) = of_nat n"
  using fl_int [of "int n"] by simp

lemma fl_1 [simp]: "fl 1 = 1"
  using fl_nat [of 1] by simp

text \<open>The double nearest to \<open>x\<close>, from its binade and the closest multiple of its grain.\<close>

lemma ilog2_unique:
  assumes "pow2 e \<le> x" "x < pow2 (e + 1)" shows "ilog2 x = e"
proof -
  have pos: "0 < x" using assms(1) pow2_pos(1) [of e] by linarith
  have "\<not> ilog2 x < e" "\<not> e < ilog2 x"
    using pow2_less [of "ilog2 x" e] pow2_less [of e "ilog2 x"] ilog2_spec [OF pos] assms by linarith+
  then show ?thesis by simp
qed

lemma round_even_near: "\<bar>y - of_int k\<bar> < 1 / 2 \<Longrightarrow> round_even y = k"
proof -
  assume near: "\<bar>y - of_int k\<bar> < 1 / 2"
  show ?thesis
  proof (cases "of_int k \<le> y")
    case True
    then have f: "\<lfloor>y\<rfloor> = k" using near by linarith
    have "y - of_int k < 1 / 2" using near by linarith
    then show ?thesis by (simp add: round_even_def Let_def f)
  next
    case False
    then have f: "\<lfloor>y\<rfloor> = k - 1" using near by linarith
    have "1 / 2 < y - (of_int k - 1)" using near by linarith
    then have "1 / 2 < y - of_int (k - 1)" by simp
    then show ?thesis by (simp add: round_even_def Let_def f)
  qed
qed

lemma fl_near:
  assumes "pow2 e \<le> x" "x < pow2 (e + 1)" "- 1022 \<le> e" "\<bar>x / pow2 (e - 52) - of_int k\<bar> < 1 / 2"
  shows "fl x = of_int k * pow2 (e - 52)"
proof -
  have pos: "0 < x" using assms(1) pow2_pos(1) [of e] by linarith
  have "grain x = e - 52" using ilog2_unique [OF assms(1,2)] assms(3) pos by (simp add: grain_def)
  then show ?thesis using pos round_even_near [OF assms(4)] by (simp add: fl_def)
qed

end
