(* ===== verification/Contracts.thy ===== *)
theory Contracts
  imports GoTime GoFloat
begin

text \<open>
  Package \<open>internal/contracts\<close>: the data every component exchanges.  A struct is a record whose
  fields carry the source's names behind a short prefix, a set of string constants is a datatype
  with a function that gives the string.  The zero value of a struct that the code builds field by
  field is the record ending in \<open>0\<close>.
\<close>

section \<open>Alerts\<close>

datatype alert_status = AlertStatusFiring | AlertStatusResolved

datatype alert_severity = SeverityCritical | SeverityWarning | SeverityInfo

fun alert_status_str :: "alert_status \<Rightarrow> string" where
  "alert_status_str AlertStatusFiring = ''firing''"
| "alert_status_str AlertStatusResolved = ''resolved''"

fun alert_severity_str :: "alert_severity \<Rightarrow> string" where
  "alert_severity_str SeverityCritical = ''critical''"
| "alert_severity_str SeverityWarning = ''warning''"
| "alert_severity_str SeverityInfo = ''info''"

record target_ref =
  tr_Kind :: string
  tr_Namespace :: string
  tr_Name :: string
  tr_Cluster :: string
  tr_Environment :: string
  tr_Repo :: string
  tr_Region :: string

definition target_ref0 :: target_ref where
  "target_ref0 = \<lparr>tr_Kind = [], tr_Namespace = [], tr_Name = [], tr_Cluster = [],
     tr_Environment = [], tr_Repo = [], tr_Region = []\<rparr>"

record link =
  ln_Rel :: string
  ln_Href :: string

record normalized_alert =
  al_ID :: string
  al_Source :: string
  al_TenantID :: string
  al_Status :: alert_status
  al_Severity :: "alert_severity option"
  al_Title :: string
  al_Summary :: string
  al_Fingerprint :: string
  al_GroupKey :: string
  al_StartsAt :: gotime
  al_EndsAt :: "gotime option"
  al_Labels :: gomap
  al_Annotations :: gomap
  al_EntityHints :: "target_ref list"
  al_Links :: "link list"
  al_RawRef :: string

text \<open>
  Every alert the program builds sets its status to one of the two constants.  A severity may be
  left at the zero value, the empty string (the Slack enqueuer does): that is \<open>None\<close>.
\<close>

definition normalized_alert0 :: normalized_alert where
  "normalized_alert0 = \<lparr>al_ID = [], al_Source = [], al_TenantID = [], al_Status = AlertStatusFiring,
     al_Severity = None, al_Title = [], al_Summary = [], al_Fingerprint = [], al_GroupKey = [],
     al_StartsAt = 0, al_EndsAt = None, al_Labels = None, al_Annotations = None, al_EntityHints = [],
     al_Links = [], al_RawRef = []\<rparr>"

section \<open>Evidence\<close>

datatype evidence_kind = EvidenceLog | EvidenceMetric | EvidenceEvent | EvidenceDeploy
  | EvidenceGitChange | EvidenceTrace | EvidenceConfig | EvidenceK8sState

fun evidence_kind_str :: "evidence_kind \<Rightarrow> string" where
  "evidence_kind_str EvidenceLog = ''log''"
| "evidence_kind_str EvidenceMetric = ''metric''"
| "evidence_kind_str EvidenceEvent = ''event''"
| "evidence_kind_str EvidenceDeploy = ''deploy''"
| "evidence_kind_str EvidenceGitChange = ''git_change''"
| "evidence_kind_str EvidenceTrace = ''trace''"
| "evidence_kind_str EvidenceConfig = ''config''"
| "evidence_kind_str EvidenceK8sState = ''k8s_state''"

datatype redaction_state = RedactionNone | RedactionPending | RedactionDone

record evidence =
  ev_ID :: string
  ev_InvestigationID :: string
  ev_Kind :: evidence_kind
  ev_Source :: string
  ev_Target :: target_ref
  ev_CollectedAt :: gotime
  ev_ObservedAtFrom :: gotime
  ev_ObservedAtTo :: gotime
  ev_Summary :: string
  ev_BodyRef :: string
  ev_Query :: string
  ev_Score :: f64
  ev_Attributes :: gomap
  ev_RedactionState :: redaction_state

record collect_request =
  cr_InvestigationID :: string
  cr_Alert :: normalized_alert
  cr_Targets :: "target_ref list"
  cr_TimeFrom :: gotime
  cr_TimeTo :: gotime

section \<open>Hypotheses\<close>

datatype cause_category = CauseDeploy | CauseCapacity | CauseDependency | CauseConfig
  | CauseCode | CauseInfra | CauseNoise

fun cause_category_str :: "cause_category \<Rightarrow> string" where
  "cause_category_str CauseDeploy = ''deploy''"
| "cause_category_str CauseCapacity = ''capacity''"
| "cause_category_str CauseDependency = ''dependency''"
| "cause_category_str CauseConfig = ''config''"
| "cause_category_str CauseCode = ''code''"
| "cause_category_str CauseInfra = ''infra''"
| "cause_category_str CauseNoise = ''noise''"

record suggested_fix =
  sf_Title :: string
  sf_Description :: string
  sf_RunbookURL :: string
  sf_ActionRef :: string
  sf_SafeByDefault :: bool

record hypothesis =
  hy_ID :: string
  hy_Title :: string
  hy_Narrative :: string
  hy_CauseCategory :: cause_category
  hy_Confidence :: f64
  hy_Supporting :: "string list"
  hy_Contradicting :: "string list"
  hy_SuggestedFixes :: "suggested_fix list"

section \<open>Timeline\<close>

datatype timeline_event_kind = TimelineAlert | TimelineDeploy | TimelineK8sEvent
  | TimelineMetricShift | TimelineLogPattern | TimelineAction | TimelineRecovery

record timeline_event =
  te_ID :: string
  te_InvestigationID :: string
  te_Timestamp :: gotime
  te_Kind :: timeline_event_kind
  te_Source :: string
  te_Narrative :: string
  te_EvidenceIDs :: "string list"
  te_Attributes :: gomap

section \<open>Investigations\<close>

datatype investigation_status = StatusPending | StatusCollecting | StatusAnalyzing
  | StatusPublishing | StatusDone | StatusFailed

fun investigation_status_str :: "investigation_status \<Rightarrow> string" where
  "investigation_status_str StatusPending = ''pending''"
| "investigation_status_str StatusCollecting = ''collecting''"
| "investigation_status_str StatusAnalyzing = ''analyzing''"
| "investigation_status_str StatusPublishing = ''publishing''"
| "investigation_status_str StatusDone = ''done''"
| "investigation_status_str StatusFailed = ''failed''"

record investigation =
  in_ID :: string
  in_TenantID :: string
  in_Status :: investigation_status
  in_AlertIDs :: "string list"
  in_Targets :: "target_ref list"
  in_TimeFrom :: gotime
  in_TimeTo :: gotime
  in_Headline :: string
  in_Confidence :: f64
  in_CreatedAt :: gotime
  in_UpdatedAt :: gotime
  in_CompletedAt :: "gotime option"
  in_SlackChannelID :: string
  in_SlackThreadTS :: string
  in_Hypotheses :: "hypothesis list"
  in_Timeline :: "timeline_event list"

record investigation_result =
  ir_InvestigationID :: string
  ir_Status :: investigation_status
  ir_Headline :: string
  ir_Confidence :: f64
  ir_TopHypotheses :: "hypothesis list"
  ir_TimelineEventIDs :: "string list"
  ir_RecommendedActions :: "suggested_fix list"
  ir_RCAEngine :: string
  ir_AIProvider :: string
  ir_AIModel :: string
  ir_PassCount :: int
  ir_RootCause :: string
  ir_Severity :: string
  ir_BugFixable :: bool

record investigation_data =
  id_Investigation :: investigation
  id_Alerts :: "normalized_alert list"
  id_Evidence :: "evidence list"

datatype correlation_type = CorrTemporal | CorrLabel | CorrTopology

record correlation =
  co_EvidenceA :: string
  co_EvidenceB :: string
  co_Type :: correlation_type
  co_Strength :: f64

record investigation_graph =
  ig_Data :: investigation_data
  ig_Correlations :: "correlation list"

record investigation_job =
  ij_Alert :: normalized_alert
  ij_SlackChannelID :: string
  ij_SlackThreadTS :: string
  ij_RequestedBy :: string
  ij_TraceParent :: string
  ij_TraceState :: string

record dedup_result =
  dr_IsDuplicate :: bool
  dr_ExistingID :: string
  dr_ExistingHeadline :: string
  dr_ExistingChannel :: string
  dr_ExistingThread :: string

record active_investigation =
  ai_ID :: string
  ai_Status :: investigation_status
  ai_Headline :: string
  ai_Confidence :: f64
  ai_SlackChannelID :: string
  ai_SlackThreadTS :: string
  ai_CreatedAt :: gotime
  ai_CompletedAt :: "gotime option"

record audit_entry =
  ae_ID :: string
  ae_TenantID :: string
  ae_Actor :: string
  ae_Action :: string
  ae_Target :: string
  ae_Metadata :: gomap
  ae_Timestamp :: gotime

text \<open>The sentinel errors, and an error of an external service with its message.\<close>

datatype go_error = ErrNotFound | ErrDuplicate | ErrUnauthorized | ErrValidation | ErrUnavailable
  | ErrOther string

section \<open>The order of the life cycle\<close>

text \<open>The statuses in the order an investigation goes through them; failure is the last.\<close>

fun status_rank :: "investigation_status \<Rightarrow> nat" where
  "status_rank StatusPending = 0"
| "status_rank StatusCollecting = 1"
| "status_rank StatusAnalyzing = 2"
| "status_rank StatusPublishing = 3"
| "status_rank StatusDone = 4"
| "status_rank StatusFailed = 5"

lemma status_rank_inj: "status_rank a = status_rank b \<Longrightarrow> a = b"
  by (cases a; cases b) simp_all

instantiation investigation_status :: linorder
begin

definition less_eq_investigation_status :: "investigation_status \<Rightarrow> investigation_status \<Rightarrow> bool" where
  "less_eq_investigation_status a b = (status_rank a \<le> status_rank b)"

definition less_investigation_status :: "investigation_status \<Rightarrow> investigation_status \<Rightarrow> bool" where
  "less_investigation_status a b = (status_rank a < status_rank b)"

instance
  by intro_classes
    (auto simp: less_eq_investigation_status_def less_investigation_status_def dest: status_rank_inj)

end

lemmas status_order = less_eq_investigation_status_def less_investigation_status_def

definition terminal :: "investigation_status \<Rightarrow> bool" where
  "terminal s = (s = StatusDone \<or> s = StatusFailed)"

end
