(* ===== verification/Correlation.thy ===== *)
theory Correlation
  imports Contracts
begin

text \<open>
  \<open>internal/correlation/engine.go\<close>: every pair of evidence items is compared in time, by target and
  by topology.  The gap of two observation intervals is computed on int64 durations, the strength of
  a temporal correlation in float64.
\<close>

definition temporal_window :: duration where "temporal_window = minutes 5"
definition min_correlation_str :: f64 where "min_correlation_str = fl (3 / 10)"
definition label_strength :: f64 where "label_strength = fl (8 / 10)"
definition topology_strength :: f64 where "topology_strength = 1 / 2"

text \<open>\<open>Duration.Seconds\<close>: the whole seconds (truncated) and the rest, each converted to float64.\<close>

definition dur_seconds :: "duration \<Rightarrow> f64" where
  "dur_seconds d = (let q = sgn d * (\<bar>d\<bar> div 1000000000); r = d - q * 1000000000 in
     fadd (fl (of_int q)) (fdiv (fl (of_int r)) 1000000000))"

definition observation_gap :: "evidence \<Rightarrow> evidence \<Rightarrow> duration" where
  "observation_gap a b =
     (if \<not> ev_ObservedAtTo a < ev_ObservedAtFrom b \<and> \<not> ev_ObservedAtTo b < ev_ObservedAtFrom a then 0
      else
        (let gapAB = abs_sub (ev_ObservedAtFrom b) (ev_ObservedAtTo a);
             gapBA = abs_sub (ev_ObservedAtFrom a) (ev_ObservedAtTo b)
         in if gapAB < gapBA then gapAB else gapBA))"

definition gap_strength :: "duration \<Rightarrow> f64" where
  "gap_strength gap = max (fsub 1 (fdiv (dur_seconds gap) (dur_seconds temporal_window))) 0"

definition temporal_correlation :: "evidence \<Rightarrow> evidence \<Rightarrow> correlation option" where
  "temporal_correlation a b =
     (let gap = observation_gap a b in
      if gap > temporal_window then None
      else
        (let strength = gap_strength gap in
         if strength \<le> min_correlation_str then None
         else Some \<lparr>co_EvidenceA = ev_ID a, co_EvidenceB = ev_ID b,
                co_Type = CorrTemporal, co_Strength = strength\<rparr>))"

definition label_correlation :: "evidence \<Rightarrow> evidence \<Rightarrow> correlation option" where
  "label_correlation a b =
     (if tr_Name (ev_Target a) = [] \<or> tr_Name (ev_Target b) = [] then None
      else if tr_Namespace (ev_Target a) = tr_Namespace (ev_Target b) \<and>
              tr_Name (ev_Target a) = tr_Name (ev_Target b)
      then Some \<lparr>co_EvidenceA = ev_ID a, co_EvidenceB = ev_ID b,
             co_Type = CorrLabel, co_Strength = label_strength\<rparr>
      else None)"

definition topology_correlation :: "evidence \<Rightarrow> evidence \<Rightarrow> correlation option" where
  "topology_correlation a b =
     (if tr_Namespace (ev_Target a) = [] \<or> tr_Namespace (ev_Target b) = [] then None
      else if tr_Namespace (ev_Target a) = tr_Namespace (ev_Target b) \<and>
              tr_Name (ev_Target a) = tr_Name (ev_Target b) then None
      else
        (let sameCluster = (tr_Cluster (ev_Target a) \<noteq> [] \<and> tr_Cluster (ev_Target a) = tr_Cluster (ev_Target b));
             sameNamespace = (tr_Namespace (ev_Target a) = tr_Namespace (ev_Target b))
         in if sameCluster \<or> sameNamespace
            then Some \<lparr>co_EvidenceA = ev_ID a, co_EvidenceB = ev_ID b,
                   co_Type = CorrTopology, co_Strength = topology_strength\<rparr>
            else None))"

fun opt_list :: "'a option \<Rightarrow> 'a list" where
  "opt_list None = []"
| "opt_list (Some x) = [x]"

definition correlate_pair :: "evidence \<Rightarrow> evidence \<Rightarrow> correlation list" where
  "correlate_pair a b = opt_list (temporal_correlation a b) @ opt_list (label_correlation a b)
     @ opt_list (topology_correlation a b)"

fun correlate_loop :: "evidence list \<Rightarrow> correlation list" where
  "correlate_loop [] = []"
| "correlate_loop (a # bs) = concat (map (correlate_pair a) bs) @ correlate_loop bs"

definition correlate :: "investigation_data \<Rightarrow> investigation_graph" where
  "correlate data = \<lparr>ig_Data = data, ig_Correlations = correlate_loop (id_Evidence data)\<rparr>"

section \<open>The gap\<close>

text \<open>The observation intervals of the evidence: not reversed, and less than 292 years apart.\<close>

definition proper_times :: "evidence \<Rightarrow> evidence \<Rightarrow> bool" where
  "proper_times a b = (ev_ObservedAtFrom a \<le> ev_ObservedAtTo a \<and> ev_ObservedAtFrom b \<le> ev_ObservedAtTo b \<and>
     \<bar>ev_ObservedAtTo a - ev_ObservedAtFrom b\<bar> \<le> max_duration \<and>
     \<bar>ev_ObservedAtTo b - ev_ObservedAtFrom a\<bar> \<le> max_duration)"

definition interval_distance :: "evidence \<Rightarrow> evidence \<Rightarrow> int" where
  "interval_distance a b =
     max 0 (max (ev_ObservedAtFrom b - ev_ObservedAtTo a) (ev_ObservedAtFrom a - ev_ObservedAtTo b))"

lemma observation_gap_distance: "proper_times a b \<Longrightarrow> observation_gap a b = interval_distance a b"
  by (auto simp: proper_times_def observation_gap_def interval_distance_def Let_def abs_sub_inner
      abs_minus_commute)

lemma observation_gap_sym: "observation_gap a b = observation_gap b a"
  by (auto simp: observation_gap_def Let_def)

section \<open>The strength\<close>

lemma dur_seconds_nonneg_eq:
  assumes "0 \<le> d" "d \<le> max_duration"
  shows "dur_seconds d = fl (of_int (d div 1000000000) + fl (of_int (d mod 1000000000) / 1000000000))"
proof -
  have q: "\<bar>d div 1000000000\<bar> < 2 ^ 53" "\<bar>d mod 1000000000\<bar> < 2 ^ 53"
    using assms by (auto simp: max_duration_def)
  have r: "d - d div 1000000000 * 1000000000 = d mod 1000000000"
    by (simp add: minus_div_mult_eq_mod)
  have s: "sgn d * (\<bar>d\<bar> div 1000000000) = d div 1000000000"
    using assms by (cases "d = 0") simp_all
  show ?thesis unfolding dur_seconds_def Let_def s r fadd_def fdiv_def using q by (simp add: fl_int)
qed

lemma dur_seconds_mono:
  assumes "0 \<le> d" "d \<le> d'" "d' \<le> max_duration" shows "dur_seconds d \<le> dur_seconds d'"
proof -
  let ?q = "d div 1000000000" and ?r = "d mod 1000000000"
  let ?q' = "d' div 1000000000" and ?r' = "d' mod 1000000000"
  have q: "?q \<le> ?q'" using assms by (simp add: zdiv_mono1)
  have part: "(of_int ?q :: rat) + fl (of_int ?r / 1000000000) \<le> of_int ?q' + fl (of_int ?r' / 1000000000)"
  proof (cases "?q = ?q'")
    case True
    then have "?r \<le> ?r'" using assms(2) by (metis add_le_cancel_left mult_div_mod_eq)
    then have "(of_int ?r :: rat) / 1000000000 \<le> of_int ?r' / 1000000000" by (simp add: divide_right_mono)
    with True show ?thesis by (simp add: fl_mono)
  next
    case False
    with q have "(of_int (?q + 1) :: rat) \<le> of_int ?q'" by (simp only: of_int_le_iff)
    moreover have "(of_int ?r :: rat) / 1000000000 \<le> 1"
    proof -
      have "?r \<le> 1000000000" by simp
      then have "(of_int ?r :: rat) \<le> of_int 1000000000" by (simp only: of_int_le_iff)
      then show ?thesis by simp
    qed
    then have "fl (of_int ?r / 1000000000) \<le> 1" using fl_mono by fastforce
    moreover have "(0 :: rat) \<le> fl (of_int ?r' / 1000000000)" by (intro fl_nonneg) simp
    ultimately show ?thesis by simp
  qed
  show ?thesis using assms part by (simp add: dur_seconds_nonneg_eq fl_mono)
qed

lemma gap_strength_antimono:
  assumes "0 \<le> d" "d \<le> d'" "d' \<le> max_duration" shows "gap_strength d' \<le> gap_strength d"
proof -
  have "0 \<le> dur_seconds temporal_window" by code_simp
  then have "fdiv (dur_seconds d) (dur_seconds temporal_window) \<le> fdiv (dur_seconds d') (dur_seconds temporal_window)"
    unfolding fdiv_def using dur_seconds_mono [OF assms] by (intro fl_mono divide_right_mono)
  then have "fsub 1 (fdiv (dur_seconds d') (dur_seconds temporal_window)) \<le>
      fsub 1 (fdiv (dur_seconds d) (dur_seconds temporal_window))"
    unfolding fsub_def by (intro fl_mono) simp
  then show ?thesis unfolding gap_strength_def by simp
qed

text \<open>At a gap of 210 seconds the strength is \<open>0.30000000000000004\<close>, still above the float64 \<open>0.3\<close>.\<close>

lemma temporal_window_seconds: "dur_seconds temporal_window = 300"
  by code_simp

lemma strength_past_edge: "fl (1 - fl (fl (210 + fl (1 / 1000000000)) / 300)) \<le> fl (3 / 10)"
proof -
  have "(1 :: rat) / 2 ^ 30 \<le> 1 / 1000000000" by simp
  then have "fl (1 / 2 ^ 30) \<le> fl (1 / 1000000000)" by (rule fl_mono)
  moreover have "fl (1 / 2 ^ 30) = 1 / 2 ^ 30" using fl_exact [of 1 "- 30"] by (simp add: pow2_def)
  ultimately have "210 + 1 / 2 ^ 30 \<le> 210 + fl (1 / 1000000000)" by simp
  then have "fl (210 + 1 / 2 ^ 30) \<le> fl (210 + fl (1 / 1000000000))" by (rule fl_mono)
  moreover have "fl (210 + 1 / 2 ^ 30) = 210 + 1 / 2 ^ 30"
    using fl_exact [of "210 * 2 ^ 30 + 1" "- 30"] by (simp add: pow2_def)
  ultimately have "6305039478318702 / 2 ^ 53 \<le> fl (210 + fl (1 / 1000000000)) / 300" by simp
  then have "fl (6305039478318702 / 2 ^ 53) \<le> fl (fl (210 + fl (1 / 1000000000)) / 300)" by (rule fl_mono)
  moreover have "fl (6305039478318702 / 2 ^ 53) = 6305039478318702 / 2 ^ 53"
    using fl_exact [of 6305039478318702 "- 53"] by (simp add: pow2_def)
  ultimately have "1 - fl (fl (210 + fl (1 / 1000000000)) / 300) \<le> 5404319552844595 / 18014398509481984" by simp
  then have "fl (1 - fl (fl (210 + fl (1 / 1000000000)) / 300)) \<le> fl (5404319552844595 / 18014398509481984)"
    by (rule fl_mono)
  moreover have "fl (5404319552844595 / 18014398509481984) = 5404319552844595 / 18014398509481984"
    using fl_exact [of 5404319552844595 "- 54"] by (simp add: pow2_def)
  moreover have "fl (3 / 10) = 5404319552844595 / 18014398509481984" by code_simp
  ultimately show ?thesis by simp
qed

lemma gap_strength_edge:
  "min_correlation_str < gap_strength 210000000000" "gap_strength 210000000001 \<le> min_correlation_str"
  "gap_strength 0 = 1"
proof -
  have "dur_seconds 210000000000 = 210" "dur_seconds 0 = 0"
    by (simp_all add: dur_seconds_nonneg_eq max_duration_def fl_nat [of 210, simplified])
  moreover have "dur_seconds 210000000001 = fl (210 + fl (1 / 1000000000))"
    by (simp add: dur_seconds_nonneg_eq max_duration_def)
  moreover have "fl (3 / 10) < fl (1 - fl (7 / 10))" "0 \<le> fl (3 / 10)" by code_simp+
  ultimately show "min_correlation_str < gap_strength 210000000000"
    "gap_strength 210000000001 \<le> min_correlation_str" "gap_strength 0 = 1"
    using strength_past_edge
    by (simp_all add: gap_strength_def min_correlation_str_def fsub_def fdiv_def temporal_window_seconds)
qed

lemma gap_strength_threshold:
  assumes "0 \<le> d" "d \<le> max_duration"
  shows "min_correlation_str < gap_strength d \<longleftrightarrow> d \<le> seconds 210"
proof (cases "d \<le> 210000000000")
  case True
  then show ?thesis
    using gap_strength_antimono [of d 210000000000] gap_strength_edge(1) assms
    by (simp add: max_duration_def seconds_def)
next
  case False
  then have "gap_strength d \<le> gap_strength 210000000001"
    using assms by (intro gap_strength_antimono) simp_all
  then show ?thesis using gap_strength_edge(2) False by (simp add: seconds_def)
qed

lemma interval_distance_range: "proper_times a b \<Longrightarrow> 0 \<le> interval_distance a b \<and> interval_distance a b \<le> max_duration"
  by (auto simp: proper_times_def interval_distance_def max_duration_def)

text \<open>C33: For two pieces of evidence whose observation intervals are not reversed and lie less than 292
  years apart, a temporal correlation is reported exactly when the intervals lie at most 210 seconds
  apart, the bound included although the strength has to exceed 0.3: the float64 arithmetic yields
  \<open>0.30000000000000004\<close> there.  The strength then lies above 0.3 and is at most 1.\<close>

theorem temporal_correlation_threshold:
  assumes "proper_times a b"
  shows "(temporal_correlation a b \<noteq> None \<longleftrightarrow> interval_distance a b \<le> seconds 210) \<and>
    (\<forall>c. temporal_correlation a b = Some c \<longrightarrow> co_Type c = CorrTemporal \<and>
      co_EvidenceA c = ev_ID a \<and> co_EvidenceB c = ev_ID b \<and>
      co_Strength c = gap_strength (interval_distance a b) \<and>
      fl (3 / 10) < co_Strength c \<and> co_Strength c \<le> 1)"
proof -
  have r: "0 \<le> interval_distance a b" "interval_distance a b \<le> max_duration"
    using interval_distance_range [OF assms] by simp_all
  have le1: "gap_strength (interval_distance a b) \<le> 1"
    using gap_strength_antimono [of 0 "interval_distance a b"] r gap_strength_edge(3) by simp
  have w: "interval_distance a b \<le> seconds 210 \<Longrightarrow> interval_distance a b \<le> temporal_window"
    by (simp add: seconds_def temporal_window_def minutes_def)
  show ?thesis
    using gap_strength_threshold [OF r] le1 w
    by (auto simp: temporal_correlation_def Let_def observation_gap_distance [OF assms] not_le
        min_correlation_str_def split: if_splits)
qed

section \<open>All pairs\<close>

text \<open>The nested loops visit every pair of positions \<open>i < j\<close> once, in lexicographic order.\<close>

lemma correlate_loop_set:
  "set (correlate_loop es) =
     {c. \<exists>i j. i < j \<and> j < length es \<and> c \<in> set (correlate_pair (es ! i) (es ! j))}"
proof (induction es)
  case (Cons a bs)
  have "c \<in> set (correlate_loop (a # bs)) \<longleftrightarrow>
      (\<exists>i j. i < j \<and> j < length (a # bs) \<and> c \<in> set (correlate_pair ((a # bs) ! i) ((a # bs) ! j)))" for c
  proof
    assume "c \<in> set (correlate_loop (a # bs))"
    then consider b where "b \<in> set bs" "c \<in> set (correlate_pair a b)" | "c \<in> set (correlate_loop bs)" by auto
    then show "\<exists>i j. i < j \<and> j < length (a # bs) \<and> c \<in> set (correlate_pair ((a # bs) ! i) ((a # bs) ! j))"
    proof cases
      case 1
      then obtain j where "j < length bs" "bs ! j = b" by (auto simp: in_set_conv_nth)
      with 1 show ?thesis by (intro exI [of _ 0] exI [of _ "Suc j"]) simp
    next
      case 2
      with Cons.IH obtain i j where "i < j" "j < length bs" "c \<in> set (correlate_pair (bs ! i) (bs ! j))" by auto
      then show ?thesis by (intro exI [of _ "Suc i"] exI [of _ "Suc j"]) simp
    qed
  next
    assume "\<exists>i j. i < j \<and> j < length (a # bs) \<and> c \<in> set (correlate_pair ((a # bs) ! i) ((a # bs) ! j))"
    then obtain i j where ij: "i < j" "j < length (a # bs)" "c \<in> set (correlate_pair ((a # bs) ! i) ((a # bs) ! j))"
      by blast
    then obtain j' where j': "j = Suc j'" by (cases j) auto
    show "c \<in> set (correlate_loop (a # bs))"
    proof (cases i)
      case 0
      with ij j' show ?thesis by auto
    next
      case (Suc i')
      with ij j' have "c \<in> set (correlate_loop bs)" unfolding Cons.IH by auto
      then show ?thesis by simp
    qed
  qed
  then show ?case by blast
qed simp

lemma correlate_data: "ig_Data (correlate d) = d"
  by (simp add: correlate_def)

text \<open>A pair is never both a label and a topology correlation.\<close>

lemma label_excludes_topology: "label_correlation a b \<noteq> None \<Longrightarrow> topology_correlation a b = None"
  by (auto simp: label_correlation_def topology_correlation_def split: if_splits)

section \<open>Zero instants\<close>

lemma dur_seconds_min: "dur_seconds min_duration \<le> - 300"
proof -
  have "fl (of_int (- 854775808)) = of_int (- 854775808)" "fl (of_int (- 9223372036)) = of_int (- 9223372036)"
    by (rule fl_int; simp)+
  then have eq: "dur_seconds min_duration = fl (- 9223372036 + fl (- (854775808 / 1000000000)))"
    by (simp add: dur_seconds_def min_duration_def Let_def fadd_def fdiv_def)
  have "fl (- (854775808 / 1000000000)) \<le> 0" unfolding fl_minus using fl_nonneg by simp
  then have "fl (- 9223372036 + fl (- (854775808 / 1000000000))) \<le> fl (of_int (- 300))" by (intro fl_mono) simp
  moreover have "fl (of_int (- 300)) = of_int (- 300)" by (rule fl_int) simp
  ultimately show ?thesis unfolding eq by simp
qed

lemma gap_strength_min: "2 \<le> gap_strength min_duration"
proof -
  have i: "fl (of_int (- 1)) = of_int (- 1)" "fl (of_int 2) = of_int 2" by (rule fl_int; simp)+
  have "dur_seconds min_duration / 300 \<le> of_int (- 1)" using dur_seconds_min by simp
  then have "fl (dur_seconds min_duration / 300) \<le> fl (of_int (- 1))" by (rule fl_mono)
  then have "of_int 2 \<le> 1 - fl (dur_seconds min_duration / 300)" unfolding i by simp
  then have "fl (of_int 2) \<le> fl (1 - fl (dur_seconds min_duration / 300))" by (rule fl_mono)
  then show ?thesis unfolding i
    by (simp add: gap_strength_def fsub_def fdiv_def temporal_window_seconds)
qed

text \<open>Evidence whose observation times are the zero \<open>time.Time\<close> counts as close to all evidence
  observed 292 years or more after year 1, today included: the saturated difference is negated to
  itself, so \<open>Correlate\<close> reports a temporal correlation, with a strength of at least 2.\<close>

theorem zero_time_correlates:
  assumes "ev_ObservedAtFrom a = 0" "ev_ObservedAtTo a = 0"
    and "2 ^ 63 \<le> ev_ObservedAtFrom b" "ev_ObservedAtFrom b \<le> ev_ObservedAtTo b"
  shows "\<exists>c. temporal_correlation a b = Some c \<and> 2 \<le> co_Strength c"
proof -
  have "abs_sub (ev_ObservedAtFrom b) (ev_ObservedAtTo a) = max_duration"
    using assms by (intro abs_sub_late) (simp add: max_duration_def)
  moreover have "abs_sub (ev_ObservedAtFrom a) (ev_ObservedAtTo b) = min_duration"
    using assms by (intro abs_sub_early) (simp add: min_duration_def)
  ultimately have gap: "observation_gap a b = min_duration"
    using assms by (simp add: observation_gap_def Let_def duration_bounds)
  have "min_correlation_str < 2"
  proof -
    have "fl (3 / 10) \<le> fl 1" by (rule fl_mono) simp
    then show ?thesis by (simp add: min_correlation_str_def)
  qed
  then show ?thesis using gap_strength_min
    by (auto simp: temporal_correlation_def gap Let_def min_duration_def temporal_window_def minutes_def)
qed

section \<open>Examples\<close>

definition sample_observation :: "string \<Rightarrow> gotime \<Rightarrow> gotime \<Rightarrow> evidence" where
  "sample_observation eid t u = \<lparr>ev_ID = eid, ev_InvestigationID = ''inv'', ev_Kind = EvidenceLog,
     ev_Source = ''loki'', ev_Target = target_ref0, ev_CollectedAt = u, ev_ObservedAtFrom = t,
     ev_ObservedAtTo = u, ev_Summary = [], ev_BodyRef = [], ev_Query = [], ev_Score = 1,
     ev_Attributes = None, ev_RedactionState = RedactionNone\<rparr>"

theorem temporal_correlation_threshold_witness:
  "temporal_correlation (sample_observation ''a'' 0 (seconds 10)) (sample_observation ''b'' (seconds 220) (seconds 230)) \<noteq> None \<and>
   temporal_correlation (sample_observation ''a'' 0 (seconds 10)) (sample_observation ''b'' (seconds 221) (seconds 230)) = None"
proof -
  have "proper_times (sample_observation ''a'' 0 (seconds 10)) (sample_observation ''b'' (seconds 220) (seconds 230))"
    "proper_times (sample_observation ''a'' 0 (seconds 10)) (sample_observation ''b'' (seconds 221) (seconds 230))"
    by (simp_all add: proper_times_def sample_observation_def seconds_def max_duration_def)
  moreover have
    "interval_distance (sample_observation ''a'' 0 (seconds 10)) (sample_observation ''b'' (seconds 220) (seconds 230)) \<le> seconds 210"
    "\<not> interval_distance (sample_observation ''a'' 0 (seconds 10)) (sample_observation ''b'' (seconds 221) (seconds 230)) \<le> seconds 210"
    by (simp_all add: interval_distance_def sample_observation_def seconds_def)
  ultimately show ?thesis using temporal_correlation_threshold by blast
qed

theorem zero_time_correlates_witness:
  "\<exists>c. temporal_correlation (sample_observation ''a'' 0 0) (sample_observation ''b'' (2 ^ 63) (2 ^ 63)) = Some c \<and>
     2 \<le> co_Strength c"
  by (rule zero_time_correlates) (simp_all add: sample_observation_def)

end
