(* ===== verification/Timeline.thy ===== *)
theory Timeline
  imports Contracts
begin

text \<open>
  \<open>internal/timeline/builder.go\<close>: one event per alert, one per piece of evidence of five kinds, in the
  order of time.  \<open>srt\<close> is \<open>sort.Slice\<close>, which for more than twelve events is not a stable sort: the
  theorems use no more than its contract (the locale \<open>slice_sorter\<close>).  \<open>uuid i\<close> is the \<open>i\<close>-th UUID drawn.
\<close>

definition earlier :: "timeline_event \<Rightarrow> timeline_event \<Rightarrow> bool" where
  "earlier a b = (te_Timestamp a < te_Timestamp b)"

definition alert_event :: "normalized_alert \<Rightarrow> timeline_event" where
  "alert_event alert = \<lparr>te_ID = [], te_InvestigationID = [], te_Timestamp = al_StartsAt alert,
     te_Kind = TimelineAlert, te_Source = al_Source alert, te_Narrative = al_Title alert,
     te_EvidenceIDs = [al_ID alert], te_Attributes = al_Labels alert\<rparr>"

definition event_of :: "timeline_event_kind \<Rightarrow> evidence \<Rightarrow> timeline_event" where
  "event_of kind e = \<lparr>te_ID = [], te_InvestigationID = [], te_Timestamp = ev_ObservedAtFrom e,
     te_Kind = kind, te_Source = ev_Source e, te_Narrative = ev_Summary e,
     te_EvidenceIDs = [ev_ID e], te_Attributes = ev_Attributes e\<rparr>"

definition evidence_event :: "evidence \<Rightarrow> timeline_event option" where
  "evidence_event e =
     (case ev_Kind e of
        EvidenceEvent \<Rightarrow> Some (event_of TimelineK8sEvent e)
      | EvidenceK8sState \<Rightarrow> Some (event_of TimelineK8sEvent e)
      | EvidenceMetric \<Rightarrow> if ev_Score e < 1 / 2 then None else Some (event_of TimelineMetricShift e)
      | EvidenceLog \<Rightarrow> if ev_Score e < 1 / 2 then None else Some (event_of TimelineLogPattern e)
      | EvidenceDeploy \<Rightarrow> Some (event_of TimelineDeploy e)
      | _ \<Rightarrow> None)"

fun collect_events :: "evidence list \<Rightarrow> timeline_event list \<Rightarrow> timeline_event list" where
  "collect_events [] events = events"
| "collect_events (e # es) events =
     (case evidence_event e of None \<Rightarrow> collect_events es events
      | Some ev \<Rightarrow> collect_events es (events @ [ev]))"

definition number_events :: "(nat \<Rightarrow> string) \<Rightarrow> string \<Rightarrow> timeline_event list \<Rightarrow> timeline_event list" where
  "number_events uuid inv_id events =
     map (\<lambda>(i, ev). ev\<lparr>te_ID := uuid i, te_InvestigationID := inv_id\<rparr>) (enumerate 0 events)"

definition timeline_build :: "(timeline_event list \<Rightarrow> timeline_event list) \<Rightarrow> (nat \<Rightarrow> string) \<Rightarrow>
    investigation_data \<Rightarrow> timeline_event list" where
  "timeline_build srt uuid data =
     (let events = map alert_event (id_Alerts data);
          events = collect_events (id_Evidence data) events;
          events = srt events
      in number_events uuid (in_ID (id_Investigation data)) events)"

section \<open>Lemmas\<close>

interpretation time_order: weak_order earlier
  by unfold_locales (auto simp: earlier_def)

lemma collect_events_filter: "collect_events es events = events @ List.map_filter evidence_event es"
  by (induction es events rule: collect_events.induct) (simp_all add: List.map_filter_simps split: option.split)

lemma evidence_event_cites: "evidence_event e = Some ev \<Longrightarrow>
    te_EvidenceIDs ev = [ev_ID e] \<and> te_Timestamp ev = ev_ObservedAtFrom e \<and> te_Narrative ev = ev_Summary e"
  by (auto simp: evidence_event_def event_of_def split: evidence_kind.splits if_splits)

lemma length_number_events [simp]: "length (number_events uuid inv_id evs) = length evs"
  by (simp add: number_events_def)

lemma number_events_nth:
  "i < length evs \<Longrightarrow> number_events uuid inv_id evs ! i = (evs ! i)\<lparr>te_ID := uuid i, te_InvestigationID := inv_id\<rparr>"
  by (simp add: number_events_def nth_enumerate_eq)

lemma number_events_map:
  "(\<And>ev i v. f (ev\<lparr>te_ID := i, te_InvestigationID := v\<rparr>) = f ev) \<Longrightarrow>
     map f (number_events uuid inv_id evs) = map f evs"
  by (intro nth_equalityI) (simp_all add: number_events_nth)

lemma number_events_ids: "map te_ID (number_events uuid inv_id evs) = map uuid [0..<length evs]"
  by (intro nth_equalityI) (simp_all add: number_events_nth)

lemma number_events_inv: "\<forall>ev \<in> set (number_events uuid inv_id evs). te_InvestigationID ev = inv_id"
  by (auto simp: in_set_conv_nth number_events_nth)

text \<open>C35: The timeline is in the order of time.  It has one event per alert and one per piece of evidence that
  is a cluster event, a cluster state, a deployment, or a log or metric with a score of at least 0.5:
  each such item is cited with its instant by as many events as it was collected times, and by no
  others.  Its events carry the investigation's identifier and are numbered in their order, for every
  sort that satisfies the contract of \<open>sort.Slice\<close>.\<close>

theorem timeline_ordered_complete:
  assumes sorter: "slice_sorter earlier srt" and build: "tline = timeline_build srt uuid data"
  shows "sorted (map te_Timestamp tline) \<and>
    mset (map (\<lambda>ev. (te_Timestamp ev, te_EvidenceIDs ev)) tline) =
      mset (map (\<lambda>a. (al_StartsAt a, [al_ID a])) (id_Alerts data)) +
      mset (map (\<lambda>e. (ev_ObservedAtFrom e, [ev_ID e]))
        (filter (\<lambda>e. ev_Kind e \<in> {EvidenceEvent, EvidenceK8sState, EvidenceDeploy} \<or>
           ev_Kind e \<in> {EvidenceLog, EvidenceMetric} \<and> 1 / 2 \<le> ev_Score e) (id_Evidence data))) \<and>
    map te_ID tline = map uuid [0..<length tline] \<and>
    (\<forall>ev \<in> set tline. te_InvestigationID ev = in_ID (id_Investigation data))"
proof -
  let ?evs = "map alert_event (id_Alerts data) @ List.map_filter evidence_event (id_Evidence data)"
  let ?key = "\<lambda>ev. (te_Timestamp ev, te_EvidenceIDs ev)"
  have tline: "tline = number_events uuid (in_ID (id_Investigation data)) (srt ?evs)"
    by (simp add: build timeline_build_def collect_events_filter Let_def)
  have perm: "mset (srt ?evs) = mset ?evs" using sorter by (rule slice_sorter.srt_perm)
  have "sorted_wrt (\<lambda>a b. \<not> earlier b a) (srt ?evs)" using sorter by (rule slice_sorter.srt_ordered)
  then have "sorted (map te_Timestamp (srt ?evs))"
    by (simp add: sorted_wrt_map earlier_def not_less)
  then have sorted: "sorted (map te_Timestamp tline)" unfolding tline by (simp add: number_events_map)
  have kept: "evidence_event e \<noteq> None \<longleftrightarrow> ev_Kind e \<in> {EvidenceEvent, EvidenceK8sState, EvidenceDeploy} \<or>
      ev_Kind e \<in> {EvidenceLog, EvidenceMetric} \<and> 1 / 2 \<le> ev_Score e" for e
    by (cases "ev_Kind e") (auto simp: evidence_event_def)
  have "map ?key (List.map_filter evidence_event es) =
      map (\<lambda>e. (ev_ObservedAtFrom e, [ev_ID e])) (filter (\<lambda>e. evidence_event e \<noteq> None) es)" for es
    by (induction es) (auto simp: List.map_filter_simps evidence_event_cites split: option.split)
  then have "mset (map ?key ?evs) = mset (map (\<lambda>a. (al_StartsAt a, [al_ID a])) (id_Alerts data)) +
      mset (map (\<lambda>e. (ev_ObservedAtFrom e, [ev_ID e])) (filter (\<lambda>e. evidence_event e \<noteq> None) (id_Evidence data)))"
    by (simp add: alert_event_def comp_def flip: mset_map)
  moreover have "mset (map ?key tline) = mset (map ?key ?evs)"
  proof -
    have "map ?key tline = map ?key (srt ?evs)" unfolding tline by (rule number_events_map) simp
    then show ?thesis by (simp only: mset_map perm)
  qed
  ultimately have "mset (map ?key tline) = mset (map (\<lambda>a. (al_StartsAt a, [al_ID a])) (id_Alerts data)) +
      mset (map (\<lambda>e. (ev_ObservedAtFrom e, [ev_ID e])) (filter (\<lambda>e. evidence_event e \<noteq> None) (id_Evidence data)))"
    by simp
  then show ?thesis
    using sorted unfolding kept by (simp add: tline number_events_ids number_events_inv)
qed

definition sample_data :: investigation_data where
  "sample_data = \<lparr>id_Investigation = \<lparr>in_ID = ''inv'', in_TenantID = ''default'', in_Status = StatusAnalyzing,
       in_AlertIDs = [''a1''], in_Targets = [], in_TimeFrom = 0, in_TimeTo = 0, in_Headline = [],
       in_Confidence = 0, in_CreatedAt = 0, in_UpdatedAt = 0, in_CompletedAt = None,
       in_SlackChannelID = [], in_SlackThreadTS = [], in_Hypotheses = [], in_Timeline = []\<rparr>,
     id_Alerts = [normalized_alert0\<lparr>al_ID := ''a1'', al_StartsAt := 7\<rparr>],
     id_Evidence = [\<lparr>ev_ID = ''e1'', ev_InvestigationID = ''inv'', ev_Kind = EvidenceDeploy,
       ev_Source = ''github'', ev_Target = target_ref0, ev_CollectedAt = 9, ev_ObservedAtFrom = 3,
       ev_ObservedAtTo = 3, ev_Summary = ''deployed'', ev_BodyRef = [], ev_Query = [], ev_Score = 1,
       ev_Attributes = None, ev_RedactionState = RedactionNone\<rparr>]\<rparr>"

theorem timeline_ordered_complete_witness:
  "let tline = timeline_build (insertion_sort earlier) (\<lambda>i. itoa (int i)) sample_data in
     sorted (map te_Timestamp tline) \<and> map te_EvidenceIDs tline = [[''e1''], [''a1'']] \<and>
     map te_ID tline = [''0'', ''1'']"
proof -
  have "map te_EvidenceIDs (timeline_build (insertion_sort earlier) (\<lambda>i. itoa (int i)) sample_data) = [[''e1''], [''a1'']]"
    "map te_ID (timeline_build (insertion_sort earlier) (\<lambda>i. itoa (int i)) sample_data) = [''0'', ''1'']"
    by code_simp+
  then show ?thesis
    using timeline_ordered_complete [OF time_order.ins.slice_sorter_axioms refl, of "\<lambda>i. itoa (int i)" sample_data]
    by (simp add: Let_def)
qed

end
