(* ===== verification/Entity.thy ===== *)
theory Entity
  imports Contracts
begin

text \<open>
  \<open>internal/entity/resolver.go\<close>: the targets and the time window of an investigation, from the alert's
  hints or, when it has none, from its labels.
\<close>

record resolve_result =
  rr_Targets :: "target_ref list"
  rr_TimeFrom :: gotime
  rr_TimeTo :: gotime

fun first_label :: "gomap \<Rightarrow> string list \<Rightarrow> string" where
  "first_label labels [] = []"
| "first_label labels (k # ks) =
     (case mlookup labels k of
        Some v \<Rightarrow> if v \<noteq> [] then v else first_label labels ks
      | None \<Rightarrow> first_label labels ks)"

definition target_key :: "target_ref \<Rightarrow> string" where
  "target_key ref = tr_Kind ref @ ''/'' @ tr_Namespace ref @ ''/'' @ tr_Name ref @ ''/'' @ tr_Cluster ref"

definition dedup_targets :: "target_ref list \<Rightarrow> target_ref list" where
  "dedup_targets refs = keep_first target_key [] refs"

definition infer_from_labels :: "gomap \<Rightarrow> target_ref list" where
  "infer_from_labels labels =
     (let cluster = first_label labels [''cluster''];
          env = first_label labels [''environment'', ''env''];
          ns = mget labels ''namespace'';
          name = first_label labels [''service'', ''app'', ''app.kubernetes.io/name''];
          dep = mget labels ''deployment'';
          pod = mget labels ''pod'';
          ref = (\<lambda>kind n. target_ref0\<lparr>tr_Kind := kind, tr_Namespace := ns, tr_Name := n,
                   tr_Cluster := cluster, tr_Environment := env\<rparr>)
      in (if name \<noteq> [] then [ref ''service'' name] else [])
         @ (if dep \<noteq> [] \<and> ns \<noteq> [] then [ref ''k8s.deployment'' dep] else [])
         @ (if pod \<noteq> [] \<and> ns \<noteq> [] then [ref ''k8s.pod'' pod] else []))"

definition resolve_targets :: "normalized_alert \<Rightarrow> target_ref list" where
  "resolve_targets alert =
     (if length (al_EntityHints alert) > 0 then dedup_targets (al_EntityHints alert)
      else dedup_targets (infer_from_labels (al_Labels alert)))"

definition resolve_time_window :: "gotime \<Rightarrow> normalized_alert \<Rightarrow> gotime \<times> gotime" where
  "resolve_time_window now alert =
     (let from = time_add (al_StartsAt alert) (- minutes 30);
          to = (case al_EndsAt alert of None \<Rightarrow> now | Some t \<Rightarrow> t)
      in (from, to))"

definition resolve :: "gotime \<Rightarrow> normalized_alert \<Rightarrow> resolve_result" where
  "resolve now alert =
     (let targets = resolve_targets alert; (from, to) = resolve_time_window now alert
      in \<lparr>rr_Targets = targets, rr_TimeFrom = from, rr_TimeTo = to\<rparr>)"

section \<open>Lemmas\<close>

lemma first_label_spec:
  "first_label labels ks = v \<Longrightarrow> v \<noteq> [] \<Longrightarrow>
     \<exists>i < length ks. mget labels (ks ! i) = v \<and> (\<forall>j < i. mget labels (ks ! j) = [])"
proof (induction ks)
  case (Cons k ks)
  show ?case
  proof (cases "mget labels k = []")
    case True
    with Cons.prems have "first_label labels ks = v" by (auto simp: mget_mlookup split: option.splits)
    with Cons obtain i where "i < length ks" "mget labels (ks ! i) = v" "\<forall>j < i. mget labels (ks ! j) = []" by blast
    with True show ?thesis by (intro exI [of _ "Suc i"]) (auto simp: less_Suc_eq_0_disj)
  next
    case False
    with Cons.prems have "mget labels k = v" by (auto simp: mget_mlookup split: option.splits if_splits)
    then show ?thesis by (intro exI [of _ 0]) simp
  qed
qed simp

lemma first_label_empty: "first_label labels ks = [] \<longleftrightarrow> (\<forall>k \<in> set ks. mget labels k = [])"
  by (induction ks) (auto simp: mget_mlookup split: option.splits)

lemma infer_from_labels_named: "t \<in> set (infer_from_labels labels) \<Longrightarrow>
    tr_Name t \<noteq> [] \<and> tr_Namespace t = mget labels ''namespace'' \<and>
    tr_Kind t \<in> {''service'', ''k8s.deployment'', ''k8s.pod''}"
  by (auto simp: infer_from_labels_def Let_def split: if_splits)

lemma infer_from_labels_keys: "distinct (map target_key (infer_from_labels labels))"
  by (simp add: infer_from_labels_def Let_def target_key_def)

text \<open>The resolver keeps the alert's own hints, or infers targets from the labels when there are
  none.  No two resolved targets agree on kind, namespace, name and cluster; every candidate is
  represented by the first one with its key, in the order they came; and a target inferred from labels
  always has a name and is a service, a deployment or a pod.\<close>

theorem resolve_targets_spec:
  assumes "cands = (if al_EntityHints alert = [] then infer_from_labels (al_Labels alert) else al_EntityHints alert)"
  shows "distinct (map target_key (rr_Targets (resolve now alert))) \<and>
    subseq (rr_Targets (resolve now alert)) cands \<and>
    target_key ` set (rr_Targets (resolve now alert)) = target_key ` set cands \<and>
    (\<forall>t \<in> set cands. \<exists>i < length cands. target_key (cands ! i) = target_key t \<and>
       (\<forall>j < i. target_key (cands ! j) \<noteq> target_key t) \<and> cands ! i \<in> set (rr_Targets (resolve now alert))) \<and>
    (al_EntityHints alert = [] \<longrightarrow> rr_Targets (resolve now alert) = cands \<and>
       (\<forall>t \<in> set cands. tr_Name t \<noteq> [] \<and> tr_Kind t \<in> {''service'', ''k8s.deployment'', ''k8s.pod''}))"
proof -
  have eq: "rr_Targets (resolve now alert) = keep_first target_key [] cands"
    by (simp add: resolve_def resolve_targets_def dedup_targets_def assms Let_def split_beta)
  have first: "\<exists>i < length cands. target_key (cands ! i) = target_key t \<and>
       (\<forall>j < i. target_key (cands ! j) \<noteq> target_key t) \<and> cands ! i \<in> set (keep_first target_key [] cands)"
    if "t \<in> set cands" for t
    using keep_first_takes_first [of t cands target_key "[]"] that by simp
  have inf: "keep_first target_key [] (infer_from_labels (al_Labels alert)) = infer_from_labels (al_Labels alert)"
    by (rule keep_first_fresh) (simp_all add: infer_from_labels_keys)
  show ?thesis
    unfolding eq using first inf infer_from_labels_named
    by (auto simp: keep_first_distinct keep_first_subseq keep_first_keys assms)
qed

theorem resolve_targets_spec_witness:
  "map tr_Name (rr_Targets (resolve 0 (normalized_alert0\<lparr>al_Labels :=
     Some [(''app'', ''shop''), (''namespace'', ''prod''), (''pod'', ''shop-1'')]\<rparr>))) = [''shop'', ''shop-1'']"
  using resolve_targets_spec [OF refl, where now = 0 and alert = "normalized_alert0\<lparr>al_Labels :=
     Some [(''app'', ''shop''), (''namespace'', ''prod''), (''pod'', ''shop-1'')]\<rparr>"]
  by (simp add: normalized_alert0_def infer_from_labels_def mget_def mlookup_def Let_def)

text \<open>The time window opens thirty minutes before the alert started and closes when the alert ended
  or, while it is firing, now; for an alert that started in the past and did not end before it started
  the window is at least thirty minutes long.\<close>

theorem resolve_window:
  assumes "al_StartsAt alert \<le> now" "\<And>t. al_EndsAt alert = Some t \<Longrightarrow> al_StartsAt alert \<le> t"
  shows "rr_TimeFrom (resolve now alert) = al_StartsAt alert - minutes 30 \<and>
    rr_TimeTo (resolve now alert) = (case al_EndsAt alert of None \<Rightarrow> now | Some t \<Rightarrow> t) \<and>
    rr_TimeFrom (resolve now alert) + minutes 30 \<le> rr_TimeTo (resolve now alert)"
  using assms by (simp add: resolve_def resolve_time_window_def time_add_def Let_def split: option.split)

theorem resolve_window_witness:
  "rr_TimeFrom (resolve (hours 2) (normalized_alert0\<lparr>al_StartsAt := hours 1\<rparr>)) + minutes 30
     \<le> rr_TimeTo (resolve (hours 2) (normalized_alert0\<lparr>al_StartsAt := hours 1\<rparr>)) \<and>
   rr_TimeTo (resolve (hours 2) (normalized_alert0\<lparr>al_StartsAt := hours 1\<rparr>)) = hours 2"
  using resolve_window [of "normalized_alert0\<lparr>al_StartsAt := hours 1\<rparr>" "hours 2"]
  by (simp add: hours_def normalized_alert0_def)

end
