(* ===== verification/Remediation.thy ===== *)
theory Remediation
  imports Contracts
begin

text \<open>
  \<open>internal/remediation/engine.go\<close> and \<open>policy.go\<close>: the recommended actions.  The fixes the hypotheses
  suggest come first, then the actions of the policies that match a hypothesis; a title is kept once.
  Reading the policy file and decoding its YAML are arguments of \<open>load_policies\<close>.
\<close>

record policy_match =
  pm_CauseCategory :: string
  pm_ConfidenceMin :: f64

record policy_action =
  pa_Title :: string
  pa_Description :: string
  pa_RunbookURL :: string
  pa_SafeByDefault :: bool

record policy =
  po_Name :: string
  po_Match :: policy_match
  po_Actions :: "policy_action list"

definition policy_matches :: "policy \<Rightarrow> hypothesis \<Rightarrow> bool" where
  "policy_matches p h =
     (if pm_CauseCategory (po_Match p) \<noteq> [] \<and>
         cause_category_str (hy_CauseCategory h) \<noteq> pm_CauseCategory (po_Match p) then False
      else if hy_Confidence h < pm_ConfidenceMin (po_Match p) then False
      else True)"

definition default_policies :: "policy list" where
  "default_policies =
    [\<lparr>po_Name = ''deploy_regression'',
      po_Match = \<lparr>pm_CauseCategory = cause_category_str CauseDeploy, pm_ConfidenceMin = fl (6 / 10)\<rparr>,
      po_Actions =
       [\<lparr>pa_Title = ''Rollback to previous version'',
         pa_Description = ''Revert to the last known-good deployment to restore service health.'',
         pa_RunbookURL = [], pa_SafeByDefault = True\<rparr>,
        \<lparr>pa_Title = ''Review deployment diff'',
         pa_Description = ''Examine the code changes introduced in the suspected deployment.'',
         pa_RunbookURL = [], pa_SafeByDefault = False\<rparr>]\<rparr>,
     \<lparr>po_Name = ''oom_capacity'',
      po_Match = \<lparr>pm_CauseCategory = cause_category_str CauseCapacity, pm_ConfidenceMin = 1 / 2\<rparr>,
      po_Actions =
       [\<lparr>pa_Title = ''Increase memory/CPU limits'',
         pa_Description = ''Raise resource requests and limits for the affected workload.'',
         pa_RunbookURL = [], pa_SafeByDefault = True\<rparr>,
        \<lparr>pa_Title = ''Profile application for leaks'',
         pa_Description = ''Run profiling to identify memory or goroutine leaks.'',
         pa_RunbookURL = [], pa_SafeByDefault = False\<rparr>]\<rparr>,
     \<lparr>po_Name = ''code_bug'',
      po_Match = \<lparr>pm_CauseCategory = cause_category_str CauseCode, pm_ConfidenceMin = fl (7 / 10)\<rparr>,
      po_Actions =
       [\<lparr>pa_Title = ''Review error patterns'',
         pa_Description = ''Analyze recurring error signatures in logs to pinpoint the faulty code path.'',
         pa_RunbookURL = [], pa_SafeByDefault = False\<rparr>,
        \<lparr>pa_Title = ''Create bug fix PR'',
         pa_Description = ''Open a pull request addressing the identified bug.'',
         pa_RunbookURL = [], pa_SafeByDefault = False\<rparr>]\<rparr>,
     \<lparr>po_Name = ''infrastructure'',
      po_Match = \<lparr>pm_CauseCategory = cause_category_str CauseInfra, pm_ConfidenceMin = 1 / 2\<rparr>,
      po_Actions =
       [\<lparr>pa_Title = ''Check node health'',
         pa_Description = ''Verify the health of underlying compute nodes (CPU, memory, disk, network).'',
         pa_RunbookURL = [], pa_SafeByDefault = True\<rparr>,
        \<lparr>pa_Title = ''Review resource quotas'',
         pa_Description = ''Ensure namespace resource quotas and limit ranges are not blocking pods.'',
         pa_RunbookURL = [], pa_SafeByDefault = False\<rparr>]\<rparr>]"

text \<open>The engine's state is the list of its policies.\<close>

type_synonym remediation_engine = "policy list"

definition remediation_new :: remediation_engine where "remediation_new = []"

definition load_defaults :: "remediation_engine \<Rightarrow> remediation_engine" where
  "load_defaults e = e @ default_policies"

definition load_policies :: "(string \<Rightarrow> go_error + string) \<Rightarrow> (string \<Rightarrow> go_error + policy list) \<Rightarrow>
    string \<Rightarrow> remediation_engine \<Rightarrow> go_error option \<times> remediation_engine" where
  "load_policies read_file unmarshal path e =
     (case read_file path of Inl err \<Rightarrow> (Some err, e)
      | Inr data \<Rightarrow> (case unmarshal data of Inl err \<Rightarrow> (Some err, e)
          | Inr policies \<Rightarrow> (None, e @ policies)))"

definition action_fix :: "policy_action \<Rightarrow> suggested_fix" where
  "action_fix a = \<lparr>sf_Title = pa_Title a, sf_Description = pa_Description a,
     sf_RunbookURL = pa_RunbookURL a, sf_ActionRef = [], sf_SafeByDefault = pa_SafeByDefault a\<rparr>"

text \<open>The two passes of \<open>Evaluate\<close> share the set of titles seen; the candidates are in loop order.\<close>

definition hypothesis_fixes :: "hypothesis list \<Rightarrow> suggested_fix list" where
  "hypothesis_fixes hs = concat (map hy_SuggestedFixes hs)"

definition policy_fixes :: "remediation_engine \<Rightarrow> hypothesis list \<Rightarrow> suggested_fix list" where
  "policy_fixes policies hs =
     concat (map (\<lambda>h. concat (map (\<lambda>p. if policy_matches p h then map action_fix (po_Actions p) else []) policies)) hs)"

definition evaluate_fixes :: "remediation_engine \<Rightarrow> hypothesis list \<Rightarrow> suggested_fix list" where
  "evaluate_fixes policies hs =
     (let fixes = keep_first sf_Title [] (hypothesis_fixes hs);
          seen = map sf_Title (hypothesis_fixes hs)
      in fixes @ keep_first sf_Title seen (policy_fixes policies hs))"

section \<open>Lemmas\<close>

lemma evaluate_fixes_keep_first:
  "evaluate_fixes policies hs = keep_first sf_Title [] (hypothesis_fixes hs @ policy_fixes policies hs)"
  by (simp add: evaluate_fixes_def keep_first_append)

lemma policy_matches_iff: "policy_matches p h \<longleftrightarrow>
    (pm_CauseCategory (po_Match p) = [] \<or> pm_CauseCategory (po_Match p) = cause_category_str (hy_CauseCategory h)) \<and>
    pm_ConfidenceMin (po_Match p) \<le> hy_Confidence h"
  by (auto simp: policy_matches_def)

lemma policy_fixes_set: "f \<in> set (policy_fixes policies hs) \<longleftrightarrow>
    (\<exists>h \<in> set hs. \<exists>p \<in> set policies. \<exists>a \<in> set (po_Actions p). policy_matches p h \<and> f = action_fix a)"
  by (auto simp: policy_fixes_def)

text \<open>C36: The recommended actions have distinct titles.  Each is a fix of a hypothesis or an action of a policy whose
  category and minimal confidence a hypothesis meets, every title of either kind is present, a fix of
  a hypothesis takes precedence over a policy's action of the same title, and the fixes of the
  hypotheses come first.\<close>

theorem evaluate_fixes_spec:
  "distinct (map sf_Title (evaluate_fixes policies hs)) \<and>
   sf_Title ` set (evaluate_fixes policies hs) =
     sf_Title ` set (hypothesis_fixes hs) \<union> {pa_Title a |a p h. h \<in> set hs \<and> p \<in> set policies \<and>
       a \<in> set (po_Actions p) \<and> policy_matches p h} \<and>
   (\<forall>f \<in> set (evaluate_fixes policies hs). f \<in> set (hypothesis_fixes hs) \<or>
      sf_Title f \<notin> sf_Title ` set (hypothesis_fixes hs) \<and>
      (\<exists>h \<in> set hs. \<exists>p \<in> set policies. \<exists>a \<in> set (po_Actions p). policy_matches p h \<and> f = action_fix a)) \<and>
   prefix (keep_first sf_Title [] (hypothesis_fixes hs)) (evaluate_fixes policies hs)"
proof -
  let ?second = "keep_first sf_Title (map sf_Title (hypothesis_fixes hs)) (policy_fixes policies hs)"
  have second: "sf_Title f \<notin> sf_Title ` set (hypothesis_fixes hs)" "f \<in> set (policy_fixes policies hs)"
    if "f \<in> set ?second" for f
  proof -
    have "sf_Title f \<in> sf_Title ` set ?second" using that by simp
    then show "sf_Title f \<notin> sf_Title ` set (hypothesis_fixes hs)" by (simp add: keep_first_keys)
    show "f \<in> set (policy_fixes policies hs)" using that keep_first_subset by fast
  qed
  have titles: "sf_Title ` set (policy_fixes policies hs) = {pa_Title a |a p h. h \<in> set hs \<and> p \<in> set policies \<and>
       a \<in> set (po_Actions p) \<and> policy_matches p h}"
    by (force simp: policy_fixes_set action_fix_def image_iff)
  have "distinct (map sf_Title (evaluate_fixes policies hs))"
    unfolding evaluate_fixes_keep_first by (rule keep_first_distinct)
  moreover have "sf_Title ` set (evaluate_fixes policies hs) =
      sf_Title ` set (hypothesis_fixes hs) \<union> sf_Title ` set (policy_fixes policies hs)"
    unfolding evaluate_fixes_keep_first keep_first_keys by auto
  moreover have "\<forall>f \<in> set (evaluate_fixes policies hs). f \<in> set (hypothesis_fixes hs) \<or>
      sf_Title f \<notin> sf_Title ` set (hypothesis_fixes hs) \<and>
      (\<exists>h \<in> set hs. \<exists>p \<in> set policies. \<exists>a \<in> set (po_Actions p). policy_matches p h \<and> f = action_fix a)"
    using second keep_first_subset [of sf_Title "[]" "hypothesis_fixes hs"] unfolding policy_fixes_set
    by (auto simp: evaluate_fixes_def Let_def)
  ultimately show ?thesis unfolding titles by (simp add: evaluate_fixes_def Let_def)
qed

text \<open>A policy that names a category never fires on a hypothesis of another one.\<close>

lemma policy_category: "policy_matches p h \<Longrightarrow> pm_CauseCategory (po_Match p) \<noteq> [] \<Longrightarrow>
    pm_CauseCategory (po_Match p) = cause_category_str (hy_CauseCategory h)"
  by (auto simp: policy_matches_iff)

lemma load_policies_error: "fst (load_policies rd um path e) \<noteq> None \<Longrightarrow> snd (load_policies rd um path e) = e"
  by (auto simp: load_policies_def split: sum.splits)

definition sample_hypothesis :: "cause_category \<Rightarrow> f64 \<Rightarrow> suggested_fix list \<Rightarrow> hypothesis" where
  "sample_hypothesis cat conf fixes = \<lparr>hy_ID = ''h'', hy_Title = ''t'', hy_Narrative = [], hy_CauseCategory = cat,
     hy_Confidence = conf, hy_Supporting = [''e1''], hy_Contradicting = [], hy_SuggestedFixes = fixes\<rparr>"

theorem evaluate_fixes_spec_witness:
  "set (map sf_Title (evaluate_fixes default_policies [sample_hypothesis CauseCapacity 1 []])) =
     {''Increase memory/CPU limits'', ''Profile application for leaks''} \<and>
   distinct (map sf_Title (evaluate_fixes default_policies [sample_hypothesis CauseCapacity 1 []]))"
proof -
  have "map sf_Title (evaluate_fixes default_policies [sample_hypothesis CauseCapacity 1 []]) =
      [''Increase memory/CPU limits'', ''Profile application for leaks'']"
    by code_simp
  then show ?thesis
    using evaluate_fixes_spec [of default_policies "[sample_hypothesis CauseCapacity 1 []]"] by simp
qed

end
