(* ===== verification/RcaRules.thy ===== *)
theory RcaRules
  imports Contracts
begin

text \<open>
  \<open>internal/rca/rules.go\<close> and \<open>internal/rca/deploy_rule.go\<close>: the six rules of the rule-based
  engine.  A rule reads the evidence of an investigation graph and returns at most one hypothesis.
  \<open>None\<close> is a panic: the deploy rule indexes the alerts of the graph without a check.  The
  attributes of a piece of evidence are ranged over in the order of their association list.
\<close>

type_synonym rule = "investigation_graph \<Rightarrow> hypothesis list option"

abbreviation graph_evidence :: "investigation_graph \<Rightarrow> evidence list" where
  "graph_evidence g \<equiv> id_Evidence (ig_Data g)"

section \<open>Helpers\<close>

fun find_evidence_by_kind :: "evidence list \<Rightarrow> evidence_kind \<Rightarrow> evidence list" where
  "find_evidence_by_kind [] kind = []"
| "find_evidence_by_kind (e # es) kind =
     (if ev_Kind e = kind then e # find_evidence_by_kind es kind else find_evidence_by_kind es kind)"

definition evidence_contains :: "evidence \<Rightarrow> string \<Rightarrow> bool" where
  "evidence_contains e term =
     (str_contains (to_lower (ev_Summary e)) (to_lower term) \<or>
      list_ex (\<lambda>(k, v). str_contains (to_lower v) (to_lower term)) (mentries (ev_Attributes e)))"

definition evidence_ids :: "evidence list \<Rightarrow> string list" where
  "evidence_ids es = map ev_ID es"

text \<open>The \<open>Score > 0.5\<close> of the rules.\<close>

definition high_score :: "evidence \<Rightarrow> bool" where
  "high_score e = (ev_Score e > 1 / 2)"

lemma find_evidence_by_kind_filter: "find_evidence_by_kind es k = filter (\<lambda>e. ev_Kind e = k) es"
  by (induction es) auto

lemma evidence_ids_filter: "set (evidence_ids (filter P es)) \<subseteq> set (evidence_ids es)"
  by (auto simp: evidence_ids_def)

section \<open>rules.go\<close>

definition crash_loop_rule :: rule where
  "crash_loop_rule graph =
     (let evs = graph_evidence graph;
          k8s = find_evidence_by_kind evs EvidenceK8sState;
          crash = filter (\<lambda>e. evidence_contains e ''CrashLoopBackOff'' \<or> evidence_contains e ''restart'') k8s
      in if crash = [] then Some []
         else
           (let deploys = find_evidence_by_kind evs EvidenceDeploy;
                (confidence, category, narrative) =
                  (if deploys \<noteq> []
                   then (fadd (fl (3 / 4)) (fl (1 / 10)), CauseDeploy,
                         ''Container crash loop detected following a recent deployment, likely a deploy regression.'')
                   else (fl (3 / 4), CauseCode,
                         ''Container is in CrashLoopBackOff state, indicating repeated crashes on startup.''))
            in Some [\<lparr>hy_ID = [],
                 hy_Title = ''Container crash loop detected'',
                 hy_Narrative = narrative,
                 hy_CauseCategory = category,
                 hy_Confidence = confidence,
                 hy_Supporting = evidence_ids crash @ evidence_ids deploys,
                 hy_Contradicting = [],
                 hy_SuggestedFixes =
                   [\<lparr>sf_Title = ''Check recent deployments and consider rollback'',
                     sf_Description = ''Review the last deployment diff and rollback if the crash correlates with the release.'',
                     sf_RunbookURL = [], sf_ActionRef = [], sf_SafeByDefault = True\<rparr>]\<rparr>]))"

definition oom_killed_rule :: rule where
  "oom_killed_rule graph =
     (let evs = graph_evidence graph;
          k8s = find_evidence_by_kind evs EvidenceK8sState;
          oom = filter (\<lambda>e. evidence_contains e ''OOMKilled'') k8s
      in if oom = [] then Some []
         else
           (let metrics = find_evidence_by_kind evs EvidenceMetric;
                mem = filter (\<lambda>m. evidence_contains m ''memory'' \<and> high_score m) metrics;
                narrative = ''Container was killed by the OOM killer due to exceeding memory limits.'';
                (confidence, narrative) =
                  (if mem \<noteq> []
                   then (fadd (fl (8 / 10)) (fl (1 / 10)),
                         narrative @ '' Memory metrics confirm an upward trend prior to the kill.'')
                   else (fl (8 / 10), narrative))
            in Some [\<lparr>hy_ID = [],
                 hy_Title = ''Out of memory - container killed by OOM'',
                 hy_Narrative = narrative,
                 hy_CauseCategory = CauseCapacity,
                 hy_Confidence = confidence,
                 hy_Supporting = evidence_ids oom @ evidence_ids mem,
                 hy_Contradicting = [],
                 hy_SuggestedFixes =
                   [\<lparr>sf_Title = ''Increase memory limits or investigate memory leak'',
                     sf_Description = ''Raise container memory limits or profile the application for memory leaks.'',
                     sf_RunbookURL = [], sf_ActionRef = [], sf_SafeByDefault = False\<rparr>]\<rparr>]))"

definition high_cpu_rule :: rule where
  "high_cpu_rule graph =
     (let evs = graph_evidence graph;
          metrics = find_evidence_by_kind evs EvidenceMetric;
          cpu = filter (\<lambda>m. evidence_contains m ''cpu'' \<and> high_score m) metrics
      in if cpu = [] then Some []
         else
           (let deploys = find_evidence_by_kind evs EvidenceDeploy in
            if deploys \<noteq> [] then
              Some [\<lparr>hy_ID = [],
                hy_Title = ''CPU spike after deployment'',
                hy_Narrative = ''CPU utilization spiked following a recent deployment, suggesting a performance regression in the new release.'',
                hy_CauseCategory = CauseDeploy,
                hy_Confidence = fl (7 / 10),
                hy_Supporting = evidence_ids cpu @ evidence_ids deploys,
                hy_Contradicting = [],
                hy_SuggestedFixes =
                  [\<lparr>sf_Title = ''Review recent deploy changes'',
                    sf_Description = ''Inspect the deployment diff for CPU-intensive code paths or misconfigurations.'',
                    sf_RunbookURL = [], sf_ActionRef = [], sf_SafeByDefault = True\<rparr>]\<rparr>]
            else
              (let traffic = filter (\<lambda>m. evidence_contains m ''traffic'' \<or> evidence_contains m ''request''
                                        \<or> evidence_contains m ''qps'') metrics in
               if traffic \<noteq> [] then
                 Some [\<lparr>hy_ID = [],
                   hy_Title = ''CPU spike due to increased traffic'',
                   hy_Narrative = ''CPU utilization increased alongside a rise in traffic metrics, indicating load-driven saturation.'',
                   hy_CauseCategory = CauseCapacity,
                   hy_Confidence = fl (65 / 100),
                   hy_Supporting = evidence_ids cpu @ evidence_ids traffic,
                   hy_Contradicting = [],
                   hy_SuggestedFixes =
                     [\<lparr>sf_Title = ''Consider scaling up'',
                       sf_Description = ''Add replicas or increase CPU limits to handle the traffic surge.'',
                       sf_RunbookURL = [], sf_ActionRef = [], sf_SafeByDefault = True\<rparr>]\<rparr>]
               else
                 Some [\<lparr>hy_ID = [],
                   hy_Title = ''High CPU utilization detected'',
                   hy_Narrative = ''CPU metrics show anomalous utilization without a clear trigger.'',
                   hy_CauseCategory = CauseCapacity,
                   hy_Confidence = fl (55 / 100),
                   hy_Supporting = evidence_ids cpu,
                   hy_Contradicting = [],
                   hy_SuggestedFixes =
                     [\<lparr>sf_Title = ''Consider scaling up'',
                       sf_Description = ''Review workload and consider horizontal or vertical scaling.'',
                       sf_RunbookURL = [], sf_ActionRef = [], sf_SafeByDefault = True\<rparr>]\<rparr>])))"

definition error_spike_rule :: rule where
  "error_spike_rule graph =
     (let evs = graph_evidence graph;
          logs = find_evidence_by_kind evs EvidenceLog;
          errs = filter high_score logs
      in if length errs < 3 then Some []
         else
           (let deploys = find_evidence_by_kind evs EvidenceDeploy;
                (confidence, category, narrative) =
                  (if deploys \<noteq> []
                   then (fl (7 / 10), CauseDeploy, ''Error rate increase correlates with a recent deployment.'')
                   else (fl (6 / 10), CauseCode,
                         ''Multiple error log patterns detected, indicating an elevated error rate.''))
            in Some [\<lparr>hy_ID = [],
                 hy_Title = ''Error rate increase detected'',
                 hy_Narrative = narrative,
                 hy_CauseCategory = category,
                 hy_Confidence = confidence,
                 hy_Supporting = evidence_ids errs @ evidence_ids deploys,
                 hy_Contradicting = [],
                 hy_SuggestedFixes =
                   [\<lparr>sf_Title = ''Check error logs for root cause pattern'',
                     sf_Description = ''Aggregate error logs to identify the dominant failure mode.'',
                     sf_RunbookURL = [], sf_ActionRef = [], sf_SafeByDefault = True\<rparr>]\<rparr>]))"

definition scheduling_failure_rule :: rule where
  "scheduling_failure_rule graph =
     (let evs = graph_evidence graph;
          events = find_evidence_by_kind evs EvidenceEvent;
          k8s = find_evidence_by_kind evs EvidenceK8sState;
          sched = filter (\<lambda>e. evidence_contains e ''FailedScheduling'' \<or> evidence_contains e ''Evicted''
                             \<or> evidence_contains e ''NodeNotReady'') (events @ k8s)
      in if sched = [] then Some []
         else Some [\<lparr>hy_ID = [],
                hy_Title = ''Kubernetes scheduling or node issues'',
                hy_Narrative = ''Scheduling failures or node issues detected, pods may be unable to run.'',
                hy_CauseCategory = CauseInfra,
                hy_Confidence = fl (7 / 10),
                hy_Supporting = evidence_ids sched,
                hy_Contradicting = [],
                hy_SuggestedFixes =
                  [\<lparr>sf_Title = ''Check node capacity and resource requests'',
                    sf_Description = ''Verify cluster node health, available resources, and pod resource requests.'',
                    sf_RunbookURL = [], sf_ActionRef = [], sf_SafeByDefault = True\<rparr>]\<rparr>])"

section \<open>What the engine relies on\<close>

text \<open>
  A rule returns on every graph that has an alert, proposes at most one hypothesis, and grounds it
  in the evidence of the graph: the supporting identifiers are not empty and all belong to collected
  evidence, nothing contradicts it, and its confidence lies between 0 and 1.
\<close>

locale rca_rule =
  fixes evaluate :: rule
  assumes returns: "id_Alerts (ig_Data g) \<noteq> [] \<Longrightarrow> \<exists>hs. evaluate g = Some hs"
    and single: "evaluate g = Some hs \<Longrightarrow> length hs \<le> 1"
    and grounded: "evaluate g = Some hs \<Longrightarrow> h \<in> set hs \<Longrightarrow>
      hy_Supporting h \<noteq> [] \<and> set (hy_Supporting h) \<subseteq> set (evidence_ids (graph_evidence g))"
    and uncontradicted: "evaluate g = Some hs \<Longrightarrow> h \<in> set hs \<Longrightarrow> hy_Contradicting h = []"
    and base_confidence: "evaluate g = Some hs \<Longrightarrow> h \<in> set hs \<Longrightarrow>
      0 \<le> hy_Confidence h \<and> hy_Confidence h \<le> 1"
begin

lemma no_evidence_no_hypothesis:
  assumes "graph_evidence g = []" "evaluate g = Some hs" shows "hs = []"
proof (cases hs)
  case (Cons h hs')
  then have "hy_Supporting h \<noteq> []" "set (hy_Supporting h) \<subseteq> set (evidence_ids (graph_evidence g))"
    using grounded [OF assms(2), of h] by simp_all
  with assms(1) show ?thesis by (simp add: evidence_ids_def)
qed

lemma supported_by_evidence:
  assumes "evaluate g = Some hs" "h \<in> set hs" "i \<in> set (hy_Supporting h)"
  shows "\<exists>e \<in> set (graph_evidence g). ev_ID e = i"
  using grounded [OF assms(1,2)] assms(3) by (auto simp: evidence_ids_def)

end

lemma fl_lit: "0 \<le> x \<Longrightarrow> x \<le> 1 \<Longrightarrow> 0 \<le> fl x \<and> fl x \<le> 1"
  using fl_nonneg fl_mono [of x 1] by simp

lemma fadd_nonneg: "0 \<le> x \<Longrightarrow> 0 \<le> y \<Longrightarrow> 0 \<le> fadd x y"
  unfolding fadd_def by (intro fl_nonneg) simp

lemma fadd_le_1: "x + y \<le> 1 \<Longrightarrow> fadd x y \<le> 1"
  unfolding fadd_def using fl_mono [of "x + y" 1] by simp

lemma deploy_boosts:
  "fadd (fl (3 / 4)) (fl (1 / 10)) \<le> 1" "fadd (fl (8 / 10)) (fl (1 / 10)) \<le> 1"
  "fadd (fl (4 / 5)) (fl (1 / 10)) \<le> 1"
  by code_simp+

lemmas rule_facts = find_evidence_by_kind_filter evidence_ids_def fl_lit fadd_nonneg deploy_boosts

interpretation crash_loop: rca_rule crash_loop_rule
  by unfold_locales (auto simp: crash_loop_rule_def Let_def rule_facts split: if_splits)

interpretation oom_killed: rca_rule oom_killed_rule
  by unfold_locales (auto simp: oom_killed_rule_def Let_def rule_facts split: if_splits)

interpretation high_cpu: rca_rule high_cpu_rule
  by unfold_locales (auto simp: high_cpu_rule_def Let_def rule_facts split: if_splits)

interpretation error_spike: rca_rule error_spike_rule
  by unfold_locales (auto simp: error_spike_rule_def Let_def rule_facts split: if_splits)

interpretation scheduling_failure: rca_rule scheduling_failure_rule
  by unfold_locales (auto simp: scheduling_failure_rule_def Let_def rule_facts split: if_splits)

end
