(* ===== verification/DeployRule.thy ===== *)
theory DeployRule
  imports RcaRules
begin

text \<open>
  \<open>internal/rca/deploy_rule.go\<close>: the rule that blames a recent deployment.  The current time is
  an argument; the two comparisons of instants keep the int64 arithmetic of \<open>time.Duration\<close>.
\<close>

definition short_sha :: "string \<Rightarrow> string" where
  "short_sha sha = (if length sha > 8 then take 8 sha else sha)"

definition proximity_confidence :: "gotime \<Rightarrow> gotime \<Rightarrow> f64" where
  "proximity_confidence deployTime alertTime =
     (let diff = abs_sub alertTime deployTime in
      if diff \<le> minutes 30 then fl (8 / 10)
      else if diff \<le> hours 1 then fl (7 / 10)
      else if diff \<le> hours 2 then fl (5 / 10)
      else 0)"

definition within_window :: "gotime \<Rightarrow> gotime \<Rightarrow> duration \<Rightarrow> bool" where
  "within_window t1 t2 window = (abs_sub t1 t2 \<le> window)"

text \<open>The loop that keeps the deployment with the highest confidence, the first one on a tie.\<close>

fun best_deploy_loop :: "gotime \<Rightarrow> evidence option \<Rightarrow> f64 \<Rightarrow> evidence list \<Rightarrow> evidence option \<times> f64" where
  "best_deploy_loop alertTime best conf [] = (best, conf)"
| "best_deploy_loop alertTime best conf (dep # deps) =
     (let c = proximity_confidence (ev_ObservedAtFrom dep) alertTime in
      if c > conf then best_deploy_loop alertTime (Some dep) c deps
      else best_deploy_loop alertTime best conf deps)"

text \<open>The loop over the git changes: every change that touches more than five files adds 0.1.\<close>

fun git_change_loop :: "f64 \<Rightarrow> string list \<Rightarrow> evidence list \<Rightarrow> f64 \<times> string list" where
  "git_change_loop conf supporting [] = (conf, supporting)"
| "git_change_loop conf supporting (gc # gcs) =
     (let filesChanged = fst (atoi (mget (ev_Attributes gc) ''files_changed'')) in
      git_change_loop (if filesChanged > 5 then fadd conf (fl (1 / 10)) else conf)
        (supporting @ [ev_ID gc]) gcs)"

definition build_narrative :: "evidence \<Rightarrow> evidence list \<Rightarrow> string" where
  "build_narrative deploy gitChanges =
     (let sha = mget (ev_Attributes deploy) ''sha'';
          env = mget (ev_Attributes deploy) ''environment'';
          creator = mget (ev_Attributes deploy) ''creator''
      in ''Deployment of '' @ short_sha sha @ '' to '' @ env @ '' by '' @ creator @ '' occurred at ''
           @ format_rfc3339 (ev_ObservedAtFrom deploy) @ '', ''
         @ ''within close temporal proximity to the alert onset. ''
         @ (case find (\<lambda>gc. mget (ev_Attributes gc) ''files_changed'' \<noteq> []) gitChanges of
              None \<Rightarrow> []
            | Some gc \<Rightarrow> ''The deployment included '' @ mget (ev_Attributes gc) ''files_changed''
                @ '' files changed across '' @ mget (ev_Attributes gc) ''commit_count'' @ '' commits. '')
         @ ''This deployment is the primary suspect for the incident.'')"

text \<open>The first anomalous log within an hour of the deployment, the first anomalous memory or cpu metric after it.\<close>

definition corroborate_log :: "evidence \<Rightarrow> evidence list \<Rightarrow> f64 \<Rightarrow> string list \<Rightarrow> f64 \<times> string list" where
  "corroborate_log bestDeploy logs conf supporting =
     (case find (\<lambda>l. high_score l \<and>
        within_window (ev_ObservedAtFrom l) (ev_ObservedAtFrom bestDeploy) (hours 1)) logs of
        None \<Rightarrow> (conf, supporting)
      | Some l \<Rightarrow> (fadd conf (fl (1 / 20)), supporting @ [ev_ID l]))"

definition corroborate_metric :: "evidence \<Rightarrow> evidence list \<Rightarrow> f64 \<Rightarrow> string list \<Rightarrow> f64 \<times> string list" where
  "corroborate_metric bestDeploy metrics conf supporting =
     (case find (\<lambda>m. high_score m \<and> (evidence_contains m ''memory'' \<or> evidence_contains m ''cpu'') \<and>
        ev_ObservedAtFrom m > ev_ObservedAtFrom bestDeploy) metrics of
        None \<Rightarrow> (conf, supporting)
      | Some m \<Rightarrow> (fadd conf (fl (1 / 20)), supporting @ [ev_ID m]))"

definition deploy_proximity_rule :: "gotime \<Rightarrow> rule" where
  "deploy_proximity_rule now graph =
     (let evs = graph_evidence graph;
          deploys = find_evidence_by_kind evs EvidenceDeploy
      in if deploys = [] then Some []
         else case id_Alerts (ig_Data graph) of
           [] \<Rightarrow> None
         | alert # _ \<Rightarrow>
           (let alertTime = (if is_zero (al_StartsAt alert) then now else al_StartsAt alert) in
            case best_deploy_loop alertTime None 0 deploys of
              (None, _) \<Rightarrow> Some []
            | (Some bestDeploy, conf0) \<Rightarrow>
              if conf0 = 0 then Some []
              else
                (let gitChanges = find_evidence_by_kind evs EvidenceGitChange;
                     logs = find_evidence_by_kind evs EvidenceLog;
                     metrics = find_evidence_by_kind evs EvidenceMetric;
                     (conf1, sup1) = git_change_loop conf0 (map ev_ID deploys) gitChanges;
                     (conf2, sup2) = corroborate_log bestDeploy logs conf1 sup1;
                     (conf3, sup3) = corroborate_metric bestDeploy metrics conf2 sup2;
                     conf4 = (if conf3 > fl (95 / 100) then fl (95 / 100) else conf3)
                 in Some [\<lparr>hy_ID = [],
                      hy_Title = ''Recent deployment likely caused the incident'',
                      hy_Narrative = build_narrative bestDeploy gitChanges,
                      hy_CauseCategory = CauseDeploy,
                      hy_Confidence = conf4,
                      hy_Supporting = sup3,
                      hy_Contradicting = [],
                      hy_SuggestedFixes =
                        [\<lparr>sf_Title = ''Rollback to previous version'',
                          sf_Description = ''Revert to the last known-good deployment to restore service health.'',
                          sf_RunbookURL = [], sf_ActionRef = [], sf_SafeByDefault = True\<rparr>,
                         \<lparr>sf_Title = ''Review deployment diff'',
                          sf_Description = ''Examine the code changes in the deployment for the root cause of the failure.'',
                          sf_RunbookURL = [], sf_ActionRef = [], sf_SafeByDefault = True\<rparr>]\<rparr>])))"

section \<open>The loops\<close>

lemma proximity_confidence_range:
  "0 \<le> proximity_confidence d a \<and> proximity_confidence d a \<le> fl (8 / 10)"
  by (auto simp: proximity_confidence_def Let_def fl_lit intro: fl_mono fl_nonneg)

lemma best_deploy_loop_mem:
  "best_deploy_loop t best conf deps = (Some d, c) \<Longrightarrow> (best = Some d \<and> c = conf) \<or>
   (d \<in> set deps \<and> c = proximity_confidence (ev_ObservedAtFrom d) t)"
  by (induction t best conf deps rule: best_deploy_loop.induct)
    (auto simp: Let_def split: if_splits)

text \<open>The loop returns the maximum of the proximity confidences.\<close>

lemma best_deploy_loop_max:
  "snd (best_deploy_loop t best conf deps) =
     foldl max conf (map (\<lambda>d. proximity_confidence (ev_ObservedAtFrom d) t) deps)"
  by (induction t best conf deps rule: best_deploy_loop.induct) (auto simp: Let_def max_def)

lemma best_deploy_loop_none:
  "fst (best_deploy_loop t best conf deps) = None \<longleftrightarrow> best = None \<and>
     (\<forall>d \<in> set deps. proximity_confidence (ev_ObservedAtFrom d) t \<le> conf)"
  by (induction t best conf deps rule: best_deploy_loop.induct) (auto simp: Let_def)

lemma git_change_loop_snd: "snd (git_change_loop conf supp gcs) = supp @ map ev_ID gcs"
  by (induction conf supp gcs rule: git_change_loop.induct) (auto simp: Let_def)

lemma git_change_loop_nonneg: "0 \<le> conf \<Longrightarrow> 0 \<le> fst (git_change_loop conf supp gcs)"
  by (induction conf supp gcs rule: git_change_loop.induct) (auto simp: Let_def fadd_nonneg fl_lit)

lemma corroborate_nonneg:
  "0 \<le> conf \<Longrightarrow> 0 \<le> fst (corroborate_log d es conf supp)"
  "0 \<le> conf \<Longrightarrow> 0 \<le> fst (corroborate_metric d es conf supp)"
  by (auto simp: corroborate_log_def corroborate_metric_def fadd_nonneg fl_lit split: option.splits)

lemma corroborate_support:
  "set supp \<subseteq> set (snd (corroborate_log d es conf supp))"
  "set supp \<subseteq> set (snd (corroborate_metric d es conf supp))"
  "set (snd (corroborate_log d es conf supp)) \<subseteq> set supp \<union> ev_ID ` set es"
  "set (snd (corroborate_metric d es conf supp)) \<subseteq> set supp \<union> ev_ID ` set es"
  by (auto simp: corroborate_log_def corroborate_metric_def find_Some_iff split: option.splits)

section \<open>The rule\<close>

text \<open>The rule panics exactly on a graph with a deployment and no alert.\<close>

lemma deploy_proximity_panics:
  "deploy_proximity_rule now g = None \<longleftrightarrow>
     find_evidence_by_kind (graph_evidence g) EvidenceDeploy \<noteq> [] \<and> id_Alerts (ig_Data g) = []"
  unfolding deploy_proximity_rule_def
  by (simp add: Let_def split_beta split: list.split option.split prod.split)

text \<open>What a hypothesis of the rule is made of.\<close>

lemma deploy_proximity_shape:
  assumes "deploy_proximity_rule now g = Some hs" "h \<in> set hs"
  obtains alert alerts d c0 c1 c2 c3 s1 s2 s3 where
    "id_Alerts (ig_Data g) = alert # alerts"
    "best_deploy_loop (if is_zero (al_StartsAt alert) then now else al_StartsAt alert) None 0
       (find_evidence_by_kind (graph_evidence g) EvidenceDeploy) = (Some d, c0)" "c0 \<noteq> 0"
    "git_change_loop c0 (map ev_ID (find_evidence_by_kind (graph_evidence g) EvidenceDeploy))
       (find_evidence_by_kind (graph_evidence g) EvidenceGitChange) = (c1, s1)"
    "corroborate_log d (find_evidence_by_kind (graph_evidence g) EvidenceLog) c1 s1 = (c2, s2)"
    "corroborate_metric d (find_evidence_by_kind (graph_evidence g) EvidenceMetric) c2 s2 = (c3, s3)"
    "hs = [h]" "hy_CauseCategory h = CauseDeploy" "hy_Contradicting h = []" "hy_Supporting h = s3"
    "hy_Confidence h = min c3 (fl (95 / 100))"
    "find_evidence_by_kind (graph_evidence g) EvidenceDeploy \<noteq> []"
proof -
  let ?k = "find_evidence_by_kind (graph_evidence g)"
  have dep: "?k EvidenceDeploy \<noteq> []"
    using assms by (auto simp: deploy_proximity_rule_def)
  then obtain alert alerts where al: "id_Alerts (ig_Data g) = alert # alerts"
    using assms deploy_proximity_panics [of now g] by (cases "id_Alerts (ig_Data g)") auto
  obtain b c0 where best: "best_deploy_loop (if is_zero (al_StartsAt alert) then now else al_StartsAt alert)
      None 0 (?k EvidenceDeploy) = (b, c0)" by fastforce
  have "b \<noteq> None \<and> c0 \<noteq> 0"
    using assms al best dep by (auto simp: deploy_proximity_rule_def Let_def split: option.splits)
  then obtain d where b: "b = Some d" and c0: "c0 \<noteq> 0" by auto
  obtain c1 s1 where git: "git_change_loop c0 (map ev_ID (?k EvidenceDeploy)) (?k EvidenceGitChange) = (c1, s1)"
    by fastforce
  obtain c2 s2 where log: "corroborate_log d (?k EvidenceLog) c1 s1 = (c2, s2)" by fastforce
  obtain c3 s3 where met: "corroborate_metric d (?k EvidenceMetric) c2 s2 = (c3, s3)" by fastforce
  have "hs = [h] \<and> hy_CauseCategory h = CauseDeploy \<and> hy_Contradicting h = [] \<and> hy_Supporting h = s3 \<and>
      hy_Confidence h = min c3 (fl (95 / 100))"
    using assms dep c0 al unfolding deploy_proximity_rule_def Let_def
    by (auto simp: best [unfolded b] git log met min_def split: if_split_asm)
  then show thesis
    using that [OF al best [unfolded b] c0 git log met] dep by blast
qed

lemma deploy_proximity_facts:
  assumes "deploy_proximity_rule now g = Some hs" "h \<in> set hs"
  shows "length hs = 1" "hy_Contradicting h = []" "hy_Supporting h \<noteq> []"
    "set (hy_Supporting h) \<subseteq> set (evidence_ids (graph_evidence g))"
    "0 \<le> hy_Confidence h \<and> hy_Confidence h \<le> fl (95 / 100)"
proof -
  let ?k = "find_evidence_by_kind (graph_evidence g)"
  obtain d c0 c1 c2 c3 s1 s2 s3 t where
    best: "best_deploy_loop t None 0 (?k EvidenceDeploy) = (Some d, c0)"
    and git: "git_change_loop c0 (map ev_ID (?k EvidenceDeploy)) (?k EvidenceGitChange) = (c1, s1)"
    and log: "corroborate_log d (?k EvidenceLog) c1 s1 = (c2, s2)"
    and met: "corroborate_metric d (?k EvidenceMetric) c2 s2 = (c3, s3)"
    and h: "hs = [h]" "hy_Contradicting h = []" "hy_Supporting h = s3"
      "hy_Confidence h = min c3 (fl (95 / 100))" "?k EvidenceDeploy \<noteq> []"
    by (rule deploy_proximity_shape [OF assms]) (rule that)
  show "length hs = 1" "hy_Contradicting h = []" using h by simp_all
  have s1: "s1 = map ev_ID (?k EvidenceDeploy) @ map ev_ID (?k EvidenceGitChange)"
    using git_change_loop_snd [of c0 "map ev_ID (?k EvidenceDeploy)" "?k EvidenceGitChange"] git by simp
  have sub: "set s1 \<subseteq> set s2" "set s2 \<subseteq> set s3"
    "set s2 \<subseteq> set s1 \<union> ev_ID ` set (?k EvidenceLog)" "set s3 \<subseteq> set s2 \<union> ev_ID ` set (?k EvidenceMetric)"
    using corroborate_support(1,3) [where supp = s1 and d = d and es = "?k EvidenceLog" and conf = c1]
      corroborate_support(2,4) [where supp = s2 and d = d and es = "?k EvidenceMetric" and conf = c2] log met by simp_all
  have "s1 \<noteq> []" unfolding s1 using h(5) by simp
  then show "hy_Supporting h \<noteq> []" using sub(1,2) unfolding h(3) by auto
  have ids: "ev_ID ` set (?k x) \<subseteq> set (evidence_ids (graph_evidence g))" for x
    by (auto simp: evidence_ids_def find_evidence_by_kind_filter)
  have "set s1 \<subseteq> set (evidence_ids (graph_evidence g))"
    unfolding s1 set_append set_map using ids by (intro Un_least) simp_all
  with sub(3) ids [of EvidenceLog] have "set s2 \<subseteq> set (evidence_ids (graph_evidence g))"
    by (meson Un_least order_trans)
  with sub(4) ids [of EvidenceMetric] show "set (hy_Supporting h) \<subseteq> set (evidence_ids (graph_evidence g))"
    unfolding h(3) by (meson Un_least order_trans)
  have "0 \<le> c0" using best_deploy_loop_mem [OF best] proximity_confidence_range by auto
  then have "0 \<le> c1"
    using git_change_loop_nonneg [of c0 "map ev_ID (?k EvidenceDeploy)" "?k EvidenceGitChange"] git by simp
  then have "0 \<le> c2" using corroborate_nonneg(1) [of c1 d "?k EvidenceLog" s1] log by simp
  then have "0 \<le> c3" using corroborate_nonneg(2) [of c2 d "?k EvidenceMetric" s2] met by simp
  then show "0 \<le> hy_Confidence h \<and> hy_Confidence h \<le> fl (95 / 100)"
    unfolding h(4) by (simp add: fl_nonneg min_le_iff_disj)
qed

interpretation deploy_proximity: rca_rule "deploy_proximity_rule now" for now
proof
  show "\<exists>hs. deploy_proximity_rule now g = Some hs" if "id_Alerts (ig_Data g) \<noteq> []" for g
    using deploy_proximity_panics [of now g] that by blast
  have le: "fl (95 / 100) \<le> 1" by (simp add: fl_lit)
  fix g hs h
  assume ev: "deploy_proximity_rule now g = Some hs"
  show "length hs \<le> 1"
    using deploy_proximity_facts(1) [OF ev] by (cases hs) auto
  assume h: "h \<in> set hs"
  show "hy_Supporting h \<noteq> [] \<and> set (hy_Supporting h) \<subseteq> set (evidence_ids (graph_evidence g))"
    "hy_Contradicting h = []" "0 \<le> hy_Confidence h \<and> hy_Confidence h \<le> 1"
    using deploy_proximity_facts [OF ev h] le by simp_all
qed

end
