(* ===== verification/RcaEngine.thy ===== *)
theory RcaEngine
  imports DeployRule
begin

text \<open>
  \<open>internal/rca/engine.go\<close> and \<open>internal/rca/confidence.go\<close>: the rule-based engine runs its rules
  in the order of registration, scores every hypothesis against the evidence, sorts by confidence,
  numbers the hypotheses with fresh UUIDs and keeps five.  \<open>uuid i\<close> is the \<open>i\<close>-th value the UUID
  generator returns.
\<close>

section \<open>confidence.go\<close>

definition evidence_index :: "evidence list \<Rightarrow> string \<Rightarrow> evidence option" where
  "evidence_index es = fold (\<lambda>e m. m(ev_ID e \<mapsto> e)) es Map.empty"

definition lookup_evidence :: "string list \<Rightarrow> evidence list \<Rightarrow> evidence list" where
  "lookup_evidence ids es =
     (let index = evidence_index es in List.map_filter index ids)"

definition score_confidence :: "hypothesis \<Rightarrow> evidence list \<Rightarrow> f64" where
  "score_confidence h allEvidence =
     (let supporting = lookup_evidence (hy_Supporting h) allEvidence;
          contradicting = lookup_evidence (hy_Contradicting h) allEvidence;
          supportBoost = min (fmul (of_nat (length supporting)) (fl (5 / 100))) (fl (15 / 100));
          c1 = fadd (hy_Confidence h) supportBoost;
          kinds = remdups (map ev_Kind supporting);
          sources = remdups (map ev_Source supporting);
          c2 = (if length kinds \<ge> 3 then fadd c1 (fl (5 / 100)) else c1);
          c3 = (if length sources \<ge> 2 then fadd c2 (fl (5 / 100)) else c2);
          c4 = fsub c3 (fmul (of_nat (length contradicting)) (fl (1 / 10)));
          c5 = (if length kinds \<le> 1 \<and> length supporting > 0 then fsub c4 (fl (5 / 100)) else c4)
      in max 0 (min (fl (95 / 100)) c5))"

definition confidence_rationale :: "hypothesis \<Rightarrow> evidence list \<Rightarrow> string" where
  "confidence_rationale h allEvidence =
     (let supporting = lookup_evidence (hy_Supporting h) allEvidence;
          contradicting = lookup_evidence (hy_Contradicting h) allEvidence;
          sources = remdups (map ev_Source supporting);
          first = ''Based on '' @ itoa (int (length supporting)) @ '' supporting evidence items from ''
            @ itoa (int (length sources)) @ '' sources ('' @ str_join sources '', '' @ '').'';
          second = (if contradicting = [] then ''No contradicting evidence found.''
            else itoa (int (length contradicting)) @ '' contradicting evidence items reduce confidence.'')
      in str_join [first, second] '' '')"

section \<open>engine.go\<close>

definition engine_new :: "gotime \<Rightarrow> rule list" where
  "engine_new now = [crash_loop_rule, oom_killed_rule, high_cpu_rule, error_spike_rule,
     scheduling_failure_rule, deploy_proximity_rule now]"

fun evaluate_rules :: "rule list \<Rightarrow> rule" where
  "evaluate_rules [] graph = Some []"
| "evaluate_rules (r # rs) graph =
     (case r graph of None \<Rightarrow> None
      | Some results \<Rightarrow> map_option (\<lambda>hs. results @ hs) (evaluate_rules rs graph))"

definition more_confident :: "hypothesis \<Rightarrow> hypothesis \<Rightarrow> bool" where
  "more_confident a b = (hy_Confidence a > hy_Confidence b)"

definition assign_ids :: "(nat \<Rightarrow> string) \<Rightarrow> hypothesis list \<Rightarrow> hypothesis list" where
  "assign_ids uuid hs = map (\<lambda>(i, h). h\<lparr>hy_ID := uuid i\<rparr>) (enumerate 0 hs)"

definition rank :: "(nat \<Rightarrow> string) \<Rightarrow> rule list \<Rightarrow> rule" where
  "rank uuid rules graph =
     (case evaluate_rules rules graph of None \<Rightarrow> None
      | Some hypotheses \<Rightarrow>
        (let scored = map (\<lambda>h. h\<lparr>hy_Confidence := score_confidence h (graph_evidence graph)\<rparr>) hypotheses;
             sorted = insertion_sort more_confident scored;
             named = assign_ids uuid sorted
         in Some (if length named > 5 then take 5 named else named)))"

section \<open>Scores\<close>

lemma evidence_index_snoc:
  "evidence_index (es @ [e]) i = (if i = ev_ID e then Some e else evidence_index es i)"
  by (simp add: evidence_index_def)

lemma evidence_index_Some: "evidence_index es i = Some e \<Longrightarrow> e \<in> set es \<and> ev_ID e = i"
  by (induction es rule: rev_induct)
    (auto simp: evidence_index_snoc evidence_index_def [of "[]"] split: if_splits)

lemma evidence_index_dom: "(\<exists>e. evidence_index es i = Some e) \<longleftrightarrow> i \<in> set (evidence_ids es)"
  by (induction es rule: rev_induct)
    (auto simp: evidence_index_snoc evidence_index_def [of "[]"] evidence_ids_def)

lemma lookup_evidence_simps [simp]:
  "lookup_evidence [] es = []"
  "lookup_evidence (i # ids) es = (case evidence_index es i of None \<Rightarrow> lookup_evidence ids es
     | Some e \<Rightarrow> e # lookup_evidence ids es)"
  by (simp_all add: lookup_evidence_def List.map_filter_def Let_def split: option.splits)

lemma lookup_evidence_set: "set (lookup_evidence ids es) \<subseteq> set es"
  by (induction ids) (auto dest: evidence_index_Some split: option.splits)

text \<open>Every identifier of collected evidence is found.\<close>

lemma lookup_evidence_length:
  "set ids \<subseteq> set (evidence_ids es) \<Longrightarrow> length (lookup_evidence ids es) = length ids"
  by (induction ids) (auto simp: evidence_index_dom [symmetric] split: option.splits)

lemma score_confidence_range: "0 \<le> score_confidence h es \<and> score_confidence h es \<le> fl (95 / 100)"
proof -
  have "0 \<le> max 0 (min k c) \<and> max 0 (min k c) \<le> k" if "0 \<le> k" for k c :: f64 using that by simp
  then show ?thesis unfolding score_confidence_def Let_def by (simp add: fl_nonneg)
qed

section \<open>Ranking\<close>

interpretation conf_order: weak_order more_confident
  by unfold_locales (auto simp: more_confident_def)

lemma evaluate_rules_set:
  "evaluate_rules rs g = Some hs \<Longrightarrow> h \<in> set hs \<Longrightarrow> \<exists>r \<in> set rs. \<exists>hs'. r g = Some hs' \<and> h \<in> set hs'"
proof (induction rs arbitrary: hs)
  case (Cons r rs)
  from Cons.prems obtain x y where "r g = Some x" "evaluate_rules rs g = Some y" "hs = x @ y"
    by (auto split: option.splits)
  with Cons show ?case by (auto dest: Cons.IH)
qed simp

lemma evaluate_rules_returns:
  "(\<And>r. r \<in> set rs \<Longrightarrow> r g \<noteq> None) \<Longrightarrow> evaluate_rules rs g \<noteq> None"
  by (induction rs) (auto split: option.splits)

lemma assign_ids_nth: "i < length hs \<Longrightarrow> assign_ids uuid hs ! i = (hs ! i)\<lparr>hy_ID := uuid i\<rparr>"
  by (simp add: assign_ids_def nth_enumerate_eq)

lemma length_assign_ids [simp]: "length (assign_ids uuid hs) = length hs"
  by (simp add: assign_ids_def)

lemma assign_ids_conf: "map hy_Confidence (assign_ids uuid hs) = map hy_Confidence hs"
  by (intro nth_equalityI) (simp_all add: assign_ids_nth)

lemma assign_ids_ids: "map hy_ID (assign_ids uuid hs) = map uuid [0..<length hs]"
  by (intro nth_equalityI) (simp_all add: assign_ids_nth)

lemma assign_ids_mem: "h \<in> set (assign_ids uuid hs) \<Longrightarrow> \<exists>h' \<in> set hs. \<exists>i. h = h'\<lparr>hy_ID := i\<rparr>"
  by (auto simp: in_set_conv_nth assign_ids_nth) (metis assign_ids_nth nth_mem)

lemma engine_new_rule: "r \<in> set (engine_new now) \<Longrightarrow> rca_rule r"
  by (auto simp: engine_new_def crash_loop.rca_rule_axioms oom_killed.rca_rule_axioms
      high_cpu.rca_rule_axioms error_spike.rca_rule_axioms scheduling_failure.rca_rule_axioms
      deploy_proximity.rca_rule_axioms)

text \<open>The list that \<open>rank\<close> truncates: scored, sorted and numbered.\<close>

definition ranked :: "(nat \<Rightarrow> string) \<Rightarrow> investigation_graph \<Rightarrow> hypothesis list \<Rightarrow> hypothesis list" where
  "ranked uuid graph hypotheses = assign_ids uuid (insertion_sort more_confident
     (map (\<lambda>h. h\<lparr>hy_Confidence := score_confidence h (graph_evidence graph)\<rparr>) hypotheses))"

lemma rank_ranked: "rank uuid rules g = map_option (\<lambda>hs. take 5 (ranked uuid g hs)) (evaluate_rules rules g)"
  by (simp add: rank_def ranked_def Let_def split: option.splits)

lemma ranked_mem:
  assumes "h \<in> set (ranked uuid g hs)"
  obtains h' i where "h' \<in> set hs"
    "h = h'\<lparr>hy_Confidence := score_confidence h' (graph_evidence g), hy_ID := i\<rparr>"
  using assign_ids_mem [OF assms [unfolded ranked_def]] by auto

lemma ranked_sorted: "sorted_wrt (\<ge>) (map hy_Confidence (ranked uuid g hs))"
proof -
  have "sorted_wrt (\<lambda>a b. \<not> more_confident b a) (insertion_sort more_confident xs)" for xs
    by (rule conf_order.insertion_sort_ordered)
  then show ?thesis
    by (simp add: ranked_def assign_ids_conf sorted_wrt_map more_confident_def not_less)
qed

lemma ranked_ids: "map hy_ID (ranked uuid g hs) = map uuid [0..<length hs]"
  by (simp add: ranked_def assign_ids_ids)

lemma length_ranked [simp]: "length (ranked uuid g hs) = length hs"
  by (simp add: ranked_def)

lemma ranked_confidences:
  "mset (map hy_Confidence (ranked uuid g hs)) =
     mset (map (\<lambda>h. score_confidence h (graph_evidence g)) hs)"
proof -
  have "mset (map hy_Confidence (insertion_sort more_confident xs)) = mset (map hy_Confidence xs)" for xs
    by (metis mset_insertion_sort mset_map)
  then show ?thesis by (simp add: ranked_def assign_ids_conf comp_def del: mset_map)
qed

text \<open>C4: \<open>Engine.Rank\<close> over the six rules returns on every graph that has an alert.  It returns at most
  five hypotheses, ordered by decreasing confidence, numbered by the UUIDs drawn in that order, each
  with a confidence in [0, 0.95] and supported by a non-empty set of evidence that was collected; no
  hypothesis that it leaves out is more confident than one it returns.\<close>

theorem rank_grounded:
  assumes "id_Alerts (ig_Data g) \<noteq> []"
  shows "\<exists>hs all. rank uuid (engine_new now) g = Some hs \<and> evaluate_rules (engine_new now) g = Some all \<and>
    length hs = min 5 (length all) \<and>
    sorted_wrt (\<ge>) (map hy_Confidence hs) \<and>
    map hy_ID hs = map uuid [0..<length hs] \<and>
    (\<forall>h \<in> set hs. 0 \<le> hy_Confidence h \<and> hy_Confidence h \<le> fl (95 / 100) \<and> hy_Supporting h \<noteq> [] \<and>
       set (hy_Supporting h) \<subseteq> set (evidence_ids (graph_evidence g))) \<and>
    (\<exists>rest. mset (map hy_Confidence hs @ rest) = mset (map (\<lambda>h. score_confidence h (graph_evidence g)) all) \<and>
       (\<forall>c \<in> set rest. \<forall>h \<in> set hs. c \<le> hy_Confidence h))"
proof -
  let ?rules = "engine_new now"
  have "evaluate_rules ?rules g \<noteq> None"
    using assms rca_rule.returns [OF engine_new_rule] by (intro evaluate_rules_returns) blast
  then obtain all where all: "evaluate_rules ?rules g = Some all" by blast
  let ?r = "ranked uuid g all"
  let ?rest = "map hy_Confidence (drop 5 ?r)"
  have rank: "rank uuid ?rules g = Some (take 5 ?r)" using all by (simp add: rank_ranked)
  have sorted: "sorted_wrt (\<ge>) (map hy_Confidence (take 5 ?r) @ ?rest)"
    using ranked_sorted [of uuid g all] by (simp flip: map_append)
  have mem: "0 \<le> hy_Confidence h \<and> hy_Confidence h \<le> fl (95 / 100) \<and> hy_Supporting h \<noteq> [] \<and>
       set (hy_Supporting h) \<subseteq> set (evidence_ids (graph_evidence g))" if "h \<in> set (take 5 ?r)" for h
  proof -
    from that obtain h' i where h': "h' \<in> set all"
      "h = h'\<lparr>hy_Confidence := score_confidence h' (graph_evidence g), hy_ID := i\<rparr>"
      by (metis in_set_takeD ranked_mem)
    from evaluate_rules_set [OF all h'(1)] rca_rule.grounded [OF engine_new_rule]
    show ?thesis using score_confidence_range [of h' "graph_evidence g"] h'(2) by simp metis
  qed
  have ids: "map hy_ID (take 5 ?r) = map uuid [0..<length (take 5 ?r)]"
    unfolding take_map [symmetric] ranked_ids by (simp add: take_map take_upt min_def)
  have "mset (map hy_Confidence (take 5 ?r) @ ?rest) =
      mset (map (\<lambda>h. score_confidence h (graph_evidence g)) all)"
    unfolding map_append [symmetric] append_take_drop_id by (rule ranked_confidences)
  moreover have "\<forall>c \<in> set ?rest. \<forall>h \<in> set (take 5 ?r). c \<le> hy_Confidence h"
    using sorted by (auto simp: sorted_wrt_append)
  ultimately have rest: "\<exists>rest. mset (map hy_Confidence (take 5 ?r) @ rest) =
        mset (map (\<lambda>h. score_confidence h (graph_evidence g)) all) \<and>
      (\<forall>c \<in> set rest. \<forall>h \<in> set (take 5 ?r). c \<le> hy_Confidence h)"
    by blast
  have sorted5: "sorted_wrt (\<ge>) (map hy_Confidence (take 5 ?r))"
    using sorted unfolding sorted_wrt_append by blast
  have len: "length (take 5 ?r) = min 5 (length all)" by simp
  show ?thesis using rank all len sorted5 ids mem rest by blast
qed

section \<open>What the orchestrator relies on\<close>

text \<open>
  The contract of \<open>contracts.RCAEngine\<close> that both engines keep: when the engine returns, at most five hypotheses,
  the most confident first, with confidences in [0, 0.95], each supported by collected evidence only.
\<close>

locale rca_engine =
  fixes rank_graph :: rule
  assumes at_most_five: "rank_graph g = Some hs \<Longrightarrow> length hs \<le> 5"
    and by_confidence: "rank_graph g = Some hs \<Longrightarrow> sorted_wrt (\<ge>) (map hy_Confidence hs)"
    and in_range: "rank_graph g = Some hs \<Longrightarrow> h \<in> set hs \<Longrightarrow>
      0 \<le> hy_Confidence h \<and> hy_Confidence h \<le> fl (95 / 100)"
    and supported: "rank_graph g = Some hs \<Longrightarrow> h \<in> set hs \<Longrightarrow>
      set (hy_Supporting h) \<subseteq> set (evidence_ids (graph_evidence g))"
begin

lemma best_first: "rank_graph g = Some (h # hs) \<Longrightarrow> h' \<in> set hs \<Longrightarrow> hy_Confidence h' \<le> hy_Confidence h"
  using by_confidence [of g "h # hs"] by simp

lemma first_in_range: "rank_graph g = Some (h # hs) \<Longrightarrow> 0 \<le> hy_Confidence h \<and> hy_Confidence h \<le> fl (95 / 100)"
  using in_range [of g "h # hs" h] by simp

end

lemma rank_mem:
  assumes "rank uuid rules g = Some hs" "h \<in> set hs"
  obtains all h' i where "evaluate_rules rules g = Some all" "h' \<in> set all"
    "h = h'\<lparr>hy_Confidence := score_confidence h' (graph_evidence g), hy_ID := i\<rparr>"
proof -
  from assms(1) obtain all where all: "evaluate_rules rules g = Some all" "hs = take 5 (ranked uuid g all)"
    by (auto simp: rank_ranked)
  then have "h \<in> set (ranked uuid g all)" using assms(2) by (auto dest: in_set_takeD)
  then show thesis by (rule ranked_mem) (use that all(1) in blast)
qed

interpretation rule_engine: rca_engine "rank uuid (engine_new now)" for uuid now
proof
  fix g hs h
  assume ret: "rank uuid (engine_new now) g = Some hs"
  then show "length hs \<le> 5" by (auto simp: rank_ranked)
  from ret obtain all where "hs = take 5 (ranked uuid g all)" by (auto simp: rank_ranked)
  then show "sorted_wrt (\<ge>) (map hy_Confidence hs)"
    using ranked_sorted [of uuid g all] by (simp add: take_map [symmetric] sorted_wrt_take)
  assume "h \<in> set hs"
  with ret obtain all h' i where all: "evaluate_rules (engine_new now) g = Some all" "h' \<in> set all"
    and h: "h = h'\<lparr>hy_Confidence := score_confidence h' (graph_evidence g), hy_ID := i\<rparr>"
    by (rule rank_mem)
  show "0 \<le> hy_Confidence h \<and> hy_Confidence h \<le> fl (95 / 100)" using score_confidence_range by (simp add: h)
  from evaluate_rules_set [OF all] obtain r hs' where "r \<in> set (engine_new now)" "r g = Some hs'" "h' \<in> set hs'" by blast
  then show "set (hy_Supporting h) \<subseteq> set (evidence_ids (graph_evidence g))"
    using rca_rule.grounded [OF engine_new_rule] by (simp add: h)
qed

section \<open>An example\<close>

definition sample_evidence :: "string \<Rightarrow> evidence_kind \<Rightarrow> string \<Rightarrow> gotime \<Rightarrow> f64 \<Rightarrow> evidence" where
  "sample_evidence eid kind summary t score = \<lparr>ev_ID = eid, ev_InvestigationID = ''inv'', ev_Kind = kind,
     ev_Source = ''kubernetes'', ev_Target = target_ref0, ev_CollectedAt = t, ev_ObservedAtFrom = t,
     ev_ObservedAtTo = t, ev_Summary = summary, ev_BodyRef = [], ev_Query = [], ev_Score = score,
     ev_Attributes = Some [], ev_RedactionState = RedactionNone\<rparr>"

definition sample_investigation :: investigation where
  "sample_investigation = \<lparr>in_ID = ''inv'', in_TenantID = ''default'', in_Status = StatusAnalyzing,
     in_AlertIDs = [''a1''], in_Targets = [], in_TimeFrom = 0, in_TimeTo = 0, in_Headline = [],
     in_Confidence = 0, in_CreatedAt = 0, in_UpdatedAt = 0, in_CompletedAt = None,
     in_SlackChannelID = [], in_SlackThreadTS = [], in_Hypotheses = [], in_Timeline = []\<rparr>"

definition sample_graph :: "evidence list \<Rightarrow> investigation_graph" where
  "sample_graph es = \<lparr>ig_Data = \<lparr>id_Investigation = sample_investigation,
     id_Alerts = [normalized_alert0\<lparr>al_ID := ''a1'', al_StartsAt := hours 5\<rparr>], id_Evidence = es\<rparr>,
     ig_Correlations = []\<rparr>"

definition sample_crash :: "evidence list" where
  "sample_crash = [sample_evidence ''e1'' EvidenceK8sState ''pod in CrashLoopBackOff'' (hours 5) 1,
     sample_evidence ''e2'' EvidenceDeploy ''deployed'' (hours 4) (1 / 2)]"

theorem rank_grounded_witness:
  "\<exists>hs. rank (\<lambda>i. itoa (int i)) (engine_new 0) (sample_graph sample_crash) = Some hs \<and>
     length hs = 2 \<and> map hy_ID hs = [''0'', ''1''] \<and> sorted_wrt (\<ge>) (map hy_Confidence hs)"
proof -
  have "map_option length (evaluate_rules (engine_new 0) (sample_graph sample_crash)) = Some 2"
    by code_simp
  moreover have "map (\<lambda>i. itoa (int i)) [0..<2] = [''0'', ''1'']" by code_simp
  ultimately show ?thesis
    using rank_grounded [of "sample_graph sample_crash" "\<lambda>i. itoa (int i)" 0]
    by (auto simp: sample_graph_def)
qed

end
