(* ===== verification/LlmResilience.thy ===== *)
theory LlmResilience
  imports Contracts
begin

text \<open>
  \<open>internal/llm/provider.go\<close>, \<open>circuitbreaker.go\<close> and \<open>retry.go\<close>: what surrounds a call of a language model.
  A provider's call is an outcome, an error or a response.  The breaker is shared by the goroutines that
  investigate: its critical sections are the steps of the relation \<open>cb_step\<close>, between which the call of
  the inner provider runs without the lock.
\<close>

section \<open>Requests, responses, errors\<close>

record completion_request =
  cq_SystemPrompt :: string
  cq_UserPrompt :: string
  cq_Temperature :: f64
  cq_MaxTokens :: int

record completion_response =
  cp_Content :: string
  cp_InputTokens :: int
  cp_OutputTokens :: int
  cp_Model :: string
  cp_Latency :: duration

record llm_error =
  le_Provider :: string
  le_StatusCode :: int
  le_Message :: string
  le_Retryable :: bool

text \<open>An error is one of these or wraps another one under a message (\<open>%w\<close>).\<close>

datatype perror = PLlm llm_error | PDeadlineExceeded | PCanceled | PText string | PWrap string perror

definition new_llm_error :: "string \<Rightarrow> int \<Rightarrow> string \<Rightarrow> llm_error" where
  "new_llm_error provider statusCode message =
     (let retryable = (statusCode = 429 \<or> (statusCode \<ge> 500 \<and> statusCode < 600)) in
      \<lparr>le_Provider = provider, le_StatusCode = statusCode, le_Message = message, le_Retryable = retryable\<rparr>)"

definition llm_error_text :: "llm_error \<Rightarrow> string" where
  "llm_error_text e = le_Provider e @ '': status '' @ itoa (le_StatusCode e) @ '': '' @ le_Message e"

fun as_llm_error :: "perror \<Rightarrow> llm_error option" where
  "as_llm_error (PLlm e) = Some e"
| "as_llm_error (PWrap _ err) = as_llm_error err"
| "as_llm_error _ = None"

fun is_deadline_exceeded :: "perror \<Rightarrow> bool" where
  "is_deadline_exceeded PDeadlineExceeded = True"
| "is_deadline_exceeded (PWrap _ err) = is_deadline_exceeded err"
| "is_deadline_exceeded _ = False"

definition is_retryable :: "perror \<Rightarrow> bool" where
  "is_retryable err =
     (case as_llm_error err of Some llmErr \<Rightarrow> le_Retryable llmErr
      | None \<Rightarrow> if is_deadline_exceeded err then True else False)"

type_synonym outcome = "perror + completion_response"

section \<open>retry.go\<close>

record retry_provider =
  rp_maxRetries :: int
  rp_baseDelay :: duration

definition new_retry_provider :: "int \<Rightarrow> duration \<Rightarrow> retry_provider" where
  "new_retry_provider maxRetries baseDelay =
     \<lparr>rp_maxRetries = (if maxRetries \<le> 0 then 3 else maxRetries),
      rp_baseDelay = (if baseDelay \<le> 0 then seconds 1 else baseDelay)\<rparr>"

text \<open>\<open>time.Duration(x)\<close> truncates; \<open>r\<close> is the value of \<open>rand.Float64\<close>, in [0, 1).\<close>

definition trunc :: "f64 \<Rightarrow> int" where
  "trunc x = (if x < 0 then \<lceil>x\<rceil> else \<lfloor>x\<rfloor>)"

definition backoff :: "retry_provider \<Rightarrow> nat \<Rightarrow> f64 \<Rightarrow> duration" where
  "backoff r attempt rnd =
     (let delay = fmul (fl (of_int (rp_baseDelay r))) (fl (2 ^ attempt));
          jitter = fmul (fmul delay (fl (2 / 10))) (fsub rnd (1 / 2))
      in trunc (fadd delay jitter))"

text \<open>
  The loop of \<open>Complete\<close>, from the attempt \<open>attempt\<close> on with \<open>left\<close> retries left: \<open>inner i\<close> is the outcome
  of the \<open>i\<close>-th call, \<open>ctx_err i\<close> the context's error when it is done before the \<open>i\<close>-th delay is over.
  The result comes with the number of calls made and the delays waited for.
\<close>

fun retry_loop :: "retry_provider \<Rightarrow> (nat \<Rightarrow> outcome) \<Rightarrow> (nat \<Rightarrow> perror option) \<Rightarrow> (nat \<Rightarrow> f64) \<Rightarrow>
    nat \<Rightarrow> nat \<Rightarrow> outcome \<times> nat \<times> duration list" where
  "retry_loop r inner ctx_err rnd attempt left =
     (case inner attempt of
        Inr resp \<Rightarrow> (Inr resp, 1, [])
      | Inl err \<Rightarrow>
        if \<not> is_retryable err then (Inl err, 1, [])
        else (case left of
            0 \<Rightarrow> (Inl (PWrap (''all '' @ itoa (rp_maxRetries r) @ '' retries exhausted'') err), 1, [])
          | Suc left' \<Rightarrow>
            (let delay = backoff r attempt (rnd attempt) in
             case ctx_err attempt of
               Some cerr \<Rightarrow> (Inl cerr, 1, [delay])
             | None \<Rightarrow> (case retry_loop r inner ctx_err rnd (Suc attempt) left' of
                 (out, calls, delays) \<Rightarrow> (out, Suc calls, delay # delays)))))"

declare retry_loop.simps [simp del]

definition retry_complete :: "retry_provider \<Rightarrow> (nat \<Rightarrow> outcome) \<Rightarrow> (nat \<Rightarrow> perror option) \<Rightarrow> (nat \<Rightarrow> f64) \<Rightarrow>
    outcome \<times> nat \<times> duration list" where
  "retry_complete r inner ctx_err rnd = retry_loop r inner ctx_err rnd 0 (nat (rp_maxRetries r))"

section \<open>circuitbreaker.go\<close>

datatype circuit_state = StateClosed | StateOpen | StateHalfOpen

record breaker =
  cb_state :: circuit_state
  cb_failures :: nat
  cb_lastFailure :: gotime
  cb_failThreshold :: int
  cb_resetTimeout :: duration
  cb_fallbackErr :: perror

definition new_circuit_breaker :: "string \<Rightarrow> int \<Rightarrow> duration \<Rightarrow> breaker" where
  "new_circuit_breaker name failThreshold resetTimeout =
     \<lparr>cb_state = StateClosed, cb_failures = 0, cb_lastFailure = 0,
      cb_failThreshold = (if failThreshold \<le> 0 then 5 else failThreshold),
      cb_resetTimeout = (if resetTimeout \<le> 0 then seconds 30 else resetTimeout),
      cb_fallbackErr = PText (''circuit breaker open for provider '' @ name)\<rparr>"

text \<open>The first critical section: the error, or nothing when the call is let through.\<close>

definition cb_enter :: "gotime \<Rightarrow> breaker \<Rightarrow> perror option \<times> breaker" where
  "cb_enter now cb =
     (case cb_state cb of
        StateOpen \<Rightarrow>
          if time_sub now (cb_lastFailure cb) > cb_resetTimeout cb
          then (None, cb\<lparr>cb_state := StateHalfOpen\<rparr>)
          else (Some (cb_fallbackErr cb), cb)
      | StateHalfOpen \<Rightarrow> (None, cb)
      | StateClosed \<Rightarrow> (None, cb))"

definition record_failure :: "gotime \<Rightarrow> breaker \<Rightarrow> breaker" where
  "record_failure now cb =
     (let cb = cb\<lparr>cb_failures := cb_failures cb + 1, cb_lastFailure := now\<rparr> in
      if int (cb_failures cb) \<ge> cb_failThreshold cb then cb\<lparr>cb_state := StateOpen\<rparr> else cb)"

definition record_success :: "breaker \<Rightarrow> breaker" where
  "record_success cb = cb\<lparr>cb_failures := 0, cb_state := StateClosed\<rparr>"

text \<open>
  A whole call, when no other goroutine interferes: the inner call starts at \<open>now\<close>, ends at \<open>later\<close>.  The inner provider
  has a state of its own, which a rejected call leaves alone because it does not get there.
\<close>

definition cb_call :: "gotime \<Rightarrow> gotime \<Rightarrow> ('s \<Rightarrow> outcome \<times> 's) \<Rightarrow> breaker \<Rightarrow> 's \<Rightarrow> outcome \<times> breaker \<times> 's" where
  "cb_call now later inner cb s =
     (case cb_enter now cb of
        (Some err, cb') \<Rightarrow> (Inl err, cb', s)
      | (None, cb') \<Rightarrow>
        (case inner s of
           (Inl err, s') \<Rightarrow> (Inl err, record_failure later cb', s')
         | (Inr resp, s') \<Rightarrow> (Inr resp, record_success cb', s')))"

text \<open>The breaker alone, for an inner provider without state.\<close>

definition cb_complete :: "gotime \<Rightarrow> gotime \<Rightarrow> outcome \<Rightarrow> breaker \<Rightarrow> outcome \<times> breaker" where
  "cb_complete now later inner cb = (case cb_call now later (\<lambda>u. (inner, u)) cb () of (out, cb', u) \<Rightarrow> (out, cb'))"

lemma cb_complete_cases:
  "cb_complete now later inner cb =
     (case cb_enter now cb of
        (Some err, cb') \<Rightarrow> (Inl err, cb')
      | (None, cb') \<Rightarrow>
        (case inner of
           Inl err \<Rightarrow> (Inl err, record_failure later cb')
         | Inr resp \<Rightarrow> (Inr resp, record_success cb')))"
  by (simp add: cb_complete_def cb_call_def split: prod.split option.split sum.split)

text \<open>The interleavings: the clock, the breaker, and how many calls of the inner provider are running.\<close>

record cb_system =
  cs_now :: gotime
  cs_breaker :: breaker
  cs_inflight :: nat

inductive cb_step :: "cb_system \<Rightarrow> cb_system \<Rightarrow> bool" where
  tick: "cs_now s \<le> t \<Longrightarrow> cb_step s (s\<lparr>cs_now := t\<rparr>)"
| admit: "cb_enter (cs_now s) (cs_breaker s) = (None, b) \<Longrightarrow>
    cb_step s (s\<lparr>cs_breaker := b, cs_inflight := Suc (cs_inflight s)\<rparr>)"
| reject: "cb_enter (cs_now s) (cs_breaker s) = (Some err, b) \<Longrightarrow> cb_step s (s\<lparr>cs_breaker := b\<rparr>)"
| fail: "0 < cs_inflight s \<Longrightarrow>
    cb_step s (s\<lparr>cs_breaker := record_failure (cs_now s) (cs_breaker s), cs_inflight := cs_inflight s - 1\<rparr>)"
| succeed: "0 < cs_inflight s \<Longrightarrow>
    cb_step s (s\<lparr>cs_breaker := record_success (cs_breaker s), cs_inflight := cs_inflight s - 1\<rparr>)"

inductive_cases cb_stepE: "cb_step s s'"

definition cb_start :: "gotime \<Rightarrow> string \<Rightarrow> int \<Rightarrow> duration \<Rightarrow> cb_system" where
  "cb_start now name th rt = \<lparr>cs_now = now, cs_breaker = new_circuit_breaker name th rt, cs_inflight = 0\<rparr>"

section \<open>provider.go\<close>

text \<open>The providers by name, each under the retries and the breaker.\<close>

datatype provider_kind = OpenAI | Vertex | Anthropic | Ollama

definition new_provider :: "string \<Rightarrow> string + provider_kind \<times> retry_provider \<times> (string \<Rightarrow> breaker)" where
  "new_provider provider =
     (let wrap = (\<lambda>inner. Inr (inner, new_retry_provider 3 (seconds 1),
                     \<lambda>name. new_circuit_breaker name 5 (seconds 30))) in
      if provider = ''openai'' then wrap OpenAI
      else if provider = ''vertex'' then wrap Vertex
      else if provider = ''anthropic'' then wrap Anthropic
      else if provider = ''ollama'' then wrap Ollama
      else Inl (''unsupported LLM provider: '' @ quoted provider))"

section \<open>The breaker\<close>

lemmas breaker_defs = cb_enter_def record_failure_def record_success_def Let_def

definition breaker_inv :: "breaker \<Rightarrow> bool" where
  "breaker_inv cb = (0 < cb_failThreshold cb \<and> 0 < cb_resetTimeout cb \<and>
     (cb_state cb = StateClosed \<longleftrightarrow> int (cb_failures cb) < cb_failThreshold cb))"

lemma new_circuit_breaker_inv: "breaker_inv (new_circuit_breaker name th rt)"
  by (simp add: breaker_inv_def new_circuit_breaker_def seconds_def)

lemma breaker_ops_inv:
  assumes "breaker_inv cb"
  shows "breaker_inv (snd (cb_enter now cb))" "breaker_inv (record_failure now cb)" "breaker_inv (record_success cb)"
  using assms by (auto simp: breaker_inv_def breaker_defs split: circuit_state.splits)

lemma cb_step_inv: "cb_step s s' \<Longrightarrow> breaker_inv (cs_breaker s) \<Longrightarrow> breaker_inv (cs_breaker s')"
  by (induction rule: cb_step.induct) (auto dest: breaker_ops_inv(1) simp: breaker_ops_inv(2,3) prod_eq_iff)

text \<open>The error, the threshold and the timeout never change, and no instant recorded lies in the future.\<close>

lemma breaker_ops_frame:
  "cb_failThreshold (snd (cb_enter now cb)) = cb_failThreshold cb"
  "cb_failThreshold (record_failure now cb) = cb_failThreshold cb"
  "cb_failThreshold (record_success cb) = cb_failThreshold cb"
  "cb_resetTimeout (snd (cb_enter now cb)) = cb_resetTimeout cb"
  "cb_resetTimeout (record_failure now cb) = cb_resetTimeout cb"
  "cb_resetTimeout (record_success cb) = cb_resetTimeout cb"
  by (auto simp: breaker_defs split: circuit_state.splits)

lemma cb_enter_frame: "cb_enter now cb = (r, b) \<Longrightarrow> cb_failThreshold b = cb_failThreshold cb"
  using breaker_ops_frame(1) [of now cb] by simp

lemma cb_enter_open:
  "cb_state cb = StateOpen \<Longrightarrow> time_sub now (cb_lastFailure cb) \<le> cb_resetTimeout cb \<Longrightarrow>
     cb_enter now cb = (Some (cb_fallbackErr cb), cb)"
  by (simp add: cb_enter_def)

lemma cb_enter_admits: "fst (cb_enter now cb) = None \<longleftrightarrow>
    \<not> (cb_state cb = StateOpen \<and> time_sub now (cb_lastFailure cb) \<le> cb_resetTimeout cb)"
  by (auto simp: cb_enter_def split: circuit_state.splits)

text \<open>C22: In every interleaving of calls, however many run at once, the breaker is closed exactly while it has
  counted fewer consecutive failures than its threshold; and while it is open and its timeout has not
  passed since the last failure, no step lets a call through to the provider.\<close>

theorem breaker_invariant:
  assumes "cb_step\<^sup>*\<^sup>* (cb_start t0 name th rt) s"
  shows "(cb_state (cs_breaker s) = StateClosed \<longleftrightarrow>
      int (cb_failures (cs_breaker s)) < cb_failThreshold (cs_breaker s)) \<and>
    cb_failThreshold (cs_breaker s) = (if th \<le> 0 then 5 else th) \<and>
    (cb_state (cs_breaker s) = StateOpen \<and>
       time_sub (cs_now s) (cb_lastFailure (cs_breaker s)) \<le> cb_resetTimeout (cs_breaker s) \<longrightarrow>
     (\<forall>s'. cb_step s s' \<longrightarrow> cs_inflight s' \<le> cs_inflight s))"
proof -
  have "breaker_inv (cs_breaker s) \<and> cb_failThreshold (cs_breaker s) = (if th \<le> 0 then 5 else th)"
    using assms
  proof (induction rule: rtranclp_induct)
    case base
    then show ?case using new_circuit_breaker_inv by (simp add: cb_start_def new_circuit_breaker_def)
  next
    case (step y z)
    have "cb_failThreshold (cs_breaker z) = cb_failThreshold (cs_breaker y)"
      using step.hyps(2) by (cases rule: cb_step.cases) (auto simp: breaker_ops_frame dest: cb_enter_frame)
    with step cb_step_inv show ?case by metis
  qed
  moreover have "cs_inflight s' \<le> cs_inflight s"
    if "cb_state (cs_breaker s) = StateOpen"
      "time_sub (cs_now s) (cb_lastFailure (cs_breaker s)) \<le> cb_resetTimeout (cs_breaker s)" "cb_step s s'" for s'
    using that(3) cb_enter_open [OF that(1,2)] by (cases rule: cb_step.cases) simp_all
  ultimately show ?thesis unfolding breaker_inv_def by blast
qed

text \<open>A run of whole calls: when each starts and ends, and what the provider would answer.\<close>

fun cb_calls :: "(gotime \<times> gotime \<times> outcome) list \<Rightarrow> breaker \<Rightarrow> outcome list \<times> breaker" where
  "cb_calls [] cb = ([], cb)"
| "cb_calls ((now, later, inner) # cs) cb =
     (let (out, cb) = cb_complete now later inner cb; (outs, cb) = cb_calls cs cb in (out # outs, cb))"

lemma cb_calls_append:
  "cb_calls (xs @ ys) cb = (let (o1, cb) = cb_calls xs cb; (o2, cb) = cb_calls ys cb in (o1 @ o2, cb))"
  by (induction xs arbitrary: cb) (auto simp: split_beta Let_def)

lemma cb_calls_failures:
  "cb_state cb = StateClosed \<Longrightarrow> int (cb_failures cb + length cs) < cb_failThreshold cb \<Longrightarrow>
   \<forall>c \<in> set cs. \<exists>err. snd (snd c) = Inl err \<Longrightarrow>
   fst (cb_calls cs cb) = map (snd \<circ> snd) cs \<and> cb_state (snd (cb_calls cs cb)) = StateClosed \<and>
   cb_failures (snd (cb_calls cs cb)) = cb_failures cb + length cs \<and>
   cb_failThreshold (snd (cb_calls cs cb)) = cb_failThreshold cb \<and>
   cb_resetTimeout (snd (cb_calls cs cb)) = cb_resetTimeout cb \<and>
   cb_fallbackErr (snd (cb_calls cs cb)) = cb_fallbackErr cb"
proof (induction cs arbitrary: cb)
  case (Cons c cs)
  obtain now later err where c: "c = (now, later, Inl err)" using Cons.prems(3) by (cases c) auto
  let ?cb = "record_failure later cb"
  have step: "cb_complete now later (Inl err) cb = (Inl err, ?cb)"
    using Cons.prems(1) by (simp add: cb_complete_cases cb_enter_def)
  have cb: "cb_state ?cb = StateClosed" "cb_failures ?cb = cb_failures cb + 1"
    "cb_failThreshold ?cb = cb_failThreshold cb" "cb_resetTimeout ?cb = cb_resetTimeout cb"
    "cb_fallbackErr ?cb = cb_fallbackErr cb"
    using Cons.prems(1,2) by (auto simp: record_failure_def Let_def)
  have "int (cb_failures ?cb + length cs) < cb_failThreshold ?cb" using Cons.prems(2) cb by simp
  from Cons.IH [OF cb(1) this] Cons.prems(3) cb show ?case
    by (simp add: c step split_beta)
qed simp

text \<open>C23: A closed breaker lets as many consecutive failing calls through as its threshold says, each returning
  the provider's own error, and then opens: a further call that starts within the timeout is answered
  with the breaker's error, leaves the breaker as it is and does not depend on the provider; a call that
  starts later is let through again, and if it succeeds the breaker is closed with no failure counted.\<close>

theorem breaker_trips_and_recovers:
  assumes "breaker_inv cb" "cb_state cb = StateClosed" "cb_failures cb = 0"
    and "length cs = nat (cb_failThreshold cb)" "\<forall>c \<in> set cs. \<exists>err. snd (snd c) = Inl err"
    and "cb' = snd (cb_calls cs cb)"
  shows "fst (cb_calls cs cb) = map (snd \<circ> snd) cs \<and> cb_state cb' = StateOpen \<and>
    cb_lastFailure cb' = fst (snd (last cs)) \<and>
    (time_sub now (cb_lastFailure cb') \<le> cb_resetTimeout cb \<longrightarrow>
       cb_complete now later inner cb' = (Inl (cb_fallbackErr cb), cb')) \<and>
    (time_sub now (cb_lastFailure cb') > cb_resetTimeout cb \<longrightarrow>
       fst (cb_complete now later inner cb') = inner \<and>
       cb_state (snd (cb_complete now later (Inr resp) cb')) = StateClosed \<and>
       cb_failures (snd (cb_complete now later (Inr resp) cb')) = 0)"
proof -
  have pos: "0 < cb_failThreshold cb" using assms(1) by (simp add: breaker_inv_def)
  then have "cs \<noteq> []" using assms(4) by auto
  then obtain cs0 c where cs: "cs = cs0 @ [c]" by (metis rev_exhaust)
  obtain n l err where c: "c = (n, l, Inl err)" using assms(5) cs by (cases c) auto
  let ?m = "snd (cb_calls cs0 cb)"
  have "int (cb_failures cb + length cs0) < cb_failThreshold cb" using assms(3,4) cs pos by simp
  then have m: "fst (cb_calls cs0 cb) = map (snd \<circ> snd) cs0" "cb_state ?m = StateClosed"
    "cb_failures ?m = length cs0" "cb_failThreshold ?m = cb_failThreshold cb"
    "cb_resetTimeout ?m = cb_resetTimeout cb" "cb_fallbackErr ?m = cb_fallbackErr cb"
    using cb_calls_failures [OF assms(2), of cs0] assms(3,5) cs by simp_all
  have "cb_complete n l (Inl err) ?m = (Inl err, record_failure l ?m)"
    using m(2) by (simp add: cb_complete_cases cb_enter_def)
  then have calls: "cb_calls cs cb = (map (snd \<circ> snd) cs, record_failure l ?m)"
    using m(1) by (simp add: cs c cb_calls_append split_beta)
  have "int (length cs0 + 1) = cb_failThreshold cb" using assms(4) cs pos by simp
  then have cb': "cb' = ?m\<lparr>cb_failures := length cs0 + 1, cb_lastFailure := l, cb_state := StateOpen\<rparr>"
    using assms(6) m by (simp add: calls record_failure_def Let_def)
  show ?thesis
    unfolding calls cb' using m by (auto simp: cs c cb_complete_cases cb_enter_def record_success_def split: sum.splits)
qed

section \<open>The retries\<close>

lemma retry_loop_spec:
  "retry_loop r inner ctx_err rnd attempt left = (out, calls, delays) \<Longrightarrow>
   1 \<le> calls \<and> calls \<le> Suc left \<and>
   (\<forall>i < calls - 1. ctx_err (attempt + i) = None \<and> (\<exists>e. inner (attempt + i) = Inl e \<and> is_retryable e)) \<and>
   (case inner (attempt + (calls - 1)) of
      Inr resp \<Rightarrow> out = Inr resp \<and> length delays = calls - 1
    | Inl e \<Rightarrow>
      if \<not> is_retryable e then out = Inl e \<and> length delays = calls - 1
      else if calls = Suc left
      then out = Inl (PWrap (''all '' @ itoa (rp_maxRetries r) @ '' retries exhausted'') e) \<and> length delays = calls - 1
      else (\<exists>cerr. ctx_err (attempt + (calls - 1)) = Some cerr \<and> out = Inl cerr \<and> length delays = calls)) \<and>
   (\<forall>i < length delays. delays ! i = backoff r (attempt + i) (rnd (attempt + i)))"
proof (induction left arbitrary: attempt out calls delays)
  case 0
  then show ?case by (subst (asm) retry_loop.simps) (auto split: sum.splits if_splits)
next
  case (Suc left)
  show ?case
  proof (cases "\<exists>e. inner attempt = Inl e \<and> is_retryable e \<and> ctx_err attempt = None")
    case False
    with Suc.prems show ?thesis
      by (subst (asm) retry_loop.simps) (auto simp: Let_def split: sum.splits if_splits option.splits)
  next
    case True
    then obtain e where e: "inner attempt = Inl e" "is_retryable e" "ctx_err attempt = None" by blast
    obtain calls' delays' where rec: "retry_loop r inner ctx_err rnd (Suc attempt) left = (out, calls', delays')"
      and eqs: "calls = Suc calls'" "delays = backoff r attempt (rnd attempt) # delays'"
      using Suc.prems e by (subst (asm) retry_loop.simps) (auto simp: Let_def split: prod.splits)
    from Suc.IH [OF rec] have IH: "1 \<le> calls'" "calls' \<le> Suc left"
      "\<And>i. i < calls' - 1 \<Longrightarrow> ctx_err (Suc attempt + i) = None \<and> (\<exists>e. inner (Suc attempt + i) = Inl e \<and> is_retryable e)"
      "\<And>i. i < length delays' \<Longrightarrow> delays' ! i = backoff r (Suc attempt + i) (rnd (Suc attempt + i))"
      by blast+
    have shift: "attempt + (calls - 1) = Suc attempt + (calls' - 1)" using IH(1) eqs by simp
    have before: "ctx_err (attempt + i) = None \<and> (\<exists>e. inner (attempt + i) = Inl e \<and> is_retryable e)"
      if "i < calls - 1" for i
      using that IH(3) [of "i - 1"] e eqs by (cases i) auto
    have waits: "delays ! i = backoff r (attempt + i) (rnd (attempt + i))" if "i < length delays" for i
      using that IH(4) [of "i - 1"] eqs by (cases i) auto
    define k where "k = Suc attempt + (calls' - 1)"
    have last: "case inner k of Inr resp \<Rightarrow> out = Inr resp \<and> length delays' = calls' - 1
      | Inl e \<Rightarrow> if \<not> is_retryable e then out = Inl e \<and> length delays' = calls' - 1
        else if calls' = Suc left
        then out = Inl (PWrap (''all '' @ itoa (rp_maxRetries r) @ '' retries exhausted'') e) \<and> length delays' = calls' - 1
        else (\<exists>cerr. ctx_err k = Some cerr \<and> out = Inl cerr \<and> length delays' = calls')"
      using Suc.IH [OF rec] unfolding k_def by blast
    have "case inner k of Inr resp \<Rightarrow> out = Inr resp \<and> length delays = calls - 1
      | Inl e \<Rightarrow> if \<not> is_retryable e then out = Inl e \<and> length delays = calls - 1
        else if calls = Suc (Suc left)
        then out = Inl (PWrap (''all '' @ itoa (rp_maxRetries r) @ '' retries exhausted'') e) \<and> length delays = calls - 1
        else (\<exists>cerr. ctx_err k = Some cerr \<and> out = Inl cerr \<and> length delays = calls)"
      using last eqs IH(1) by (auto split: sum.splits if_splits)
    moreover have "attempt + (calls - 1) = k" "1 \<le> calls" "calls \<le> Suc (Suc left)"
      using shift eqs IH(2) by (simp_all add: k_def)
    ultimately show ?thesis using before waits by metis
  qed
qed

text \<open>A call under retries makes at least one and at most \<open>maxRetries + 1\<close> calls of the provider.  It goes on
  only after a retryable error and when the context is still alive; it returns the first response, the
  first error that is not retryable, the context's error, or, after the last attempt, the provider's
  last error wrapped; and the \<open>i\<close>-th wait lasts the \<open>i\<close>-th backoff.\<close>

theorem retry_complete_spec:
  assumes "retry_complete r inner ctx_err rnd = (out, calls, delays)"
  shows "1 \<le> calls \<and> calls \<le> Suc (nat (rp_maxRetries r)) \<and>
    (\<forall>i < calls - 1. ctx_err i = None \<and> (\<exists>e. inner i = Inl e \<and> is_retryable e)) \<and>
    (case inner (calls - 1) of
       Inr resp \<Rightarrow> out = Inr resp \<and> length delays = calls - 1
     | Inl e \<Rightarrow>
       if \<not> is_retryable e then out = Inl e \<and> length delays = calls - 1
       else if calls = Suc (nat (rp_maxRetries r))
       then out = Inl (PWrap (''all '' @ itoa (rp_maxRetries r) @ '' retries exhausted'') e) \<and>
         length delays = calls - 1
       else (\<exists>cerr. ctx_err (calls - 1) = Some cerr \<and> out = Inl cerr \<and> length delays = calls)) \<and>
    (\<forall>i < length delays. delays ! i = backoff r i (rnd i))"
  by (rule retry_loop_spec [OF assms [unfolded retry_complete_def], unfolded add_0])

text \<open>The delays: the jitter moves the delay by at most a tenth.\<close>

lemma trunc_mono: "x \<le> y \<Longrightarrow> trunc x \<le> trunc y"
proof (cases "x < 0 \<and> \<not> y < 0")
  case True
  then have "\<lceil>x\<rceil> \<le> 0" "0 \<le> \<lfloor>y\<rfloor>" by simp_all
  then have "\<lceil>x\<rceil> \<le> \<lfloor>y\<rfloor>" by (rule order_trans)
  with True show ?thesis by (simp add: trunc_def)
next
  case False
  assume "x \<le> y"
  with False show ?thesis by (auto simp: trunc_def intro: ceiling_mono floor_mono)
qed

lemma backoff_mono:
  assumes "0 \<le> rp_baseDelay r" "x \<le> y" shows "backoff r n x \<le> backoff r n y"
proof -
  let ?d = "fmul (fl (of_int (rp_baseDelay r))) (fl (2 ^ n))"
  have "0 \<le> ?d" using assms(1) by (simp add: fmul_def fl_nonneg)
  then have k: "0 \<le> fmul ?d (fl (2 / 10))" unfolding fmul_def [of ?d] by (simp add: fl_nonneg)
  have "fsub x (1 / 2) \<le> fsub y (1 / 2)" unfolding fsub_def using assms(2) by (intro fl_mono) simp
  then have "fmul (fmul ?d (fl (2 / 10))) (fsub x (1 / 2)) \<le> fmul (fmul ?d (fl (2 / 10))) (fsub y (1 / 2))"
    using k unfolding fmul_def by (intro fl_mono mult_left_mono)
  then show ?thesis unfolding backoff_def Let_def fadd_def by (intro trunc_mono fl_mono) simp
qed

lemma fl_fifth: "fl (1 / 5) = 7205759403792794 / 2 ^ 55"
  using fl_near [of "- 3" "1 / 5" 7205759403792794] by (simp add: pow2_def)

lemma fl_fifth_of_seconds: "n < 3 \<Longrightarrow> fl (1000000000 * 2 ^ n * fl (1 / 5)) = 200000000 * 2 ^ n"
  using fl_near [of "27 + int n" "1000000000 * 2 ^ n * fl (1 / 5)" 6710886400000000]
  by (auto simp: less_Suc_eq numeral_3_eq_3 fl_fifth pow2_def)

lemma backoff_ends:
  assumes "n < 3"
  shows "backoff (new_retry_provider 3 (seconds 1)) n 0 = 900000000 * 2 ^ n"
    "backoff (new_retry_provider 3 (seconds 1)) n 1 = 1100000000 * 2 ^ n"
proof -
  have i: "fl (of_int m) = of_int m" if "m \<in> {1000000000 * 2 ^ n, 900000000 * 2 ^ n, 1100000000 * 2 ^ n, 2 ^ n,
      - (100000000 * 2 ^ n), 100000000 * 2 ^ n, 1000000000}" for m :: int
    using that assms by (intro fl_int) (auto simp: less_Suc_eq numeral_3_eq_3)
  have h: "fl (1 / 2) = 1 / 2" "fl (- (1 / 2)) = - (1 / 2)"
    using fl_exact [of 1 "- 1"] fl_exact [of "- 1" "- 1"] by (simp_all add: pow2_def)
  have d: "fmul (fl (of_int (rp_baseDelay (new_retry_provider 3 (seconds 1))))) (fl (2 ^ n)) = 1000000000 * 2 ^ n"
    using i [of "1000000000 * 2 ^ n"] i [of "2 ^ n"] i [of 1000000000]
    by (simp add: fmul_def new_retry_provider_def seconds_def)
  have fls: "\<lfloor>900000000 * 2 ^ n :: rat\<rfloor> = 900000000 * 2 ^ n" "\<lfloor>1100000000 * 2 ^ n :: rat\<rfloor> = 1100000000 * 2 ^ n"
    using floor_of_int [where 'a = rat, of "900000000 * 2 ^ n"] floor_of_int [where 'a = rat, of "1100000000 * 2 ^ n"]
    by simp_all
  show "backoff (new_retry_provider 3 (seconds 1)) n 0 = 900000000 * 2 ^ n"
    "backoff (new_retry_provider 3 (seconds 1)) n 1 = 1100000000 * 2 ^ n"
    using i [of "900000000 * 2 ^ n"] i [of "1100000000 * 2 ^ n"] i [of "100000000 * 2 ^ n"] i [of "- (100000000 * 2 ^ n)"]
    unfolding backoff_def d Let_def
    by (simp_all add: fmul_def fadd_def fsub_def h fl_fifth_of_seconds [OF assms] trunc_def fls)
qed

text \<open>With the settings of \<open>NewProvider\<close> (three retries, a base delay of one second) the wait after attempt
  0, 1 and 2 lies within a tenth of 1, 2 and 4 seconds, whatever the random number.\<close>

theorem backoff_bounds:
  assumes "new_provider name = Inr (kind, r, mk)" "attempt < nat (rp_maxRetries r)" "0 \<le> rnd" "rnd < 1"
  shows "seconds (2 ^ attempt) * 9 \<le> 10 * backoff r attempt rnd \<and>
    10 * backoff r attempt rnd \<le> seconds (2 ^ attempt) * 11"
proof -
  have r: "r = new_retry_provider 3 (seconds 1)"
    using assms(1) by (auto simp: new_provider_def Let_def split: if_splits)
  then have "attempt \<in> {0, 1, 2}" using assms(2) by (auto simp: new_retry_provider_def)
  moreover have "backoff r attempt 0 \<le> backoff r attempt rnd" "backoff r attempt rnd \<le> backoff r attempt 1"
    using assms(3,4) by (auto intro: backoff_mono simp: r new_retry_provider_def seconds_def)
  ultimately show ?thesis using backoff_ends [of attempt] unfolding r by (auto simp: seconds_def)
qed

section \<open>Examples\<close>

theorem breaker_invariant_witness:
  "let s = (cb_start 0 ''openai'' 1 (seconds 30))\<lparr>cs_breaker :=
       record_failure 0 (new_circuit_breaker ''openai'' 1 (seconds 30))\<rparr>
   in cb_step\<^sup>*\<^sup>* (cb_start 0 ''openai'' 1 (seconds 30)) s \<and> cb_state (cs_breaker s) = StateOpen \<and>
     \<not> (\<exists>s'. cb_step s s' \<and> 0 < cs_inflight s')"
proof -
  let ?b = "new_circuit_breaker ''openai'' 1 (seconds 30)"
  let ?start = "cb_start 0 ''openai'' 1 (seconds 30)"
  let ?mid = "?start\<lparr>cs_breaker := ?b, cs_inflight := Suc (cs_inflight ?start)\<rparr>"
  let ?s = "?start\<lparr>cs_breaker := record_failure 0 ?b\<rparr>"
  have "cb_step ?start ?mid"
    by (rule cb_step.admit) (simp add: cb_start_def cb_enter_def new_circuit_breaker_def)
  moreover have "cb_step ?mid ?s" using cb_step.fail [of ?mid] by (simp add: cb_start_def)
  ultimately have reach: "cb_step\<^sup>*\<^sup>* ?start ?s" by (meson converse_rtranclp_into_rtranclp rtranclp.rtrancl_refl)
  from breaker_invariant [OF reach] show ?thesis
    using reach by (simp add: cb_start_def record_failure_def new_circuit_breaker_def time_sub_def seconds_def duration_bounds)
qed

theorem breaker_trips_and_recovers_witness:
  "let cb = new_circuit_breaker ''openai'' 2 (seconds 30);
       cb' = snd (cb_calls [(0, 1, Inl PDeadlineExceeded), (2, 3, Inl PCanceled)] cb)
   in cb_state cb' = StateOpen \<and> cb_lastFailure cb' = 3 \<and>
      cb_complete 4 5 (Inl PCanceled) cb' = (Inl (cb_fallbackErr cb), cb')"
proof -
  let ?cb = "new_circuit_breaker ''openai'' 2 (seconds 30)"
  let ?cs = "[(0, 1, Inl PDeadlineExceeded), (2, 3, Inl PCanceled :: outcome)]"
  have "cb_state ?cb = StateClosed" "cb_failures ?cb = 0" "length ?cs = nat (cb_failThreshold ?cb)"
    "\<forall>c \<in> set ?cs. \<exists>err. snd (snd c) = Inl err" "cb_resetTimeout ?cb = seconds 30"
    by (simp_all add: new_circuit_breaker_def seconds_def)
  with breaker_trips_and_recovers [OF new_circuit_breaker_inv this(1-4) refl, of 4 5 "Inl PCanceled"]
  show ?thesis by (simp add: Let_def time_sub_def seconds_def duration_bounds)
qed

theorem retry_complete_spec_witness:
  "retry_complete (new_retry_provider 1 (seconds 1)) (\<lambda>i. Inl PDeadlineExceeded) (\<lambda>i. None) (\<lambda>i. 0)
     = (Inl (PWrap ''all 1 retries exhausted'' PDeadlineExceeded), 2, [900000000])"
proof -
  let ?r = "new_retry_provider 1 (seconds 1)"
  obtain out calls delays where run: "retry_complete ?r (\<lambda>i. Inl PDeadlineExceeded) (\<lambda>i. None) (\<lambda>i. 0) = (out, calls, delays)"
    by (metis surj_pair)
  have n: "nat (rp_maxRetries ?r) = 1" by (simp add: new_retry_provider_def)
  from retry_complete_spec [OF run] have "calls = 2" "out = Inl (PWrap (''all '' @ itoa 1 @ '' retries exhausted'') PDeadlineExceeded)"
    "length delays = 1" "\<forall>i < length delays. delays ! i = backoff ?r i 0"
    by (auto simp: n is_retryable_def new_retry_provider_def split: if_splits)
  moreover have "backoff ?r 0 0 = backoff (new_retry_provider 3 (seconds 1)) 0 0"
    by (simp add: backoff_def new_retry_provider_def)
  moreover have "itoa 1 = ''1''" by code_simp
  ultimately show ?thesis using run backoff_ends(1) [of 0] by (cases delays) auto
qed

theorem backoff_bounds_witness:
  "seconds 2 * 9 \<le> 10 * backoff (new_retry_provider 3 (seconds 1)) 1 (1 / 4) \<and>
   10 * backoff (new_retry_provider 3 (seconds 1)) 1 (1 / 4) \<le> seconds 2 * 11"
  using backoff_bounds [of "''openai''" OpenAI "new_retry_provider 3 (seconds 1)"
      "\<lambda>name. new_circuit_breaker name 5 (seconds 30)" 1 "1 / 4"]
  by (simp add: new_provider_def new_retry_provider_def)

end
