(* ===== verification/LlmParser.thy ===== *)
theory LlmParser
  imports Contracts
begin

text \<open>
  \<open>internal/llm/parser.go\<close>: the parser of a model's answer.  The regular expressions are written out: \<open>^\<close>
  and \<open>$\<close> are the ends of a line, \<open>\s\<close> is one of tab, line feed, form feed, carriage return and space, and
  a greedy repetition gives characters back while the rest of the expression does not match.  Slicing
  a string beyond its bounds or with crossed bounds panics: that is \<open>None\<close>.
\<close>

definition newline :: char where "newline = CHR 0x0A"

record follow_up_query =
  fu_Tool :: string
  fu_Value :: string

record llm_analysis =
  an_Summary :: string
  an_RootCause :: string
  an_Severity :: string
  an_ExitType :: string
  an_ActionRequired :: bool
  an_BugFixable :: bool
  an_Confidence :: string
  an_Recommendations :: "string list"
  an_FollowUps :: "follow_up_query list"
  an_RawResponse :: string
  an_PassCount :: nat
  an_DeepDive :: bool
  an_AIProvider :: string

section \<open>parseFields\<close>

definition field_order :: "string list" where
  "field_order = [''SUMMARY'', ''ROOT_CAUSE'', ''SEVERITY'', ''EXIT_TYPE'', ''ACTION_REQUIRED'', ''BUG_FIXABLE'',
     ''CONFIDENCE'', ''RECOMMENDATIONS'', ''FOLLOW_UP'']"

text \<open>The first position at the start of a line where \<open>pat\<close> stands; \<open>bol\<close> says whether this is a line's start.\<close>

fun find_line :: "bool \<Rightarrow> string \<Rightarrow> string \<Rightarrow> nat option" where
  "find_line bol pat [] = None"
| "find_line bol pat (c # s) =
     (if bol \<and> has_prefix (c # s) pat then Some 0 else map_option Suc (find_line (c = newline) pat s))"

record field_loc =
  fl_name :: string
  fl_start :: nat
  fl_end :: nat

definition find_field :: "string \<Rightarrow> string \<Rightarrow> field_loc option" where
  "find_field raw name =
     (let pat = name @ '':'' in
      case find_line True pat raw of
        None \<Rightarrow> None
      | Some i \<Rightarrow> Some \<lparr>fl_name = name, fl_start = i,
          fl_end = i + length pat + length (takeWhile re_space (drop (i + length pat) raw))\<rparr>)"

definition slice :: "string \<Rightarrow> nat \<Rightarrow> nat \<Rightarrow> string option" where
  "slice s a b = (if a \<le> b \<and> b \<le> length s then Some (take (b - a) (drop a s)) else None)"

fun fill_fields :: "string \<Rightarrow> field_loc list \<Rightarrow> (string \<times> string) list option" where
  "fill_fields raw [] = Some []"
| "fill_fields raw (loc # locs) =
     (let valueStart = fl_end loc;
          valueEnd = (case locs of next # _ \<Rightarrow> fl_start next | [] \<Rightarrow> length raw)
      in case slice raw valueStart valueEnd of None \<Rightarrow> None
         | Some v \<Rightarrow> map_option (\<lambda>fs. (fl_name loc, trim_space v) # fs) (fill_fields raw locs))"

definition field_locs :: "string \<Rightarrow> field_loc list" where
  "field_locs raw = List.map_filter (find_field raw) field_order"

definition parse_fields :: "string \<Rightarrow> (string \<times> string) list option" where
  "parse_fields raw = fill_fields raw (field_locs raw)"

section \<open>The lists of an answer\<close>

text \<open>\<open>(.+)$\<close> after a greedy run of white space of which \<open>k\<close> characters are taken, at least \<open>lo\<close>.\<close>

fun match_tail :: "nat \<Rightarrow> nat \<Rightarrow> string \<Rightarrow> (string \<times> nat) option" where
  "match_tail lo k s =
     (if k < lo then None
      else
        (let line = takeWhile (\<lambda>c. c \<noteq> newline) (drop k s) in
         if line \<noteq> [] then Some (line, k + length line)
         else (case k of 0 \<Rightarrow> None | Suc k' \<Rightarrow> match_tail lo k' s)))"

text \<open>\<open>^-\s+(.+)$\<close> and \<open>^-\s*(TOOL):\s*(.+)$\<close> at the start of a line: the groups and the length matched.\<close>

definition match_recommendation :: "string \<Rightarrow> (string \<times> nat) option" where
  "match_recommendation s =
     (case s of [] \<Rightarrow> None
      | c # t \<Rightarrow> if c \<noteq> CHR ''-'' then None
         else map_option (\<lambda>(g, n). (g, Suc n)) (match_tail 1 (length (takeWhile re_space t)) t))"

definition follow_up_tools :: "string list" where
  "follow_up_tools = [''TRACE_LOGS'', ''TIME_WINDOW_LOGS'', ''POD_EVENTS'', ''GITHUB_FILES'', ''LOG_QUERY'']"

definition match_follow_up :: "string \<Rightarrow> ((string \<times> string) \<times> nat) option" where
  "match_follow_up s =
     (case s of [] \<Rightarrow> None
      | c # t \<Rightarrow> if c \<noteq> CHR ''-'' then None
         else
           (let ws = length (takeWhile re_space t); u = drop ws t in
            case find (\<lambda>tool. has_prefix u (tool @ '':'')) follow_up_tools of
              None \<Rightarrow> None
            | Some tool \<Rightarrow>
                (let v = drop (length tool + 1) u in
                 map_option (\<lambda>(g, n). ((tool, g), 1 + ws + length tool + 1 + n))
                   (match_tail 0 (length (takeWhile re_space v)) v))))"

text \<open>\<open>FindAllStringSubmatch\<close>: \<open>skip\<close> characters still belong to the last match.\<close>

fun find_all :: "(string \<Rightarrow> ('a \<times> nat) option) \<Rightarrow> bool \<Rightarrow> nat \<Rightarrow> string \<Rightarrow> 'a list" where
  "find_all m bol skip [] = []"
| "find_all m bol (Suc k) (c # s) = find_all m (c = newline) k s"
| "find_all m bol 0 (c # s) =
     (case (if bol then m (c # s) else None) of
        Some (g, n) \<Rightarrow> g # find_all m (c = newline) (n - 1) s
      | None \<Rightarrow> find_all m (c = newline) 0 s)"

definition parse_follow_ups :: "string \<Rightarrow> follow_up_query list" where
  "parse_follow_ups raw =
     (case str_index raw ''FOLLOW_UP:'' of None \<Rightarrow> []
      | Some fuIdx \<Rightarrow>
          map (\<lambda>(tool, v). \<lparr>fu_Tool = trim_space tool, fu_Value = trim_space v\<rparr>)
            (find_all match_follow_up True 0 (drop fuIdx raw)))"

section \<open>Helpers\<close>

definition clean_multiline :: "string \<Rightarrow> string" where
  "clean_multiline s = str_join (map trim_space (split_char newline (trim_space s))) '' ''"

definition is_yes :: "string \<Rightarrow> bool" where
  "is_yes s = equal_fold (trim_space s) ''yes''"

definition is_follow_up_tool :: "string \<Rightarrow> bool" where
  "is_follow_up_tool s = list_ex (\<lambda>t. has_prefix (to_upper s) t)
     [''TRACE_LOGS:'', ''TIME_WINDOW_LOGS:'', ''POD_EVENTS:'', ''GITHUB_FILES:'', ''LOG_QUERY:'']"

fun contains_any :: "string \<Rightarrow> string list \<Rightarrow> bool" where
  "contains_any text [] = False"
| "contains_any text (t # ts) = (if str_contains text t then True else contains_any text ts)"

definition infer_cause_category :: "llm_analysis \<Rightarrow> cause_category" where
  "infer_cause_category a =
     (let text = to_lower (an_RootCause a @ '' '' @ an_Summary a @ '' '' @ an_ExitType a) in
      if contains_any text [''deploy'', ''rollout'', ''release'', ''rollback'', ''version''] then CauseDeploy
      else if contains_any text [''memory'', ''oom'', ''heap'', ''out of memory'', ''resource limit'', ''evict''] then CauseCapacity
      else if contains_any text [''infra'', ''node'', ''scheduling'', ''disk'', ''network partition'', ''hardware''] then CauseInfra
      else if contains_any text [''config'', ''environment variable'', ''misconfigur'', ''secret'', ''flag''] then CauseConfig
      else if contains_any text [''dependency'', ''upstream'', ''downstream'', ''timeout'', ''connection refused'', ''dns''] then CauseDependency
      else if contains_any text [''noise'', ''flap'', ''transient'', ''false positive'', ''auto-resolved''] then CauseNoise
      else if contains_any text [''code'', ''bug'', ''function'', ''nil pointer'', ''panic'', ''exception'', ''stack trace''] then CauseCode
      else CauseCode)"

definition map_confidence :: "string \<Rightarrow> f64" where
  "map_confidence level =
     (let l = trim_space (to_lower level) in
      if l = ''high'' then fl (85 / 100)
      else if l = ''medium'' then fl (65 / 100)
      else if l = ''low'' then fl (4 / 10)
      else 1 / 2)"

definition field :: "(string \<times> string) list \<Rightarrow> string \<Rightarrow> string" where
  "field flds name = (case map_of flds name of None \<Rightarrow> [] | Some v \<Rightarrow> v)"

definition parse_recommendations :: "string \<Rightarrow> string list" where
  "parse_recommendations recBlock =
     filter (\<lambda>text. text \<noteq> [] \<and> \<not> is_follow_up_tool text)
       (map trim_space (find_all match_recommendation True 0 recBlock))"

definition parse_analysis :: "string \<Rightarrow> llm_analysis option" where
  "parse_analysis raw =
     (case parse_fields raw of None \<Rightarrow> None
      | Some flds \<Rightarrow> Some
         \<lparr>an_Summary = clean_multiline (field flds ''SUMMARY''),
          an_RootCause = clean_multiline (field flds ''ROOT_CAUSE''),
          an_Severity = to_lower (trim_space (field flds ''SEVERITY'')),
          an_ExitType = to_lower (trim_space (field flds ''EXIT_TYPE'')),
          an_ActionRequired = is_yes (field flds ''ACTION_REQUIRED''),
          an_BugFixable = is_yes (field flds ''BUG_FIXABLE''),
          an_Confidence = to_lower (trim_space (field flds ''CONFIDENCE'')),
          an_Recommendations = (case map_of flds ''RECOMMENDATIONS'' of None \<Rightarrow> []
             | Some recBlock \<Rightarrow> parse_recommendations recBlock),
          an_FollowUps = parse_follow_ups raw,
          an_RawResponse = raw, an_PassCount = 0, an_DeepDive = False, an_AIProvider = []\<rparr>)"

definition map_to_hypotheses :: "llm_analysis \<Rightarrow> evidence list \<Rightarrow> hypothesis list" where
  "map_to_hypotheses analysis evs =
     (let supporting = map ev_ID evs;
          fixes = map (\<lambda>(i, rec). \<lparr>sf_Title = ''Step '' @ itoa (int i + 1), sf_Description = rec,
            sf_RunbookURL = [], sf_ActionRef = [], sf_SafeByDefault = False\<rparr>)
            (enumerate 0 (an_Recommendations analysis))
      in [\<lparr>hy_ID = [], hy_Title = an_Summary analysis, hy_Narrative = an_RootCause analysis,
           hy_CauseCategory = infer_cause_category analysis,
           hy_Confidence = map_confidence (an_Confidence analysis),
           hy_Supporting = supporting, hy_Contradicting = [], hy_SuggestedFixes = fixes\<rparr>])"

section \<open>Answers in the required format\<close>

text \<open>The text of a list of fields, each with a body of any number of lines.\<close>

definition field_line :: "string \<times> string \<Rightarrow> string" where
  "field_line = (\<lambda>(n, b). n @ '':'' @ b @ [newline])"

definition render_fields :: "(string \<times> string) list \<Rightarrow> string" where
  "render_fields fs = concat (map field_line fs)"

text \<open>No line of the body, after its first, starts like a field.\<close>

definition safe_body :: "string \<Rightarrow> bool" where
  "safe_body b = list_all (\<lambda>f. find_line False (f @ '':'') (b @ [newline]) = None) field_order"

fun locs_from :: "nat \<Rightarrow> (string \<times> string) list \<Rightarrow> field_loc list" where
  "locs_from k [] = []"
| "locs_from k ((n, b) # fs) =
     \<lparr>fl_name = n, fl_start = k, fl_end = k + length n + 1 + length (takeWhile re_space (b @ [newline]))\<rparr>
       # locs_from (k + length (field_line (n, b))) fs"

lemma field_names:
  "n \<in> set field_order \<Longrightarrow> n \<noteq> [] \<and> CHR '':'' \<notin> set n \<and> newline \<notin> set n \<and> \<not> re_space (hd n)"
  by (auto simp: field_order_def newline_def re_space_def)

lemma distinct_field_order: "distinct field_order"
  by (simp add: field_order_def)

lemma prefix_before_newline:
  "newline \<notin> set pat \<Longrightarrow> prefix pat (u @ newline # y) \<longleftrightarrow> prefix pat u"
proof (induction u arbitrary: pat)
  case Nil
  then show ?case by (cases pat) auto
next
  case (Cons a u)
  then show ?case by (cases pat) auto
qed

lemma find_line_append:
  assumes "newline \<notin> set pat" "pat \<noteq> []"
  shows "find_line bol pat (x @ newline # y) =
    (case find_line bol pat (x @ [newline]) of Some i \<Rightarrow> Some i
     | None \<Rightarrow> map_option (\<lambda>i. length x + 1 + i) (find_line True pat y))"
proof (induction x arbitrary: bol)
  case Nil
  have "\<not> prefix pat (newline # z)" for z using assms by (cases pat) auto
  then show ?case by (cases "find_line True pat y") (simp_all add: has_prefix_def)
next
  case (Cons c x)
  have "prefix pat (c # x @ newline # y) \<longleftrightarrow> prefix pat (c # x @ [newline])"
    using prefix_before_newline [OF assms(1), of "c # x" y] prefix_before_newline [OF assms(1), of "c # x" "[]"]
    by simp
  with Cons [of "c = newline"] show ?case
    by (cases "find_line True pat y") (auto simp: has_prefix_def split: option.splits)
qed

lemma find_line_inside:
  "newline \<notin> set u \<Longrightarrow> find_line False pat (u @ v) = map_option (\<lambda>i. length u + i) (find_line False pat v)"
  by (induction u; cases "find_line False pat v") auto

lemma prefix_colon:
  "CHR '':'' \<notin> set f \<Longrightarrow> CHR '':'' \<notin> set n \<Longrightarrow> prefix (f @ '':'') (n @ '':'' @ v) \<longleftrightarrow> f = n"
proof (induction f arbitrary: n)
  case Nil
  then show ?case by (cases n) auto
next
  case (Cons a f)
  then show ?case by (cases n) auto
qed

lemma find_line_field_line:
  assumes "f \<in> set field_order" "n \<in> set field_order" "safe_body b"
  shows "find_line True (f @ '':'') (n @ '':'' @ b @ [newline]) = (if f = n then Some 0 else None)"
proof -
  obtain c n' where n: "n = c # n'" using field_names [OF assms(2)] by (cases n) auto
  have names: "newline \<notin> set n'" "c \<noteq> newline" using field_names [OF assms(2)] n by auto
  have head: "has_prefix (n @ '':'' @ b @ [newline]) (f @ '':'') \<longleftrightarrow> f = n"
    unfolding has_prefix_def using field_names [OF assms(1)] field_names [OF assms(2)] by (intro prefix_colon) auto
  have "find_line False (f @ '':'') (b @ [newline]) = None"
    using assms(1,3) by (simp add: safe_body_def list_all_iff)
  then have "find_line False (f @ '':'') ((n' @ '':'') @ b @ [newline]) = None"
    using names by (subst find_line_inside) (auto simp: newline_def)
  with head names show ?thesis by (simp add: n)
qed

lemma find_line_render:
  assumes "f \<in> set field_order"
  shows "\<forall>(n, b) \<in> set fs. n \<in> set field_order \<and> safe_body b \<Longrightarrow>
    map_option (\<lambda>i. k + i) (find_line True (f @ '':'') (render_fields fs)) =
    map_option fl_start (find (\<lambda>l. fl_name l = f) (locs_from k fs))"
proof (induction fs arbitrary: k)
  case Nil
  then show ?case by (simp add: render_fields_def)
next
  case (Cons x fs)
  obtain n b where x: "x = (n, b)" by (cases x)
  have nb: "n \<in> set field_order" "safe_body b" using Cons.prems x by auto
  have pat: "newline \<notin> set (f @ '':'')" "f @ '':'' \<noteq> []"
    using field_names [OF assms] by (auto simp: newline_def)
  have "render_fields (x # fs) = (n @ '':'' @ b) @ newline # render_fields fs"
    by (simp add: x render_fields_def field_line_def)
  then have "find_line True (f @ '':'') (render_fields (x # fs)) =
      (if f = n then Some 0 else map_option (\<lambda>i. length (field_line (n, b)) + i) (find_line True (f @ '':'') (render_fields fs)))"
    using find_line_append [OF pat, of True "n @ '':'' @ b" "render_fields fs"] find_line_field_line [OF assms nb]
    by (cases "find_line True (f @ '':'') (render_fields fs)") (simp_all add: field_line_def)
  moreover have "map_option (\<lambda>i. k + length (field_line (n, b)) + i) (find_line True (f @ '':'') (render_fields fs)) =
      map_option fl_start (find (\<lambda>l. fl_name l = f) (locs_from (k + length (field_line (n, b))) fs))"
    using Cons.prems by (intro Cons.IH) auto
  ultimately show ?case by (auto simp: x option.map_comp comp_def add.assoc)
qed

lemma re_space_is_space: "re_space c \<Longrightarrow> is_space c"
  by (auto simp: re_space_def is_space_def Let_def)

lemma takeWhile_stop:
  "(y = [] \<or> \<not> P (hd y)) \<Longrightarrow> takeWhile P (x @ y) = takeWhile P x"
  by (induction x) (auto, cases y, auto)

lemma render_head: "\<forall>(n, b) \<in> set fs. n \<in> set field_order \<and> safe_body b \<Longrightarrow>
    render_fields fs = [] \<or> \<not> re_space (hd (render_fields fs))"
  using field_names by (cases fs) (auto simp: render_fields_def field_line_def hd_append)

lemma locs_from_end:
  "raw = pre @ render_fields fs \<Longrightarrow> \<forall>(n, b) \<in> set fs. n \<in> set field_order \<and> safe_body b \<Longrightarrow>
   l \<in> set (locs_from (length pre) fs) \<Longrightarrow>
   fl_end l = fl_start l + length (fl_name l @ '':'') +
     length (takeWhile re_space (drop (fl_start l + length (fl_name l @ '':'')) raw))"
proof (induction fs arbitrary: pre)
  case (Cons x fs)
  obtain n b where x: "x = (n, b)" by (cases x)
  have raw: "raw = (pre @ field_line (n, b)) @ render_fields fs"
    using Cons.prems(1) by (simp add: x render_fields_def)
  from Cons.prems(3) consider "l = hd (locs_from (length pre) (x # fs))"
    | "l \<in> set (locs_from (length (pre @ field_line (n, b))) fs)"
    by (auto simp: x)
  then show ?case
  proof cases
    case 1
    have "takeWhile re_space ((b @ [newline]) @ render_fields fs) = takeWhile re_space (b @ [newline])"
      using render_head [of fs] Cons.prems(2) by (intro takeWhile_stop) auto
    then show ?thesis using 1 by (simp add: x raw field_line_def)
  next
    case 2
    then show ?thesis using Cons.IH [OF raw] Cons.prems(2) by auto
  qed
qed simp

lemma find_field_render:
  assumes "f \<in> set field_order" "\<forall>(n, b) \<in> set fs. n \<in> set field_order \<and> safe_body b"
  shows "find_field (render_fields fs) f = find (\<lambda>l. fl_name l = f) (locs_from 0 fs)"
proof (cases "find (\<lambda>l. fl_name l = f) (locs_from 0 fs)")
  case None
  then show ?thesis
    using find_line_render [OF assms, of 0] by (simp add: find_field_def Let_def option.map_ident)
next
  case (Some l)
  then have l: "l \<in> set (locs_from 0 fs)" "fl_name l = f" by (auto simp: find_Some_iff in_set_conv_nth)
  have "fl_end l = fl_start l + length (fl_name l @ '':'') +
     length (takeWhile re_space (drop (fl_start l + length (fl_name l @ '':'')) (render_fields fs)))"
    using locs_from_end [of "render_fields fs" "[]" fs l] l assms(2) by simp
  then show ?thesis
    using find_line_render [OF assms, of 0] Some l by (simp add: find_field_def Let_def option.map_ident)
qed

lemma map_filter_agree: "(\<And>x. x \<in> set xs \<Longrightarrow> g x = h x) \<Longrightarrow> List.map_filter g xs = List.map_filter h xs"
  by (induction xs) (auto simp: List.map_filter_simps split: option.split)

lemma subseq_set: "subseq xs ys \<Longrightarrow> set xs \<subseteq> set ys"
  by (induction rule: list_emb.induct) auto

lemma map_filter_find:
  "subseq (map nm ls) order \<Longrightarrow> distinct order \<Longrightarrow>
   List.map_filter (\<lambda>f. find (\<lambda>l. nm l = f) ls) order = ls"
proof (induction order arbitrary: ls)
  case Nil
  then show ?case by (cases ls) (simp_all add: List.map_filter_simps)
next
  case (Cons f order)
  show ?case
  proof (cases "\<exists>l ls'. ls = l # ls' \<and> nm l = f")
    case True
    then obtain l ls' where l: "ls = l # ls'" "nm l = f" by blast
    with Cons.prems have "List.map_filter (\<lambda>f. find (\<lambda>l. nm l = f) ls') order = ls'" by (intro Cons.IH) auto
    moreover have "List.map_filter (\<lambda>f. find (\<lambda>l. nm l = f) ls) order =
        List.map_filter (\<lambda>f. find (\<lambda>l. nm l = f) ls') order"
      using l Cons.prems(2) by (intro map_filter_agree) auto
    ultimately show ?thesis using l by (simp add: List.map_filter_simps)
  next
    case False
    then have sub: "subseq (map nm ls) order" using Cons.prems(1) by (cases ls) (auto split: if_splits)
    then have "f \<notin> nm ` set ls" using Cons.prems(2) subseq_set [of "map nm ls" order] by auto
    then have "find (\<lambda>l. nm l = f) ls = None" by (auto simp: find_None_iff)
    then show ?thesis using Cons.IH [OF sub] Cons.prems(2) by (simp add: List.map_filter_simps)
  qed
qed

lemma locs_from_names: "map fl_name (locs_from k fs) = map fst fs"
  by (induction k fs rule: locs_from.induct) auto

lemma dropWhile_trim: "dropWhile is_space (dropWhile re_space s) = dropWhile is_space s"
  by (induction s) (auto dest: re_space_is_space)

lemma trim_space_body: "trim_space (dropWhile re_space (b @ [newline])) = trim_space b"
proof -
  have nl: "is_space newline" by (simp add: is_space_def newline_def Let_def)
  show ?thesis
  proof (cases "\<forall>c \<in> set b. is_space c")
    case True
    then have "dropWhile is_space (b @ [newline]) = []" "dropWhile is_space b = []" using nl by auto
    then show ?thesis by (simp add: trim_space_def dropWhile_trim del: dropWhile_eq_Nil_conv)
  next
    case False
    then have "dropWhile is_space (b @ [newline]) = dropWhile is_space b @ [newline]"
      by (auto simp: dropWhile_append)
    then show ?thesis using nl by (simp add: trim_space_def dropWhile_trim)
  qed
qed

lemma fill_fields_render:
  "raw = pre @ render_fields fs \<Longrightarrow>
   fill_fields raw (locs_from (length pre) fs) = Some (map (\<lambda>(n, b). (n, trim_space b)) fs)"
proof (induction fs arbitrary: pre)
  case (Cons x fs)
  obtain n b where x: "x = (n, b)" by (cases x)
  let ?pre = "pre @ field_line (n, b)" and ?w = "length (takeWhile re_space (b @ [newline]))"
  have raw: "raw = ?pre @ render_fields fs" using Cons.prems by (simp add: x render_fields_def)
  have rec: "fill_fields raw (locs_from (length ?pre) fs) = Some (map (\<lambda>(n, b). (n, trim_space b)) fs)"
    using raw by (rule Cons.IH)
  have stop: "(case locs_from (length ?pre) fs of next # _ \<Rightarrow> fl_start next | [] \<Rightarrow> length raw) = length ?pre"
    using raw by (cases fs) (auto simp: render_fields_def)
  have w: "?w \<le> length (b @ [newline])" by (rule length_takeWhile_le)
  have cut: "slice (A @ B @ C) (length A + j) (length (A @ B)) = Some (drop j B)"
    if "j \<le> length B" for A B C :: string and j
    using that by (simp add: slice_def)
  have "raw = (pre @ n @ '':'') @ (b @ [newline]) @ render_fields fs" "?pre = (pre @ n @ '':'') @ (b @ [newline])"
    by (simp_all add: raw field_line_def)
  then have "slice raw (length pre + length n + 1 + ?w) (length ?pre) = Some (dropWhile re_space (b @ [newline]))"
    using cut [OF w, of "pre @ n @ '':''" "render_fields fs"] by (simp add: dropWhile_eq_drop)
  then show ?case using rec stop by (simp add: x trim_space_body)
qed simp

text \<open>C26: An answer that has some of the nine fields in the order the prompt asks for, none of whose
  bodies has a later line that starts like a field, is split into exactly these fields, each with its body trimmed:
  parsing undoes printing, for bodies of any number of lines.\<close>

theorem parse_fields_roundtrip:
  assumes "subseq (map fst fs) field_order" "\<forall>b \<in> set (map snd fs). safe_body b"
  shows "parse_fields (render_fields fs) = Some (map (\<lambda>(n, b). (n, trim_space b)) fs)"
proof -
  have ok: "\<forall>(n, b) \<in> set fs. n \<in> set field_order \<and> safe_body b"
    using assms subseq_set [of "map fst fs" field_order] by force
  have "field_locs (render_fields fs) = List.map_filter (\<lambda>f. find (\<lambda>l. fl_name l = f) (locs_from 0 fs)) field_order"
    unfolding field_locs_def by (intro map_filter_agree find_field_render ok)
  also have "\<dots> = locs_from 0 fs"
    using assms(1) distinct_field_order by (intro map_filter_find) (simp_all add: locs_from_names)
  finally show ?thesis
    using fill_fields_render [of "render_fields fs" "[]" fs] by (simp add: parse_fields_def)
qed

section \<open>Answers out of order\<close>

lemma fill_fields_panics:
  "\<forall>l \<in> set locs. fl_start l \<le> length raw \<and> fl_end l \<le> length raw \<Longrightarrow>
   fill_fields raw locs = None \<longleftrightarrow> (\<exists>i. Suc i < length locs \<and> fl_start (locs ! Suc i) < fl_end (locs ! i))"
proof (induction locs)
  case (Cons l locs)
  have rec: "fill_fields raw locs = None \<longleftrightarrow> (\<exists>i. Suc i < length locs \<and> fl_start (locs ! Suc i) < fl_end (locs ! i))"
    using Cons by simp
  have split: "(\<exists>i. Suc i < length (l # locs) \<and> fl_start ((l # locs) ! Suc i) < fl_end ((l # locs) ! i)) \<longleftrightarrow>
      (locs \<noteq> [] \<and> fl_start (locs ! 0) < fl_end l) \<or>
      (\<exists>i. Suc i < length locs \<and> fl_start (locs ! Suc i) < fl_end (locs ! i))"
  proof -
    have ex: "(\<exists>i. Q i) \<longleftrightarrow> Q 0 \<or> (\<exists>i. Q (Suc i))" for Q :: "nat \<Rightarrow> bool"
      by (metis not0_implies_Suc)
    show ?thesis by (subst ex) simp
  qed
  show ?case unfolding split
    using Cons.prems rec by (cases locs) (auto simp: slice_def Let_def)
qed simp

lemma find_line_bound: "find_line bol pat s = Some i \<Longrightarrow> i + length pat \<le> length s"
proof (induction s arbitrary: bol i)
  case (Cons c s)
  then show ?case by (fastforce simp: has_prefix_def split: if_splits dest: prefix_length_le)
qed simp

lemma field_locs_bounds: "l \<in> set (field_locs raw) \<Longrightarrow> fl_start l \<le> length raw \<and> fl_end l \<le> length raw"
proof -
  assume "l \<in> set (field_locs raw)"
  then obtain f where "find_field raw f = Some l" by (auto simp: field_locs_def List.map_filter_def)
  then obtain i where i: "find_line True (f @ '':'') raw = Some i" "fl_start l = i"
    "fl_end l = i + length (f @ '':'') + length (takeWhile re_space (drop (i + length (f @ '':'')) raw))"
    by (auto simp: find_field_def Let_def split: option.splits)
  have "i + length (f @ '':'') \<le> length raw" using find_line_bound [OF i(1)] .
  moreover have "length (takeWhile re_space (drop (i + length (f @ '':'')) raw)) \<le> length raw - (i + length (f @ '':''))"
    by (metis length_drop length_takeWhile_le)
  ultimately show ?thesis using i(2,3) by linarith
qed

text \<open>C31: Parsing an answer panics exactly when two fields that follow each other in the required order, among
  those the answer has, stand in the answer the other way round (or overlap): the values are cut between the
  heads in the required order, not in the order of the text.\<close>

theorem parse_analysis_panics:
  "parse_analysis raw = None \<longleftrightarrow>
     (\<exists>i. Suc i < length (field_locs raw) \<and> fl_start (field_locs raw ! Suc i) < fl_end (field_locs raw ! i))"
  using fill_fields_panics [of "field_locs raw" raw] field_locs_bounds
  by (auto simp: parse_analysis_def parse_fields_def split: option.splits)

text \<open>An answer that states its confidence before its summary is one.\<close>

lemma parse_analysis_out_of_order:
  "parse_analysis (''CONFIDENCE: high'' @ [newline] @ ''SUMMARY: a deployment'') = None"
  by code_simp

lemma map_confidence_range: "0 \<le> map_confidence l \<and> map_confidence l \<le> fl (85 / 100)"
proof -
  have "fl (65 / 100) \<le> fl (85 / 100)" "fl (4 / 10) \<le> fl (85 / 100)" by (rule fl_mono; simp)+
  moreover have "1 / 2 \<le> fl (85 / 100)"
    using fl_mono [of "1 / 2" "85 / 100"] fl_exact [of 1 "- 1"] by (simp add: pow2_def)
  ultimately show ?thesis by (simp add: map_confidence_def Let_def fl_nonneg)
qed

theorem parse_fields_roundtrip_witness:
  "parse_fields (render_fields [(''SUMMARY'', '' disk full ''), (''RECOMMENDATIONS'', newline # ''- clean up'')]) =
     Some [(''SUMMARY'', ''disk full''), (''RECOMMENDATIONS'', ''- clean up'')]"
proof -
  let ?fs = "[(''SUMMARY'', '' disk full ''), (''RECOMMENDATIONS'', newline # ''- clean up'')]"
  have "subseq (map fst ?fs) field_order" "\<forall>b \<in> set (map snd ?fs). safe_body b"
    "map (\<lambda>(n, b). (n, trim_space b)) ?fs = [(''SUMMARY'', ''disk full''), (''RECOMMENDATIONS'', ''- clean up'')]"
    by code_simp+
  then show ?thesis using parse_fields_roundtrip [of ?fs] by simp
qed

end
