(* ===== verification/LlmFollowup.thy ===== *)
theory LlmFollowup
  imports LlmParser LlmPrompt
begin

text \<open>
  \<open>internal/llm/followup.go\<close>: the further data a model may ask for.  The collectors, the git provider, the
  clock and \<open>time.Parse\<close> are arguments (\<open>fe_collect n\<close> is the answer to the \<open>n\<close>-th collection).  The
  alert is copied into every request but its label map is shared: a label written for one request is
  still there in the next ones, and writing to a nil map panics (\<open>None\<close>).
\<close>

record followup_env =
  fe_collect :: "nat \<Rightarrow> collect_request \<Rightarrow> go_error + evidence list"
  fe_clock :: "nat \<Rightarrow> gotime"
  fe_parse_time :: "string \<Rightarrow> gotime option"
  fe_git :: "((string \<Rightarrow> string option) \<times> (string \<Rightarrow> string list \<Rightarrow> go_error + (string \<times> string) list)) option"

record followup_state =
  fs_labels :: gomap
  fs_deep :: deep_evidence
  fs_reads :: nat
  fs_requests :: "collect_request list"
  fs_fetches :: "(string \<times> string list) list"

definition fs_now :: "followup_env \<Rightarrow> followup_state \<Rightarrow> gotime \<times> followup_state" where
  "fs_now env s = (fe_clock env (fs_reads s), s\<lparr>fs_reads := Suc (fs_reads s)\<rparr>)"

definition collect_all :: "followup_env \<Rightarrow> collect_request \<Rightarrow> followup_state \<Rightarrow> (go_error + evidence list) \<times> followup_state" where
  "collect_all env req s = (fe_collect env (length (fs_requests s)) req, s\<lparr>fs_requests := fs_requests s @ [req]\<rparr>)"

definition followup_request :: "normalized_alert \<Rightarrow> gomap \<Rightarrow> target_ref list \<Rightarrow> gotime \<Rightarrow> gotime \<Rightarrow> collect_request" where
  "followup_request alert labels targets from to = \<lparr>cr_InvestigationID = ''followup'',
     cr_Alert = alert\<lparr>al_Labels := labels\<rparr>, cr_Targets = targets, cr_TimeFrom = from, cr_TimeTo = to\<rparr>"

text \<open>The summaries of the evidence of some kinds, a line feed after each.\<close>

definition summaries :: "(evidence_kind \<Rightarrow> bool) \<Rightarrow> evidence list \<Rightarrow> string" where
  "summaries P evs = concat (map (\<lambda>e. if P (ev_Kind e) then ev_Summary e @ nl else []) evs)"

definition parse_csv :: "string \<Rightarrow> string list" where
  "parse_csv value = filter (\<lambda>p. p \<noteq> []) (map trim_space (split_char (CHR '','') value))"

section \<open>The tools\<close>

definition trace_log_one :: "followup_env \<Rightarrow> normalized_alert \<Rightarrow> target_ref list \<Rightarrow> string \<Rightarrow>
    followup_state \<Rightarrow> followup_state option" where
  "trace_log_one env alert targets tid s =
     (let traceID = trim_space tid in
      if traceID = [] then Some s
      else
        (let (now, s) = fs_now env s in
         case mput (fs_labels s) ''trace_id'' traceID of
           None \<Rightarrow> None
         | Some labels \<Rightarrow>
           (let s = s\<lparr>fs_labels := labels\<rparr>;
                req = followup_request alert labels targets (time_add (al_StartsAt alert) (- minutes 30)) now;
                (res, s) = collect_all env req s
            in case res of
                 Inl err \<Rightarrow> Some s
               | Inr evs \<Rightarrow>
                 (let content = summaries (\<lambda>k. k = EvidenceLog) evs in
                  Some (if length content > 0
                        then s\<lparr>fs_deep := (fs_deep s)\<lparr>de_TraceLogs := mset_entry (de_TraceLogs (fs_deep s)) traceID content\<rparr>\<rparr>
                        else s)))))"

fun trace_logs_loop :: "followup_env \<Rightarrow> normalized_alert \<Rightarrow> target_ref list \<Rightarrow> string list \<Rightarrow>
    followup_state \<Rightarrow> followup_state option" where
  "trace_logs_loop env alert targets [] s = Some s"
| "trace_logs_loop env alert targets (tid # ids) s =
     (case trace_log_one env alert targets tid s of None \<Rightarrow> None
      | Some s \<Rightarrow> trace_logs_loop env alert targets ids s)"

definition execute_trace_logs :: "followup_env \<Rightarrow> follow_up_query \<Rightarrow> normalized_alert \<Rightarrow> target_ref list \<Rightarrow>
    followup_state \<Rightarrow> followup_state option" where
  "execute_trace_logs env fu alert targets s = trace_logs_loop env alert targets (parse_csv (fu_Value fu)) s"

definition parse_time_window :: "followup_env \<Rightarrow> string \<Rightarrow> followup_state \<Rightarrow> (gotime \<times> gotime) \<times> followup_state" where
  "parse_time_window env value s =
     (case str_index value ''/'' of
        None \<Rightarrow> (let (now, s) = fs_now env s in ((time_add now (- minutes 30), now), s))
      | Some i \<Rightarrow>
        (case fe_parse_time env (trim_space (take i value)) of
           None \<Rightarrow> (let (now, s) = fs_now env s in ((time_add now (- minutes 30), now), s))
         | Some timeFrom \<Rightarrow>
           (case fe_parse_time env (trim_space (drop (Suc i) value)) of
              None \<Rightarrow> (let (now, s) = fs_now env s in ((timeFrom, now), s))
            | Some timeTo \<Rightarrow> ((timeFrom, timeTo), s))))"

definition execute_time_window_logs :: "followup_env \<Rightarrow> follow_up_query \<Rightarrow> normalized_alert \<Rightarrow> target_ref list \<Rightarrow>
    followup_state \<Rightarrow> followup_state" where
  "execute_time_window_logs env fu alert targets s =
     (let ((timeFrom, timeTo), s) = parse_time_window env (fu_Value fu) s;
          (res, s) = collect_all env (followup_request alert (fs_labels s) targets timeFrom timeTo) s
      in case res of Inl err \<Rightarrow> s
         | Inr evs \<Rightarrow> s\<lparr>fs_deep := (fs_deep s)\<lparr>de_ExtraLogs := summaries (\<lambda>k. k = EvidenceLog) evs\<rparr>\<rparr>)"

definition execute_pod_events :: "followup_env \<Rightarrow> normalized_alert \<Rightarrow> target_ref list \<Rightarrow> followup_state \<Rightarrow> followup_state" where
  "execute_pod_events env alert targets s =
     (let (now1, s) = fs_now env s;
          (now2, s) = fs_now env s;
          (res, s) = collect_all env (followup_request alert (fs_labels s) targets (time_add now1 (- hours 1)) now2) s
      in case res of Inl err \<Rightarrow> s
         | Inr evs \<Rightarrow> s\<lparr>fs_deep := (fs_deep s)\<lparr>de_ExtraPodEvents :=
             summaries (\<lambda>k. k = EvidenceEvent \<or> k = EvidenceK8sState) evs\<rparr>\<rparr>)"

fun resolve_workload :: "string list \<Rightarrow> normalized_alert \<Rightarrow> gomap \<Rightarrow> string" where
  "resolve_workload [] alert labels = ''unknown-'' @ al_ID alert"
| "resolve_workload (key # keys) alert labels =
     (case mlookup labels key of
        Some v \<Rightarrow> if v \<noteq> [] then v else resolve_workload keys alert labels
      | None \<Rightarrow> resolve_workload keys alert labels)"

definition workload_keys :: "string list" where
  "workload_keys = [''service'', ''app'', ''workload'', ''deployment'']"

definition safe_path :: "string \<Rightarrow> bool" where
  "safe_path p = (\<not> (p = [] \<or> str_contains p ''..'' \<or> has_prefix p ''/''))"

definition execute_github_files :: "followup_env \<Rightarrow> follow_up_query \<Rightarrow> normalized_alert \<Rightarrow> followup_state \<Rightarrow> followup_state" where
  "execute_github_files env fu alert s =
     (case fe_git env of
        None \<Rightarrow> s
      | Some (resolve_repo, fetch_files) \<Rightarrow>
        (let paths = filter safe_path (map trim_space (parse_csv (fu_Value fu)));
             workload = resolve_workload workload_keys alert (fs_labels s)
         in case resolve_repo workload of
              None \<Rightarrow> s
            | Some repo \<Rightarrow>
              (let s = s\<lparr>fs_fetches := fs_fetches s @ [(repo, paths)]\<rparr> in
               case fetch_files repo paths of
                 Inl err \<Rightarrow> s
               | Inr files \<Rightarrow>
                   s\<lparr>fs_deep := (fs_deep s)\<lparr>de_ExtraSourceFiles :=
                     foldl (\<lambda>m (path, content). mset_entry m path content) (de_ExtraSourceFiles (fs_deep s)) files\<rparr>\<rparr>)))"

definition execute_log_query :: "followup_env \<Rightarrow> follow_up_query \<Rightarrow> normalized_alert \<Rightarrow> target_ref list \<Rightarrow>
    followup_state \<Rightarrow> followup_state option" where
  "execute_log_query env fu alert targets s =
     (let (now, s) = fs_now env s in
      case mput (fs_labels s) ''custom_query'' (fu_Value fu) of
        None \<Rightarrow> None
      | Some labels \<Rightarrow>
        (let s = s\<lparr>fs_labels := labels\<rparr>;
             req = followup_request alert labels targets (time_add (al_StartsAt alert) (- minutes 30)) now;
             (res, s) = collect_all env req s
         in case res of
              Inl err \<Rightarrow> Some s
            | Inr evs \<Rightarrow>
              (let queryResult = summaries (\<lambda>k. k = EvidenceLog) evs in
               Some (if length queryResult > 0
                     then s\<lparr>fs_deep := (fs_deep s)\<lparr>de_CustomQueryResults := queryResult\<rparr>\<rparr> else s))))"

definition execute_one :: "followup_env \<Rightarrow> normalized_alert \<Rightarrow> target_ref list \<Rightarrow> follow_up_query \<Rightarrow>
    followup_state \<Rightarrow> followup_state option" where
  "execute_one env alert targets fu s =
     (let tool = to_upper (fu_Tool fu) in
      if tool = ''TRACE_LOGS'' then execute_trace_logs env fu alert targets s
      else if tool = ''TIME_WINDOW_LOGS'' then Some (execute_time_window_logs env fu alert targets s)
      else if tool = ''POD_EVENTS'' then Some (execute_pod_events env alert targets s)
      else if tool = ''GITHUB_FILES'' then Some (execute_github_files env fu alert s)
      else if tool = ''LOG_QUERY'' then execute_log_query env fu alert targets s
      else Some s)"

fun execute_loop :: "followup_env \<Rightarrow> normalized_alert \<Rightarrow> target_ref list \<Rightarrow> follow_up_query list \<Rightarrow>
    followup_state \<Rightarrow> followup_state option" where
  "execute_loop env alert targets [] s = Some s"
| "execute_loop env alert targets (fu # fus) s =
     (case execute_one env alert targets fu s of None \<Rightarrow> None | Some s \<Rightarrow> execute_loop env alert targets fus s)"

definition deep_evidence0 :: deep_evidence where
  "deep_evidence0 = \<lparr>de_TraceLogs = mmake, de_ExtraLogs = [], de_ExtraPodEvents = [], de_ExtraSourceFiles = mmake,
     de_CustomQueryResults = [], de_DeploymentEvidence = []\<rparr>"

text \<open>\<open>Execute\<close> never returns an error: the result is the evidence.\<close>

definition execute :: "followup_env \<Rightarrow> follow_up_query list \<Rightarrow> normalized_alert \<Rightarrow> target_ref list \<Rightarrow>
    followup_state \<Rightarrow> followup_state option" where
  "execute env followUps alert targets s =
     execute_loop env alert targets followUps (s\<lparr>fs_deep := deep_evidence0\<rparr>)"

section \<open>Lemmas\<close>

lemmas followup_defs = execute_one_def execute_trace_logs_def execute_time_window_logs_def execute_pod_events_def
  execute_github_files_def execute_log_query_def fs_now_def collect_all_def parse_time_window_def Let_def

lemma parse_time_window_frame [simp]:
  "fs_fetches (snd (parse_time_window env v s)) = fs_fetches s"
  "fs_labels (snd (parse_time_window env v s)) = fs_labels s"
  by (simp_all add: parse_time_window_def fs_now_def Let_def split: option.split)

lemma time_window_frame [simp]:
  "fs_fetches (execute_time_window_logs env fu alert targets s) = fs_fetches s"
  "fs_labels (execute_time_window_logs env fu alert targets s) = fs_labels s"
  by (simp_all add: execute_time_window_logs_def collect_all_def Let_def split_beta split: sum.split)

lemma pod_events_frame [simp]:
  "fs_fetches (execute_pod_events env alert targets s) = fs_fetches s"
  "fs_labels (execute_pod_events env alert targets s) = fs_labels s"
  by (simp_all add: execute_pod_events_def fs_now_def collect_all_def Let_def split_beta split: sum.split)

lemma github_labels [simp]: "fs_labels (execute_github_files env fu alert s) = fs_labels s"
  by (simp add: execute_github_files_def Let_def split: option.split sum.split prod.split)

lemma log_query_frame: "execute_log_query env fu alert targets s = Some s' \<Longrightarrow> fs_fetches s' = fs_fetches s"
  by (auto simp: execute_log_query_def fs_now_def collect_all_def Let_def split: option.splits sum.splits if_splits)

lemma trace_log_one_frame: "trace_log_one env alert targets tid s = Some s' \<Longrightarrow> fs_fetches s' = fs_fetches s"
  by (auto simp: trace_log_one_def fs_now_def collect_all_def Let_def split: option.splits sum.splits if_splits)

lemma trace_logs_fetches:
  "trace_logs_loop env alert targets ids s = Some s' \<Longrightarrow> fs_fetches s' = fs_fetches s"
  by (induction ids arbitrary: s) (auto dest: trace_log_one_frame split: option.splits)

text \<open>Only paths inside a repository are asked for.\<close>

definition fetches_safe :: "followup_state \<Rightarrow> bool" where
  "fetches_safe s = list_all (\<lambda>(repo, paths). list_all safe_path paths) (fs_fetches s)"

lemma github_fetches_safe: "fetches_safe s \<Longrightarrow> fetches_safe (execute_github_files env fu alert s)"
  by (auto simp: execute_github_files_def fetches_safe_def Let_def list_all_iff
      split: option.splits sum.splits prod.splits)

lemma execute_one_fetches:
  "execute_one env alert targets fu s = Some s' \<Longrightarrow> fetches_safe s \<Longrightarrow> fetches_safe s'"
  unfolding execute_one_def Let_def execute_trace_logs_def
  using github_fetches_safe [of s env fu alert]
  by (auto simp: fetches_safe_def log_query_frame trace_logs_fetches split: if_splits)

lemma execute_loop_fetches:
  "execute_loop env alert targets fus s = Some s' \<Longrightarrow> fetches_safe s \<Longrightarrow> fetches_safe s'"
  by (induction fus arbitrary: s) (auto dest: execute_one_fetches split: option.splits)

text \<open>C29: Whatever a model asks for, no request to the git provider names an empty path, an absolute path, or a
  path with two dots in a row: a follow-up cannot leave the repository.\<close>

theorem followup_paths_safe:
  assumes "execute env followUps alert targets s = Some s'" "fs_fetches s = []"
    and "(repo, paths) \<in> set (fs_fetches s')" "p \<in> set paths"
  shows "p \<noteq> [] \<and> \<not> str_contains p ''..'' \<and> \<not> has_prefix p ''/''"
proof -
  have "fetches_safe s'"
    using execute_loop_fetches [OF assms(1) [unfolded execute_def]] assms(2) by (simp add: fetches_safe_def)
  then show ?thesis using assms(3,4) by (auto simp: fetches_safe_def list_all_iff safe_path_def)
qed

section \<open>The shared labels\<close>

lemma mput_nil: "mput m k v = None \<longleftrightarrow> m = None"
  by (simp add: mput_def split: option.split)

lemma mput_ready: "mput m k v = Some m' \<Longrightarrow> m' \<noteq> None"
  by (rule smap.put_keeps)

text \<open>A query writes to the label map when it is a log query, or a trace query with a trace identifier.\<close>

definition writes_label :: "follow_up_query \<Rightarrow> bool" where
  "writes_label fu = (to_upper (fu_Tool fu) = ''LOG_QUERY'' \<or>
     to_upper (fu_Tool fu) = ''TRACE_LOGS'' \<and> parse_csv (fu_Value fu) \<noteq> [])"

lemma trace_log_one_ready: "fs_labels s \<noteq> None \<Longrightarrow>
    \<exists>s'. trace_log_one env alert targets tid s = Some s' \<and> fs_labels s' \<noteq> None"
  by (auto simp: trace_log_one_def fs_now_def collect_all_def Let_def mput_def split: option.splits sum.split)

lemma trace_logs_ready: "fs_labels s \<noteq> None \<Longrightarrow>
    \<exists>s'. trace_logs_loop env alert targets ids s = Some s' \<and> fs_labels s' \<noteq> None"
proof (induction ids arbitrary: s)
  case (Cons i ids)
  obtain s1 where s1: "trace_log_one env alert targets i s = Some s1" "fs_labels s1 \<noteq> None"
    using trace_log_one_ready [OF Cons.prems] by blast
  from Cons.IH [OF s1(2)] s1(1) show ?case by simp
qed simp

lemma parse_csv_trimmed: "p \<in> set (parse_csv v) \<Longrightarrow> trim_space p = p \<and> p \<noteq> []"
  by (auto simp: parse_csv_def)

lemma trace_logs_nil: "fs_labels s = None \<Longrightarrow> ids \<noteq> [] \<Longrightarrow> \<forall>i \<in> set ids. trim_space i \<noteq> [] \<Longrightarrow>
    trace_logs_loop env alert targets ids s = None"
  by (cases ids) (auto simp: trace_log_one_def fs_now_def mput_def Let_def)

lemma log_query_ready: "fs_labels s \<noteq> None \<Longrightarrow>
    \<exists>s'. execute_log_query env fu alert targets s = Some s' \<and> fs_labels s' \<noteq> None"
  by (auto simp: execute_log_query_def fs_now_def collect_all_def Let_def mput_def split: option.splits sum.split)

lemma execute_one_ready: "fs_labels s \<noteq> None \<Longrightarrow>
    \<exists>s'. execute_one env alert targets fu s = Some s' \<and> fs_labels s' \<noteq> None"
  using trace_logs_ready log_query_ready by (auto simp: execute_one_def execute_trace_logs_def Let_def)

lemma execute_one_nil: "fs_labels s = None \<Longrightarrow>
    (case execute_one env alert targets fu s of None \<Rightarrow> writes_label fu
     | Some s' \<Rightarrow> \<not> writes_label fu \<and> fs_labels s' = None)"
proof -
  assume "fs_labels s = None"
  moreover from this have "parse_csv (fu_Value fu) \<noteq> [] \<Longrightarrow> trace_logs_loop env alert targets (parse_csv (fu_Value fu)) s = None"
    using parse_csv_trimmed by (intro trace_logs_nil) auto
  ultimately show ?thesis
    by (cases "parse_csv (fu_Value fu) = []")
      (auto simp: execute_one_def writes_label_def execute_trace_logs_def execute_log_query_def fs_now_def mput_def Let_def)
qed

text \<open>Executing follow-ups panics exactly when the alert has no label map at all and the model asks for a log
  query or for the logs of a trace: the request is built by writing into the alert's labels.\<close>

theorem execute_panics_iff:
  "execute env followUps alert targets s = None \<longleftrightarrow> fs_labels s = None \<and> list_ex writes_label followUps"
proof -
  have "execute_loop env alert targets fus s = None \<longleftrightarrow> fs_labels s = None \<and> list_ex writes_label fus" for fus s
  proof (induction fus arbitrary: s)
    case (Cons fu fus)
    show ?case
    proof (cases "fs_labels s = None")
      case True
      note nil = execute_one_nil [OF True, where env = env and alert = alert and targets = targets and fu = fu]
      show ?thesis
      proof (cases "execute_one env alert targets fu s")
        case None
        then show ?thesis using nil True by simp
      next
        case (Some s1)
        then have "\<not> writes_label fu" "fs_labels s1 = None" using nil by simp_all
        then show ?thesis using Some True Cons.IH [of s1] by simp
      qed
    next
      case False
      obtain s1 where "execute_one env alert targets fu s = Some s1" "fs_labels s1 \<noteq> None"
        using execute_one_ready [OF False, where env = env and alert = alert and targets = targets and fu = fu] by blast
      then show ?thesis using False Cons.IH [of s1] by auto
    qed
  qed simp
  then show ?thesis by (simp add: execute_def)
qed

text \<open>The labels the requests leave behind in the map they share with the alert.\<close>

definition relabelled :: "gomap \<Rightarrow> gomap \<Rightarrow> bool" where
  "relabelled m m' \<longleftrightarrow> (m' = None \<longleftrightarrow> m = None) \<and> (\<forall>k. k \<notin> {''trace_id'', ''custom_query''} \<longrightarrow> mlookup m' k = mlookup m k)"

lemma relabelled_refl [simp]: "relabelled m m"
  by (simp add: relabelled_def)

lemma relabelled_trans: "relabelled m m' \<Longrightarrow> relabelled m' m'' \<Longrightarrow> relabelled m m''"
  by (simp add: relabelled_def)

lemma mput_relabelled: "mput m k v = Some m' \<Longrightarrow> k \<in> {''trace_id'', ''custom_query''} \<Longrightarrow> relabelled m m'"
  using smap.put_lookup [of m k v m'] mput_ready [of m k v m'] mput_nil [of m k v] by (auto simp: relabelled_def)

lemma trace_log_one_labels: "trace_log_one env alert targets tid s = Some s' \<Longrightarrow> relabelled (fs_labels s) (fs_labels s')"
  by (auto simp: trace_log_one_def fs_now_def collect_all_def Let_def split: option.splits sum.splits if_splits dest: mput_relabelled)

lemma trace_logs_labels: "trace_logs_loop env alert targets ids s = Some s' \<Longrightarrow> relabelled (fs_labels s) (fs_labels s')"
  by (induction ids arbitrary: s) (auto split: option.splits dest: trace_log_one_labels relabelled_trans)

lemma log_query_labels: "execute_log_query env fu alert targets s = Some s' \<Longrightarrow> relabelled (fs_labels s) (fs_labels s')"
  by (auto simp: execute_log_query_def fs_now_def collect_all_def Let_def split: option.splits sum.splits if_splits dest: mput_relabelled)

lemma execute_one_labels: "execute_one env alert targets fu s = Some s' \<Longrightarrow> relabelled (fs_labels s) (fs_labels s')"
  by (auto simp: execute_one_def execute_trace_logs_def Let_def split: if_splits dest: trace_logs_labels log_query_labels)

lemma execute_labels:
  assumes "execute env followUps alert targets s = Some s'"
  shows "relabelled (fs_labels s) (fs_labels s')"
proof -
  have "execute_loop env alert targets fus s = Some s' \<Longrightarrow> relabelled (fs_labels s) (fs_labels s')" for fus s
    by (induction fus arbitrary: s) (auto split: option.splits dest: execute_one_labels relabelled_trans)
  from this [OF assms [unfolded execute_def]] show ?thesis by simp
qed

section \<open>Examples\<close>

definition sample_env :: followup_env where
  "sample_env = \<lparr>fe_collect = (\<lambda>n req. Inr []), fe_clock = (\<lambda>n. hours 1), fe_parse_time = (\<lambda>s. None),
     fe_git = Some (\<lambda>w. Some ''acme/shop'', \<lambda>repo paths. Inr (map (\<lambda>p. (p, ''x'')) paths))\<rparr>"

definition sample_state :: "gomap \<Rightarrow> followup_state" where
  "sample_state labels = \<lparr>fs_labels = labels, fs_deep = deep_evidence0, fs_reads = 0, fs_requests = [], fs_fetches = []\<rparr>"

theorem followup_paths_safe_witness:
  "\<exists>s'. execute sample_env [\<lparr>fu_Tool = ''GITHUB_FILES'', fu_Value = ''main.go, ../secret, /etc/passwd''\<rparr>]
       normalized_alert0 [] (sample_state None) = Some s' \<and>
     fs_fetches s' = [(''acme/shop'', [''main.go''])] \<and> \<not> has_prefix ''main.go'' ''/''"
proof -
  let ?fu = "[\<lparr>fu_Tool = ''GITHUB_FILES'', fu_Value = ''main.go, ../secret, /etc/passwd''\<rparr>]"
  have fetches: "map_option fs_fetches (execute sample_env ?fu normalized_alert0 [] (sample_state None)) =
      Some [(''acme/shop'', [''main.go''])]"
    by code_simp
  then obtain s' where s': "execute sample_env ?fu normalized_alert0 [] (sample_state None) = Some s'"
    "fs_fetches s' = [(''acme/shop'', [''main.go''])]" by auto
  have "fs_fetches (sample_state None) = []" by (simp add: sample_state_def)
  from followup_paths_safe [OF s'(1) this, of "''acme/shop''" "[''main.go'']" "''main.go''"] s'
  show ?thesis by simp
qed

end
