(* ===== verification/LlmEngine.thy ===== *)
theory LlmEngine
  imports RcaEngine LlmResilience LlmFollowup
begin

text \<open>
  \<open>internal/rca/llm_engine.go\<close>: the engine that asks a language model in up to \<open>maxPasses\<close> passes and falls
  back on another engine.  The model's answers, the UUIDs and the data sources are arguments; the state
  records every prompt sent, every notification and every count of the metrics.  \<open>None\<close> is a panic.
\<close>

datatype llm_event =
    PassNotified string string nat string
  | LLMCallCounted string string

record llm_env =
  lv_name :: string
  lv_complete :: "nat \<Rightarrow> completion_request \<Rightarrow> outcome"
  lv_uuid :: "nat \<Rightarrow> string"
  lv_followup :: followup_env
  lv_maxPasses :: nat
  lv_notifier :: bool

record llm_state =
  ls_fs :: followup_state
  ls_prompts :: "completion_request list"
  ls_events :: "llm_event list"

definition new_llm_engine :: "int \<Rightarrow> llm_env \<Rightarrow> llm_env" where
  "new_llm_engine cfgMaxPasses env = env\<lparr>lv_maxPasses := (if cfgMaxPasses \<le> 0 then 3 else nat cfgMaxPasses)\<rparr>"

definition log_event :: "llm_event \<Rightarrow> llm_state \<Rightarrow> llm_state" where
  "log_event e s = s\<lparr>ls_events := ls_events s @ [e]\<rparr>"

definition notify_pass :: "llm_env \<Rightarrow> string \<Rightarrow> string \<Rightarrow> nat \<Rightarrow> string \<Rightarrow> llm_state \<Rightarrow> llm_state" where
  "notify_pass env channelID threadTS pass message s =
     (if \<not> lv_notifier env \<or> channelID = [] then s
      else log_event (PassNotified channelID threadTS pass message) s)"

definition complete :: "llm_env \<Rightarrow> completion_request \<Rightarrow> llm_state \<Rightarrow> outcome \<times> llm_state" where
  "complete env req s = (lv_complete env (length (ls_prompts s)) req, s\<lparr>ls_prompts := ls_prompts s @ [req]\<rparr>)"

definition is_deep_evidence_empty :: "deep_evidence \<Rightarrow> bool" where
  "is_deep_evidence_empty deep = (mlen (de_TraceLogs deep) = 0 \<and> trim_space (de_ExtraLogs deep) = [] \<and>
     trim_space (de_ExtraPodEvents deep) = [] \<and> mlen (de_ExtraSourceFiles deep) = 0 \<and>
     trim_space (de_CustomQueryResults deep) = [])"

definition bundle_now :: "evidence_bundle \<Rightarrow> llm_state \<Rightarrow> evidence_bundle" where
  "bundle_now bundle s = bundle\<lparr>eb_Alert := (eb_Alert bundle)\<lparr>al_Labels := fs_labels (ls_fs s)\<rparr>\<rparr>"

text \<open>The passes from \<open>pass\<close> on, \<open>n\<close> of them left.\<close>

fun deep_passes :: "llm_env \<Rightarrow> investigation_data \<Rightarrow> normalized_alert \<Rightarrow> evidence_bundle \<Rightarrow> nat \<Rightarrow> nat \<Rightarrow>
    llm_analysis \<Rightarrow> llm_state \<Rightarrow> (llm_analysis \<times> llm_state) option" where
  "deep_passes env data alert bundle 0 pass analysis s = Some (analysis, s)"
| "deep_passes env data alert bundle (Suc n) pass analysis s =
     (if length (an_FollowUps analysis) = 0 then Some (analysis, s)
      else if pass > 2 \<and> an_Confidence analysis = ''high'' then Some (analysis, s)
      else
        (let ch = in_SlackChannelID (id_Investigation data); th = in_SlackThreadTS (id_Investigation data);
             s = notify_pass env ch th pass (''Pass '' @ itoa (int pass) @ ''/'' @ itoa (int (lv_maxPasses env))
               @ '': Gathering '' @ itoa (int (length (an_FollowUps analysis))) @ '' follow-up data requests...'') s
         in case execute (lv_followup env) (an_FollowUps analysis) alert (in_Targets (id_Investigation data)) (ls_fs s) of
              None \<Rightarrow> None
            | Some fs \<Rightarrow>
              (let s = s\<lparr>ls_fs := fs\<rparr> in
               if is_deep_evidence_empty (fs_deep fs) then Some (analysis, s)
               else
                 (let s = notify_pass env ch th pass (''Pass '' @ itoa (int pass) @ ''/'' @ itoa (int (lv_maxPasses env))
                        @ '': Deep analysis with additional evidence...'') s;
                      deepPrompt = build_deep_pass_prompt (bundle_now bundle s)
                        (an_Summary analysis, an_RootCause analysis, an_Confidence analysis) (fs_deep fs) pass;
                      (resp, s) = complete env \<lparr>cq_SystemPrompt = ''You are Sherlock, an expert SRE AI performing deep analysis of a production incident with additional evidence.'',
                        cq_UserPrompt = deepPrompt, cq_Temperature = 0, cq_MaxTokens = 0\<rparr> s
                  in case resp of
                       Inl err \<Rightarrow> Some (analysis, log_event (LLMCallCounted (lv_name env) ''error'') s)
                     | Inr deepResp \<Rightarrow>
                       (let s = log_event (LLMCallCounted (lv_name env) ''success'') s in
                        case parse_analysis (cp_Content deepResp) of
                          None \<Rightarrow> None
                        | Some a \<Rightarrow> deep_passes env data alert bundle n (Suc pass)
                            (a\<lparr>an_PassCount := pass, an_DeepDive := True, an_AIProvider := lv_name env\<rparr>) s)))))"

definition relabel :: "investigation_graph \<Rightarrow> gomap \<Rightarrow> investigation_graph" where
  "relabel g labels = (case id_Alerts (ig_Data g) of [] \<Rightarrow> g
     | a # as \<Rightarrow> g\<lparr>ig_Data := (ig_Data g)\<lparr>id_Alerts := a\<lparr>al_Labels := labels\<rparr> # as\<rparr>\<rparr>)"

text \<open>\<open>rankWithLLM\<close>: an error, or the hypotheses; the fallback is the engine wired in \<open>main.go\<close>, which never fails.\<close>

definition rank_with_llm :: "llm_env \<Rightarrow> rule \<Rightarrow> investigation_graph \<Rightarrow> llm_state \<Rightarrow>
    ((perror + hypothesis list) \<times> llm_state) option" where
  "rank_with_llm env fallback graph s =
     (let data = ig_Data graph in
      case id_Alerts data of
        [] \<Rightarrow> None
      | alert # _ \<Rightarrow>
        (let bundle = build_evidence_bundle alert (id_Evidence data);
             ch = in_SlackChannelID (id_Investigation data); th = in_SlackThreadTS (id_Investigation data);
             s = notify_pass env ch th 1 (''Pass 1/'' @ itoa (int (lv_maxPasses env)) @ '': Analyzing ''
               @ itoa (int (length (id_Evidence data))) @ '' evidence items with '' @ lv_name env @ ''...'') s;
             (resp, s) = complete env \<lparr>cq_SystemPrompt = ''You are Sherlock, an expert SRE AI that investigates production incidents by analyzing evidence systematically.'',
               cq_UserPrompt = build_pass1_prompt bundle, cq_Temperature = 0, cq_MaxTokens = 0\<rparr> s
         in case resp of
              Inl err \<Rightarrow> Some (Inl (PWrap ''LLM pass 1 failed'' err), log_event (LLMCallCounted (lv_name env) ''error'') s)
            | Inr pass1Resp \<Rightarrow>
              (let s = log_event (LLMCallCounted (lv_name env) ''success'') s in
               case parse_analysis (cp_Content pass1Resp) of
                 None \<Rightarrow> None
               | Some a \<Rightarrow>
                 (case deep_passes env data alert bundle (lv_maxPasses env - 1) 2
                         (a\<lparr>an_PassCount := 1, an_AIProvider := lv_name env\<rparr>) s of
                    None \<Rightarrow> None
                  | Some (analysis, s) \<Rightarrow>
                    (let hypotheses = assign_ids (lv_uuid env) (map_to_hypotheses analysis (id_Evidence data)) in
                     if hypotheses = [] \<or> hy_Title (hd hypotheses) = []
                     then map_option (\<lambda>hs. (Inr hs, s)) (fallback (relabel graph (fs_labels (ls_fs s))))
                     else Some (Inr hypotheses, s))))))"

definition llm_start :: "investigation_graph \<Rightarrow> llm_state" where
  "llm_start graph = \<lparr>ls_fs = \<lparr>fs_labels = (case id_Alerts (ig_Data graph) of [] \<Rightarrow> None | a # _ \<Rightarrow> al_Labels a),
     fs_deep = deep_evidence0, fs_reads = 0, fs_requests = [], fs_fetches = []\<rparr>, ls_prompts = [], ls_events = []\<rparr>"

definition llm_rank :: "llm_env \<Rightarrow> rule \<Rightarrow> investigation_graph \<Rightarrow> (hypothesis list \<times> llm_state) option" where
  "llm_rank env fallback graph =
     (case rank_with_llm env fallback graph (llm_start graph) of
        None \<Rightarrow> None
      | Some (Inl err, s) \<Rightarrow> map_option (\<lambda>hs. (hs, s)) (fallback (relabel graph (fs_labels (ls_fs s))))
      | Some (Inr hs, s) \<Rightarrow> Some (hs, s))"

section \<open>Lemmas\<close>

lemma notify_pass_frame [simp]: "ls_prompts (notify_pass env c t p m s) = ls_prompts s"
  "ls_fs (notify_pass env c t p m s) = ls_fs s"
  by (simp_all add: notify_pass_def log_event_def)

lemma log_event_frame [simp]: "ls_prompts (log_event e s) = ls_prompts s" "ls_fs (log_event e s) = ls_fs s"
  by (simp_all add: log_event_def)

lemma relabel_evidence [simp]: "graph_evidence (relabel g labels) = graph_evidence g"
  by (simp add: relabel_def split: list.split)

lemma relabel_alerts [simp]: "id_Alerts (ig_Data (relabel g labels)) = [] \<longleftrightarrow> id_Alerts (ig_Data g) = []"
  by (simp add: relabel_def split: list.split)

text \<open>Each pass sends at most one prompt.\<close>

lemma deep_passes_prompts:
  "deep_passes env data alert bundle n pass analysis s = Some (a, s') \<Longrightarrow>
     length (ls_prompts s) \<le> length (ls_prompts s') \<and> length (ls_prompts s') \<le> length (ls_prompts s) + n"
proof (induction n arbitrary: pass analysis s)
  case (Suc n)
  show ?case
    using Suc.prems
    by (auto simp: Let_def complete_def dest!: Suc.IH split: if_splits option.splits sum.splits)
qed simp

text \<open>An answer is the fallback's, or the single hypothesis of an analysis.\<close>

definition llm_hypotheses :: "llm_env \<Rightarrow> investigation_graph \<Rightarrow> llm_analysis \<Rightarrow> hypothesis list" where
  "llm_hypotheses env g a = assign_ids (lv_uuid env) (map_to_hypotheses a (graph_evidence g))"

lemma llm_hypotheses_shape:
  "\<exists>h. llm_hypotheses env g a = [h] \<and> hy_ID h = lv_uuid env 0 \<and> hy_Title h = an_Summary a \<and>
     hy_Confidence h = map_confidence (an_Confidence a) \<and> hy_Supporting h = evidence_ids (graph_evidence g)"
  by (simp add: llm_hypotheses_def map_to_hypotheses_def assign_ids_def evidence_ids_def Let_def)

lemma llm_hypotheses_title [simp]:
  "llm_hypotheses env g a \<noteq> []" "hy_Title (hd (llm_hypotheses env g a)) = an_Summary a"
  using llm_hypotheses_shape [of env g a] by auto

lemma rank_with_llm_result:
  assumes "rank_with_llm env fallback g s = Some (r, s')"
  shows "length (ls_prompts s) < length (ls_prompts s') \<and>
    length (ls_prompts s') \<le> length (ls_prompts s) + 1 + (lv_maxPasses env - 1) \<and>
    (case r of Inl err \<Rightarrow> True
     | Inr hs \<Rightarrow> fallback (relabel g (fs_labels (ls_fs s'))) = Some hs \<or>
         (\<exists>a. hs = llm_hypotheses env g a \<and> an_Summary a \<noteq> []))"
  using assms
  by (auto simp: rank_with_llm_def Let_def complete_def llm_hypotheses_def [symmetric]
      dest!: deep_passes_prompts split: list.splits sum.splits option.splits if_splits)

text \<open>The label map the engine shares with its caller holds what the follow-ups wrote, and nothing else is different.\<close>

lemma deep_passes_labels:
  "deep_passes env data alert bundle n pass analysis s = Some (a, s') \<Longrightarrow> relabelled (fs_labels (ls_fs s)) (fs_labels (ls_fs s'))"
proof (induction n arbitrary: pass analysis s)
  case (Suc n)
  show ?case
    using Suc.prems
    by (auto simp: Let_def complete_def dest!: Suc.IH execute_labels intro: relabelled_trans split: if_splits option.splits sum.splits)
qed simp

lemma rank_with_llm_labels:
  "rank_with_llm env fallback g s = Some (r, s') \<Longrightarrow> relabelled (fs_labels (ls_fs s)) (fs_labels (ls_fs s'))"
  by (auto simp: rank_with_llm_def Let_def complete_def dest!: deep_passes_labels split: list.splits sum.splits option.splits if_splits)

lemma llm_rank_labels:
  assumes "llm_rank env fallback g = Some (hs, s)" "id_Alerts (ig_Data g) = alert # alerts"
  shows "relabelled (al_Labels alert) (fs_labels (ls_fs s))"
proof -
  obtain r where "rank_with_llm env fallback g (llm_start g) = Some (r, s)"
    using assms(1) by (auto simp: llm_rank_def split: option.splits sum.splits)
  from rank_with_llm_labels [OF this] show ?thesis by (simp add: llm_start_def assms(2))
qed

text \<open>C19: When the model-backed engine returns, it has sent at least one and at most \<open>maxPasses\<close> prompts, and
  its answer is either exactly the fallback's for the same graph (up to labels the follow-ups added to the
  alert), or one hypothesis with a title, a confidence between 0 and 0.85 and all collected evidence as support.\<close>

theorem llm_rank_spec:
  assumes "llm_rank env fallback g = Some (hs, s)" "1 \<le> lv_maxPasses env"
  shows "1 \<le> length (ls_prompts s) \<and> length (ls_prompts s) \<le> lv_maxPasses env \<and>
    (fallback (relabel g (fs_labels (ls_fs s))) = Some hs \<or>
     (\<exists>h. hs = [h] \<and> hy_Title h \<noteq> [] \<and> hy_ID h = lv_uuid env 0 \<and>
        0 \<le> hy_Confidence h \<and> hy_Confidence h \<le> fl (85 / 100) \<and>
        hy_Supporting h = evidence_ids (graph_evidence g)))"
proof -
  obtain r where r: "rank_with_llm env fallback g (llm_start g) = Some (r, s)"
    and hs: "(case r of Inl err \<Rightarrow> fallback (relabel g (fs_labels (ls_fs s))) = Some hs | Inr hs' \<Rightarrow> hs' = hs)"
    using assms(1) by (auto simp: llm_rank_def split: option.splits sum.splits)
  note res = rank_with_llm_result [OF r]
  have "length (ls_prompts (llm_start g)) = 0" by (simp add: llm_start_def)
  moreover have "\<exists>h. llm_hypotheses env g a = [h] \<and> hy_Title h \<noteq> [] \<and> hy_ID h = lv_uuid env 0 \<and>
      0 \<le> hy_Confidence h \<and> hy_Confidence h \<le> fl (85 / 100) \<and>
      hy_Supporting h = evidence_ids (graph_evidence g)" if "an_Summary a \<noteq> []" for a
    using llm_hypotheses_shape [of env g a] map_confidence_range [of "an_Confidence a"] that by force
  ultimately show ?thesis using res hs assms(2) by (cases r) (auto simp: Suc_le_eq)
qed

text \<open>The engine degrades to its fallback: when the first call of the model fails, for whatever reason,
  its answer on a graph that has an alert is the fallback's answer on that very graph.\<close>

theorem llm_rank_degrades:
  assumes "id_Alerts (ig_Data g) \<noteq> []" "\<forall>req. \<exists>err. lv_complete env 0 req = Inl err"
  shows "map_option fst (llm_rank env fallback g) = fallback g"
proof -
  obtain alert alerts where al: "id_Alerts (ig_Data g) = alert # alerts"
    using assms(1) by (cases "id_Alerts (ig_Data g)") auto
  obtain err where err: "\<And>req. lv_complete env 0 req = Inl (err req)" using assms(2) by metis
  obtain e s where "rank_with_llm env fallback g (llm_start g) = Some (Inl e, s)" "fs_labels (ls_fs s) = al_Labels alert"
    by (simp add: rank_with_llm_def al Let_def complete_def llm_start_def err)
  moreover have "relabel g (al_Labels alert) = g" by (simp add: relabel_def al)
  ultimately show ?thesis by (simp add: llm_rank_def option.map_comp comp_def option.map_ident)
qed

text \<open>Both engines keep the contract: over a fallback that keeps it, the model-backed engine does.\<close>

lemma llm_keeps_contract:
  assumes "rca_engine fallback"
  shows "rca_engine (\<lambda>g. map_option fst (llm_rank env fallback g))"
proof -
  have le: "fl (85 / 100) \<le> fl (95 / 100)" by (rule fl_mono) simp
  have cases: "fallback (relabel g l) = Some hs \<or> (\<exists>h. hs = [h] \<and> 0 \<le> hy_Confidence h \<and>
      hy_Confidence h \<le> fl (85 / 100) \<and> hy_Supporting h = evidence_ids (graph_evidence g))"
    if ret: "llm_rank env fallback g = Some (hs, s)" and l: "l = fs_labels (ls_fs s)" for g hs s l
  proof -
    obtain r where r: "rank_with_llm env fallback g (llm_start g) = Some (r, s)"
      and hs: "(case r of Inl err \<Rightarrow> fallback (relabel g l) = Some hs | Inr hs' \<Rightarrow> hs' = hs)"
      unfolding l using ret by (auto simp: llm_rank_def split: option.splits sum.splits)
    show ?thesis
      using rank_with_llm_result [OF r] hs l llm_hypotheses_shape [of env g] map_confidence_range
      by (cases r) (simp_all, metis)
  qed
  show ?thesis
  proof
    fix g hs h
    assume "map_option fst (llm_rank env fallback g) = Some hs"
    then obtain s where s: "llm_rank env fallback g = Some (hs, s)" by auto
    note result = cases [OF s refl]
    show "length hs \<le> 5" using result rca_engine.at_most_five [OF assms] by auto
    show "sorted_wrt (\<ge>) (map hy_Confidence hs)" using result rca_engine.by_confidence [OF assms] by auto
    assume h: "h \<in> set hs"
    show "0 \<le> hy_Confidence h \<and> hy_Confidence h \<le> fl (95 / 100)"
      using result h le rca_engine.in_range [OF assms] by fastforce
    show "set (hy_Supporting h) \<subseteq> set (evidence_ids (graph_evidence g))"
      using result h rca_engine.supported [OF assms, of "relabel g (fs_labels (ls_fs s))" hs h] by auto
  qed
qed

interpretation llm_engine: rca_engine "\<lambda>g. map_option fst (llm_rank env (rank uuid (engine_new now)) g)" for env uuid now
  by (rule llm_keeps_contract [OF rule_engine.rca_engine_axioms])

section \<open>Examples\<close>

definition failing_env :: llm_env where
  "failing_env = \<lparr>lv_name = ''openai'', lv_complete = (\<lambda>n req. Inl PDeadlineExceeded), lv_uuid = (\<lambda>i. itoa (int i)),
     lv_followup = sample_env, lv_maxPasses = 3, lv_notifier = True\<rparr>"

definition answering_env :: llm_env where
  "answering_env = failing_env\<lparr>lv_complete := (\<lambda>n req. Inr \<lparr>cp_Content = ''SUMMARY: disk full'', cp_InputTokens = 1,
     cp_OutputTokens = 1, cp_Model = ''m'', cp_Latency = 0\<rparr>)\<rparr>"

theorem llm_rank_degrades_witness:
  "map_option fst (llm_rank failing_env (rank (\<lambda>i. itoa (int i)) (engine_new 0)) (sample_graph [])) = Some []"
proof -
  have "rank (\<lambda>i. itoa (int i)) (engine_new 0) (sample_graph []) = Some []" by code_simp
  then show ?thesis
    using llm_rank_degrades [of "sample_graph []" failing_env "rank (\<lambda>i. itoa (int i)) (engine_new 0)"]
    by (simp add: sample_graph_def failing_env_def)
qed

theorem llm_rank_spec_witness:
  "\<exists>hs s. llm_rank answering_env (\<lambda>g. None) (sample_graph []) = Some (hs, s) \<and>
     length hs = 1 \<and> length (ls_prompts s) \<le> 3"
proof -
  have "map_option fst (llm_rank answering_env (\<lambda>g. None) (sample_graph [])) \<noteq> None" by code_simp
  then obtain hs s where "llm_rank answering_env (\<lambda>g. None) (sample_graph []) = Some (hs, s)" by auto
  with llm_rank_spec [OF this] show ?thesis by (auto simp: answering_env_def failing_env_def)
qed

end
