(* ===== verification/Receivers.thy ===== *)
theory Receivers
  imports Contracts
begin

text \<open>
  \<open>internal/receiver/{alertmanager,grafana,github,gitlab}/receiver.go\<close>: who may post a webhook, and the alerts it
  carries.  \<open>json.Unmarshal\<close> into a payload struct, the hexadecimal HMAC-SHA256 and the hexadecimal SHA-256 are
  arguments; \<open>headers.Get\<close> is a function on canonical names, \<open>[]\<close> when the header is missing.  \<open>uuid i\<close> is
  the \<open>i\<close>-th UUID drawn and \<open>t\<close> the time.
\<close>

type_synonym http_header = "string \<Rightarrow> string"

record alert_receiver =
  rv_Source :: string
  rv_Verify :: "http_header \<Rightarrow> string \<Rightarrow> go_error option"
  rv_Decode :: "(nat \<Rightarrow> string) \<Rightarrow> gotime \<Rightarrow> http_header \<Rightarrow> string \<Rightarrow> go_error + normalized_alert list"

section \<open>What the two alerting systems share\<close>

record webhook_alert =
  wa_Status :: string
  wa_Labels :: gomap
  wa_Annotations :: gomap
  wa_StartsAt :: gotime
  wa_EndsAt :: gotime
  wa_GeneratorURL :: string
  wa_Fingerprint :: string

definition map_status :: "string \<Rightarrow> alert_status" where
  "map_status s = (if to_lower s = ''resolved'' then AlertStatusResolved else AlertStatusFiring)"

definition map_severity :: "string \<Rightarrow> alert_severity" where
  "map_severity s = (if to_lower s = ''critical'' then SeverityCritical
     else if to_lower s = ''info'' then SeverityInfo else SeverityWarning)"

definition service_hint :: "gomap \<Rightarrow> target_ref list" where
  "service_hint labels =
     (let svc = mget labels ''service''; svc = (if svc = [] then mget labels ''job'' else svc)
      in if svc = [] then [] else [target_ref0\<lparr>tr_Kind := ''service'', tr_Name := svc,
           tr_Namespace := mget labels ''namespace'', tr_Cluster := mget labels ''cluster''\<rparr>])"

definition build_links :: "webhook_alert \<Rightarrow> link list" where
  "build_links a =
     (let dash = mget (wa_Annotations a) ''dashboard_url''; book = mget (wa_Annotations a) ''runbook_url''
      in (if dash = [] then [] else [\<lparr>ln_Rel = ''dashboard'', ln_Href = dash\<rparr>])
       @ (if wa_GeneratorURL a = [] then [] else [\<lparr>ln_Rel = ''generator'', ln_Href = wa_GeneratorURL a\<rparr>])
       @ (if book = [] then [] else [\<lparr>ln_Rel = ''runbook'', ln_Href = book\<rparr>]))"

text \<open>\<open>Year() > 1\<close>: the first year has 365 days.\<close>

definition ends_at :: "gotime \<Rightarrow> gotime option" where
  "ends_at t = (if \<not> is_zero t \<and> t \<ge> 365 * day_ns then Some t else None)"

section \<open>alertmanager/receiver.go\<close>

record am_payload =
  am_GroupKey :: string
  am_CommonLabels :: gomap
  am_Alerts :: "webhook_alert list"

definition am_verify :: "string \<Rightarrow> http_header \<Rightarrow> string \<Rightarrow> go_error option" where
  "am_verify secret h body =
     (if secret = [] then None
      else if h ''Authorization'' \<noteq> ''Bearer '' @ secret then Some (ErrOther ''invalid or missing bearer token'')
      else None)"

definition merge_labels :: "gomap \<Rightarrow> gomap \<Rightarrow> gomap" where
  "merge_labels labels commonLabels =
     Some (fold (\<lambda>(k, v) m. AList.update k v m) (mentries labels)
       (fold (\<lambda>(k, v) m. AList.update k v m) (mentries commonLabels) []))"

definition am_alert :: "am_payload \<Rightarrow> string \<Rightarrow> webhook_alert \<Rightarrow> normalized_alert" where
  "am_alert p i a =
     (let title = mget (wa_Annotations a) ''summary'';
          title = (if title = [] then mget (wa_Labels a) ''alertname'' else title)
      in normalized_alert0\<lparr>al_ID := i, al_Source := ''alertmanager'', al_Status := map_status (wa_Status a),
           al_Severity := Some (map_severity (mget (wa_Labels a) ''severity'')), al_Title := title,
           al_Summary := mget (wa_Annotations a) ''description'', al_Fingerprint := wa_Fingerprint a,
           al_GroupKey := am_GroupKey p, al_StartsAt := wa_StartsAt a, al_EndsAt := ends_at (wa_EndsAt a),
           al_Labels := wa_Labels a, al_Annotations := wa_Annotations a,
           al_EntityHints := service_hint (merge_labels (wa_Labels a) (am_CommonLabels p)), al_Links := build_links a\<rparr>)"

definition am_decode :: "(string \<Rightarrow> am_payload option) \<Rightarrow> (nat \<Rightarrow> string) \<Rightarrow> gotime \<Rightarrow> http_header \<Rightarrow> string \<Rightarrow>
    go_error + normalized_alert list" where
  "am_decode unmarshal uuid t h body =
     (case unmarshal body of None \<Rightarrow> Inl (ErrOther ''unmarshalling alertmanager payload'')
      | Some p \<Rightarrow> Inr (map (\<lambda>(i, a). am_alert p (uuid i) a) (enumerate 0 (am_Alerts p))))"

definition am_receiver :: "string \<Rightarrow> (string \<Rightarrow> am_payload option) \<Rightarrow> alert_receiver" where
  "am_receiver secret unmarshal = \<lparr>rv_Source = ''alertmanager'', rv_Verify = am_verify secret, rv_Decode = am_decode unmarshal\<rparr>"

section \<open>grafana/receiver.go\<close>

record gf_payload =
  gf_Title :: string
  gf_GroupKey :: string
  gf_Alerts :: "webhook_alert list"

definition gf_verify :: "(string \<Rightarrow> string \<Rightarrow> string) \<Rightarrow> string \<Rightarrow> http_header \<Rightarrow> string \<Rightarrow> go_error option" where
  "gf_verify hmac secret h body =
     (if length secret = 0 then None
      else if h ''X-Grafana-Signature'' = [] then Some (ErrOther ''missing X-Grafana-Signature header'')
      else if h ''X-Grafana-Signature'' \<noteq> hmac secret body then Some (ErrOther ''HMAC signature mismatch'')
      else None)"

definition gf_alert :: "gf_payload \<Rightarrow> string \<Rightarrow> webhook_alert \<Rightarrow> normalized_alert" where
  "gf_alert p i a =
     (let title = gf_Title p; title = (if title = [] then mget (wa_Annotations a) ''summary'' else title)
      in normalized_alert0\<lparr>al_ID := i, al_Source := ''grafana'', al_Status := map_status (wa_Status a),
           al_Severity := Some (map_severity (mget (wa_Labels a) ''severity'')), al_Title := title,
           al_Summary := mget (wa_Annotations a) ''description'', al_Fingerprint := wa_Fingerprint a,
           al_GroupKey := gf_GroupKey p, al_StartsAt := wa_StartsAt a, al_EndsAt := ends_at (wa_EndsAt a),
           al_Labels := wa_Labels a, al_Annotations := wa_Annotations a,
           al_EntityHints := service_hint (wa_Labels a), al_Links := build_links a\<rparr>)"

definition gf_decode :: "(string \<Rightarrow> gf_payload option) \<Rightarrow> (nat \<Rightarrow> string) \<Rightarrow> gotime \<Rightarrow> http_header \<Rightarrow> string \<Rightarrow>
    go_error + normalized_alert list" where
  "gf_decode unmarshal uuid t h body =
     (case unmarshal body of None \<Rightarrow> Inl (ErrOther ''unmarshalling grafana payload'')
      | Some p \<Rightarrow> Inr (map (\<lambda>(i, a). gf_alert p (uuid i) a) (enumerate 0 (gf_Alerts p))))"

definition gf_receiver :: "(string \<Rightarrow> string \<Rightarrow> string) \<Rightarrow> string \<Rightarrow> (string \<Rightarrow> gf_payload option) \<Rightarrow> alert_receiver" where
  "gf_receiver hmac secret unmarshal = \<lparr>rv_Source = ''grafana'', rv_Verify = gf_verify hmac secret, rv_Decode = gf_decode unmarshal\<rparr>"

section \<open>Fingerprints of code events\<close>

definition fingerprint :: "(string \<Rightarrow> string) \<Rightarrow> string list \<Rightarrow> string" where
  "fingerprint sha parts = sha (str_join parts ''|'')"

section \<open>github/receiver.go\<close>

record gh_repository =
  gr_FullName :: string
  gr_Name :: string
  gr_HTMLURL :: string

record gh_deployment =
  gd_SHA :: string
  gd_Ref :: string
  gd_Environment :: string
  gd_Description :: string
  gd_URL :: string

record gh_deployment_event =
  ge_Deployment :: gh_deployment
  ge_Repository :: gh_repository
  ge_Sender :: string

record gh_status_event =
  gs_State :: string
  gs_Description :: string
  gs_TargetURL :: string
  gs_Deployment :: gh_deployment
  gs_Repository :: gh_repository
  gs_Sender :: string

record gh_push_event =
  gp_Ref :: string
  gp_After :: string
  gp_Compare :: string
  gp_HeadMessage :: "string option"
  gp_Commits :: nat
  gp_Repository :: gh_repository
  gp_Sender :: string

record gh_unmarshal =
  gu_deployment :: "string \<Rightarrow> gh_deployment_event option"
  gu_status :: "string \<Rightarrow> gh_status_event option"
  gu_push :: "string \<Rightarrow> gh_push_event option"

definition gh_verify :: "(string \<Rightarrow> string \<Rightarrow> string) \<Rightarrow> string \<Rightarrow> http_header \<Rightarrow> string \<Rightarrow> go_error option" where
  "gh_verify hmac secret h body =
     (if length secret = 0 then None
      else let sig = h ''X-Hub-Signature-256'' in
        if sig = [] then Some (ErrOther ''missing X-Hub-Signature-256 header'')
        else if \<not> has_prefix sig ''sha256='' then Some (ErrOther ''malformed X-Hub-Signature-256 header'')
        else if trim_prefix sig ''sha256='' \<noteq> hmac secret body then Some (ErrOther ''HMAC signature mismatch'')
        else None)"

text \<open>The \<open>shortSHA\<close> of this package; the rules shorten to eight.\<close>

definition gh_short_sha :: "string \<Rightarrow> string" where
  "gh_short_sha sha = (if length sha > 7 then take 7 sha else sha)"

definition gh_deployment_links :: "gh_deployment \<Rightarrow> gh_repository \<Rightarrow> link list" where
  "gh_deployment_links d repo =
     (if gd_URL d = [] then [] else [\<lparr>ln_Rel = ''deployment'', ln_Href = gd_URL d\<rparr>])
     @ (if gr_HTMLURL repo = [] then [] else [\<lparr>ln_Rel = ''repository'', ln_Href = gr_HTMLURL repo\<rparr>])"

definition gh_status_links :: "gh_status_event \<Rightarrow> link list" where
  "gh_status_links ev =
     (if gs_TargetURL ev = [] then [] else [\<lparr>ln_Rel = ''target'', ln_Href = gs_TargetURL ev\<rparr>])
     @ (if gd_URL (gs_Deployment ev) = [] then [] else [\<lparr>ln_Rel = ''deployment'', ln_Href = gd_URL (gs_Deployment ev)\<rparr>])
     @ (if gr_HTMLURL (gs_Repository ev) = [] then [] else [\<lparr>ln_Rel = ''repository'', ln_Href = gr_HTMLURL (gs_Repository ev)\<rparr>])"

definition gh_deployment_alert :: "(string \<Rightarrow> string) \<Rightarrow> string \<Rightarrow> gotime \<Rightarrow> gh_deployment_event \<Rightarrow> normalized_alert list" where
  "gh_deployment_alert sha256 i t ev =
     (let d = ge_Deployment ev; repo = gr_FullName (ge_Repository ev); env = gd_Environment d; sha = gd_SHA d;
          summary = (if gd_Description d = [] then ''Deployment of '' @ gh_short_sha sha @ '' to '' @ env else gd_Description d)
      in [normalized_alert0\<lparr>al_ID := i, al_Source := ''github'', al_Severity := Some SeverityInfo,
           al_Title := ''Deployment to '' @ env @ '' '' @ em_dash @ '' '' @ repo, al_Summary := summary,
           al_Fingerprint := fingerprint sha256 [repo, env, sha], al_StartsAt := t,
           al_Labels := Some [(''repo'', repo), (''environment'', env), (''ref'', gd_Ref d), (''sha'', sha), (''sender'', ge_Sender ev)],
           al_EntityHints := [target_ref0\<lparr>tr_Kind := ''repo'', tr_Name := gr_Name (ge_Repository ev), tr_Repo := repo,
             tr_Environment := env\<rparr>], al_Links := gh_deployment_links d (ge_Repository ev)\<rparr>])"

definition gh_status_alert :: "(string \<Rightarrow> string) \<Rightarrow> string \<Rightarrow> gotime \<Rightarrow> gh_status_event \<Rightarrow> normalized_alert list" where
  "gh_status_alert sha256 i t ev =
     (let state = to_lower (gs_State ev) in
      if state \<noteq> ''failure'' \<and> state \<noteq> ''error'' then []
      else
        (let d = gs_Deployment ev; repo = gr_FullName (gs_Repository ev); env = gd_Environment d; sha = gd_SHA d
         in [normalized_alert0\<lparr>al_ID := i, al_Source := ''github'', al_Severity := Some SeverityWarning,
              al_Title := ''Deployment '' @ state @ '' '' @ em_dash @ '' '' @ repo @ ''/'' @ env, al_Summary := gs_Description ev,
              al_Fingerprint := fingerprint sha256 [repo, env, sha], al_StartsAt := t,
              al_Labels := Some [(''repo'', repo), (''environment'', env), (''ref'', gd_Ref d), (''sha'', sha), (''status'', state),
                (''sender'', gs_Sender ev)],
              al_EntityHints := [target_ref0\<lparr>tr_Kind := ''repo'', tr_Name := gr_Name (gs_Repository ev), tr_Repo := repo,
                tr_Environment := env\<rparr>], al_Links := gh_status_links ev\<rparr>]))"

definition gh_push_alert :: "(string \<Rightarrow> string) \<Rightarrow> string \<Rightarrow> gotime \<Rightarrow> gh_push_event \<Rightarrow> normalized_alert list" where
  "gh_push_alert sha256 i t ev =
     (let repo = gr_FullName (gp_Repository ev); ref = gp_Ref ev;
          summary = (case gp_HeadMessage ev of None \<Rightarrow> itoa (int (gp_Commits ev)) @ '' commits pushed to '' @ ref
            | Some m \<Rightarrow> if m = [] then itoa (int (gp_Commits ev)) @ '' commits pushed to '' @ ref else m)
      in [normalized_alert0\<lparr>al_ID := i, al_Source := ''github'', al_Severity := Some SeverityInfo,
           al_Title := ''Push to '' @ ref @ '' '' @ em_dash @ '' '' @ repo, al_Summary := summary,
           al_Fingerprint := fingerprint sha256 [repo, ref, gp_After ev], al_StartsAt := t,
           al_Labels := Some ([(''repo'', repo), (''ref'', ref), (''sender'', gp_Sender ev)]
             @ (if gp_After ev = [] then [] else [(''head_commit'', gp_After ev)])),
           al_EntityHints := [target_ref0\<lparr>tr_Kind := ''repo'', tr_Name := gr_Name (gp_Repository ev), tr_Repo := repo\<rparr>],
           al_Links := (if gp_Compare ev = [] then [] else [\<lparr>ln_Rel = ''compare'', ln_Href = gp_Compare ev\<rparr>])\<rparr>])"

definition gh_decode :: "(string \<Rightarrow> string) \<Rightarrow> gh_unmarshal \<Rightarrow> (nat \<Rightarrow> string) \<Rightarrow> gotime \<Rightarrow> http_header \<Rightarrow> string \<Rightarrow>
    go_error + normalized_alert list" where
  "gh_decode sha256 um uuid t h body =
     (let event = h ''X-Github-Event'' in
      if event = ''deployment'' then
        (case gu_deployment um body of None \<Rightarrow> Inl (ErrOther ''unmarshalling github deployment event'')
         | Some ev \<Rightarrow> Inr (gh_deployment_alert sha256 (uuid 0) t ev))
      else if event = ''deployment_status'' then
        (case gu_status um body of None \<Rightarrow> Inl (ErrOther ''unmarshalling github deployment_status event'')
         | Some ev \<Rightarrow> Inr (gh_status_alert sha256 (uuid 0) t ev))
      else if event = ''push'' then
        (case gu_push um body of None \<Rightarrow> Inl (ErrOther ''unmarshalling github push event'')
         | Some ev \<Rightarrow> Inr (gh_push_alert sha256 (uuid 0) t ev))
      else Inr [])"

definition gh_receiver :: "(string \<Rightarrow> string \<Rightarrow> string) \<Rightarrow> (string \<Rightarrow> string) \<Rightarrow> string \<Rightarrow> gh_unmarshal \<Rightarrow> alert_receiver" where
  "gh_receiver hmac sha256 secret um =
     \<lparr>rv_Source = ''github'', rv_Verify = gh_verify hmac secret, rv_Decode = gh_decode sha256 um\<rparr>"

section \<open>gitlab/receiver.go\<close>

record gl_project =
  pj_Name :: string
  pj_PathWithNamespace :: string
  pj_WebURL :: string

record gl_deployment_event =
  gl_Status :: string
  gl_Environment :: string
  gl_ShortSHA :: string
  gl_CommitURL :: string
  gl_UserUsername :: string
  gl_Project :: gl_project

record gl_push_event =
  gk_Ref :: string
  gk_After :: string
  gk_UserName :: string
  gk_Messages :: "string list"
  gk_Project :: gl_project

record gl_unmarshal =
  lu_deployment :: "string \<Rightarrow> gl_deployment_event option"
  lu_push :: "string \<Rightarrow> gl_push_event option"

definition gl_verify :: "string \<Rightarrow> http_header \<Rightarrow> string \<Rightarrow> go_error option" where
  "gl_verify secretToken h body =
     (if secretToken = [] then None
      else if h ''X-Gitlab-Token'' = [] then Some (ErrOther ''missing X-Gitlab-Token header'')
      else if h ''X-Gitlab-Token'' \<noteq> secretToken then Some (ErrOther ''secret token mismatch'')
      else None)"

definition gl_deployment_links :: "gl_deployment_event \<Rightarrow> link list" where
  "gl_deployment_links ev =
     (if gl_CommitURL ev = [] then [] else [\<lparr>ln_Rel = ''commit'', ln_Href = gl_CommitURL ev\<rparr>])
     @ (if pj_WebURL (gl_Project ev) = [] then [] else [\<lparr>ln_Rel = ''project'', ln_Href = pj_WebURL (gl_Project ev)\<rparr>])"

definition gl_deployment_alert :: "(string \<Rightarrow> string) \<Rightarrow> string \<Rightarrow> gotime \<Rightarrow> gl_deployment_event \<Rightarrow> normalized_alert list" where
  "gl_deployment_alert sha256 i t ev =
     (let status = to_lower (gl_Status ev) in
      if status \<noteq> ''running'' \<and> status \<noteq> ''failed'' \<and> status \<noteq> ''created'' then []
      else
        (let proj = pj_PathWithNamespace (gl_Project ev); env = gl_Environment ev; sha = gl_ShortSHA ev
         in [normalized_alert0\<lparr>al_ID := i, al_Source := ''gitlab'',
              al_Severity := Some (if status = ''failed'' then SeverityWarning else SeverityInfo),
              al_Title := ''Deployment '' @ status @ '' '' @ em_dash @ '' '' @ pj_Name (gl_Project ev) @ ''/'' @ env,
              al_Summary := ''Deployment of '' @ sha @ '' to '' @ env,
              al_Fingerprint := fingerprint sha256 [proj, env, sha], al_StartsAt := t,
              al_Labels := Some [(''project'', proj), (''environment'', env), (''status'', status), (''sha'', sha),
                (''user'', gl_UserUsername ev)],
              al_EntityHints := [target_ref0\<lparr>tr_Kind := ''repo'', tr_Name := pj_Name (gl_Project ev), tr_Repo := proj,
                tr_Environment := env\<rparr>], al_Links := gl_deployment_links ev\<rparr>]))"

definition gl_push_alert :: "(string \<Rightarrow> string) \<Rightarrow> string \<Rightarrow> gotime \<Rightarrow> gl_push_event \<Rightarrow> normalized_alert list" where
  "gl_push_alert sha256 i t ev =
     (let proj = pj_PathWithNamespace (gk_Project ev); ref = gk_Ref ev;
          summary = itoa (int (length (gk_Messages ev))) @ '' commits pushed to '' @ ref;
          summary = (if length (gk_Messages ev) > 0 \<and> last (gk_Messages ev) \<noteq> [] then last (gk_Messages ev) else summary)
      in [normalized_alert0\<lparr>al_ID := i, al_Source := ''gitlab'', al_Severity := Some SeverityInfo,
           al_Title := ''Push to '' @ ref @ '' '' @ em_dash @ '' '' @ pj_Name (gk_Project ev), al_Summary := summary,
           al_Fingerprint := fingerprint sha256 [proj, ref, gk_After ev], al_StartsAt := t,
           al_Labels := Some [(''project'', proj), (''ref'', ref), (''user_name'', gk_UserName ev), (''sha'', gk_After ev)],
           al_EntityHints := [target_ref0\<lparr>tr_Kind := ''repo'', tr_Name := pj_Name (gk_Project ev), tr_Repo := proj\<rparr>],
           al_Links := (if pj_WebURL (gk_Project ev) = [] then [] else [\<lparr>ln_Rel = ''project'', ln_Href = pj_WebURL (gk_Project ev)\<rparr>])\<rparr>])"

definition gl_decode :: "(string \<Rightarrow> string) \<Rightarrow> gl_unmarshal \<Rightarrow> (nat \<Rightarrow> string) \<Rightarrow> gotime \<Rightarrow> http_header \<Rightarrow> string \<Rightarrow>
    go_error + normalized_alert list" where
  "gl_decode sha256 um uuid t h body =
     (let event = h ''X-Gitlab-Event'' in
      if event = ''Deployment Hook'' then
        (case lu_deployment um body of None \<Rightarrow> Inl (ErrOther ''unmarshalling gitlab deployment hook'')
         | Some ev \<Rightarrow> Inr (gl_deployment_alert sha256 (uuid 0) t ev))
      else if event = ''Push Hook'' then
        (case lu_push um body of None \<Rightarrow> Inl (ErrOther ''unmarshalling gitlab push hook'')
         | Some ev \<Rightarrow> Inr (gl_push_alert sha256 (uuid 0) t ev))
      else Inr [])"

definition gl_receiver :: "(string \<Rightarrow> string) \<Rightarrow> string \<Rightarrow> gl_unmarshal \<Rightarrow> alert_receiver" where
  "gl_receiver sha256 secretToken um =
     \<lparr>rv_Source = ''gitlab'', rv_Verify = gl_verify secretToken, rv_Decode = gl_decode sha256 um\<rparr>"

section \<open>The contract of a receiver\<close>

text \<open>What the gateway relies on: a webhook is accepted exactly under a known condition, and the alerts of a
  receiver carry its name and fresh identifiers.\<close>

locale webhook_receiver =
  fixes rv :: alert_receiver
    and accepted :: "http_header \<Rightarrow> string \<Rightarrow> bool"
  assumes verify_iff: "rv_Verify rv h b = None \<longleftrightarrow> accepted h b"
    and sourced: "rv_Decode rv uuid t h b = Inr alerts \<Longrightarrow> a \<in> set alerts \<Longrightarrow> al_Source a = rv_Source rv"
    and numbered: "rv_Decode rv uuid t h b = Inr alerts \<Longrightarrow> map al_ID alerts = map uuid [0..<length alerts]"
begin

lemma rejects: "\<not> accepted h b \<Longrightarrow> \<exists>e. rv_Verify rv h b = Some e"
  using verify_iff by (metis option.exhaust)

lemma fresh_ids: "rv_Decode rv uuid t h b = Inr alerts \<Longrightarrow> inj uuid \<Longrightarrow> distinct (map al_ID alerts)"
  by (simp add: numbered distinct_map inj_on_def inj_def)

end

lemma map_enumerate_ids:
  assumes "\<And>i a. al_ID (f i a) = i"
  shows "map al_ID (map (\<lambda>(i, a). f (uuid i) a) (enumerate 0 as)) = map uuid [0..<length as]"
  by (rule nth_equalityI) (simp_all add: nth_enumerate_eq assms)

lemma am_alert_fields [simp]: "al_ID (am_alert p i a) = i" "al_Source (am_alert p i a) = ''alertmanager''"
  by (simp_all add: am_alert_def Let_def)

lemma gf_alert_fields [simp]: "al_ID (gf_alert p i a) = i" "al_Source (gf_alert p i a) = ''grafana''"
  by (simp_all add: gf_alert_def Let_def)

interpretation am: webhook_receiver "am_receiver secret unmarshal"
  "\<lambda>h b. secret = [] \<or> h ''Authorization'' = ''Bearer '' @ secret" for secret unmarshal
proof
  fix uuid t h b alerts
  assume "rv_Decode (am_receiver secret unmarshal) uuid t h b = Inr alerts"
  then show "map al_ID alerts = map uuid [0..<length alerts]"
    using map_enumerate_ids [of "am_alert _", OF am_alert_fields(1)]
    by (auto simp: am_receiver_def am_decode_def split: option.splits)
qed (auto simp: am_receiver_def am_verify_def am_decode_def split: option.splits)

interpretation gf: webhook_receiver "gf_receiver hmac secret unmarshal"
  "\<lambda>h b. secret = [] \<or> h ''X-Grafana-Signature'' \<noteq> [] \<and> h ''X-Grafana-Signature'' = hmac secret b" for hmac secret unmarshal
proof
  fix uuid t h b alerts
  assume "rv_Decode (gf_receiver hmac secret unmarshal) uuid t h b = Inr alerts"
  then show "map al_ID alerts = map uuid [0..<length alerts]"
    using map_enumerate_ids [of "gf_alert _", OF gf_alert_fields(1)]
    by (auto simp: gf_receiver_def gf_decode_def split: option.splits)
qed (auto simp: gf_receiver_def gf_verify_def gf_decode_def split: option.splits)

lemma prefixed_iff: "has_prefix s p \<and> trim_prefix s p = x \<longleftrightarrow> s = p @ x"
  by (auto simp: has_prefix_def trim_prefix_def prefix_def)

lemmas gh_alert_defs = gh_deployment_alert_def gh_status_alert_def gh_push_alert_def
lemmas gl_alert_defs = gl_deployment_alert_def gl_push_alert_def

lemma gh_decode_cases:
  "gh_decode sha256 um uuid t h b = Inr alerts \<Longrightarrow> alerts = [] \<or> (\<exists>ev. alerts = gh_deployment_alert sha256 (uuid 0) t ev) \<or>
     (\<exists>ev. alerts = gh_status_alert sha256 (uuid 0) t ev) \<or> (\<exists>ev. alerts = gh_push_alert sha256 (uuid 0) t ev)"
  unfolding gh_decode_def Let_def by (auto split: option.splits if_split_asm)

lemma gh_alerts_single:
  "gh_deployment_alert sha256 i t e1 = alerts \<or> gh_status_alert sha256 i t e2 = alerts \<or> gh_push_alert sha256 i t e3 = alerts \<Longrightarrow>
     alerts = [] \<or> (\<exists>a. alerts = [a] \<and> al_ID a = i \<and> al_Source a = ''github'')"
  unfolding gh_alert_defs Let_def by (auto simp del: to_lower_simps)

lemma gh_decode_single: "gh_decode sha256 um uuid t h b = Inr alerts \<Longrightarrow>
    alerts = [] \<or> (\<exists>a. alerts = [a] \<and> al_ID a = uuid 0 \<and> al_Source a = ''github'')"
  using gh_decode_cases gh_alerts_single by metis

lemma gl_decode_cases:
  "gl_decode sha256 um uuid t h b = Inr alerts \<Longrightarrow> alerts = [] \<or> (\<exists>ev. alerts = gl_deployment_alert sha256 (uuid 0) t ev) \<or>
     (\<exists>ev. alerts = gl_push_alert sha256 (uuid 0) t ev)"
  unfolding gl_decode_def Let_def by (auto split: option.splits if_split_asm)

lemma gl_alerts_single:
  "gl_deployment_alert sha256 i t e1 = alerts \<or> gl_push_alert sha256 i t e2 = alerts \<Longrightarrow>
     alerts = [] \<or> (\<exists>a. alerts = [a] \<and> al_ID a = i \<and> al_Source a = ''gitlab'')"
  unfolding gl_alert_defs Let_def by (auto simp del: to_lower_simps)

lemma gl_decode_single: "gl_decode sha256 um uuid t h b = Inr alerts \<Longrightarrow>
    alerts = [] \<or> (\<exists>a. alerts = [a] \<and> al_ID a = uuid 0 \<and> al_Source a = ''gitlab'')"
  using gl_decode_cases gl_alerts_single by metis

interpretation gh: webhook_receiver "gh_receiver hmac sha256 secret um"
  "\<lambda>h b. secret = [] \<or> h ''X-Hub-Signature-256'' = ''sha256='' @ hmac secret b" for hmac sha256 secret um
proof
  fix h b
  have "gh_verify hmac secret h b = None \<longleftrightarrow> secret = [] \<or>
      has_prefix (h ''X-Hub-Signature-256'') ''sha256='' \<and> trim_prefix (h ''X-Hub-Signature-256'') ''sha256='' = hmac secret b"
    by (auto simp: gh_verify_def Let_def has_prefix_def)
  then show "rv_Verify (gh_receiver hmac sha256 secret um) h b = None \<longleftrightarrow>
      secret = [] \<or> h ''X-Hub-Signature-256'' = ''sha256='' @ hmac secret b"
    unfolding prefixed_iff by (simp add: gh_receiver_def)
qed (auto simp: gh_receiver_def dest!: gh_decode_single)

interpretation gl: webhook_receiver "gl_receiver sha256 secret um"
  "\<lambda>h b. secret = [] \<or> h ''X-Gitlab-Token'' = secret" for sha256 secret um
  by unfold_locales
    (auto simp: gl_receiver_def gl_verify_def dest!: gl_decode_single)

section \<open>Fingerprints\<close>

lemma split_first: "c \<notin> set a \<Longrightarrow> c \<notin> set a' \<Longrightarrow> a @ c # r = a' @ c # r' \<Longrightarrow> a = a' \<and> r = r'"
proof (induction a arbitrary: a')
  case Nil
  then show ?case by (cases a') auto
next
  case (Cons x a)
  then show ?case by (cases a') auto
qed

lemma split_last:
  assumes "c \<notin> set b" "c \<notin> set b'" "r @ c # b = r' @ c # b'"
  shows "r = r' \<and> b = b'"
proof -
  have "rev b @ c # rev r = rev b' @ c # rev r'" using arg_cong [OF assms(3), of rev] by simp
  then have "rev b = rev b' \<and> rev r = rev r'" using assms(1,2) by (intro split_first) auto
  then show ?thesis by simp
qed

text \<open>The fingerprint of a code event identifies its repository, its environment or branch, and its commit, whatever characters the
  environment or branch contains, as long as the hash does not collide and neither repository nor commit
  contains the separator.\<close>

theorem fingerprint_identifies:
  assumes hash: "sha256 (str_join [repo, env, commit] ''|'') = sha256 (str_join [repo', env', commit'] ''|'') \<Longrightarrow>
      str_join [repo, env, commit] ''|'' = str_join [repo', env', commit'] ''|''"
    and clean: "CHR ''|'' \<notin> set repo" "CHR ''|'' \<notin> set repo'" "CHR ''|'' \<notin> set commit" "CHR ''|'' \<notin> set commit'"
    and eq: "fingerprint sha256 [repo, env, commit] = fingerprint sha256 [repo', env', commit']"
  shows "repo = repo' \<and> env = env' \<and> commit = commit'"
proof -
  have "repo @ CHR ''|'' # env @ CHR ''|'' # commit = repo' @ CHR ''|'' # env' @ CHR ''|'' # commit'"
    using hash eq by (simp add: fingerprint_def)
  from split_first [OF clean(1,2) this] have "repo = repo'" "env @ CHR ''|'' # commit = env' @ CHR ''|'' # commit'" by simp_all
  with split_last [OF clean(3,4) this(2)] show ?thesis by simp
qed

theorem fingerprint_identifies_witness:
  "fingerprint id [''o/r'', ''a|b'', ''12''] \<noteq> fingerprint id [''o/r'', ''a'', ''12''] \<and>
   fingerprint id [''o/r'', ''a|b'', ''12''] = fingerprint id [''o/r'', ''a|b'', ''12'']"
  using fingerprint_identifies [of id "''o/r''" "''a|b''" "''12''" "''o/r''" "''a''" "''12''"] by auto

end
