(* ===== verification/Store.thy ===== *)
theory Store
  imports Contracts
begin

text \<open>
  \<open>internal/storage/postgres\<close> and \<open>internal/audit\<close>: the repositories, over the tables of
  \<open>migrations/*.up.sql\<close>.  A table is the list of its rows in the order of insertion; a statement checks what the
  schema declares of the columns it writes (section \<open>The schema\<close>), and a batch inserts all its rows or none (pgx runs
  it in one implicit transaction).  JSON columns come back as they were written; instants are not rounded to
  microseconds; texts PostgreSQL cannot store (invalid UTF-8, a zero byte) are taken as they are.

  Identifiers are texts in Go and of the type \<open>UUID\<close> in the tables.  \<open>w_uuid_in\<close> is how PostgreSQL reads a text as one: the
  canonical text it compares and gives back, or nothing, and then the statement is an error of the query.  A lookup, whose
  identifier can come from a user, takes any spelling.  The identifiers that are written all come from the generator
  or from the tables, in canonical form, so a writing statement compares them as they are.

  The world of the program is one record: the tables, a clock and a UUID generator that are read in
  order, and the log of what was sent outside.  \<open>w_fault n\<close> says whether the \<open>n\<close>-th call that leaves the
  process fails, so a theorem that holds for all worlds covers every pattern of outages.
\<close>

record database =
  db_alerts :: "normalized_alert list"
  db_investigations :: "investigation list"
  db_evidence :: "evidence list"
  db_timeline :: "timeline_event list"
  db_hypotheses :: "(string \<times> hypothesis) list"
  db_audit :: "audit_entry list"
  db_suppressions :: "(string \<times> gotime) list"

datatype event =
    SlackStarted string string
  | SlackUpdate string string string
  | SlackResult string string investigation_result
  | SlackError string string string
  | SlackDedup string string string string
  | BlobStored string string
  | Published string investigation_job
  | Counted string string

record world =
  w_db :: database
  w_clock :: "nat \<Rightarrow> gotime"
  w_reads :: nat
  w_uuid :: "nat \<Rightarrow> string"
  w_uuids :: nat
  w_uuid_in :: "string \<Rightarrow> string option"
  w_fault :: "nat \<Rightarrow> bool"
  w_calls :: nat
  w_events :: "event list"

definition now :: "world \<Rightarrow> gotime \<times> world" where
  "now w = (w_clock w (w_reads w), w\<lparr>w_reads := Suc (w_reads w)\<rparr>)"

definition new_uuid :: "world \<Rightarrow> string \<times> world" where
  "new_uuid w = (w_uuid w (w_uuids w), w\<lparr>w_uuids := Suc (w_uuids w)\<rparr>)"

definition emit :: "event \<Rightarrow> world \<Rightarrow> world" where
  "emit e w = w\<lparr>w_events := w_events w @ [e]\<rparr>"

text \<open>One call of an outside service that may fail, here with an event as its effect.\<close>

definition send :: "event \<Rightarrow> world \<Rightarrow> go_error option \<times> world" where
  "send e w = (let w' = w\<lparr>w_calls := Suc (w_calls w)\<rparr> in
     if w_fault w (w_calls w) then (Some ErrUnavailable, w') else (None, emit e w'))"

text \<open>One statement against the database.\<close>

definition exec :: "(database \<Rightarrow> go_error + 'a \<times> database) \<Rightarrow> world \<Rightarrow> (go_error + 'a) \<times> world" where
  "exec stmt w = (let w' = w\<lparr>w_calls := Suc (w_calls w)\<rparr> in
     if w_fault w (w_calls w) then (Inl ErrUnavailable, w')
     else (case stmt (w_db w) of Inl err \<Rightarrow> (Inl err, w') | Inr (a, db) \<Rightarrow> (Inr a, w'\<lparr>w_db := db\<rparr>)))"

section \<open>The schema\<close>

text \<open>\<open>id UUID PRIMARY KEY\<close>, of each of the rows to be inserted.\<close>

definition uuid_column :: "world \<Rightarrow> string \<Rightarrow> bool" where
  "uuid_column w i = (w_uuid_in w i \<noteq> None)"

definition primary_key :: "world \<Rightarrow> string list \<Rightarrow> string list \<Rightarrow> bool" where
  "primary_key w stored ids = (list_all (uuid_column w) ids \<and> distinct ids \<and> list_all (\<lambda>i. i \<notin> set stored) ids)"

text \<open>\<open>investigation_id UUID NOT NULL REFERENCES investigations(id)\<close>.\<close>

definition inv_ids :: "database \<Rightarrow> string set" where
  "inv_ids db = in_ID ` set (db_investigations db)"

definition references_investigation :: "database \<Rightarrow> string list \<Rightarrow> bool" where
  "references_investigation db ivs = list_all (\<lambda>i. i \<in> inv_ids db) ivs"

lemma primary_key_one: "primary_key w stored [i] \<longleftrightarrow> uuid_column w i \<and> i \<notin> set stored"
  by (simp add: primary_key_def)

section \<open>alert_repo.go\<close>

definition alert_create :: "normalized_alert \<Rightarrow> world \<Rightarrow> (go_error + unit) \<times> world" where
  "alert_create a w = exec (\<lambda>db.
     if primary_key w (map al_ID (db_alerts db)) [al_ID a] then Inr ((), db\<lparr>db_alerts := db_alerts db @ [a]\<rparr>)
     else Inl (ErrOther ''insert alert'')) w"

definition scan_alert :: "(normalized_alert \<Rightarrow> bool) \<Rightarrow> database \<Rightarrow> go_error + normalized_alert \<times> database" where
  "scan_alert P db = (case find P (db_alerts db) of None \<Rightarrow> Inl ErrNotFound | Some a \<Rightarrow> Inr (a, db))"

definition alert_get_by_id :: "string \<Rightarrow> world \<Rightarrow> (go_error + normalized_alert) \<times> world" where
  "alert_get_by_id i w = exec (\<lambda>db. case w_uuid_in w i of
     None \<Rightarrow> Inl (ErrOther ''scan alert'') | Some c \<Rightarrow> scan_alert (\<lambda>a. al_ID a = c) db) w"

definition alert_get_by_fingerprint :: "string \<Rightarrow> string \<Rightarrow> world \<Rightarrow> (go_error + normalized_alert) \<times> world" where
  "alert_get_by_fingerprint tenantID fingerprint =
     exec (scan_alert (\<lambda>a. al_TenantID a = tenantID \<and> al_Fingerprint a = fingerprint))"

section \<open>investigation_repo.go\<close>

text \<open>The row \<open>Create\<close> writes: the completion time is NULL, and the table has no columns for the hypotheses and
  the timeline, which come back empty.\<close>

definition stored_row :: "investigation \<Rightarrow> investigation" where
  "stored_row iv = iv\<lparr>in_CompletedAt := None, in_Hypotheses := [], in_Timeline := []\<rparr>"

lemma stored_row_ID [simp]: "in_ID (stored_row iv) = in_ID iv"
  by (simp add: stored_row_def)

definition inv_create :: "investigation \<Rightarrow> world \<Rightarrow> (go_error + unit) \<times> world" where
  "inv_create iv w = exec (\<lambda>db.
     if primary_key w (map in_ID (db_investigations db)) [in_ID iv]
     then Inr ((), db\<lparr>db_investigations := db_investigations db @ [stored_row iv]\<rparr>)
     else Inl (ErrOther ''insert investigation'')) w"

definition inv_get_by_id :: "string \<Rightarrow> world \<Rightarrow> (go_error + investigation) \<times> world" where
  "inv_get_by_id i w = exec (\<lambda>db.
     case w_uuid_in w i of
       None \<Rightarrow> Inl (ErrOther ''query investigation'')
     | Some c \<Rightarrow> (case find (\<lambda>iv. in_ID iv = c) (db_investigations db) of None \<Rightarrow> Inl ErrNotFound | Some iv \<Rightarrow> Inr (iv, db))) w"

text \<open>An \<open>UPDATE ... WHERE id = $n\<close> that affects no row is \<open>ErrNotFound\<close>, unless the text is no UUID; those of the rows are.\<close>

definition update_investigation :: "(investigation \<Rightarrow> investigation) \<Rightarrow> string \<Rightarrow> world \<Rightarrow> (go_error + unit) \<times> world" where
  "update_investigation f i w = exec (\<lambda>db.
     if i \<notin> in_ID ` set (db_investigations db)
     then Inl (if uuid_column w i then ErrNotFound else ErrOther ''update investigation'')
     else Inr ((), db\<lparr>db_investigations := map (\<lambda>iv. if in_ID iv = i then f iv else iv) (db_investigations db)\<rparr>)) w"

definition inv_update_status :: "string \<Rightarrow> investigation_status \<Rightarrow> world \<Rightarrow> (go_error + unit) \<times> world" where
  "inv_update_status i status w =
     (let (t, w) = now w in update_investigation (\<lambda>iv. iv\<lparr>in_Status := status, in_UpdatedAt := t\<rparr>) i w)"

definition inv_complete :: "string \<Rightarrow> string \<Rightarrow> f64 \<Rightarrow> world \<Rightarrow> (go_error + unit) \<times> world" where
  "inv_complete i headline confidence w =
     (let (t, w) = now w in
      update_investigation (\<lambda>iv. iv\<lparr>in_Status := StatusDone, in_Headline := headline, in_Confidence := confidence,
        in_UpdatedAt := t, in_CompletedAt := Some t\<rparr>) i w)"

definition inv_link_alert :: "string \<Rightarrow> string \<Rightarrow> world \<Rightarrow> (go_error + unit) \<times> world" where
  "inv_link_alert i alertID w =
     (let (t, w) = now w in
      update_investigation (\<lambda>iv. iv\<lparr>in_AlertIDs := in_AlertIDs iv @ [alertID], in_UpdatedAt := t\<rparr>) i w)"

text \<open>The join of \<open>FindActiveByFingerprint\<close>; of several rows the latest created, the first stored on a tie.\<close>

definition matches_fingerprint :: "database \<Rightarrow> string \<Rightarrow> gotime \<Rightarrow> investigation \<Rightarrow> bool" where
  "matches_fingerprint db fingerprint since iv =
     (list_ex (\<lambda>a. al_Fingerprint a = fingerprint \<and> al_ID a \<in> set (in_AlertIDs iv)) (db_alerts db) \<and>
      since \<le> in_CreatedAt iv \<and> in_Status iv \<noteq> StatusFailed)"

fun latest :: "investigation option \<Rightarrow> investigation list \<Rightarrow> investigation option" where
  "latest best [] = best"
| "latest best (iv # ivs) =
     (case best of None \<Rightarrow> latest (Some iv) ivs
      | Some b \<Rightarrow> latest (Some (if in_CreatedAt b < in_CreatedAt iv then iv else b)) ivs)"

definition active_of :: "investigation \<Rightarrow> active_investigation" where
  "active_of iv = \<lparr>ai_ID = in_ID iv, ai_Status = in_Status iv, ai_Headline = in_Headline iv,
     ai_Confidence = in_Confidence iv, ai_SlackChannelID = in_SlackChannelID iv,
     ai_SlackThreadTS = in_SlackThreadTS iv, ai_CreatedAt = in_CreatedAt iv, ai_CompletedAt = in_CompletedAt iv\<rparr>"

definition inv_find_active :: "string \<Rightarrow> gotime \<Rightarrow> world \<Rightarrow> (go_error + active_investigation option) \<times> world" where
  "inv_find_active fingerprint since = exec (\<lambda>db.
     Inr (map_option active_of (latest None (filter (matches_fingerprint db fingerprint since) (db_investigations db))), db))"

section \<open>evidence_repo.go, hypothesis_repo.go, timeline_repo.go\<close>

text \<open>A batch of rows with a primary key and a reference to an investigation.\<close>

definition batch_ok :: "world \<Rightarrow> database \<Rightarrow> string list \<Rightarrow> string list \<Rightarrow> string list \<Rightarrow> bool" where
  "batch_ok w db stored ids ivs = (primary_key w stored ids \<and> references_investigation db ivs)"

definition evidence_create_batch :: "evidence list \<Rightarrow> world \<Rightarrow> (go_error + unit) \<times> world" where
  "evidence_create_batch evs w = exec (\<lambda>db.
     if batch_ok w db (map ev_ID (db_evidence db)) (map ev_ID evs) (map ev_InvestigationID evs)
     then Inr ((), db\<lparr>db_evidence := db_evidence db @ evs\<rparr>) else Inl (ErrOther ''insert evidence'')) w"

text \<open>The rows of an investigation: \<open>WHERE investigation_id = $1\<close>.\<close>

definition rows_of :: "world \<Rightarrow> string \<Rightarrow> string \<Rightarrow> (string \<Rightarrow> database \<Rightarrow> 'a) \<Rightarrow> database \<Rightarrow> go_error + 'a \<times> database" where
  "rows_of w msg i select db = (case w_uuid_in w i of None \<Rightarrow> Inl (ErrOther msg) | Some c \<Rightarrow> Inr (select c db, db))"

definition evidence_list :: "string \<Rightarrow> world \<Rightarrow> (go_error + evidence list) \<times> world" where
  "evidence_list i w = exec (rows_of w ''query evidence'' i (\<lambda>c db. filter (\<lambda>e. ev_InvestigationID e = c) (db_evidence db))) w"

definition hypothesis_create_batch :: "string \<Rightarrow> hypothesis list \<Rightarrow> world \<Rightarrow> (go_error + unit) \<times> world" where
  "hypothesis_create_batch i hs w = exec (\<lambda>db.
     if batch_ok w db (map (hy_ID \<circ> snd) (db_hypotheses db)) (map hy_ID hs) (map (\<lambda>h. i) hs)
     then Inr ((), db\<lparr>db_hypotheses := db_hypotheses db @ map (\<lambda>h. (i, h)) hs\<rparr>) else Inl (ErrOther ''insert hypothesis'')) w"

text \<open>\<open>ORDER BY confidence DESC\<close>, \<open>ORDER BY timestamp ASC\<close> and \<open>DESC\<close>; ties in the order of insertion.\<close>

definition hypothesis_list :: "string \<Rightarrow> world \<Rightarrow> (go_error + hypothesis list) \<times> world" where
  "hypothesis_list i w = exec (rows_of w ''query hypotheses'' i (\<lambda>c db. insertion_sort (\<lambda>a b. hy_Confidence a > hy_Confidence b)
     (map snd (filter (\<lambda>(j, h). j = c) (db_hypotheses db))))) w"

definition timeline_create_batch :: "timeline_event list \<Rightarrow> world \<Rightarrow> (go_error + unit) \<times> world" where
  "timeline_create_batch evs w = exec (\<lambda>db.
     if batch_ok w db (map te_ID (db_timeline db)) (map te_ID evs) (map te_InvestigationID evs)
     then Inr ((), db\<lparr>db_timeline := db_timeline db @ evs\<rparr>) else Inl (ErrOther ''insert timeline event'')) w"

definition timeline_list :: "string \<Rightarrow> world \<Rightarrow> (go_error + timeline_event list) \<times> world" where
  "timeline_list i w = exec (rows_of w ''query timeline events'' i (\<lambda>c db. insertion_sort (\<lambda>a b. te_Timestamp a < te_Timestamp b)
     (filter (\<lambda>e. te_InvestigationID e = c) (db_timeline db)))) w"

section \<open>audit_repo.go, suppression_repo.go, audit.go\<close>

definition audit_create :: "audit_entry \<Rightarrow> world \<Rightarrow> (go_error + unit) \<times> world" where
  "audit_create e w = exec (\<lambda>db.
     if primary_key w (map ae_ID (db_audit db)) [ae_ID e] then Inr ((), db\<lparr>db_audit := db_audit db @ [e]\<rparr>)
     else Inl (ErrOther ''insert audit entry'')) w"

definition audit_list :: "string \<Rightarrow> nat \<Rightarrow> world \<Rightarrow> (go_error + audit_entry list) \<times> world" where
  "audit_list tenantID limit = exec (\<lambda>db. Inr (take limit (insertion_sort (\<lambda>a b. ae_Timestamp a > ae_Timestamp b)
     (filter (\<lambda>e. ae_TenantID e = tenantID) (db_audit db))), db))"

definition suppression_create :: "string \<Rightarrow> gotime \<Rightarrow> world \<Rightarrow> (go_error + unit) \<times> world" where
  "suppression_create fingerprint expiresAt = exec (\<lambda>db.
     Inr ((), db\<lparr>db_suppressions := db_suppressions db @ [(fingerprint, expiresAt)]\<rparr>))"

text \<open>The \<open>now()\<close> of the statement is the database's clock.\<close>

definition suppression_is_active :: "string \<Rightarrow> world \<Rightarrow> (go_error + bool) \<times> world" where
  "suppression_is_active fingerprint w =
     (let (t, w) = now w in
      exec (\<lambda>db. Inr (length (filter (\<lambda>(f, expires). f = fingerprint \<and> expires > t) (db_suppressions db)) > 0, db)) w)"

definition audit_log_action :: "audit_entry \<Rightarrow> world \<Rightarrow> (go_error + unit) \<times> world" where
  "audit_log_action entry w =
     (let (entry, w) = (if ae_ID entry = [] then (let (u, w) = new_uuid w in (entry\<lparr>ae_ID := u\<rparr>, w)) else (entry, w));
          (entry, w) = (if is_zero (ae_Timestamp entry) then (let (t, w) = now w in (entry\<lparr>ae_Timestamp := t\<rparr>, w)) else (entry, w))
      in audit_create entry w)"

definition audit_log :: "string \<Rightarrow> string \<Rightarrow> string \<Rightarrow> string \<Rightarrow> gomap \<Rightarrow> world \<Rightarrow> (go_error + unit) \<times> world" where
  "audit_log tenantID actor action target metadata w =
     (let (u, w) = new_uuid w; (t, w) = now w in
      audit_log_action \<lparr>ae_ID = u, ae_TenantID = tenantID, ae_Actor = actor, ae_Action = action,
        ae_Target = target, ae_Metadata = metadata, ae_Timestamp = t\<rparr> w)"

section \<open>Transactions\<close>

text \<open>\<open>BeginTx\<close> remembers the tables; \<open>Rollback\<close> puts them back; \<open>Commit\<close> keeps the changes or, when it fails, undoes them.\<close>

definition begin_tx :: "world \<Rightarrow> (go_error + database) \<times> world" where
  "begin_tx = exec (\<lambda>db. Inr (db, db))"

definition rollback :: "database \<Rightarrow> world \<Rightarrow> world" where
  "rollback db w = w\<lparr>w_db := db\<rparr>"

definition commit :: "database \<Rightarrow> world \<Rightarrow> (go_error + unit) \<times> world" where
  "commit snapshot w = (case exec (\<lambda>db. Inr ((), db)) w of
     (Inl err, w) \<Rightarrow> (Inl err, rollback snapshot w) | (Inr u, w) \<Rightarrow> (Inr u, w))"

section \<open>The integrity of the tables\<close>

definition db_wf :: "database \<Rightarrow> bool" where
  "db_wf db =
     (distinct (map al_ID (db_alerts db)) \<and> distinct (map in_ID (db_investigations db)) \<and>
      distinct (map ev_ID (db_evidence db)) \<and> distinct (map te_ID (db_timeline db)) \<and>
      distinct (map (hy_ID \<circ> snd) (db_hypotheses db)) \<and> distinct (map ae_ID (db_audit db)) \<and>
      list_all (\<lambda>e. ev_InvestigationID e \<in> inv_ids db) (db_evidence db) \<and>
      list_all (\<lambda>e. te_InvestigationID e \<in> inv_ids db) (db_timeline db) \<and>
      list_all (\<lambda>p. fst p \<in> inv_ids db) (db_hypotheses db))"

lemma exec_events [simp]: "w_events (snd (exec stmt w)) = w_events w"
  by (auto simp: exec_def Let_def split: sum.split)

lemma exec_db: "w_db (snd (exec stmt w)) = w_db w \<or> (\<exists>a db. stmt (w_db w) = Inr (a, db) \<and> w_db (snd (exec stmt w)) = db)"
  by (auto simp: exec_def Let_def split: sum.splits)

lemma exec_wf:
  assumes "db_wf (w_db w)" "\<And>a db. stmt (w_db w) = Inr (a, db) \<Longrightarrow> db_wf db"
  shows "db_wf (w_db (snd (exec stmt w)))"
  using exec_db [of stmt w] assms by metis

lemma now_db [simp]: "w_db (snd (now w)) = w_db w"
  by (simp add: now_def)

lemma new_uuid_db [simp]: "w_db (snd (new_uuid w)) = w_db w"
  by (simp add: new_uuid_def)

lemma send_db [simp]: "w_db (snd (send e w)) = w_db w"
  by (simp add: send_def emit_def Let_def)

lemma emit_db [simp]: "w_db (emit e w) = w_db w"
  by (simp add: emit_def)

lemma map_in_ID: "(\<And>iv. in_ID (f iv) = in_ID iv) \<Longrightarrow> map in_ID (map (\<lambda>iv. if in_ID iv = i then f iv else iv) ivs) = map in_ID ivs"
  by (induction ivs) auto

lemma update_investigation_wf:
  assumes "\<And>iv. in_ID (f iv) = in_ID iv" "db_wf (w_db w)"
  shows "db_wf (w_db (snd (update_investigation f i w)))"
proof (unfold update_investigation_def, rule exec_wf [OF assms(2)])
  fix a db
  assume "(if i \<notin> in_ID ` set (db_investigations (w_db w))
     then Inl (if uuid_column w i then ErrNotFound else ErrOther ''update investigation'')
     else Inr ((), (w_db w)\<lparr>db_investigations := map (\<lambda>iv. if in_ID iv = i then f iv else iv) (db_investigations (w_db w))\<rparr>))
     = Inr (a, db)"
  then have db: "db = (w_db w)\<lparr>db_investigations := map (\<lambda>iv. if in_ID iv = i then f iv else iv) (db_investigations (w_db w))\<rparr>"
    by (auto split: if_splits)
  have m: "map in_ID (db_investigations db) = map in_ID (db_investigations (w_db w))"
    unfolding db using map_in_ID [of f, OF assms(1)] by simp
  then have s: "inv_ids db = inv_ids (w_db w)"
    unfolding inv_ids_def by (metis list.set_map)
  have other: "db_alerts db = db_alerts (w_db w)" "db_evidence db = db_evidence (w_db w)" "db_timeline db = db_timeline (w_db w)"
    "db_hypotheses db = db_hypotheses (w_db w)" "db_audit db = db_audit (w_db w)"
    by (simp_all add: db)
  show "db_wf db" using assms(2) unfolding db_wf_def m s other .
qed

lemma inv_ids_other [simp]:
  "inv_ids (db\<lparr>db_alerts := x1\<rparr>) = inv_ids db" "inv_ids (db\<lparr>db_evidence := x2\<rparr>) = inv_ids db"
  "inv_ids (db\<lparr>db_timeline := x3\<rparr>) = inv_ids db" "inv_ids (db\<lparr>db_hypotheses := x4\<rparr>) = inv_ids db"
  "inv_ids (db\<lparr>db_audit := x5\<rparr>) = inv_ids db" "inv_ids (db\<lparr>db_suppressions := x6\<rparr>) = inv_ids db"
  by (simp_all add: inv_ids_def)

lemma alert_create_wf: "db_wf (w_db w) \<Longrightarrow> db_wf (w_db (snd (alert_create a w)))"
  unfolding alert_create_def by (rule exec_wf, assumption) (auto simp: db_wf_def primary_key_one split: if_splits)

lemma inv_create_wf: "db_wf (w_db w) \<Longrightarrow> db_wf (w_db (snd (inv_create iv w)))"
proof (unfold inv_create_def, rule exec_wf, assumption)
  fix a db
  assume wf: "db_wf (w_db w)" and "(if primary_key w (map in_ID (db_investigations (w_db w))) [in_ID iv]
     then Inr ((), (w_db w)\<lparr>db_investigations := db_investigations (w_db w) @ [stored_row iv]\<rparr>)
     else Inl (ErrOther ''insert investigation'')) = Inr (a, db)"
  then have new: "in_ID iv \<notin> in_ID ` set (db_investigations (w_db w))"
    and db: "db = (w_db w)\<lparr>db_investigations := db_investigations (w_db w) @ [stored_row iv]\<rparr>"
    by (auto simp: primary_key_one split: if_splits)
  have "inv_ids (w_db w) \<subseteq> inv_ids db" by (auto simp: inv_ids_def db)
  then show "db_wf db" using wf new by (auto simp: db_wf_def db elim!: list.pred_mono_strong)
qed

lemma distinct_append_all:
  "distinct (xs @ ys) \<longleftrightarrow> distinct xs \<and> distinct ys \<and> list_all (\<lambda>i. i \<notin> set xs) ys"
  by (auto simp: list_all_iff)

lemmas batch_simps = db_wf_def batch_ok_def primary_key_def references_investigation_def distinct_append_all list.pred_map comp_def

lemma evidence_create_batch_wf: "db_wf (w_db w) \<Longrightarrow> db_wf (w_db (snd (evidence_create_batch evs w)))"
  unfolding evidence_create_batch_def
  by (rule exec_wf, assumption) (auto simp: batch_simps simp del: distinct_append split: if_splits)

lemma hypothesis_create_batch_wf: "db_wf (w_db w) \<Longrightarrow> db_wf (w_db (snd (hypothesis_create_batch i hs w)))"
  unfolding hypothesis_create_batch_def
  by (rule exec_wf, assumption) (auto simp: batch_simps simp del: distinct_append split: if_splits)

lemma timeline_create_batch_wf: "db_wf (w_db w) \<Longrightarrow> db_wf (w_db (snd (timeline_create_batch evs w)))"
  unfolding timeline_create_batch_def
  by (rule exec_wf, assumption) (auto simp: batch_simps simp del: distinct_append split: if_splits)

lemma audit_create_wf: "db_wf (w_db w) \<Longrightarrow> db_wf (w_db (snd (audit_create e w)))"
  unfolding audit_create_def by (rule exec_wf, assumption) (auto simp: db_wf_def primary_key_one split: if_splits)

lemma audit_log_wf: "db_wf (w_db w) \<Longrightarrow> db_wf (w_db (snd (audit_log ten act a tgt md w)))"
  by (simp add: audit_log_def audit_log_action_def Let_def split_beta audit_create_wf)

lemma suppression_create_wf: "db_wf (w_db w) \<Longrightarrow> db_wf (w_db (snd (suppression_create f t w)))"
  unfolding suppression_create_def by (rule exec_wf, assumption) (auto simp: db_wf_def)

lemma inv_updates_wf:
  assumes "db_wf (w_db w)"
  shows "db_wf (w_db (snd (inv_update_status i s w)))" "db_wf (w_db (snd (inv_complete i h c w)))"
    "db_wf (w_db (snd (inv_link_alert i a w)))"
  using assms
  by (simp_all add: inv_update_status_def inv_complete_def inv_link_alert_def split_beta Let_def update_investigation_wf)

section \<open>The rows of the investigations\<close>

definition inv_row :: "world \<Rightarrow> string \<Rightarrow> investigation option" where
  "inv_row w i = find (\<lambda>iv. in_ID iv = i) (db_investigations (w_db w))"

text \<open>
  What the orchestrator relies on (its interface \<open>InvestigationStore\<close>): a successful call has its effect on
  the row it names and on no other; a failing one has none.
\<close>

locale investigation_store =
  fixes row :: "'w \<Rightarrow> string \<Rightarrow> investigation option"
    and create :: "investigation \<Rightarrow> 'w \<Rightarrow> (go_error + unit) \<times> 'w"
    and update_status :: "string \<Rightarrow> investigation_status \<Rightarrow> 'w \<Rightarrow> (go_error + unit) \<times> 'w"
    and complete_inv :: "string \<Rightarrow> string \<Rightarrow> f64 \<Rightarrow> 'w \<Rightarrow> (go_error + unit) \<times> 'w"
  assumes create_ok: "create iv w = (Inr u, w') \<Longrightarrow> row w (in_ID iv) = None \<and>
      row w' = (row w)(in_ID iv \<mapsto> stored_row iv)"
    and create_err: "create iv w = (Inl e, w') \<Longrightarrow> row w' = row w"
    and update_ok: "update_status i s w = (Inr u, w') \<Longrightarrow>
      \<exists>iv t. row w i = Some iv \<and> row w' = (row w)(i \<mapsto> iv\<lparr>in_Status := s, in_UpdatedAt := t\<rparr>)"
    and update_err: "update_status i s w = (Inl e, w') \<Longrightarrow> row w' = row w"
    and complete_ok: "complete_inv i h c w = (Inr u, w') \<Longrightarrow>
      \<exists>iv t. row w i = Some iv \<and> row w' = (row w)(i \<mapsto> iv\<lparr>in_Status := StatusDone, in_Headline := h,
        in_Confidence := c, in_UpdatedAt := t, in_CompletedAt := Some t\<rparr>)"
    and complete_err: "complete_inv i h c w = (Inl e, w') \<Longrightarrow> row w' = row w"
begin

text \<open>The fields only \<open>create\<close> writes.\<close>

definition fixed_fields :: "investigation \<Rightarrow> string \<times> string \<times> string list \<times> target_ref list \<times> gotime \<times> gotime \<times> string \<times> string" where
  "fixed_fields iv = (in_ID iv, in_TenantID iv, in_AlertIDs iv, in_Targets iv, in_TimeFrom iv, in_TimeTo iv,
     in_SlackChannelID iv, in_SlackThreadTS iv)"

lemma update_keeps: "update_status i s w = (r, w') \<Longrightarrow> map_option fixed_fields (row w' j) = map_option fixed_fields (row w j)"
  by (cases r) (auto simp: fixed_fields_def dest!: update_ok update_err)

lemma complete_keeps: "complete_inv i h c w = (r, w') \<Longrightarrow> map_option fixed_fields (row w' j) = map_option fixed_fields (row w j)"
  by (cases r) (auto simp: fixed_fields_def dest!: complete_ok complete_err)

lemma update_status_row: "update_status i s w = (Inr u, w') \<Longrightarrow> \<exists>iv. row w' i = Some iv \<and> in_Status iv = s"
  by (auto dest!: update_ok)

lemma complete_row: "complete_inv i h c w = (Inr u, w') \<Longrightarrow>
    \<exists>iv. row w' i = Some iv \<and> in_Status iv = StatusDone \<and> in_Headline iv = h \<and> in_Confidence iv = c \<and> in_CompletedAt iv \<noteq> None"
  by (auto dest!: complete_ok)

lemma update_needs_row: "update_status i s w = (Inr u, w') \<Longrightarrow> row w i \<noteq> None"
  by (auto dest!: update_ok)

end

lemma find_append: "find P (xs @ ys) = (case find P xs of None \<Rightarrow> find P ys | Some x \<Rightarrow> Some x)"
  by (induction xs) auto

lemma find_map_update:
  "(\<And>iv. in_ID (f iv) = in_ID iv) \<Longrightarrow>
   find (\<lambda>iv. in_ID iv = j) (map (\<lambda>iv. if in_ID iv = i then f iv else iv) ivs) =
     map_option (\<lambda>iv. if j = i then f iv else iv) (find (\<lambda>iv. in_ID iv = j) ivs)"
  by (induction ivs) auto

lemma find_ID_None: "find (\<lambda>iv. in_ID iv = i) ivs = None \<longleftrightarrow> i \<notin> in_ID ` set ivs"
  by (auto simp: find_None_iff)

lemma update_investigation_row:
  assumes "\<And>iv. in_ID (f iv) = in_ID iv" "update_investigation f i w = (Inr u, w')"
  shows "\<exists>iv. inv_row w i = Some iv \<and> inv_row w' = (inv_row w)(i \<mapsto> f iv)"
proof -
  have "i \<in> in_ID ` set (db_investigations (w_db w))"
    using assms(2) by (auto simp: update_investigation_def exec_def Let_def split: if_splits)
  then obtain iv where "inv_row w i = Some iv"
    using find_ID_None [of i "db_investigations (w_db w)"] by (auto simp: inv_row_def)
  moreover have "inv_row w' j = map_option (\<lambda>iv. if j = i then f iv else iv) (inv_row w j)" for j
    using assms(2) find_map_update [of f, OF assms(1)]
    by (auto simp: update_investigation_def exec_def Let_def inv_row_def split: if_splits)
  ultimately show ?thesis by (auto simp: fun_eq_iff option.map_ident)
qed

lemma update_investigation_err: "update_investigation f i w = (Inl e, w') \<Longrightarrow> inv_row w' = inv_row w"
  by (auto simp: update_investigation_def exec_def Let_def inv_row_def split: if_splits)

interpretation pg: investigation_store inv_row inv_create inv_update_status inv_complete
proof
  fix iv :: investigation and w w' u
  assume c: "inv_create iv w = (Inr u, w')"
  then have new: "in_ID iv \<notin> in_ID ` set (db_investigations (w_db w))"
    and db: "db_investigations (w_db w') = db_investigations (w_db w) @ [stored_row iv]"
    by (auto simp: inv_create_def primary_key_one exec_def Let_def split: if_splits)
  have "inv_row w' j = ((inv_row w)(in_ID iv \<mapsto> stored_row iv)) j" for j
    using new find_ID_None [of "in_ID iv" "db_investigations (w_db w)"]
    by (auto simp: inv_row_def db find_append split: option.split)
  then show "inv_row w (in_ID iv) = None \<and> inv_row w' = (inv_row w)(in_ID iv \<mapsto> stored_row iv)"
    using new find_ID_None by (auto simp: inv_row_def)
next
  show "inv_row w' = inv_row w" if "inv_create iv w = (Inl e, w')" for iv w e w'
    using that by (auto simp: inv_create_def exec_def Let_def inv_row_def split: if_splits)
  show "\<exists>iv t. inv_row w i = Some iv \<and> inv_row w' = (inv_row w)(i \<mapsto> iv\<lparr>in_Status := s, in_UpdatedAt := t\<rparr>)"
    if "inv_update_status i s w = (Inr u, w')" for i s w u w'
  proof -
    have "inv_row (snd (now w)) = inv_row w" by (simp add: inv_row_def fun_eq_iff)
    moreover have "update_investigation (\<lambda>iv. iv\<lparr>in_Status := s, in_UpdatedAt := fst (now w)\<rparr>) i (snd (now w)) = (Inr u, w')"
      using that by (simp add: inv_update_status_def split_beta)
    from update_investigation_row [OF _ this] have "\<exists>iv. inv_row (snd (now w)) i = Some iv \<and>
        inv_row w' = (inv_row (snd (now w)))(i \<mapsto> iv\<lparr>in_Status := s, in_UpdatedAt := fst (now w)\<rparr>)" by simp
    ultimately show ?thesis by auto
  qed
  show "inv_row w' = inv_row w" if "inv_update_status i s w = (Inl e, w')" for i s w e w'
  proof -
    have "inv_row (snd (now w)) = inv_row w" by (simp add: inv_row_def fun_eq_iff)
    moreover have "inv_row w' = inv_row (snd (now w))"
      using that unfolding inv_update_status_def split_beta Let_def by (rule update_investigation_err)
    ultimately show ?thesis by simp
  qed
  show "\<exists>iv t. inv_row w i = Some iv \<and> inv_row w' = (inv_row w)(i \<mapsto> iv\<lparr>in_Status := StatusDone, in_Headline := h,
        in_Confidence := c, in_UpdatedAt := t, in_CompletedAt := Some t\<rparr>)"
    if "inv_complete i h c w = (Inr u, w')" for i h c w u w'
  proof -
    have "inv_row (snd (now w)) = inv_row w" by (simp add: inv_row_def fun_eq_iff)
    moreover have "update_investigation (\<lambda>iv. iv\<lparr>in_Status := StatusDone, in_Headline := h, in_Confidence := c,
        in_UpdatedAt := fst (now w), in_CompletedAt := Some (fst (now w))\<rparr>) i (snd (now w)) = (Inr u, w')"
      using that by (simp add: inv_complete_def split_beta)
    from update_investigation_row [OF _ this] have "\<exists>iv. inv_row (snd (now w)) i = Some iv \<and>
        inv_row w' = (inv_row (snd (now w)))(i \<mapsto> iv\<lparr>in_Status := StatusDone, in_Headline := h, in_Confidence := c,
          in_UpdatedAt := fst (now w), in_CompletedAt := Some (fst (now w))\<rparr>)" by simp
    ultimately show ?thesis by auto
  qed
  show "inv_row w' = inv_row w" if "inv_complete i h c w = (Inl e, w')" for i h c w e w'
  proof -
    have "inv_row (snd (now w)) = inv_row w" by (simp add: inv_row_def fun_eq_iff)
    moreover have "inv_row w' = inv_row (snd (now w))"
      using that unfolding inv_complete_def split_beta Let_def by (rule update_investigation_err)
    ultimately show ?thesis by simp
  qed
qed

section \<open>The repository as a map\<close>

lemma link_alert_cases:
  assumes "inv_link_alert i a w = (r, w')"
  shows "case r of Inl e \<Rightarrow> inv_row w' = inv_row w
    | Inr u \<Rightarrow> \<exists>iv t. inv_row w i = Some iv \<and> inv_row w' = (inv_row w)(i \<mapsto> iv\<lparr>in_AlertIDs := in_AlertIDs iv @ [a], in_UpdatedAt := t\<rparr>)"
proof -
  have eq: "inv_row (snd (now w)) = inv_row w" by (simp add: inv_row_def fun_eq_iff)
  have upd: "update_investigation (\<lambda>iv. iv\<lparr>in_AlertIDs := in_AlertIDs iv @ [a], in_UpdatedAt := fst (now w)\<rparr>) i (snd (now w)) = (r, w')"
    using assms by (simp add: inv_link_alert_def split_beta)
  show ?thesis
  proof (cases r)
    case (Inl e)
    then show ?thesis using update_investigation_err upd eq by simp
  next
    case (Inr u)
    have "\<exists>iv. inv_row (snd (now w)) i = Some iv \<and>
        inv_row w' = (inv_row (snd (now w)))(i \<mapsto> iv\<lparr>in_AlertIDs := in_AlertIDs iv @ [a], in_UpdatedAt := fst (now w)\<rparr>)"
      using upd unfolding Inr by (intro update_investigation_row) simp_all
    with eq Inr show ?thesis by auto
  qed
qed

text \<open>What the statements say of a text that names no row.\<close>

definition names_no_row :: "world \<Rightarrow> string \<Rightarrow> bool" where
  "names_no_row w i \<longleftrightarrow> \<not> w_fault w (w_calls w) \<and> uuid_column w i \<and> inv_row w i = None"

lemma update_investigation_refused: "update_investigation f i w = (Inl e, w') \<Longrightarrow> e = ErrNotFound \<longleftrightarrow> names_no_row w i"
  using find_ID_None [of i "db_investigations (w_db w)"]
  by (auto simp: update_investigation_def exec_def Let_def names_no_row_def inv_row_def split: if_splits)

lemma updates_refused:
  "inv_update_status i s w = (Inl e, w') \<Longrightarrow> e = ErrNotFound \<longleftrightarrow> names_no_row w i"
  "inv_complete i h c w = (Inl e, w') \<Longrightarrow> e = ErrNotFound \<longleftrightarrow> names_no_row w i"
  "inv_link_alert i a w = (Inl e, w') \<Longrightarrow> e = ErrNotFound \<longleftrightarrow> names_no_row w i"
proof -
  have "names_no_row (snd (now w)) i = names_no_row w i"
    by (simp add: names_no_row_def uuid_column_def inv_row_def now_def)
  then show "inv_update_status i s w = (Inl e, w') \<Longrightarrow> e = ErrNotFound \<longleftrightarrow> names_no_row w i"
    "inv_complete i h c w = (Inl e, w') \<Longrightarrow> e = ErrNotFound \<longleftrightarrow> names_no_row w i"
    "inv_link_alert i a w = (Inl e, w') \<Longrightarrow> e = ErrNotFound \<longleftrightarrow> names_no_row w i"
    using update_investigation_refused [of _ i "snd (now w)" e w']
    by (simp_all add: inv_update_status_def inv_complete_def inv_link_alert_def split_beta)
qed

text \<open>C14: The investigation repository is a map from identifiers to investigations: each operation that succeeds changes the entry it
  names as it says and no other, each one that fails changes none, and an update fails with \<open>ErrNotFound\<close> exactly when the
  database can be reached and its identifier is a UUID without an entry.  A lookup answers with the entry of the UUID its text
  denotes, with \<open>ErrNotFound\<close> where there is none, and with another error for a text that is no UUID or a database
  out of reach.\<close>

theorem store_refines_map:
  "(case inv_create iv w of (Inl e, w') \<Rightarrow> inv_row w' = inv_row w
    | (Inr u, w') \<Rightarrow> uuid_column w (in_ID iv) \<and> inv_row w (in_ID iv) = None \<and> inv_row w' = (inv_row w)(in_ID iv \<mapsto> stored_row iv)) \<and>
   (case inv_update_status i s w of (Inl e, w') \<Rightarrow> inv_row w' = inv_row w \<and> (e = ErrNotFound \<longleftrightarrow> names_no_row w i)
    | (Inr u, w') \<Rightarrow> \<exists>r t. inv_row w i = Some r \<and> inv_row w' = (inv_row w)(i \<mapsto> r\<lparr>in_Status := s, in_UpdatedAt := t\<rparr>)) \<and>
   (case inv_complete i h c w of (Inl e, w') \<Rightarrow> inv_row w' = inv_row w \<and> (e = ErrNotFound \<longleftrightarrow> names_no_row w i)
    | (Inr u, w') \<Rightarrow> \<exists>r t. inv_row w i = Some r \<and> inv_row w' = (inv_row w)(i \<mapsto> r\<lparr>in_Status := StatusDone, in_Headline := h,
        in_Confidence := c, in_UpdatedAt := t, in_CompletedAt := Some t\<rparr>)) \<and>
   (case inv_link_alert i a w of (Inl e, w') \<Rightarrow> inv_row w' = inv_row w \<and> (e = ErrNotFound \<longleftrightarrow> names_no_row w i)
    | (Inr u, w') \<Rightarrow> \<exists>r t. inv_row w i = Some r \<and>
        inv_row w' = (inv_row w)(i \<mapsto> r\<lparr>in_AlertIDs := in_AlertIDs r @ [a], in_UpdatedAt := t\<rparr>)) \<and>
   fst (inv_get_by_id i w) = (if w_fault w (w_calls w) then Inl ErrUnavailable
      else case w_uuid_in w i of None \<Rightarrow> Inl (ErrOther ''query investigation'')
        | Some u \<Rightarrow> (case inv_row w u of None \<Rightarrow> Inl ErrNotFound | Some r \<Rightarrow> Inr r)) \<and>
   inv_row (snd (inv_get_by_id i w)) = inv_row w"
proof (intro conjI)
  have "uuid_column w (in_ID iv)" if "inv_create iv w = (Inr u, w')" for u w'
    using that by (auto simp: inv_create_def primary_key_one exec_def Let_def split: if_splits)
  then show "case inv_create iv w of (Inl e, w') \<Rightarrow> inv_row w' = inv_row w
    | (Inr u, w') \<Rightarrow> uuid_column w (in_ID iv) \<and> inv_row w (in_ID iv) = None \<and> inv_row w' = (inv_row w)(in_ID iv \<mapsto> stored_row iv)"
    by (auto split: prod.split sum.split dest: pg.create_ok pg.create_err)
  show "case inv_update_status i s w of (Inl e, w') \<Rightarrow> inv_row w' = inv_row w \<and> (e = ErrNotFound \<longleftrightarrow> names_no_row w i)
    | (Inr u, w') \<Rightarrow> \<exists>r t. inv_row w i = Some r \<and> inv_row w' = (inv_row w)(i \<mapsto> r\<lparr>in_Status := s, in_UpdatedAt := t\<rparr>)"
    using pg.update_ok [of i s w "()"] pg.update_err [of i s w] updates_refused(1) [of i s w]
    by (cases "inv_update_status i s w"; cases "fst (inv_update_status i s w)") simp_all
  show "case inv_complete i h c w of (Inl e, w') \<Rightarrow> inv_row w' = inv_row w \<and> (e = ErrNotFound \<longleftrightarrow> names_no_row w i)
    | (Inr u, w') \<Rightarrow> \<exists>r t. inv_row w i = Some r \<and> inv_row w' = (inv_row w)(i \<mapsto> r\<lparr>in_Status := StatusDone, in_Headline := h,
        in_Confidence := c, in_UpdatedAt := t, in_CompletedAt := Some t\<rparr>)"
    using pg.complete_ok [of i h c w "()"] pg.complete_err [of i h c w] updates_refused(2) [of i h c w]
    by (cases "inv_complete i h c w"; cases "fst (inv_complete i h c w)") simp_all
  show "case inv_link_alert i a w of (Inl e, w') \<Rightarrow> inv_row w' = inv_row w \<and> (e = ErrNotFound \<longleftrightarrow> names_no_row w i)
    | (Inr u, w') \<Rightarrow> \<exists>r t. inv_row w i = Some r \<and>
        inv_row w' = (inv_row w)(i \<mapsto> r\<lparr>in_AlertIDs := in_AlertIDs r @ [a], in_UpdatedAt := t\<rparr>)"
    using link_alert_cases [of i a w] updates_refused(3) [of i a w]
    by (cases "inv_link_alert i a w"; cases "fst (inv_link_alert i a w)") auto
  show "fst (inv_get_by_id i w) = (if w_fault w (w_calls w) then Inl ErrUnavailable
      else case w_uuid_in w i of None \<Rightarrow> Inl (ErrOther ''query investigation'')
        | Some u \<Rightarrow> (case inv_row w u of None \<Rightarrow> Inl ErrNotFound | Some r \<Rightarrow> Inr r))"
    by (simp add: inv_get_by_id_def exec_def inv_row_def Let_def split: option.split)
  show "inv_row (snd (inv_get_by_id i w)) = inv_row w"
    by (auto simp: inv_get_by_id_def exec_def inv_row_def Let_def fun_eq_iff split: option.split)
qed

section \<open>A sample world\<close>

definition sample_world :: "database \<Rightarrow> world" where
  "sample_world db = \<lparr>w_db = db, w_clock = (\<lambda>n. hours 10 + int n), w_reads = 0, w_uuid = (\<lambda>n. ''u'' @ itoa (int n)),
     w_uuids = 0, w_uuid_in = Some, w_fault = (\<lambda>n. False), w_calls = 0, w_events = []\<rparr>"

definition empty_db :: database where
  "empty_db = \<lparr>db_alerts = [], db_investigations = [], db_evidence = [], db_timeline = [], db_hypotheses = [],
     db_audit = [], db_suppressions = []\<rparr>"

end
