(* ===== verification/Dedup.thy ===== *)
theory Dedup
  imports Store
begin

text \<open>
  \<open>internal/dedup/dedup.go\<close> over the investigation repository: an alert whose fingerprint already has an
  investigation within the window is linked to it instead of being investigated again.
\<close>

definition not_duplicate :: dedup_result where
  "not_duplicate = \<lparr>dr_IsDuplicate = False, dr_ExistingID = [], dr_ExistingHeadline = [],
     dr_ExistingChannel = [], dr_ExistingThread = []\<rparr>"

definition dedup_check :: "duration \<Rightarrow> normalized_alert \<Rightarrow> world \<Rightarrow> (go_error + dedup_result) \<times> world" where
  "dedup_check window alert w =
     (if al_Fingerprint alert = [] then (Inr not_duplicate, w)
      else
        (let (t, w) = now w;
             since = time_add t (- window)
         in case inv_find_active (al_Fingerprint alert) since w of
              (Inl err, w) \<Rightarrow> (Inl err, w)
            | (Inr None, w) \<Rightarrow> (Inr not_duplicate, w)
            | (Inr (Some existing), w) \<Rightarrow>
              (let (r, w) = inv_link_alert (ai_ID existing) (al_ID alert) w in
               (Inr \<lparr>dr_IsDuplicate = True, dr_ExistingID = ai_ID existing,
                  dr_ExistingHeadline = ai_Headline existing, dr_ExistingChannel = ai_SlackChannelID existing,
                  dr_ExistingThread = ai_SlackThreadTS existing\<rparr>, w))))"

section \<open>The latest matching investigation\<close>

lemma latest_spec:
  "case latest best ivs of
     None \<Rightarrow> best = None \<and> ivs = []
   | Some r \<Rightarrow> (best = Some r \<or> r \<in> set ivs) \<and> (\<forall>iv \<in> set ivs. in_CreatedAt iv \<le> in_CreatedAt r) \<and>
       (\<forall>b. best = Some b \<longrightarrow> in_CreatedAt b \<le> in_CreatedAt r)"
proof (induction best ivs rule: latest.induct)
  case (2 best iv ivs)
  then show ?case by (cases best) (force split: option.splits if_splits)+
qed (auto split: option.split)

lemma inv_find_active_result:
  assumes "inv_find_active f since w = (Inr r, w')"
  shows "w_db w' = w_db w \<and>
    (case r of None \<Rightarrow> \<forall>iv \<in> set (db_investigations (w_db w)). \<not> matches_fingerprint (w_db w) f since iv
     | Some a \<Rightarrow> \<exists>iv \<in> set (db_investigations (w_db w)). matches_fingerprint (w_db w) f since iv \<and> a = active_of iv \<and>
         (\<forall>iv' \<in> set (db_investigations (w_db w)). matches_fingerprint (w_db w) f since iv' \<longrightarrow> in_CreatedAt iv' \<le> in_CreatedAt iv))"
proof -
  have r: "r = map_option active_of (latest None (filter (matches_fingerprint (w_db w) f since) (db_investigations (w_db w))))"
    and db: "w_db w' = w_db w"
    using assms by (auto simp: inv_find_active_def exec_def Let_def split: if_splits)
  show ?thesis
    using latest_spec [of None "filter (matches_fingerprint (w_db w) f since) (db_investigations (w_db w))"] db
    by (auto simp: r filter_empty_conv split: option.splits)
qed

text \<open>What the deduplication is for: an investigation that has not failed, was created in the window, and holds an alert like this one.\<close>

definition covers :: "duration \<Rightarrow> normalized_alert \<Rightarrow> world \<Rightarrow> investigation \<Rightarrow> bool" where
  "covers window alert w iv \<longleftrightarrow> iv \<in> set (db_investigations (w_db w)) \<and> in_Status iv \<noteq> StatusFailed \<and>
     w_clock w (w_reads w) - window \<le> in_CreatedAt iv \<and>
     (\<exists>b \<in> set (db_alerts (w_db w)). al_ID b \<in> set (in_AlertIDs iv) \<and> al_Fingerprint b = al_Fingerprint alert)"

lemma covers_matches:
  "covers window alert w iv \<longleftrightarrow> iv \<in> set (db_investigations (w_db w)) \<and>
     matches_fingerprint (w_db w) (al_Fingerprint alert) (w_clock w (w_reads w) - window) iv"
  by (auto simp: covers_def matches_fingerprint_def list_ex_iff)

text \<open>The link of the alert, unless the database is out of reach.\<close>

lemma link_alert_run:
  assumes "inv_link_alert i a w = (r, w')" "i \<in> inv_ids (w_db w)"
  shows "if w_fault w (w_calls w) then w_db w' = w_db w
    else w_db w' = (w_db w)\<lparr>db_investigations := db_investigations (w_db w')\<rparr> \<and> (\<exists>row. inv_row w i = Some row \<and>
      inv_row w' = (inv_row w)(i \<mapsto> row\<lparr>in_AlertIDs := in_AlertIDs row @ [a], in_UpdatedAt := w_clock w (w_reads w)\<rparr>))"
proof -
  let ?f = "\<lambda>iv. iv\<lparr>in_AlertIDs := in_AlertIDs iv @ [a], in_UpdatedAt := w_clock w (w_reads w)\<rparr>"
  have upd: "update_investigation ?f i (w\<lparr>w_reads := Suc (w_reads w)\<rparr>) = (r, w')"
    using assms(1) by (simp add: inv_link_alert_def now_def)
  have rows: "inv_row (w\<lparr>w_reads := n\<rparr>) = inv_row w" for n by (simp add: inv_row_def fun_eq_iff)
  show ?thesis
  proof (cases "w_fault w (w_calls w)")
    case True
    with upd show ?thesis by (auto simp: update_investigation_def exec_def Let_def)
  next
    case False
    with upd assms(2) have r: "r = Inr ()" by (auto simp: update_investigation_def exec_def inv_ids_def Let_def)
    have "w_db w' = (w_db w)\<lparr>db_investigations := db_investigations (w_db w')\<rparr>"
      using upd unfolding r by (auto simp: update_investigation_def exec_def Let_def split: if_splits)
    with update_investigation_row [OF _ upd [unfolded r]] False show ?thesis by (simp add: rows)
  qed
qed

text \<open>C16: An alert is a duplicate exactly when its fingerprint is not empty and an investigation covers it: one that has not failed,
  was created within the window, and holds an alert with that fingerprint.  It is reported with the latest such
  investigation, and linked to it: its identifier is added to the alerts of that row, and nothing else changes, unless the
  database is out of reach by then.  An alert that is no duplicate changes nothing, and the check fails only when
  the database cannot be asked.\<close>

theorem dedup_check_spec:
  assumes "dedup_check window alert w = (r, w')"
  shows "case r of
      Inl e \<Rightarrow> al_Fingerprint alert \<noteq> [] \<and> w_fault w (w_calls w) \<and> w_db w' = w_db w
    | Inr res \<Rightarrow>
        (dr_IsDuplicate res \<longleftrightarrow> al_Fingerprint alert \<noteq> [] \<and> (\<exists>iv. covers window alert w iv)) \<and>
        (\<not> dr_IsDuplicate res \<longrightarrow> w_db w' = w_db w) \<and>
        (dr_IsDuplicate res \<longrightarrow> (\<exists>iv. covers window alert w iv \<and>
           (\<forall>iv'. covers window alert w iv' \<longrightarrow> in_CreatedAt iv' \<le> in_CreatedAt iv) \<and>
           dr_ExistingID res = in_ID iv \<and> dr_ExistingHeadline res = in_Headline iv \<and>
           dr_ExistingChannel res = in_SlackChannelID iv \<and> dr_ExistingThread res = in_SlackThreadTS iv \<and>
           (if w_fault w (Suc (w_calls w)) then w_db w' = w_db w
            else w_db w' = (w_db w)\<lparr>db_investigations := db_investigations (w_db w')\<rparr> \<and> (\<exists>row. inv_row w (in_ID iv) = Some row \<and>
              inv_row w' = (inv_row w)(in_ID iv \<mapsto> row\<lparr>in_AlertIDs := in_AlertIDs row @ [al_ID alert],
                in_UpdatedAt := w_clock w (Suc (w_reads w))\<rparr>)))))"
proof (cases "al_Fingerprint alert = []")
  case True
  then show ?thesis using assms by (auto simp: dedup_check_def not_duplicate_def)
next
  case False
  let ?t = "w_clock w (w_reads w)"
  let ?w1 = "w\<lparr>w_reads := Suc (w_reads w)\<rparr>"
  have n: "now w = (?t, ?w1)" by (simp add: now_def)
  obtain x w2 where find: "inv_find_active (al_Fingerprint alert) (?t - window) ?w1 = (x, w2)" by fastforce
  then have w2: "w2 = w\<lparr>w_reads := Suc (w_reads w), w_calls := Suc (w_calls w)\<rparr>" "isl x = w_fault w (w_calls w)"
    by (auto simp: inv_find_active_def exec_def Let_def split: if_splits)
  have chk: "dedup_check window alert w = (case (x, w2) of (Inl err, w) \<Rightarrow> (Inl err, w)
      | (Inr None, w) \<Rightarrow> (Inr not_duplicate, w)
      | (Inr (Some existing), w) \<Rightarrow>
        (let (l, w) = inv_link_alert (ai_ID existing) (al_ID alert) w in
         (Inr \<lparr>dr_IsDuplicate = True, dr_ExistingID = ai_ID existing,
            dr_ExistingHeadline = ai_Headline existing, dr_ExistingChannel = ai_SlackChannelID existing,
            dr_ExistingThread = ai_SlackThreadTS existing\<rparr>, w)))"
    using False find by (simp add: dedup_check_def time_add_def n)
  show ?thesis
  proof (cases x)
    case (Inl e)
    with chk assms w2 False show ?thesis by auto
  next
    case (Inr existing)
    note found = inv_find_active_result [OF find [unfolded Inr]]
    show ?thesis
    proof (cases existing)
      case None
      with found have "\<not> covers window alert w iv" for iv by (simp add: covers_matches)
      with chk assms w2 Inr None show ?thesis by (auto simp: not_duplicate_def)
    next
      case (Some a)
      obtain l w3 where link: "inv_link_alert (ai_ID a) (al_ID alert) w2 = (l, w3)" by fastforce
      have res: "r = Inr \<lparr>dr_IsDuplicate = True, dr_ExistingID = ai_ID a, dr_ExistingHeadline = ai_Headline a,
          dr_ExistingChannel = ai_SlackChannelID a, dr_ExistingThread = ai_SlackThreadTS a\<rparr>" "w' = w3"
        using chk assms link Inr Some by simp_all
      from found Some obtain iv where iv: "covers window alert w iv" "a = active_of iv"
          "\<forall>iv'. covers window alert w iv' \<longrightarrow> in_CreatedAt iv' \<le> in_CreatedAt iv"
        by (auto simp: covers_matches)
      have rows: "inv_row w2 = inv_row w" "w_db w2 = w_db w" "w_fault w2 = w_fault w" "w_calls w2 = Suc (w_calls w)"
          "w_clock w2 = w_clock w" "w_reads w2 = Suc (w_reads w)"
        by (simp_all add: w2 inv_row_def fun_eq_iff)
      have same: "ai_ID a = in_ID iv" by (simp add: iv(2) active_of_def)
      have "in_ID iv \<in> inv_ids (w_db w)" using iv(1) by (auto simp: covers_def inv_ids_def)
      with link_alert_run [OF link] have "if w_fault w (Suc (w_calls w)) then w_db w3 = w_db w
          else w_db w3 = (w_db w)\<lparr>db_investigations := db_investigations (w_db w3)\<rparr> \<and> (\<exists>row. inv_row w (in_ID iv) = Some row \<and>
            inv_row w3 = (inv_row w)(in_ID iv \<mapsto> row\<lparr>in_AlertIDs := in_AlertIDs row @ [al_ID alert],
              in_UpdatedAt := w_clock w (Suc (w_reads w))\<rparr>))"
        unfolding rows same by simp
      then show ?thesis using iv False unfolding res by (auto simp: active_of_def)
    qed
  qed
qed

text \<open>The thread of the report is the one stored, which nothing ever sets after the creation of the row.\<close>

definition sample_row :: "string \<Rightarrow> gotime \<Rightarrow> string list \<Rightarrow> investigation" where
  "sample_row i t alerts = \<lparr>in_ID = i, in_TenantID = ''default'', in_Status = StatusDone, in_AlertIDs = alerts,
     in_Targets = [], in_TimeFrom = 0, in_TimeTo = 0, in_Headline = ''done'', in_Confidence = 1, in_CreatedAt = t,
     in_UpdatedAt = t, in_CompletedAt = None, in_SlackChannelID = ''C1'', in_SlackThreadTS = [],
     in_Hypotheses = [], in_Timeline = []\<rparr>"

theorem dedup_check_spec_witness:
  "\<exists>res w' row. dedup_check (hours 1) (normalized_alert0\<lparr>al_ID := ''a2'', al_Fingerprint := ''f''\<rparr>)
       (sample_world (empty_db\<lparr>db_alerts := [normalized_alert0\<lparr>al_ID := ''a1'', al_Fingerprint := ''f''\<rparr>],
          db_investigations := [sample_row ''i1'' (hours 10) [''a1'']]\<rparr>)) = (Inr res, w') \<and>
     dr_IsDuplicate res \<and> inv_row w' ''i1'' = Some row \<and> in_AlertIDs row = [''a1'', ''a2'']"
proof -
  let ?alert = "normalized_alert0\<lparr>al_ID := ''a2'', al_Fingerprint := ''f''\<rparr>"
  let ?row = "sample_row ''i1'' (hours 10) [''a1'']"
  let ?w = "sample_world (empty_db\<lparr>db_alerts := [normalized_alert0\<lparr>al_ID := ''a1'', al_Fingerprint := ''f''\<rparr>],
          db_investigations := [?row]\<rparr>)"
  obtain r w' where chk: "dedup_check (hours 1) ?alert ?w = (r, w')" by fastforce
  have fault: "\<not> w_fault ?w n" for n by (simp add: sample_world_def)
  have cover: "covers (hours 1) ?alert ?w iv \<longleftrightarrow> iv = ?row" for iv
    by (auto simp: covers_def sample_world_def sample_row_def hours_def normalized_alert0_def)
  have row: "inv_row ?w ''i1'' = Some ?row" by (simp add: inv_row_def sample_world_def sample_row_def)
  from dedup_check_spec [OF chk] fault obtain res where res: "r = Inr res" by (cases r) auto
  from dedup_check_spec [OF chk, unfolded res sum.case cover] fault row
  show ?thesis unfolding chk res by (auto simp: sample_row_def)
qed

end
