(* ===== verification/Gateway.thy ===== *)
theory Gateway
  imports Receivers Dedup
begin

text \<open>
  \<open>internal/receiver/gateway.go\<close>: the webhook endpoint.  A request is read, verified, archived, decoded and, alert
  by alert, deduplicated, suppressed or queued.  Marshalling a job cannot fail (its instants were parsed
  from JSON), tracing is left out and with it the trace context of the jobs.
\<close>

record gateway =
  gw_receivers :: "string \<Rightarrow> alert_receiver option"
  gw_dedup :: "duration option"
  gw_dedupNotifier :: bool
  gw_suppress :: bool
  gw_streamName :: string

record http_response =
  hr_Status :: nat
  hr_Body :: string

text \<open>\<open>http.Error\<close> ends its message with a line feed.\<close>

definition http_error :: "string \<Rightarrow> nat \<Rightarrow> http_response" where
  "http_error msg code = \<lparr>hr_Status = code, hr_Body = msg @ nl\<rparr>"

definition max_body_size :: nat where
  "max_body_size = 1048576"

definition new_gateway :: gateway where
  "new_gateway = \<lparr>gw_receivers = Map.empty, gw_dedup = None, gw_dedupNotifier = False, gw_suppress = False,
     gw_streamName = ''INVESTIGATIONS''\<rparr>"

definition register :: "alert_receiver \<Rightarrow> gateway \<Rightarrow> gateway" where
  "register rv g = g\<lparr>gw_receivers := (gw_receivers g)(rv_Source rv \<mapsto> rv)\<rparr>"

text \<open>What becomes of an alert, and the deduplication of one alert.\<close>

datatype fate = Queued | Linked | Muted | Lost

definition notify_dedup :: "gateway \<Rightarrow> normalized_alert \<Rightarrow> dedup_result \<Rightarrow> world \<Rightarrow> world" where
  "notify_dedup g a result w =
     (if gw_dedupNotifier g \<and> dr_ExistingChannel result \<noteq> []
      then snd (send (SlackDedup (dr_ExistingChannel result) (dr_ExistingThread result) (dr_ExistingID result)
             (if al_Title a = [] then al_ID a else al_Title a)) w)
      else w)"

definition check_dedup :: "gateway \<Rightarrow> normalized_alert \<Rightarrow> world \<Rightarrow> bool \<times> world" where
  "check_dedup g a w =
     (case gw_dedup g of None \<Rightarrow> (False, w)
      | Some window \<Rightarrow>
        (case dedup_check window a w of
           (Inl err, w) \<Rightarrow> (False, w)
         | (Inr result, w) \<Rightarrow>
           if dr_IsDuplicate result then (True, notify_dedup g a result (emit (Counted ''dedup_hits'' []) w))
           else (False, w)))"

definition check_suppress :: "gateway \<Rightarrow> normalized_alert \<Rightarrow> world \<Rightarrow> bool \<times> world" where
  "check_suppress g a w =
     (if gw_suppress g \<and> al_Fingerprint a \<noteq> [] then
        (case suppression_is_active (al_Fingerprint a) w of
           (Inl err, w) \<Rightarrow> (False, w)
         | (Inr suppressed, w) \<Rightarrow> if suppressed then (True, emit (Counted ''suppress_hits'' []) w) else (False, w))
      else (False, w))"

definition webhook_job :: "normalized_alert \<Rightarrow> investigation_job" where
  "webhook_job a = \<lparr>ij_Alert = a, ij_SlackChannelID = [], ij_SlackThreadTS = [], ij_RequestedBy = [],
     ij_TraceParent = [], ij_TraceState = []\<rparr>"

definition route_alert :: "gateway \<Rightarrow> normalized_alert \<Rightarrow> world \<Rightarrow> fate \<times> world" where
  "route_alert g a w =
     (case check_dedup g a w of (True, w) \<Rightarrow> (Linked, w)
      | (False, w) \<Rightarrow>
        (case check_suppress g a w of (True, w) \<Rightarrow> (Muted, w)
         | (False, w) \<Rightarrow>
           (case send (Published (gw_streamName g @ ''.new'') (webhook_job a)) w of
              (Some err, w) \<Rightarrow> (Lost, w) | (None, w) \<Rightarrow> (Queued, w))))"

text \<open>The loop over the alerts: \<open>None\<close> when a job could not be published, else the number of alerts not queued.\<close>

fun route_alerts :: "gateway \<Rightarrow> string \<Rightarrow> normalized_alert list \<Rightarrow> nat \<Rightarrow> world \<Rightarrow> nat option \<times> world" where
  "route_alerts g blobKey [] dedupCount w = (Some dedupCount, w)"
| "route_alerts g blobKey (a # alerts) dedupCount w =
     (let (i, w) = new_uuid w in
      case route_alert g (a\<lparr>al_ID := i, al_RawRef := blobKey\<rparr>) w of
        (Queued, w) \<Rightarrow> route_alerts g blobKey alerts dedupCount w
      | (Linked, w) \<Rightarrow> route_alerts g blobKey alerts (dedupCount + 1) w
      | (Muted, w) \<Rightarrow> route_alerts g blobKey alerts (dedupCount + 1) w
      | (Lost, w) \<Rightarrow> (None, w))"

definition decode_body :: "alert_receiver \<Rightarrow> http_header \<Rightarrow> string \<Rightarrow> world \<Rightarrow> (go_error + normalized_alert list) \<times> world" where
  "decode_body rv h body w =
     (let (t, w) = now w in
      case rv_Decode rv (\<lambda>i. w_uuid w (w_uuids w + i)) t h body of
        Inl e \<Rightarrow> (Inl e, w)
      | Inr alerts \<Rightarrow> (Inr alerts, w\<lparr>w_uuids := w_uuids w + length alerts\<rparr>))"

text \<open>An archived webhook: decoding, routing and the response.\<close>

definition archived_webhook :: "gateway \<Rightarrow> string \<Rightarrow> alert_receiver \<Rightarrow> http_header \<Rightarrow> string \<Rightarrow> string \<Rightarrow> world \<Rightarrow> http_response \<times> world" where
  "archived_webhook g source rv h blobKey body w =
     (case decode_body rv h body w of
        (Inl err, w) \<Rightarrow> (http_error ''decode error'' 400, emit (Counted ''webhooks_received'' (source @ '' decode_error'')) w)
      | (Inr alerts, w) \<Rightarrow>
        (case route_alerts g blobKey alerts 0 w of
           (None, w) \<Rightarrow> (http_error ''internal error'' 500, w)
         | (Some dedupCount, w) \<Rightarrow>
           (let w = emit (Counted ''webhooks_received'' (source @ '' accepted'')) w in
            if dedupCount > 0 \<and> dedupCount = length alerts
            then (\<lparr>hr_Status = 202, hr_Body = ''{'' @ quoted ''status'' @ '':'' @ quoted ''deduplicated'' @ '',''
                    @ quoted ''message'' @ '':'' @ quoted (itoa (int dedupCount) @ '' alert(s) linked to existing investigations'')
                    @ ''}''\<rparr>, w)
            else (\<lparr>hr_Status = 202, hr_Body = []\<rparr>, w))))"

text \<open>The body is \<open>None\<close> when reading it failed; \<open>MaxBytesReader\<close> makes reading fail beyond the limit.\<close>

definition handle_webhook :: "gateway \<Rightarrow> string \<Rightarrow> http_header \<Rightarrow> string option \<Rightarrow> world \<Rightarrow> http_response \<times> world" where
  "handle_webhook g source h body w =
     (case gw_receivers g source of
        None \<Rightarrow> (http_error ''unknown source'' 404, w)
      | Some rv \<Rightarrow>
        (case body of
           None \<Rightarrow> (http_error ''request body too large or unreadable'' 413, w)
         | Some body \<Rightarrow>
           if length body > max_body_size then (http_error ''request body too large or unreadable'' 413, w)
           else if rv_Verify rv h body \<noteq> None then
             (http_error ''verification failed'' 401, emit (Counted ''webhooks_received'' (source @ '' rejected'')) w)
           else
             (let (t, w) = now w; (u, w) = new_uuid w;
                  blobKey = ''raw/'' @ source @ ''/'' @ format_date t @ ''/'' @ u
              in case send (BlobStored blobKey body) w of
                   (Some err, w) \<Rightarrow> (http_error ''internal error'' 500, w)
                 | (None, w) \<Rightarrow> archived_webhook g source rv h blobKey body w)))"

section \<open>What becomes of an alert\<close>

text \<open>The events that tell the fate of an alert.\<close>

fun fate_of :: "event \<Rightarrow> fate option" where
  "fate_of (Published s j) = Some Queued"
| "fate_of (Counted m l) = (if m = ''dedup_hits'' then Some Linked else if m = ''suppress_hits'' then Some Muted else None)"
| "fate_of e = None"

fun is_published :: "event \<Rightarrow> bool" where
  "is_published (Published s j) = True"
| "is_published e = False"

lemma inv_find_active_events: "inv_find_active f since w = (r, w') \<Longrightarrow> w_events w' = w_events w"
  using exec_events [of "\<lambda>db. Inr (map_option active_of (latest None (filter (matches_fingerprint db f since) (db_investigations db))), db)" w]
  by (simp add: inv_find_active_def)

lemma inv_link_alert_events: "inv_link_alert i a w = (r, w') \<Longrightarrow> w_events w' = w_events w"
proof -
  assume "inv_link_alert i a w = (r, w')"
  moreover have "w_events (snd (inv_link_alert i a w)) = w_events w"
    by (simp add: inv_link_alert_def update_investigation_def split_beta Let_def now_def)
  ultimately show ?thesis by simp
qed

lemma dedup_check_events: "dedup_check window a w = (r, w') \<Longrightarrow> w_events w' = w_events w"
proof -
  assume chk: "dedup_check window a w = (r, w')"
  have "w_events (snd (dedup_check window a w)) = w_events w"
  proof (cases "al_Fingerprint a = []")
    case True
    then show ?thesis by (simp add: dedup_check_def)
  next
    case False
    obtain t w1 where 1: "now w = (t, w1)" by fastforce
    then have e1: "w_events w1 = w_events w" by (auto simp: now_def)
    obtain x w2 where 2: "inv_find_active (al_Fingerprint a) (time_add t (- window)) w1 = (x, w2)" by fastforce
    have e2: "w_events w2 = w_events w1" using 2 by (rule inv_find_active_events)
    show ?thesis
    proof (cases x)
      case (Inl e)
      then show ?thesis using False by (simp add: dedup_check_def 1 2 e1 e2)
    next
      case (Inr found)
      show ?thesis
      proof (cases found)
        case None
        then show ?thesis using False Inr by (simp add: dedup_check_def 1 2 e1 e2)
      next
        case (Some existing)
        obtain y w3 where 3: "inv_link_alert (ai_ID existing) (al_ID a) w2 = (y, w3)" by fastforce
        then have "w_events w3 = w_events w2" by (rule inv_link_alert_events)
        then show ?thesis using False Inr Some by (simp add: dedup_check_def 1 2 3 e1 e2)
      qed
    qed
  qed
  with chk show ?thesis by simp
qed

lemma notify_dedup_events: "\<exists>es. w_events (notify_dedup g a res w) = w_events w @ es \<and> List.map_filter fate_of es = [] \<and> filter is_published es = []"
  by (auto simp: notify_dedup_def send_def emit_def Let_def List.map_filter_simps)

lemma check_dedup_events:
  assumes "check_dedup g a w = (dup, w')"
  shows "\<exists>es. w_events w' = w_events w @ es \<and> List.map_filter fate_of es = (if dup then [Linked] else []) \<and> filter is_published es = []"
proof (cases "gw_dedup g")
  case None
  then show ?thesis using assms by (auto simp: check_dedup_def List.map_filter_simps)
next
  case (Some window)
  obtain r w1 where 1: "dedup_check window a w = (r, w1)" by fastforce
  note e1 = dedup_check_events [OF 1]
  show ?thesis
  proof (cases "\<exists>res. r = Inr res \<and> dr_IsDuplicate res")
    case True
    then obtain res where res: "r = Inr res" "dr_IsDuplicate res" by blast
    obtain es where "w_events (notify_dedup g a res (emit (Counted ''dedup_hits'' []) w1)) = w_events (emit (Counted ''dedup_hits'' []) w1) @ es"
      "List.map_filter fate_of es = []" "filter is_published es = []" using notify_dedup_events by blast
    moreover have "dup" "w' = notify_dedup g a res (emit (Counted ''dedup_hits'' []) w1)"
      using assms res by (auto simp: check_dedup_def Some 1)
    ultimately show ?thesis
      by (intro exI [of _ "Counted ''dedup_hits'' [] # es"]) (simp add: e1 emit_def List.map_filter_simps)
  next
    case False
    then have "\<not> dup" "w' = w1" using assms by (auto simp: check_dedup_def Some 1 split: sum.splits if_splits)
    then show ?thesis by (simp add: e1 List.map_filter_simps)
  qed
qed

lemma check_suppress_events:
  assumes "check_suppress g a w = (muted, w')"
  shows "\<exists>es. w_events w' = w_events w @ es \<and> List.map_filter fate_of es = (if muted then [Muted] else []) \<and> filter is_published es = []"
proof (cases "gw_suppress g \<and> al_Fingerprint a \<noteq> []")
  case False
  then show ?thesis using assms by (auto simp: check_suppress_def List.map_filter_simps)
next
  case True
  obtain r w1 where 1: "suppression_is_active (al_Fingerprint a) w = (r, w1)" by fastforce
  have "w_events (snd (suppression_is_active (al_Fingerprint a) w)) = w_events w"
    by (simp add: suppression_is_active_def split_beta Let_def now_def)
  then have e1: "w_events w1 = w_events w" by (simp add: 1)
  consider "r = Inr True" | "r = Inr False" | e where "r = Inl e" by (metis sum.exhaust)
  then show ?thesis
  proof cases
    case 1
    then have "muted" "w' = emit (Counted ''suppress_hits'' []) w1"
      using assms True \<open>suppression_is_active (al_Fingerprint a) w = (r, w1)\<close> by (auto simp: check_suppress_def)
    then show ?thesis by (intro exI [of _ "[Counted ''suppress_hits'' []]"]) (simp add: e1 emit_def List.map_filter_simps)
  qed (use assms True \<open>suppression_is_active (al_Fingerprint a) w = (r, w1)\<close> e1 in \<open>auto simp: check_suppress_def List.map_filter_simps\<close>)
qed

lemma map_filter_append [simp]: "List.map_filter f (xs @ ys) = List.map_filter f xs @ List.map_filter f ys"
  by (simp add: List.map_filter_def)

lemma route_alert_events:
  assumes "route_alert g a w = (f, w')"
  shows "\<exists>es. w_events w' = w_events w @ es \<and> List.map_filter fate_of es = (if f = Lost then [] else [f]) \<and>
    filter is_published es = (if f = Queued then [Published (gw_streamName g @ ''.new'') (webhook_job a)] else [])"
proof -
  obtain dup w1 where 1: "check_dedup g a w = (dup, w1)" by fastforce
  obtain es1 where es1: "w_events w1 = w_events w @ es1" "List.map_filter fate_of es1 = (if dup then [Linked] else [])" "filter is_published es1 = []"
    using check_dedup_events [OF 1] by blast
  obtain muted w2 where 2: "check_suppress g a w1 = (muted, w2)" by fastforce
  obtain es2 where es2: "w_events w2 = w_events w1 @ es2" "List.map_filter fate_of es2 = (if muted then [Muted] else [])" "filter is_published es2 = []"
    using check_suppress_events [OF 2] by blast
  show ?thesis
  proof (cases dup)
    case True
    then show ?thesis using assms es1 by (auto simp: route_alert_def 1)
  next
    case False
    show ?thesis
    proof (cases muted)
      case True
      then show ?thesis using assms es1 es2 False by (auto simp: route_alert_def 1 2 intro!: exI [of _ "es1 @ es2"])
    next
      case nm: False
      obtain x w3 where 3: "send (Published (gw_streamName g @ ''.new'') (webhook_job a)) w2 = (x, w3)" by fastforce
      show ?thesis
      proof (cases x)
        case None
        then have "w_events w3 = w_events w2 @ [Published (gw_streamName g @ ''.new'') (webhook_job a)]"
          using 3 by (auto simp: send_def emit_def Let_def split: if_splits)
        moreover have "f = Queued" "w' = w3" using assms False nm None by (auto simp: route_alert_def 1 2 3)
        ultimately show ?thesis using es1 es2 False nm
          by (intro exI [of _ "es1 @ es2 @ [Published (gw_streamName g @ ''.new'') (webhook_job a)]"]) (simp add: List.map_filter_simps)
      next
        case (Some e)
        then have "w_events w3 = w_events w2" using 3 by (auto simp: send_def emit_def Let_def split: if_splits)
        moreover have "f = Lost" "w' = w3" using assms False nm Some by (auto simp: route_alert_def 1 2 3)
        ultimately show ?thesis using es1 es2 False nm by (intro exI [of _ "es1 @ es2"]) simp
      qed
    qed
  qed
qed

lemma new_uuid_events [simp]: "w_events (snd (new_uuid w)) = w_events w"
  by (simp add: new_uuid_def)

text \<open>The generator of the identifiers is left alone.\<close>

definition draws_none :: "world \<Rightarrow> world \<Rightarrow> bool" where
  "draws_none w w' \<longleftrightarrow> w_uuid w' = w_uuid w \<and> w_uuids w' = w_uuids w"

lemma draws_none_refl [simp]: "draws_none w w"
  by (simp add: draws_none_def)

lemma draws_none_trans: "draws_none w w' \<Longrightarrow> draws_none w' w'' \<Longrightarrow> draws_none w w''"
  by (simp add: draws_none_def)

lemma draws_none_calls [simp]: "draws_none w (snd (now w))" "draws_none w (snd (exec stmt w))" "draws_none w (emit e w)" "draws_none w (snd (send e w))"
  by (auto simp: draws_none_def now_def exec_def emit_def send_def Let_def split: sum.split)

lemma draws_none_exec_now [simp]: "draws_none w (snd (exec stmt (snd (now w))))"
  by (rule draws_none_trans [OF draws_none_calls(1) draws_none_calls(2)])

lemma statements_draw_none:
  "inv_find_active f since w = (r, w') \<Longrightarrow> draws_none w w'"
  "inv_link_alert i b w = (u, w') \<Longrightarrow> draws_none w w'"
  "suppression_is_active f w = (s, w') \<Longrightarrow> draws_none w w'"
  "send e w = (x, w') \<Longrightarrow> draws_none w w'"
proof -
  have "draws_none w (snd (inv_find_active f since w))" by (simp add: inv_find_active_def)
  then show "inv_find_active f since w = (r, w') \<Longrightarrow> draws_none w w'" by simp
  have "draws_none w (snd (inv_link_alert i b w))" by (simp add: inv_link_alert_def update_investigation_def split_beta Let_def)
  then show "inv_link_alert i b w = (u, w') \<Longrightarrow> draws_none w w'" by simp
  have "draws_none w (snd (suppression_is_active f w))" by (simp add: suppression_is_active_def split_beta Let_def)
  then show "suppression_is_active f w = (s, w') \<Longrightarrow> draws_none w w'" by simp
  have "draws_none w (snd (send e w))" by simp
  then show "send e w = (x, w') \<Longrightarrow> draws_none w w'" by simp
qed

lemma dedup_check_draws:
  assumes "dedup_check window a w = (r, w')"
  shows "draws_none w w'"
proof (cases "al_Fingerprint a = []")
  case True
  then show ?thesis using assms by (simp add: dedup_check_def)
next
  case False
  obtain t w1 where 1: "now w = (t, w1)" by fastforce
  then have d1: "draws_none w w1" using draws_none_calls(1) [of w] by simp
  obtain x w2 where 2: "inv_find_active (al_Fingerprint a) (time_add t (- window)) w1 = (x, w2)" by fastforce
  have d2: "draws_none w w2" using d1 statements_draw_none(1) [OF 2] by (rule draws_none_trans)
  consider e where "x = Inl e" | "x = Inr None" | b where "x = Inr (Some b)" by (metis sum.exhaust option.exhaust)
  then show ?thesis
  proof cases
    case (3 b)
    obtain y w3 where link: "inv_link_alert (ai_ID b) (al_ID a) w2 = (y, w3)" by fastforce
    have "w' = w3" using assms False 3 by (simp add: dedup_check_def 1 2 link)
    then show ?thesis using draws_none_trans [OF d2 statements_draw_none(2) [OF link]] by simp
  qed (use assms False d2 in \<open>simp_all add: dedup_check_def 1 2\<close>)
qed

lemma check_dedup_draws:
  assumes "check_dedup g a w = (dup, w')"
  shows "draws_none w w'"
proof (cases "gw_dedup g")
  case None
  then show ?thesis using assms by (simp add: check_dedup_def)
next
  case (Some window)
  obtain r w1 where 1: "dedup_check window a w = (r, w1)" by fastforce
  note d1 = dedup_check_draws [OF 1]
  have "draws_none v (notify_dedup g a res v)" for res v by (simp add: notify_dedup_def)
  then have "draws_none w (notify_dedup g a res (emit e w1))" for res e
    using d1 draws_none_calls(3) by (blast intro: draws_none_trans)
  then show ?thesis using assms d1 by (auto simp: check_dedup_def Some 1 split: sum.splits if_splits)
qed

lemma check_suppress_draws:
  assumes "check_suppress g a w = (muted, w')"
  shows "draws_none w w'"
proof -
  obtain r w1 where 1: "suppression_is_active (al_Fingerprint a) w = (r, w1)" by fastforce
  note d1 = statements_draw_none(3) [OF 1]
  then have "draws_none w (emit e w1)" for e by (rule draws_none_trans) simp
  then show ?thesis using assms d1 by (auto simp: check_suppress_def 1 split: sum.splits if_splits)
qed

lemma route_alert_draws:
  assumes "route_alert g a w = (f, w')"
  shows "draws_none w w'"
proof -
  obtain dup w1 where 1: "check_dedup g a w = (dup, w1)" by fastforce
  obtain muted w2 where 2: "check_suppress g a w1 = (muted, w2)" by fastforce
  obtain x w3 where 3: "send (Published (gw_streamName g @ ''.new'') (webhook_job a)) w2 = (x, w3)" by fastforce
  have "w' \<in> {w1, w2, w3}" using assms by (cases dup; cases muted; cases x) (simp_all add: route_alert_def 1 2 3)
  moreover have "draws_none w w1" "draws_none w w2" "draws_none w w3"
    using check_dedup_draws [OF 1] check_suppress_draws [OF 2] statements_draw_none(4) [OF 3] by (blast intro: draws_none_trans)+
  ultimately show ?thesis by auto
qed

text \<open>The alerts as they are routed: under the identifiers that the generator gives next, with the key of the archived body.\<close>

definition identified :: "string \<Rightarrow> string list \<Rightarrow> normalized_alert list \<Rightarrow> normalized_alert list" where
  "identified key ids alerts = map2 (\<lambda>a i. a\<lparr>al_ID := i, al_RawRef := key\<rparr>) alerts ids"

lemma route_alerts_events:
  "route_alerts g key alerts n w = (Some m, w') \<Longrightarrow>
   \<exists>sent fates es. sent = identified key (map (w_uuid w) [w_uuids w..<w_uuids w + length alerts]) alerts \<and>
     w_uuid w' = w_uuid w \<and> w_uuids w' = w_uuids w + length alerts \<and> length fates = length alerts \<and>
     Lost \<notin> set fates \<and> m = n + length (filter (\<lambda>f. f \<noteq> Queued) fates) \<and> w_events w' = w_events w @ es \<and>
     List.map_filter fate_of es = fates \<and>
     filter is_published es = map (\<lambda>(a, f). Published (gw_streamName g @ ''.new'') (webhook_job a)) (filter (\<lambda>(a, f). f = Queued) (zip sent fates))"
proof (induction alerts arbitrary: n w)
  case Nil
  then show ?case by (intro exI [of _ "[]"]) (simp add: identified_def List.map_filter_simps)
next
  case (Cons a0 alerts)
  obtain i w1 where 1: "new_uuid w = (i, w1)" by fastforce
  then have e1: "w_events w1 = w_events w" using new_uuid_events [of w] by simp
  have i: "i = w_uuid w (w_uuids w)" "w_uuid w1 = w_uuid w" "w_uuids w1 = Suc (w_uuids w)" using 1 by (auto simp: new_uuid_def)
  define a where "a = a0\<lparr>al_ID := i, al_RawRef := key\<rparr>"
  obtain f w2 where 2: "route_alert g a w1 = (f, w2)" by fastforce
  have w2: "w_uuid w2 = w_uuid w" "w_uuids w2 = Suc (w_uuids w)" using route_alert_draws [OF 2] i by (simp_all add: draws_none_def)
  obtain es1 where es1: "w_events w2 = w_events w1 @ es1" "List.map_filter fate_of es1 = (if f = Lost then [] else [f])"
    "filter is_published es1 = (if f = Queued then [Published (gw_streamName g @ ''.new'') (webhook_job a)] else [])"
    using route_alert_events [OF 2] by blast
  define k where "k = (if f = Queued then n else n + 1)"
  have "route_alerts g key (a0 # alerts) n w = (if f = Lost then (None, w2) else route_alerts g key alerts k w2)"
    by (cases f) (simp_all add: 1 2 a_def [symmetric] k_def)
  with Cons.prems have f: "f \<noteq> Lost" and rest: "route_alerts g key alerts k w2 = (Some m, w')" by (auto split: if_splits)
  from Cons.IH [OF rest] obtain sent fates es where
    sent: "sent = identified key (map (w_uuid w2) [w_uuids w2..<w_uuids w2 + length alerts]) alerts"
    "w_uuid w' = w_uuid w2" "w_uuids w' = w_uuids w2 + length alerts" and
    fates: "length fates = length alerts"
    "Lost \<notin> set fates" "m = k + length (filter (\<lambda>f. f \<noteq> Queued) fates)" "w_events w' = w_events w2 @ es"
    "List.map_filter fate_of es = fates"
    "filter is_published es = map (\<lambda>(a, f). Published (gw_streamName g @ ''.new'') (webhook_job a)) (filter (\<lambda>(a, f). f = Queued) (zip sent fates))"
    by blast
  have cons: "a # sent = identified key (map (w_uuid w) [w_uuids w..<w_uuids w + length (a0 # alerts)]) (a0 # alerts)"
    by (simp add: sent(1) w2 identified_def a_def i(1) upt_rec [of "w_uuids w"] del: upt_Suc)
  show ?case using f es1 e1 fates w2 sent(2,3)
    by (intro exI [of _ "a # sent"] exI [of _ "f # fates"] exI [of _ "es1 @ es"] conjI cons) (auto simp: k_def)
qed

lemma length_filter_all: "length (filter (\<lambda>f. f \<noteq> x) xs) = length xs \<longleftrightarrow> x \<notin> set xs"
proof (induction xs)
  case (Cons y ys)
  have "length (filter (\<lambda>f. f \<noteq> x) ys) \<noteq> Suc (length ys)" 
    by (rule less_imp_neq) (simp add: le_imp_less_Suc)
  with Cons show ?case by auto
qed simp

text \<open>An accepted webhook, by its phases.\<close>

lemma accepted_phases:
  assumes "handle_webhook g source h (Some body) w = (resp, w')" "hr_Status resp = 202"
  shows "\<exists>rv key w1 alerts w2 m w3. gw_receivers g source = Some rv \<and> rv_Verify rv h body = None \<and> length body \<le> max_body_size \<and>
    key = ''raw/'' @ source @ ''/'' @ format_date (w_clock w (w_reads w)) @ ''/'' @ w_uuid w (w_uuids w) \<and>
    w_clock w1 = w_clock w \<and> w_reads w1 = Suc (w_reads w) \<and> w_uuid w1 = w_uuid w \<and> w_uuids w1 = Suc (w_uuids w) \<and>
    w_events w1 = w_events w @ [BlobStored key body] \<and> w_db w1 = w_db w \<and> decode_body rv h body w1 = (Inr alerts, w2) \<and>
    route_alerts g key alerts 0 w2 = (Some m, w3) \<and>
    w' = emit (Counted ''webhooks_received'' (source @ '' accepted'')) w3 \<and> (hr_Body resp \<noteq> [] \<longleftrightarrow> m > 0 \<and> m = length alerts)"
proof -
  obtain rv where rv: "gw_receivers g source = Some rv" using assms by (auto simp: handle_webhook_def http_error_def split: option.splits)
  have ok: "length body \<le> max_body_size" "rv_Verify rv h body = None"
    using assms by (auto simp: handle_webhook_def rv http_error_def split: if_splits)
  obtain t wa where a: "now w = (t, wa)" by fastforce
  obtain u wb where b: "new_uuid wa = (u, wb)" by fastforce
  define key where "key = ''raw/'' @ source @ ''/'' @ format_date t @ ''/'' @ u"
  obtain x w1 where 1: "send (BlobStored key body) wb = (x, w1)" by fastforce
  obtain d w2 where 2: "decode_body rv h body w1 = (d, w2)" by fastforce
  have run: "handle_webhook g source h (Some body) w = (case (x, w1) of (Some err, w) \<Rightarrow> (http_error ''internal error'' 500, w)
        | (None, w) \<Rightarrow> archived_webhook g source rv h key body w)"
    unfolding handle_webhook_def rv option.case using ok
    by (simp only: a b split_conv Let_def key_def [symmetric] 1 not_less [symmetric] if_False simp_thms)
  have x: "x = None" using assms by (cases x) (auto simp: run http_error_def)
  have k: "key = ''raw/'' @ source @ ''/'' @ format_date (w_clock w (w_reads w)) @ ''/'' @ w_uuid w (w_uuids w)"
    using a b by (auto simp: key_def now_def new_uuid_def)
  have e: "w_events w1 = w_events w @ [BlobStored key body]" "w_db w1 = w_db w"
    "w_clock w1 = w_clock w" "w_reads w1 = Suc (w_reads w)" "w_uuid w1 = w_uuid w" "w_uuids w1 = Suc (w_uuids w)"
    using 1 a b unfolding x by (auto simp: send_def emit_def now_def new_uuid_def Let_def split: if_splits)
  obtain alerts where d: "d = Inr alerts" using assms by (cases d) (auto simp: run x archived_webhook_def 2 http_error_def)
  obtain r w3 where 3: "route_alerts g key alerts 0 w2 = (r, w3)" by fastforce
  obtain m where m: "r = Some m" using assms by (cases r) (auto simp: run x archived_webhook_def 2 d 3 http_error_def)
  have "w' = emit (Counted ''webhooks_received'' (source @ '' accepted'')) w3" "hr_Body resp \<noteq> [] \<longleftrightarrow> m > 0 \<and> m = length alerts"
    using assms by (auto simp: run x archived_webhook_def 2 d 3 m Let_def split: if_splits)
  then show ?thesis using rv ok e k 2 3 m d by blast
qed

text \<open>C9: In an accepted webhook every alert has exactly one fate: it is queued, linked to an existing investigation or muted by a
  suppression, in the order of the payload.  The queued ones, and no others, are published on the queue, in a job without a
  Slack channel, as the receiver of the source has decoded them, but each under an identifier of its own and with the key of the archived
  body.  The key and the identifiers are the next ones of the generator, so none of them was given out before: first the one in
  the key, then one for each decoded alert, which is replaced, then one for each alert that is routed.  The response says \<open>deduplicated\<close> exactly
  when there are alerts and none was queued.\<close>

theorem accepted_alerts_accounted:
  assumes req: "handle_webhook g source h (Some body) w = (resp, w')" and ok: "hr_Status resp = 202"
  shows "\<exists>rv alerts sent fates es key. gw_receivers g source = Some rv \<and> rv_Verify rv h body = None \<and>
    rv_Decode rv (\<lambda>i. w_uuid w (Suc (w_uuids w) + i)) (w_clock w (Suc (w_reads w))) h body = Inr alerts \<and>
    key = ''raw/'' @ source @ ''/'' @ format_date (w_clock w (w_reads w)) @ ''/'' @ w_uuid w (w_uuids w) \<and>
    (let n = length alerts; u = Suc (w_uuids w) + n in
     sent = map2 (\<lambda>a i. a\<lparr>al_ID := i, al_RawRef := key\<rparr>) alerts (map (w_uuid w) [u..<u + n]) \<and> w_uuids w' = u + n) \<and>
    length fates = length alerts \<and> Lost \<notin> set fates \<and> w_events w' = w_events w @ BlobStored key body # es \<and>
    List.map_filter fate_of es = fates \<and>
    filter is_published es = map (\<lambda>(a, f). Published (gw_streamName g @ ''.new'') (webhook_job a)) (filter (\<lambda>(a, f). f = Queued) (zip sent fates)) \<and>
    (hr_Body resp \<noteq> [] \<longleftrightarrow> fates \<noteq> [] \<and> Queued \<notin> set fates)"
proof -
  from accepted_phases [OF req ok] obtain rv key w1 alerts w2 m w3 where rv: "gw_receivers g source = Some rv" "rv_Verify rv h body = None"
    and key: "key = ''raw/'' @ source @ ''/'' @ format_date (w_clock w (w_reads w)) @ ''/'' @ w_uuid w (w_uuids w)"
    and gen: "w_clock w1 = w_clock w" "w_reads w1 = Suc (w_reads w)" "w_uuid w1 = w_uuid w" "w_uuids w1 = Suc (w_uuids w)"
    and e1: "w_events w1 = w_events w @ [BlobStored key body]" and dec: "decode_body rv h body w1 = (Inr alerts, w2)"
    and route: "route_alerts g key alerts 0 w2 = (Some m, w3)" and w': "w' = emit (Counted ''webhooks_received'' (source @ '' accepted'')) w3"
    and body: "hr_Body resp \<noteq> [] \<longleftrightarrow> m > 0 \<and> m = length alerts" by blast
  from dec have decode: "rv_Decode rv (\<lambda>i. w_uuid w (Suc (w_uuids w) + i)) (w_clock w (Suc (w_reads w))) h body = Inr alerts"
    and e2: "w_events w2 = w_events w1" "w_uuid w2 = w_uuid w" "w_uuids w2 = Suc (w_uuids w) + length alerts"
    by (auto simp: decode_body_def now_def Let_def gen split: sum.splits)
  from route_alerts_events [OF route] obtain sent fates es where
    sent: "sent = map2 (\<lambda>a i. a\<lparr>al_ID := i, al_RawRef := key\<rparr>) alerts (map (w_uuid w2) [w_uuids w2..<w_uuids w2 + length alerts])"
    "w_uuids w3 = w_uuids w2 + length alerts" and len: "length fates = length alerts"
    "Lost \<notin> set fates" and m: "m = length (filter (\<lambda>f. f \<noteq> Queued) fates)" and es: "w_events w3 = w_events w2 @ es"
    and fates: "List.map_filter fate_of es = fates"
    and pub: "filter is_published es = map (\<lambda>(a, f). Published (gw_streamName g @ ''.new'') (webhook_job a)) (filter (\<lambda>(a, f). f = Queued) (zip sent fates))"
    unfolding add_0 identified_def by blast
  let ?c = "Counted ''webhooks_received'' (source @ '' accepted'')"
  have "m = length fates \<longleftrightarrow> Queued \<notin> set fates" unfolding m by (rule length_filter_all)
  then have "hr_Body resp \<noteq> [] \<longleftrightarrow> fates \<noteq> [] \<and> Queued \<notin> set fates" using body len(1) by auto
  moreover have "w_events w' = w_events w @ BlobStored key body # (es @ [?c])" "w_uuids w' = w_uuids w3"
    by (simp_all add: w' emit_def es e2 e1)
  moreover have "List.map_filter fate_of (es @ [?c]) = fates" by (simp add: fates List.map_filter_simps)
  moreover have "filter is_published (es @ [?c]) =
      map (\<lambda>(a, f). Published (gw_streamName g @ ''.new'') (webhook_job a)) (filter (\<lambda>(a, f). f = Queued) (zip sent fates))"
    by (simp add: pub)
  ultimately show ?thesis using rv sent len decode key e2(2,3) unfolding Let_def
    by (intro exI [of _ rv] exI [of _ alerts] exI [of _ sent] exI [of _ fates] exI [of _ "es @ [?c]"] exI [of _ key]) simp
qed

text \<open>C13: A webhook whose verification fails is answered with 401 and leaves nothing behind but its count: no archived body, no
  job, no change of the tables; nor does one from an unknown source or with a body beyond the limit.\<close>

theorem rejected_webhook_inert:
  assumes rejected: "gw_receivers g source = None \<or> (\<exists>rv. gw_receivers g source = Some rv \<and> (rv_Verify rv h body \<noteq> None \<or> max_body_size < length body))"
    and req: "handle_webhook g source h (Some body) w = (resp, w')"
  shows "hr_Status resp \<in> {401, 404, 413} \<and> w_db w' = w_db w \<and>
    (w' = w \<or> w' = emit (Counted ''webhooks_received'' (source @ '' rejected'')) w)"
proof (cases "gw_receivers g source")
  case None
  then show ?thesis using req by (auto simp: handle_webhook_def http_error_def)
next
  case (Some rv)
  show ?thesis
  proof (cases "max_body_size < length body")
    case True
    then show ?thesis using req by (auto simp: handle_webhook_def http_error_def Some)
  next
    case False
    then have bad: "rv_Verify rv h body \<noteq> None" using rejected Some by auto
    have "handle_webhook g source h (Some body) w =
        (http_error ''verification failed'' 401, emit (Counted ''webhooks_received'' (source @ '' rejected'')) w)"
      unfolding handle_webhook_def Some option.case using bad False by (simp only: if_True if_False not_False_eq_True simp_thms)
    then show ?thesis using req by (auto simp: http_error_def)
  qed
qed

definition sample_gateway :: gateway where
  "sample_gateway = (register (am_receiver ''key'' (\<lambda>b. Some \<lparr>am_GroupKey = [], am_CommonLabels = None, am_Alerts =
       [\<lparr>wa_Status = ''firing'', wa_Labels = None, wa_Annotations = None, wa_StartsAt = 1, wa_EndsAt = 0, wa_GeneratorURL = [],
         wa_Fingerprint = ''f''\<rparr>]\<rparr>)) new_gateway)\<lparr>gw_dedup := Some (hours 1), gw_suppress := True\<rparr>"

definition sample_header :: http_header where
  "sample_header name = (if name = ''Authorization'' then ''Bearer key'' else [])"

lemmas sample_defs = sample_gateway_def register_def new_gateway_def am_receiver_def am_verify_def am_decode_def sample_header_def
  sample_world_def empty_db_def

lemma sample_accepted:
  fixes r
  defines "r \<equiv> handle_webhook sample_gateway ''alertmanager'' sample_header (Some ''{}'') (sample_world empty_db)"
  shows "hr_Status (fst r) = 202" "List.map_filter fate_of (w_events (snd r)) = [Queued]"
    "length (filter is_published (w_events (snd r))) = 1"
  unfolding r_def
  by (simp_all add: sample_defs handle_webhook_def archived_webhook_def max_body_size_def now_def new_uuid_def send_def emit_def decode_body_def am_alert_def
      route_alert_def check_dedup_def dedup_check_def inv_find_active_def exec_def not_duplicate_def check_suppress_def
      suppression_is_active_def Let_def List.map_filter_simps normalized_alert0_def time_add_def)

theorem accepted_alerts_accounted_witness:
  "\<exists>resp w'. handle_webhook sample_gateway ''alertmanager'' sample_header (Some ''{}'') (sample_world empty_db) = (resp, w') \<and>
     length (filter is_published (w_events w')) = 1 \<and> hr_Body resp = []"
proof -
  obtain resp w' where req: "handle_webhook sample_gateway ''alertmanager'' sample_header (Some ''{}'') (sample_world empty_db) = (resp, w')"
    by fastforce
  have ok: "hr_Status resp = 202" and fates: "List.map_filter fate_of (w_events w') = [Queued]"
    and one: "length (filter is_published (w_events w')) = 1" using sample_accepted by (simp_all add: req)
  moreover have "w_events (sample_world empty_db) = []" by (simp add: sample_world_def)
  ultimately have "hr_Body resp = []"
    using accepted_alerts_accounted [OF req ok] by (auto simp: List.map_filter_simps)
  then show ?thesis using req one by blast
qed

theorem rejected_webhook_inert_witness:
  "\<exists>resp w'. handle_webhook sample_gateway ''alertmanager'' (\<lambda>name. []) (Some ''{}'') (sample_world empty_db) = (resp, w') \<and>
     hr_Status resp \<in> {401, 404, 413} \<and> w_db w' = empty_db"
proof -
  obtain resp w' where req: "handle_webhook sample_gateway ''alertmanager'' (\<lambda>name. []) (Some ''{}'') (sample_world empty_db) = (resp, w')"
    by fastforce
  have "gw_receivers sample_gateway ''alertmanager'' = None \<or> (\<exists>rv. gw_receivers sample_gateway ''alertmanager'' = Some rv \<and>
      (rv_Verify rv (\<lambda>name. []) ''{}'' \<noteq> None \<or> max_body_size < length ''{}''))"
    by (simp add: sample_gateway_def register_def new_gateway_def am_receiver_def am_verify_def)
  from rejected_webhook_inert [OF this req] show ?thesis using req by (auto simp: sample_world_def)
qed

section \<open>What the deduplication misses, and what it hides\<close>

lemma no_match_not_linked:
  assumes "\<forall>s \<in> set (db_alerts (w_db w)). al_Fingerprint s \<noteq> al_Fingerprint a"
  shows "\<exists>w'. check_dedup g a w = (False, w') \<and> w_db w' = w_db w"
proof (cases "gw_dedup g")
  case None
  then show ?thesis by (simp add: check_dedup_def)
next
  case (Some window)
  have none: "filter (matches_fingerprint (w_db w) (al_Fingerprint a) since) (db_investigations (w_db w)) = []" for since
    using assms by (auto simp: filter_empty_conv matches_fingerprint_def list_ex_iff)
  have "\<exists>r w'. dedup_check window a w = (r, w') \<and> w_db w' = w_db w \<and> (\<forall>res. r = Inr res \<longrightarrow> \<not> dr_IsDuplicate res)"
  proof (cases "al_Fingerprint a = []")
    case True
    then show ?thesis by (simp add: dedup_check_def not_duplicate_def)
  next
    case False
    then show ?thesis
      by (simp add: dedup_check_def now_def inv_find_active_def exec_def Let_def none not_duplicate_def)
  qed
  then show ?thesis by (auto simp: check_dedup_def Some split: sum.split)
qed

lemma no_suppression_not_muted:
  assumes "\<forall>(f, expires) \<in> set (db_suppressions (w_db w)). f \<noteq> al_Fingerprint a"
  shows "\<exists>w'. check_suppress g a w = (False, w') \<and> w_db w' = w_db w"
proof -
  have none: "filter (\<lambda>(f, expires). f = al_Fingerprint a \<and> expires > t) (db_suppressions (w_db w)) = []" for t
    using assms by (auto simp: filter_empty_conv)
  show ?thesis
    by (simp add: check_suppress_def suppression_is_active_def now_def exec_def Let_def none)
qed

text \<open>The deduplication of a webhook looks at the investigations stored before, not at the alerts of the same webhook: when no stored
  alert and no suppression has their fingerprints, all its alerts are queued, even those with equal fingerprints.\<close>

theorem batch_not_deduplicated:
  assumes "\<forall>a \<in> set alerts. \<forall>s \<in> set (db_alerts (w_db w)). al_Fingerprint s \<noteq> al_Fingerprint a"
    and "\<forall>a \<in> set alerts. \<forall>(f, expires) \<in> set (db_suppressions (w_db w)). f \<noteq> al_Fingerprint a"
    and "route_alerts g key alerts n w = (Some m, w')"
  shows "m = n"
  using assms
proof (induction alerts arbitrary: w)
  case (Cons a0 alerts)
  obtain i w1 where 1: "new_uuid w = (i, w1)" by fastforce
  then have db1: "w_db w1 = w_db w" using new_uuid_db [of w] by simp
  define a where "a = a0\<lparr>al_ID := i, al_RawRef := key\<rparr>"
  have fp: "al_Fingerprint a = al_Fingerprint a0" by (simp add: a_def)
  obtain w2 where 2: "check_dedup g a w1 = (False, w2)" "w_db w2 = w_db w1"
    using no_match_not_linked [of w1 a g] Cons.prems(1) by (auto simp: db1 fp)
  obtain w3 where 3: "check_suppress g a w2 = (False, w3)" "w_db w3 = w_db w2"
    using no_suppression_not_muted [of w2 a g] Cons.prems(2) by (auto simp: db1 2 fp)
  obtain x w4 where 4: "send (Published (gw_streamName g @ ''.new'') (webhook_job a)) w3 = (x, w4)" by fastforce
  have run: "route_alerts g key (a0 # alerts) n w = (case x of Some e \<Rightarrow> (None, w4) | None \<Rightarrow> route_alerts g key alerts n w4)"
    by (cases x) (simp_all add: 1 a_def [symmetric] route_alert_def 2 3 4)
  with Cons.prems(3) have x: "x = None" and rest: "route_alerts g key alerts n w4 = (Some m, w')" by (cases x; simp)+
  have "w_db w4 = w_db w" using send_db [of _ w3] 4 db1 2 3 by (metis snd_conv)
  then show ?case using Cons.prems(1,2) rest by (intro Cons.IH [of w4]) auto
qed simp

text \<open>The alert of a failed deployment has the fingerprint of the alert of the deployment itself.\<close>

lemma dedup_finds:
  assumes "\<not> w_fault w (w_calls w)" "al_Fingerprint a \<noteq> []" "iv \<in> set (db_investigations (w_db w))"
    and "matches_fingerprint (w_db w) (al_Fingerprint a) (w_clock w (w_reads w) - window) iv"
  shows "\<exists>res w'. dedup_check window a w = (Inr res, w') \<and> dr_IsDuplicate res"
proof -
  let ?ivs = "filter (matches_fingerprint (w_db w) (al_Fingerprint a) (w_clock w (w_reads w) - window)) (db_investigations (w_db w))"
  have "latest None ?ivs \<noteq> None"
    using latest_spec [of None ?ivs] assms(3,4) by (auto simp: filter_empty_conv split: option.splits)
  then obtain r where r: "latest None ?ivs = Some r" by blast
  obtain t w1 where 1: "now w = (t, w1)" by fastforce
  then have t: "t = w_clock w (w_reads w)" "w_db w1 = w_db w" "w_fault w1 = w_fault w" "w_calls w1 = w_calls w" by (auto simp: now_def)
  have "inv_find_active (al_Fingerprint a) (t - window) w1 = (Inr (Some (active_of r)), w1\<lparr>w_calls := Suc (w_calls w1), w_db := w_db w\<rparr>)"
    using assms(1) r by (simp add: inv_find_active_def exec_def Let_def t)
  then show ?thesis using assms(2) by (simp add: dedup_check_def 1 time_add_def split_beta)
qed

text \<open>Within the window, the alert that a deployment has failed is linked to the investigation of the alert that it started, and not
  investigated: both have the same fingerprint.\<close>

theorem failed_deployment_linked:
  assumes dedup: "gw_dedup g = Some window" and reachable: "\<not> w_fault w (w_calls w)"
    and started: "s \<in> set (db_alerts (w_db w))" "al_Fingerprint s = al_Fingerprint (hd (gh_deployment_alert sha256 i0 t0 ev))"
    and investigated: "iv \<in> set (db_investigations (w_db w))" "al_ID s \<in> set (in_AlertIDs iv)" "in_Status iv \<noteq> StatusFailed"
      "w_clock w (w_reads w) - window \<le> in_CreatedAt iv"
    and failure: "to_lower (gs_State ev') \<in> {''failure'', ''error''}"
    and same: "gs_Deployment ev' = ge_Deployment ev" "gs_Repository ev' = ge_Repository ev"
    and hashed: "\<And>x. sha256 x \<noteq> []"
  shows "fst (route_alert g (hd (gh_status_alert sha256 i t ev')) w) = Linked"
proof -
  let ?a = "hd (gh_status_alert sha256 i t ev')"
  have fp: "al_Fingerprint ?a = al_Fingerprint s" "al_Fingerprint ?a \<noteq> []"
    using failure same started(2) hashed by (auto simp: gh_status_alert_def gh_deployment_alert_def fingerprint_def Let_def)
  have "matches_fingerprint (w_db w) (al_Fingerprint ?a) (w_clock w (w_reads w) - window) iv"
    using started(1) investigated fp(1) by (auto simp: matches_fingerprint_def list_ex_iff)
  from dedup_finds [OF reachable fp(2) investigated(1) this] obtain res w1 where
    "dedup_check window ?a w = (Inr res, w1)" "dr_IsDuplicate res" by blast
  then show ?thesis by (simp add: route_alert_def check_dedup_def dedup)
qed

theorem batch_not_deduplicated_witness:
  "\<exists>m w'. route_alerts sample_gateway ''key'' [normalized_alert0\<lparr>al_Fingerprint := ''f''\<rparr>, normalized_alert0\<lparr>al_Fingerprint := ''f''\<rparr>] 0
     (sample_world empty_db) = (Some m, w') \<and> m = 0"
proof -
  let ?alerts = "[normalized_alert0\<lparr>al_Fingerprint := ''f''\<rparr>, normalized_alert0\<lparr>al_Fingerprint := ''f''\<rparr>]"
  have "fst (route_alerts sample_gateway ''key'' ?alerts 0 (sample_world empty_db)) \<noteq> None" by code_simp
  then obtain m w' where run: "route_alerts sample_gateway ''key'' ?alerts 0 (sample_world empty_db) = (Some m, w')"
    by (cases "route_alerts sample_gateway ''key'' ?alerts 0 (sample_world empty_db)") auto
  with batch_not_deduplicated [OF _ _ run] show ?thesis by (simp add: sample_world_def empty_db_def)
qed

definition sample_gh_deployment :: gh_deployment_event where
  "sample_gh_deployment = \<lparr>ge_Deployment = \<lparr>gd_SHA = ''abc'', gd_Ref = ''main'', gd_Environment = ''prod'', gd_Description = [], gd_URL = []\<rparr>,
     ge_Repository = \<lparr>gr_FullName = ''o/r'', gr_Name = ''r'', gr_HTMLURL = []\<rparr>, ge_Sender = ''me''\<rparr>"

definition sample_gh_failure :: gh_status_event where
  "sample_gh_failure = \<lparr>gs_State = ''FAILURE'', gs_Description = [], gs_TargetURL = [], gs_Deployment = ge_Deployment sample_gh_deployment,
     gs_Repository = ge_Repository sample_gh_deployment, gs_Sender = ''me''\<rparr>"

theorem failed_deployment_linked_witness:
  "fst (route_alert sample_gateway (hd (gh_status_alert (\<lambda>x. ''#'' @ x) ''i1'' 1 sample_gh_failure))
     (sample_world (empty_db\<lparr>db_alerts := gh_deployment_alert (\<lambda>x. ''#'' @ x) ''a1'' 0 sample_gh_deployment,
        db_investigations := [sample_row ''i1'' (hours 10) [''a1'']]\<rparr>))) = Linked"
proof -
  let ?s = "hd (gh_deployment_alert (\<lambda>x. ''#'' @ x) ''a1'' 0 sample_gh_deployment)" and ?iv = "sample_row ''i1'' (hours 10) [''a1'']"
  let ?w = "sample_world (empty_db\<lparr>db_alerts := gh_deployment_alert (\<lambda>x. ''#'' @ x) ''a1'' 0 sample_gh_deployment, db_investigations := [?iv]\<rparr>)"
  have "gw_dedup sample_gateway = Some (hours 1)" by (simp add: sample_gateway_def)
  moreover have "\<not> w_fault ?w (w_calls ?w)" "w_clock ?w (w_reads ?w) - hours 1 \<le> in_CreatedAt ?iv" "?iv \<in> set (db_investigations (w_db ?w))"
    "in_Status ?iv \<noteq> StatusFailed" by (simp_all add: sample_world_def sample_row_def hours_def)
  moreover have "?s \<in> set (db_alerts (w_db ?w))" "al_ID ?s \<in> set (in_AlertIDs ?iv)"
    by (simp_all add: sample_world_def sample_row_def gh_deployment_alert_def Let_def)
  moreover have "to_lower (gs_State sample_gh_failure) \<in> {''failure'', ''error''}" by code_simp
  ultimately show ?thesis
    by (intro failed_deployment_linked) (auto simp: sample_gh_failure_def)
qed

section \<open>The jobs of a webhook\<close>

definition gateway_jobs :: "string \<Rightarrow> event list \<Rightarrow> bool" where
  "gateway_jobs subject es =
     list_all (\<lambda>e. case e of Published s j \<Rightarrow> s = subject \<and> ij_SlackChannelID j = [] | _ \<Rightarrow> True) es"

lemma gateway_jobs_filter: "gateway_jobs subject (filter is_published es) = gateway_jobs subject es"
proof (induction es)
  case (Cons e es)
  then show ?case by (cases e) (simp_all add: gateway_jobs_def)
qed simp

lemma route_alerts_jobs: "route_alerts g key alerts n w = (r, w') \<Longrightarrow> \<exists>es. w_events w' = w_events w @ es \<and> gateway_jobs (gw_streamName g @ ''.new'') es"
proof (induction alerts arbitrary: n w)
  case Nil
  then show ?case by (simp add: gateway_jobs_def)
next
  case (Cons a0 alerts)
  obtain i w1 where 1: "new_uuid w = (i, w1)" by fastforce
  then have e1: "w_events w1 = w_events w" using new_uuid_events [of w] by simp
  define a where "a = a0\<lparr>al_ID := i, al_RawRef := key\<rparr>"
  obtain f w2 where 2: "route_alert g a w1 = (f, w2)" by fastforce
  obtain es1 where es1: "w_events w2 = w_events w1 @ es1"
    "filter is_published es1 = (if f = Queued then [Published (gw_streamName g @ ''.new'') (webhook_job a)] else [])"
    using route_alert_events [OF 2] by blast
  have "gateway_jobs (gw_streamName g @ ''.new'') (filter is_published es1)" by (simp add: es1 gateway_jobs_def webhook_job_def)
  then have nc: "gateway_jobs (gw_streamName g @ ''.new'') es1" by (simp add: gateway_jobs_filter)
  define k where "k = (if f = Queued then n else n + 1)"
  have "route_alerts g key (a0 # alerts) n w = (if f = Lost then (None, w2) else route_alerts g key alerts k w2)"
    by (cases f) (simp_all add: 1 2 a_def [symmetric] k_def)
  with Cons.prems consider "w' = w2" | "route_alerts g key alerts k w2 = (r, w')" by (auto split: if_splits)
  then show ?case
  proof cases
    case 1
    with es1 e1 nc show ?thesis by auto
  next
    case 2
    from Cons.IH [OF this] obtain es where "w_events w' = w_events w2 @ es" "gateway_jobs (gw_streamName g @ ''.new'') es" by blast
    with es1 e1 nc show ?thesis by (intro exI [of _ "es1 @ es"]) (simp add: gateway_jobs_def)
  qed
qed

text \<open>A request is refused at once, rejected, or archived and decoded.\<close>

lemma webhook_cases:
  assumes req: "handle_webhook g source h body w = (resp, w')"
  obtains (refused) "w' = w" "hr_Status resp \<in> {404, 413}"
    | (rejected) "w' = emit (Counted ''webhooks_received'' (source @ '' rejected'')) w" "hr_Status resp = 401"
    | (archived) rv b u t wa wb key x w1 where "now w = (t, wa)" "new_uuid wa = (u, wb)" "send (BlobStored key b) wb = (x, w1)"
      "(resp, w') = (case (x, w1) of (Some err, w) \<Rightarrow> (http_error ''internal error'' 500, w)
        | (None, w) \<Rightarrow> archived_webhook g source rv h key b w)"
      "body = Some b" "key = ''raw/'' @ source @ ''/'' @ format_date t @ ''/'' @ u"
proof (cases "gw_receivers g source")
  case None
  with req refused show thesis by (auto simp: handle_webhook_def http_error_def)
next
  case (Some rv)
  show thesis
  proof (cases body)
    case None
    with req refused Some show thesis by (auto simp: handle_webhook_def http_error_def)
  next
    case body: (Some b)
    show thesis
    proof (cases "max_body_size < length b \<or> rv_Verify rv h b \<noteq> None")
      case True
      with req refused rejected Some body show thesis by (auto simp: handle_webhook_def http_error_def split: if_splits)
    next
      case False
      obtain t wa where a: "now w = (t, wa)" by fastforce
      obtain u wb where b: "new_uuid wa = (u, wb)" by fastforce
      define key where "key = ''raw/'' @ source @ ''/'' @ format_date t @ ''/'' @ u"
      obtain x w1 where 1: "send (BlobStored key b) wb = (x, w1)" by fastforce
      show thesis
      proof (rule archived [OF a b 1 _ body key_def])
        show "(resp, w') = (case (x, w1) of (Some err, w) \<Rightarrow> (http_error ''internal error'' 500, w)
        | (None, w) \<Rightarrow> archived_webhook g source rv h key b w)"
          unfolding req [symmetric] handle_webhook_def Some body option.case using False
          by (simp only: a b split_conv Let_def key_def [symmetric] 1 if_False simp_thms de_Morgan_disj)
      qed
    qed
  qed
qed

lemma webhook_jobs:
  assumes req: "handle_webhook g source h body w = (resp, w')"
  shows "\<exists>es. w_events w' = w_events w @ es \<and> gateway_jobs (gw_streamName g @ ''.new'') es"
  using req
proof (cases rule: webhook_cases)
  case refused
  then show ?thesis by (simp add: gateway_jobs_def)
next
  case rejected
  then show ?thesis by (simp add: gateway_jobs_def emit_def)
next
  case later: (archived rv b u t wa wb key x w1)
  have "w_events wb = w_events w" using later(1,2) by (auto simp: now_def new_uuid_def)
  then obtain es1 where es1: "w_events w1 = w_events w @ es1" "gateway_jobs (gw_streamName g @ ''.new'') es1"
    using later(3) by (auto simp: send_def emit_def Let_def gateway_jobs_def split: if_splits)
  obtain d w2 where 2: "decode_body rv h b w1 = (d, w2)" by fastforce
  then have e2: "w_events w2 = w_events w1" by (auto simp: decode_body_def now_def Let_def split: sum.splits)
  show ?thesis
  proof (cases "\<exists>alerts. x = None \<and> d = Inr alerts")
    case True
    then obtain alerts where d: "x = None" "d = Inr alerts" by blast
    obtain r w3 where 3: "route_alerts g key alerts 0 w2 = (r, w3)" by fastforce
    from route_alerts_jobs [OF 3] obtain es3 where "w_events w3 = w_events w2 @ es3" "gateway_jobs (gw_streamName g @ ''.new'') es3" by blast
    moreover have "w' = w3 \<or> w' = emit (Counted ''webhooks_received'' (source @ '' accepted'')) w3"
      using later(4) by (cases r) (auto simp: archived_webhook_def d 2 3 Let_def split: if_splits)
    ultimately show ?thesis using es1 e2 by (auto simp: gateway_jobs_def emit_def)
  next
    case False
    then have "w' = w1 \<or> w' = emit (Counted ''webhooks_received'' (source @ '' decode_error'')) w2"
      using later(4) by (cases x; cases d) (auto simp: archived_webhook_def 2)
    then show ?thesis using es1 e2 by (auto simp: gateway_jobs_def emit_def)
  qed
qed

end
