(* ===== verification/HttpUtil.thy ===== *)
theory HttpUtil
  imports GoTime GoUrl
begin

text \<open>
  \<open>internal/httputil\<close>: the middleware that asks for the API key and the one that limits the requests of an
  address.  \<open>rate.Limiter\<close> is a third-party type: \<open>new_limiter\<close> and \<open>allow\<close> are arguments.  The requests are
  taken one after the other; two first requests of an address that overlap may each store a limiter.
\<close>

section \<open>apikey.go\<close>

text \<open>\<open>authorization\<close> is the header (\<open>[]\<close> when it is missing), \<open>query\<close> the raw query of the URL.  The comparison in
  constant time is equality.\<close>

definition credential :: "string \<Rightarrow> string \<Rightarrow> string" where
  "credential authorization query =
     (if authorization = [] then form_value (fst (parse_query query)) ''api_key''
      else trim_prefix authorization ''Bearer '')"

definition api_key_auth :: "string \<Rightarrow> string \<Rightarrow> string \<Rightarrow> bool" where
  "api_key_auth apiKey authorization query = (if apiKey = [] then True else credential authorization query = apiKey)"

section \<open>ratelimit.go\<close>

record 'l ip_entry =
  ie_limiter :: 'l
  ie_lastAccess :: gotime

record 'l ip_rate_limiter =
  rl_new :: 'l
  rl_allow :: "'l \<Rightarrow> gotime \<Rightarrow> bool \<times> 'l"
  rl_limiters :: "string \<Rightarrow> 'l ip_entry option"

definition new_ip_rate_limiter :: "'l \<Rightarrow> ('l \<Rightarrow> gotime \<Rightarrow> bool \<times> 'l) \<Rightarrow> 'l ip_rate_limiter" where
  "new_ip_rate_limiter fresh allow = \<lparr>rl_new = fresh, rl_allow = allow, rl_limiters = Map.empty\<rparr>"

text \<open>The limiter of an address, which is stored under it with the time of the access.\<close>

definition get_limiter :: "string \<Rightarrow> gotime \<Rightarrow> 'l ip_rate_limiter \<Rightarrow> 'l \<times> 'l ip_rate_limiter" where
  "get_limiter ip t rl =
     (let limiter = (case rl_limiters rl ip of Some entry \<Rightarrow> ie_limiter entry | None \<Rightarrow> rl_new rl)
      in (limiter, rl\<lparr>rl_limiters := (rl_limiters rl)(ip \<mapsto> \<lparr>ie_limiter = limiter, ie_lastAccess = t\<rparr>)\<rparr>))"

definition client_ip :: "string \<Rightarrow> string \<Rightarrow> string" where
  "client_ip remoteAddr realIP =
     (let ip = (if realIP \<noteq> [] then realIP else remoteAddr)
      in case split_host_port ip of Some host \<Rightarrow> host | None \<Rightarrow> ip)"

text \<open>Whether a request is let through; the limiter decides in place.\<close>

definition limit_request :: "string \<Rightarrow> gotime \<Rightarrow> 'l ip_rate_limiter \<Rightarrow> bool \<times> 'l ip_rate_limiter" where
  "limit_request ip t rl =
     (let (limiter, rl) = get_limiter ip t rl;
          (ok, limiter) = rl_allow rl limiter t
      in (ok, rl\<lparr>rl_limiters := (rl_limiters rl)(ip \<mapsto> \<lparr>ie_limiter = limiter, ie_lastAccess = t\<rparr>)\<rparr>))"

definition rate_limit :: "string \<Rightarrow> string \<Rightarrow> gotime \<Rightarrow> 'l ip_rate_limiter \<Rightarrow> bool \<times> 'l ip_rate_limiter" where
  "rate_limit remoteAddr realIP = limit_request (client_ip remoteAddr realIP)"

text \<open>One tick of the cleanup.\<close>

definition cleanup :: "gotime \<Rightarrow> 'l ip_rate_limiter \<Rightarrow> 'l ip_rate_limiter" where
  "cleanup t rl = rl\<lparr>rl_limiters := (\<lambda>ip. case rl_limiters rl ip of None \<Rightarrow> None
     | Some entry \<Rightarrow> if ie_lastAccess entry < time_add t (- minutes 10) then None else Some entry)\<rparr>"

section \<open>Addresses do not disturb each other\<close>

datatype limiter_op = Request string gotime | Tick gotime

text \<open>A run of the middleware, with the decisions it took.\<close>

fun limiter_run :: "limiter_op list \<Rightarrow> 'l ip_rate_limiter \<Rightarrow> (string \<times> bool) list \<times> 'l ip_rate_limiter" where
  "limiter_run [] rl = ([], rl)"
| "limiter_run (Request ip t # ops) rl =
     (let (ok, rl) = limit_request ip t rl; (ds, rl) = limiter_run ops rl in ((ip, ok) # ds, rl))"
| "limiter_run (Tick t # ops) rl = limiter_run ops (cleanup t rl)"

text \<open>The reference: one address alone, with a single limiter that starts afresh when ten minutes went by unused.\<close>

fun single_run :: "'l \<Rightarrow> ('l \<Rightarrow> gotime \<Rightarrow> bool \<times> 'l) \<Rightarrow> string \<Rightarrow> limiter_op list \<Rightarrow> ('l \<times> gotime) option \<Rightarrow> bool list" where
  "single_run fresh allow ip [] st = []"
| "single_run fresh allow ip (Request ip' t # ops) st =
     (if ip' = ip then
        (let (ok, l) = allow (case st of None \<Rightarrow> fresh | Some (l, used) \<Rightarrow> l) t
         in ok # single_run fresh allow ip ops (Some (l, t)))
      else single_run fresh allow ip ops st)"
| "single_run fresh allow ip (Tick t # ops) st =
     single_run fresh allow ip ops (case st of None \<Rightarrow> None | Some (l, used) \<Rightarrow> if used < t - minutes 10 then None else Some (l, used))"

definition entry_state :: "'l ip_entry option \<Rightarrow> ('l \<times> gotime) option" where
  "entry_state e = map_option (\<lambda>e. (ie_limiter e, ie_lastAccess e)) e"

lemma limit_request_run:
  "limit_request ip t rl = (ok, rl') \<Longrightarrow>
    rl_new rl' = rl_new rl \<and> rl_allow rl' = rl_allow rl \<and>
    (\<exists>l. rl_allow rl (case entry_state (rl_limiters rl ip) of None \<Rightarrow> rl_new rl | Some (l, used) \<Rightarrow> l) t = (ok, l) \<and>
       rl_limiters rl' = (rl_limiters rl)(ip \<mapsto> \<lparr>ie_limiter = l, ie_lastAccess = t\<rparr>))"
  by (auto simp: limit_request_def get_limiter_def entry_state_def Let_def split: prod.splits option.splits)

lemma single_run_agrees:
  "map snd (filter (\<lambda>d. fst d = ip) (fst (limiter_run ops rl))) =
     single_run (rl_new rl) (rl_allow rl) ip ops (entry_state (rl_limiters rl ip))"
proof (induction ops arbitrary: rl)
  case (Cons op ops)
  show ?case
  proof (cases op)
    case (Request ip' t)
    obtain ok rl1 where 1: "limit_request ip' t rl = (ok, rl1)" by fastforce
    obtain ds rl2 where 2: "limiter_run ops rl1 = (ds, rl2)" by fastforce
    from limit_request_run [OF 1] obtain l where l: "rl_new rl1 = rl_new rl" "rl_allow rl1 = rl_allow rl"
      "rl_allow rl (case entry_state (rl_limiters rl ip') of None \<Rightarrow> rl_new rl | Some (l, used) \<Rightarrow> l) t = (ok, l)"
      "rl_limiters rl1 = (rl_limiters rl)(ip' \<mapsto> \<lparr>ie_limiter = l, ie_lastAccess = t\<rparr>)" by blast
    have e: "entry_state (Some \<lparr>ie_limiter = l, ie_lastAccess = t\<rparr>) = Some (l, t)" by (simp add: entry_state_def)
    have "limiter_run (op # ops) rl = ((ip', ok) # ds, rl2)" by (simp add: Request 1 2)
    moreover have "map snd (filter (\<lambda>d. fst d = ip) ds) = single_run (rl_new rl) (rl_allow rl) ip ops (entry_state (rl_limiters rl1 ip))"
      using Cons.IH [of rl1] l by (simp add: 2)
    ultimately show ?thesis using l e by (cases "ip' = ip") (simp_all add: Request)
  next
    case (Tick t)
    have "entry_state (rl_limiters (cleanup t rl) ip) = (case entry_state (rl_limiters rl ip) of None \<Rightarrow> None
        | Some (l, used) \<Rightarrow> if used < t - minutes 10 then None else Some (l, used))"
      by (simp add: cleanup_def entry_state_def time_add_def split: option.split)
    moreover have "rl_new (cleanup t rl) = rl_new rl" "rl_allow (cleanup t rl) = rl_allow rl" by (simp_all add: cleanup_def)
    ultimately show ?thesis using Cons.IH [of "cleanup t rl"] by (simp add: Tick)
  qed
qed simp

text \<open>C34: The rate limiter treats every address as if it were alone: in any sequence of requests and cleanups, the decisions
  on one address are those of a single limiter that sees only the requests of this address and starts afresh when
  a cleanup finds it unused for ten minutes.\<close>

theorem limiter_isolates:
  "map snd (filter (\<lambda>d. fst d = ip) (fst (limiter_run ops (new_ip_rate_limiter fresh allow)))) =
     single_run fresh allow ip ops None"
  using single_run_agrees [of ip ops "new_ip_rate_limiter fresh allow"]
  by (simp add: new_ip_rate_limiter_def entry_state_def)

text \<open>The address is whatever the header \<open>X-Real-Ip\<close> says: a client that changes it gets a new limiter.\<close>

lemma client_names_itself: "realIP \<noteq> [] \<Longrightarrow> last_colon realIP = None \<Longrightarrow> client_ip remoteAddr realIP = realIP"
  by (simp add: client_ip_def split_host_port_def)

lemma fresh_address_allowed:
  assumes "rl_limiters rl realIP = None" "realIP \<noteq> []" "last_colon realIP = None" "fst (rl_allow rl (rl_new rl) t)"
  shows "fst (rate_limit remoteAddr realIP t rl)"
  using assms by (simp add: rate_limit_def client_names_itself limit_request_def get_limiter_def Let_def split_beta)

end
