(* ===== verification/GitProvider.thy ===== *)
theory GitProvider
  imports Contracts GoUrl
begin

text \<open>
  HTTP requests with retries, as \<open>internal/git/provider.go\<close> and \<open>internal/collector/deploy/collector.go\<close> make them,
  and the provider that fetches files from GitHub.  \<open>client n url\<close> is the outcome of the \<open>n\<close>-th request of a run;
  headers, logging and the timeouts of the client are left out.
\<close>

section \<open>Retries\<close>

text \<open>\<open>BadURL\<close>: the request cannot be built.  A response has its status, its header \<open>Retry-After\<close> and its body, \<open>None\<close> when
  reading it fails.\<close>

datatype http_outcome = BadURL string | NetError string | Response nat string "string option"

definition back_off :: "nat \<Rightarrow> string \<Rightarrow> duration" where
  "back_off attempt retryAfter =
     (if retryAfter = [] then seconds (int attempt + 1)
      else case atoi retryAfter of (secs, None) \<Rightarrow> wrap64 (seconds secs) | (secs, Some err) \<Rightarrow> seconds (int attempt + 1))"

text \<open>The loop from an attempt on: an error or the status and body, the number of requests and the delays slept.
  \<open>net_error\<close> and \<open>status_error\<close> are the texts of the errors.\<close>

function retry_http :: "(string \<Rightarrow> string) \<Rightarrow> (nat \<Rightarrow> string) \<Rightarrow> (nat \<Rightarrow> http_outcome) \<Rightarrow> nat \<Rightarrow>
    (go_error + nat \<times> string option) \<times> nat \<times> duration list" where
  "retry_http net_error status_error client attempt =
     (let again = (\<lambda>err delay.
        if attempt < 3 then
          (let (r, calls, delays) = retry_http net_error status_error client (attempt + 1) in (r, calls + 1, delay # delays))
        else (Inl (ErrOther err), 1, []))
      in case client attempt of
           BadURL e \<Rightarrow> (Inl (ErrOther (''building request: '' @ e)), 0, [])
         | NetError e \<Rightarrow> again (net_error e) (seconds (int attempt + 1))
         | Response status retryAfter body \<Rightarrow>
             if status = 429 \<or> status \<ge> 500 then again (status_error status) (back_off attempt retryAfter)
             else (Inr (status, body), 1, []))"
  by pat_completeness auto

termination by (relation "measure (\<lambda>(net_error, status_error, client, attempt). 4 - attempt)") auto

declare retry_http.simps [simp del]

definition transient :: "http_outcome \<Rightarrow> bool" where
  "transient r = (case r of BadURL e \<Rightarrow> False | NetError e \<Rightarrow> True | Response status ra body \<Rightarrow> status = 429 \<or> status \<ge> 500)"

lemma retry_http_calls:
  assumes "retry_http ne se client attempt = (r, calls, delays)" "attempt \<le> 3"
  shows "attempt + calls \<le> 4 \<and> length delays \<le> calls \<and> (\<forall>k<calls - 1. transient (client (attempt + k))) \<and>
    (\<forall>status body. r = Inr (status, body) \<longrightarrow> 1 \<le> calls \<and> status \<noteq> 429 \<and> status < 500 \<and>
       (\<exists>ra. client (attempt + calls - 1) = Response status ra body))"
  using assms
proof (induction ne se client attempt arbitrary: r calls delays rule: retry_http.induct)
  case (1 ne se client attempt)
  show ?case
  proof (cases "transient (client attempt) \<and> attempt < 3")
    case True
    obtain r' n ds where rest: "retry_http ne se client (attempt + 1) = (r', n, ds)" by (metis prod_cases3)
    have res: "r = r'" "calls = n + 1" "length delays = length ds + 1"
      using "1.prems"(1) True rest
      by (auto simp: retry_http.simps [of ne se client attempt] transient_def Let_def split: http_outcome.splits if_splits)
    from "1.IH" [OF _ rest] True
    have ih: "attempt + 1 + n \<le> 4" "length ds \<le> n" "\<forall>k<n - 1. transient (client (attempt + 1 + k))"
      "\<forall>status body. r' = Inr (status, body) \<longrightarrow> 1 \<le> n \<and> status \<noteq> 429 \<and> status < 500 \<and>
         (\<exists>ra. client (attempt + 1 + n - 1) = Response status ra body)" by auto
    have "transient (client (attempt + k))" if "k < n" for k
      using that ih(3) True by (cases k) auto
    with ih(1,2,4) show ?thesis by (auto simp: res)
  next
    case False
    with "1.prems" show ?thesis
      by (auto simp: retry_http.simps [of ne se client attempt] transient_def Let_def split: http_outcome.splits if_splits)
  qed
qed

section \<open>The provider\<close>

record git_provider_config =
  gpc_Organization :: string
  gpc_WorkloadRepos :: gomap
  gpc_DefaultBranch :: string
  gpc_MaxFileSize :: int
  gpc_MaxFiles :: int

record github_provider =
  gp_org :: string
  gp_workloadRepos :: gomap
  gp_defaultBranch :: string
  gp_maxFileSize :: nat
  gp_maxFiles :: nat

definition new_github_provider :: "git_provider_config \<Rightarrow> github_provider" where
  "new_github_provider cfg =
     \<lparr>gp_org = gpc_Organization cfg, gp_workloadRepos = gpc_WorkloadRepos cfg,
      gp_defaultBranch = (if gpc_DefaultBranch cfg = [] then ''main'' else gpc_DefaultBranch cfg),
      gp_maxFileSize = (if gpc_MaxFileSize cfg \<le> 0 then 20480 else nat (gpc_MaxFileSize cfg)),
      gp_maxFiles = (if gpc_MaxFiles cfg \<le> 0 then 10 else nat (gpc_MaxFiles cfg))\<rparr>"

definition resolve_repo :: "github_provider \<Rightarrow> string \<Rightarrow> string option" where
  "resolve_repo p workload = mlookup (gp_workloadRepos p) workload"

definition contents_url :: "github_provider \<Rightarrow> string \<Rightarrow> string \<Rightarrow> string" where
  "contents_url p repo path = ''https://api.github.com/repos/'' @ path_escape (gp_org p) @ ''/'' @ path_escape repo @ ''/contents/'' @ path
     @ ''?ref='' @ query_escape (gp_defaultBranch p)"

definition fetch_error :: "string \<Rightarrow> string \<Rightarrow> string" where
  "fetch_error path e = ''fetching '' @ path @ '': '' @ e"

definition status_error :: "string \<Rightarrow> nat \<Rightarrow> string" where
  "status_error path status = ''HTTP '' @ itoa (int status) @ '' for '' @ path"

text \<open>One file, with the number of requests made before and after.\<close>

definition fetch_file :: "github_provider \<Rightarrow> (nat \<Rightarrow> string \<Rightarrow> http_outcome) \<Rightarrow> string \<Rightarrow> string \<Rightarrow> nat \<Rightarrow> (go_error + string) \<times> nat" where
  "fetch_file p client repo path n =
     (let url = contents_url p repo path;
          (r, calls, delays) = retry_http (fetch_error path) (status_error path) (\<lambda>k. client (n + k) url) 0
      in (case r of
            Inl err \<Rightarrow> Inl err
          | Inr (status, body) \<Rightarrow>
              if status = 404 then Inl (ErrOther (''file not found: '' @ path))
              else if status \<noteq> 200 then Inl (ErrOther (''unexpected status '' @ itoa (int status) @ '' for '' @ path))
              else (case body of
                  None \<Rightarrow> Inl (ErrOther (''reading response for '' @ path))
                | Some content \<Rightarrow> Inr (if length content > gp_maxFileSize p then take (gp_maxFileSize p) content else content)),
          n + calls))"

fun fetch_loop :: "github_provider \<Rightarrow> (nat \<Rightarrow> string \<Rightarrow> http_outcome) \<Rightarrow> string \<Rightarrow> string list \<Rightarrow>
    (string \<times> string) list \<Rightarrow> nat \<Rightarrow> (string \<times> string) list \<times> nat" where
  "fetch_loop p client repo [] results n = (results, n)"
| "fetch_loop p client repo (path # paths) results n =
     (case fetch_file p client repo path n of
        (Inl err, n) \<Rightarrow> fetch_loop p client repo paths results n
      | (Inr content, n) \<Rightarrow> fetch_loop p client repo paths (AList.update path content results) n)"

text \<open>\<open>FetchFiles\<close> never returns an error.\<close>

definition fetch_files :: "github_provider \<Rightarrow> (nat \<Rightarrow> string \<Rightarrow> http_outcome) \<Rightarrow> string \<Rightarrow> string list \<Rightarrow> nat \<Rightarrow>
    (go_error + gomap) \<times> nat" where
  "fetch_files p client repo paths n =
     (let paths = (if length paths > gp_maxFiles p then take (gp_maxFiles p) paths else paths);
          (results, n) = fetch_loop p client repo paths [] n
      in (Inr (Some results), n))"

definition noop_fetch_files :: "string \<Rightarrow> string list \<Rightarrow> go_error + gomap" where
  "noop_fetch_files repo paths = Inr mmake"

definition noop_resolve_repo :: "string \<Rightarrow> string option" where
  "noop_resolve_repo workload = None"

section \<open>What fetching files costs and gives\<close>

definition served :: "github_provider \<Rightarrow> (nat \<Rightarrow> string \<Rightarrow> http_outcome) \<Rightarrow> string \<Rightarrow> string \<Rightarrow> string \<Rightarrow> bool" where
  "served p client repo path content =
     (\<exists>k ra body. client k (contents_url p repo path) = Response 200 ra (Some body) \<and> content = take (gp_maxFileSize p) body)"

lemma fetch_file_spec:
  assumes "fetch_file p client repo path n = (r, m)"
  shows "m \<le> n + 4 \<and> (\<forall>content. r = Inr content \<longrightarrow> served p client repo path content)"
proof -
  obtain q calls ds where q: "retry_http (fetch_error path) (status_error path) (\<lambda>k. client (n + k) (contents_url p repo path)) 0 = (q, calls, ds)"
    by (metis prod_cases3)
  from retry_http_calls [OF q] have c: "calls \<le> 4" and
    ok: "\<And>status body. q = Inr (status, body) \<Longrightarrow> \<exists>ra. client (n + (calls - 1)) (contents_url p repo path) = Response status ra body"
    by auto
  have m: "m = n + calls" using assms by (auto simp: fetch_file_def q Let_def)
  have "served p client repo path content" if "r = Inr content" for content
  proof -
    from that assms obtain body where "q = Inr (200, Some body)" "content = take (gp_maxFileSize p) body"
      by (auto simp: fetch_file_def q Let_def split: sum.splits option.splits if_splits)
    with ok [of 200 "Some body"] show ?thesis by (auto simp: served_def)
  qed
  with c m show ?thesis by simp
qed

lemma fetch_loop_spec:
  assumes "fetch_loop p client repo paths results n = (results', m)"
    and "\<And>path content. map_of results path = Some content \<Longrightarrow> served p client repo path content"
  shows "m \<le> n + 4 * length paths \<and> dom (map_of results') \<subseteq> dom (map_of results) \<union> set paths \<and>
    (\<forall>path content. map_of results' path = Some content \<longrightarrow> served p client repo path content)"
  using assms
proof (induction paths arbitrary: results n)
  case (Cons path paths)
  obtain r n1 where 1: "fetch_file p client repo path n = (r, n1)" by fastforce
  note f = fetch_file_spec [OF 1]
  show ?case
  proof (cases r)
    case (Inl e)
    with Cons.prems(1) have "fetch_loop p client repo paths results n1 = (results', m)" by (simp add: 1)
    from Cons.IH [OF this Cons.prems(2)] f show ?thesis by auto
  next
    case (Inr content)
    with Cons.prems(1) have run: "fetch_loop p client repo paths (AList.update path content results) n1 = (results', m)" by (simp add: 1)
    have "\<And>q c. map_of (AList.update path content results) q = Some c \<Longrightarrow> served p client repo q c"
      using Cons.prems(2) f Inr by (auto simp: update_conv' split: if_splits)
    from Cons.IH [OF run this] f show ?thesis by (auto simp: update_conv')
  qed
qed auto

text \<open>Fetching files ends after at most four requests for each of at most \<open>maxFiles\<close> paths and never fails; what it returns is
  under paths that were asked for, and each content is what GitHub answered for that path, cut to the maximal size.\<close>

theorem fetch_files_bounded:
  assumes "fetch_files p client repo paths n = (r, m)"
  shows "m \<le> n + 4 * gp_maxFiles p \<and> (\<exists>results. r = Inr results \<and>
    (\<forall>path content. mlookup results path = Some content \<longrightarrow>
       path \<in> set (take (gp_maxFiles p) paths) \<and> served p client repo path content \<and> length content \<le> gp_maxFileSize p))"
proof -
  obtain results m' where run: "fetch_loop p client repo (take (gp_maxFiles p) paths) [] n = (results, m')" by fastforce
  have eq: "(if length paths > gp_maxFiles p then take (gp_maxFiles p) paths else paths) = take (gp_maxFiles p) paths" by simp
  have "r = Inr (Some results)" "m = m'" using assms unfolding fetch_files_def eq by (simp_all add: run)
  moreover have "4 * length (take (gp_maxFiles p) paths) \<le> 4 * gp_maxFiles p" by simp
  ultimately show ?thesis using fetch_loop_spec [OF run] by (fastforce simp: mlookup_def served_def)
qed

theorem fetch_files_bounded_witness:
  "\<exists>p client. gp_maxFiles p = 10 \<and>
     fst (fetch_files p client ''shop'' [''a.go'', ''b.go''] 0) = Inr (Some [(''b.go'', ''ok'')]) \<and>
     snd (fetch_files p client ''shop'' [''a.go'', ''b.go''] 0) \<le> 0 + 4 * gp_maxFiles p"
proof -
  let ?p = "new_github_provider \<lparr>gpc_Organization = ''acme'', gpc_WorkloadRepos = None, gpc_DefaultBranch = [], gpc_MaxFileSize = 5, gpc_MaxFiles = 0\<rparr>"
  let ?client = "\<lambda>n url. if n = 0 then NetError ''reset'' else if n = 1 then Response 404 [] None else Response 200 [] (Some ''ok'')"
  obtain r m where run: "fetch_files ?p ?client ''shop'' [''a.go'', ''b.go''] 0 = (r, m)" by fastforce
  have "fst (fetch_files ?p ?client ''shop'' [''a.go'', ''b.go''] 0) = Inr (Some [(''b.go'', ''ok'')])" by code_simp
  moreover have "gp_maxFiles ?p = 10" by (simp add: new_github_provider_def)
  ultimately show ?thesis using fetch_files_bounded [OF run] run
    by (intro exI [of _ ?p] exI [of _ ?client]) simp
qed

end
