(* ===== verification/Orchestrator.thy ===== *)
theory Orchestrator
  imports Store RcaEngine Correlation Timeline Entity Remediation
begin

text \<open>
  \<open>internal/investigation/orchestrator.go\<close>: one investigation from the queued job to the stored result.
  The correlator, the timeline builder, the entity resolver, the remediation policies and the
  repositories are the models of their packages; the RCA engine is an argument (the rule engine is
  \<open>rule_service\<close>), and so are the collectors, the thread Slack answers with and \<open>sort.Slice\<close>.  \<open>None\<close> is
  a panic, which only an RCA engine can raise here.  Logging and tracing are left out; the deadline of
  the context is part of \<open>w_fault\<close>, since an expired context fails the calls that follow.
\<close>

section \<open>The orchestrator and its options\<close>

text \<open>
  An engine gets fresh UUIDs and the time; it says how many UUIDs it drew and what it sent.  The graph holds the alert of the
  job, whose label map is shared and not copied, so the engine also says what is in that map when it is done.
\<close>

record rca_service =
  rs_name :: string
  rs_rank :: "(nat \<Rightarrow> string) \<Rightarrow> gotime \<Rightarrow> investigation_graph \<Rightarrow>
    (go_error + hypothesis list) option \<times> gomap \<times> nat \<times> event list"

record orchestrator =
  o_rca :: rca_service
  o_llmRCA :: "rca_service option"
  o_llmEnabled :: bool
  o_collect :: "nat \<Rightarrow> collect_request \<Rightarrow> evidence list \<times> go_error option"
  o_sort :: "timeline_event list \<Rightarrow> timeline_event list"
  o_slack :: bool
  o_slackTS :: "nat \<Rightarrow> string"
  o_remediation :: "remediation_engine option"
  o_blobStore :: bool
  o_tx :: bool
  o_maxConcurrent :: int
  o_timeout :: duration

record orchestrator_deps =
  od_RCA :: rca_service
  od_Collectors :: "nat \<Rightarrow> collect_request \<Rightarrow> evidence list \<times> go_error option"
  od_Sort :: "timeline_event list \<Rightarrow> timeline_event list"
  od_Slack :: "(nat \<Rightarrow> string) option"
  od_Tx :: bool

definition with_llm_engine :: "rca_service \<Rightarrow> orchestrator \<Rightarrow> orchestrator" where
  "with_llm_engine engine oc = oc\<lparr>o_llmRCA := Some engine, o_llmEnabled := True\<rparr>"

definition with_remediation :: "remediation_engine \<Rightarrow> orchestrator \<Rightarrow> orchestrator" where
  "with_remediation r oc = oc\<lparr>o_remediation := Some r\<rparr>"

definition with_max_concurrent :: "int \<Rightarrow> orchestrator \<Rightarrow> orchestrator" where
  "with_max_concurrent n oc = oc\<lparr>o_maxConcurrent := n\<rparr>"

definition with_timeout :: "duration \<Rightarrow> orchestrator \<Rightarrow> orchestrator" where
  "with_timeout d oc = oc\<lparr>o_timeout := d\<rparr>"

definition with_blob_store :: "orchestrator \<Rightarrow> orchestrator" where
  "with_blob_store oc = oc\<lparr>o_blobStore := True\<rparr>"

definition new_orchestrator :: "orchestrator_deps \<Rightarrow> (orchestrator \<Rightarrow> orchestrator) list \<Rightarrow> orchestrator" where
  "new_orchestrator deps opts = fold (\<lambda>opt oc. opt oc) opts
     \<lparr>o_rca = od_RCA deps, o_llmRCA = None, o_llmEnabled = False, o_collect = od_Collectors deps,
      o_sort = od_Sort deps, o_slack = (od_Slack deps \<noteq> None),
      o_slackTS = (case od_Slack deps of None \<Rightarrow> (\<lambda>n. []) | Some ts \<Rightarrow> ts), o_remediation = None,
      o_blobStore = False, o_tx = od_Tx deps, o_maxConcurrent = 10, o_timeout = minutes 5\<rparr>"

definition select_rca_engine :: "orchestrator \<Rightarrow> rca_service" where
  "select_rca_engine oc = (case o_llmRCA oc of Some engine \<Rightarrow> if o_llmEnabled oc then engine else o_rca oc
     | None \<Rightarrow> o_rca oc)"

definition graph_labels :: "investigation_graph \<Rightarrow> gomap" where
  "graph_labels graph = (case id_Alerts (ig_Data graph) of [] \<Rightarrow> None | alert # alerts \<Rightarrow> al_Labels alert)"

text \<open>The rule engine draws a UUID for every hypothesis its rules give, those it drops included, and only reads the labels.\<close>

definition rule_service :: rca_service where
  "rule_service = \<lparr>rs_name = ''rule-based'', rs_rank = (\<lambda>uuid t graph.
     case rank uuid (engine_new t) graph of None \<Rightarrow> (None, graph_labels graph, 0, [])
     | Some hs \<Rightarrow> (Some (Inr hs), graph_labels graph, length (the (evaluate_rules (engine_new t) graph)), []))\<rparr>"

section \<open>Errors\<close>

fun error_text :: "go_error \<Rightarrow> string" where
  "error_text ErrNotFound = ''not found''"
| "error_text ErrDuplicate = ''duplicate''"
| "error_text ErrUnauthorized = ''unauthorized''"
| "error_text ErrValidation = ''validation error''"
| "error_text ErrUnavailable = ''service unavailable''"
| "error_text (ErrOther s) = s"

definition wrap :: "string \<Rightarrow> (go_error + 'a) \<times> world \<Rightarrow> (go_error + 'a) \<times> world" where
  "wrap msg r = (case r of (Inl e, w) \<Rightarrow> (Inl (ErrOther (msg @ '': '' @ error_text e)), w) | (Inr a, w) \<Rightarrow> (Inr a, w))"

text \<open>The next call unless this one failed, as the early returns do.\<close>

definition and_then :: "(go_error + 'a) \<times> world \<Rightarrow> ('a \<Rightarrow> world \<Rightarrow> (go_error + 'b) \<times> world) \<Rightarrow> (go_error + 'b) \<times> world" where
  "and_then r k = (case r of (Inl e, w) \<Rightarrow> (Inl e, w) | (Inr a, w) \<Rightarrow> k a w)"

section \<open>Slack\<close>

definition post_update :: "orchestrator \<Rightarrow> investigation \<Rightarrow> string \<Rightarrow> world \<Rightarrow> world" where
  "post_update oc iv msg w =
     (if in_SlackChannelID iv \<noteq> [] \<and> o_slack oc
      then snd (send (SlackUpdate (in_SlackChannelID iv) (in_SlackThreadTS iv) msg) w) else w)"

definition post_started :: "orchestrator \<Rightarrow> investigation \<Rightarrow> world \<Rightarrow> investigation \<times> world" where
  "post_started oc iv w =
     (if in_SlackChannelID iv \<noteq> [] \<and> o_slack oc
      then (case send (SlackStarted (in_SlackChannelID iv) (in_ID iv)) w of
              (Some e, w') \<Rightarrow> (iv, w') | (None, w') \<Rightarrow> (iv\<lparr>in_SlackThreadTS := o_slackTS oc (w_calls w)\<rparr>, w'))
      else (iv, w))"

definition post_result :: "orchestrator \<Rightarrow> investigation \<Rightarrow> investigation_result \<Rightarrow> world \<Rightarrow> world" where
  "post_result oc iv result w =
     (if in_SlackChannelID iv \<noteq> [] \<and> o_slack oc
      then snd (send (SlackResult (in_SlackChannelID iv) (in_SlackThreadTS iv) result) w) else w)"

definition fail_investigation :: "orchestrator \<Rightarrow> investigation \<Rightarrow> string \<Rightarrow> world \<Rightarrow> go_error \<times> world" where
  "fail_investigation oc iv errMsg w =
     (let w = emit (Counted ''investigations_completed'' ''failed'') w;
          (r, w) = inv_update_status (in_ID iv) StatusFailed w;
          w = (if in_SlackChannelID iv \<noteq> [] \<and> o_slack oc
               then snd (send (SlackError (in_SlackChannelID iv) (in_SlackThreadTS iv) errMsg) w) else w);
          (r, w) = audit_log (in_TenantID iv) ''system'' ''investigation.failed'' (in_ID iv) (Some [(''error'', errMsg)]) w
      in (ErrOther (''investigation failed: '' @ errMsg), w))"

section \<open>Batches\<close>

definition in_tx :: "(world \<Rightarrow> (go_error + unit) \<times> world) \<Rightarrow> world \<Rightarrow> (go_error + unit) \<times> world" where
  "in_tx body w =
     (case wrap ''begin tx'' (begin_tx w) of
        (Inl e, w) \<Rightarrow> (Inl e, w)
      | (Inr snapshot, w) \<Rightarrow>
        (case body w of (Inl e, w) \<Rightarrow> (Inl e, rollback snapshot w) | (Inr u, w) \<Rightarrow> commit snapshot w))"

definition store_evidence_batch :: "orchestrator \<Rightarrow> evidence list \<Rightarrow> world \<Rightarrow> (go_error + unit) \<times> world" where
  "store_evidence_batch oc collected w =
     (if length collected = 0 then (Inr (), w)
      else if o_tx oc then in_tx (evidence_create_batch collected) w
      else evidence_create_batch collected w)"

text \<open>The statements inside and outside the transaction are the same, except that the last error is wrapped inside.\<close>

definition completion_writes :: "((go_error + unit) \<times> world \<Rightarrow> (go_error + unit) \<times> world) \<Rightarrow> string \<Rightarrow> string \<Rightarrow> f64 \<Rightarrow>
    hypothesis list \<Rightarrow> timeline_event list \<Rightarrow> world \<Rightarrow> (go_error + unit) \<times> world" where
  "completion_writes last_error invID headline confidence hypotheses events w =
     and_then (if length hypotheses > 0 then wrap ''store hypotheses'' (hypothesis_create_batch invID hypotheses w) else (Inr (), w))
       (\<lambda>u w. and_then (if length events > 0 then wrap ''store timeline'' (timeline_create_batch events w) else (Inr (), w))
         (\<lambda>u w. and_then (wrap ''update status to publishing'' (inv_update_status invID StatusPublishing w))
           (\<lambda>u w. last_error (inv_complete invID headline confidence w))))"

definition store_completion_batch :: "orchestrator \<Rightarrow> string \<Rightarrow> string \<Rightarrow> f64 \<Rightarrow> hypothesis list \<Rightarrow> timeline_event list \<Rightarrow>
    world \<Rightarrow> (go_error + unit) \<times> world" where
  "store_completion_batch oc invID headline confidence hypotheses events w =
     (if o_tx oc
      then in_tx (completion_writes (wrap ''complete investigation'') invID headline confidence hypotheses events) w
      else completion_writes id invID headline confidence hypotheses events w)"

section \<open>The phases\<close>

definition new_investigation :: "investigation_job \<Rightarrow> world \<Rightarrow> investigation \<times> world" where
  "new_investigation job w =
     (let (i, w) = new_uuid w; (created, w) = now w; (updated, w) = now w
      in (\<lparr>in_ID = i, in_TenantID = al_TenantID (ij_Alert job), in_Status = StatusPending,
             in_AlertIDs = [al_ID (ij_Alert job)], in_Targets = [], in_TimeFrom = 0, in_TimeTo = 0,
             in_Headline = [], in_Confidence = 0, in_CreatedAt = created, in_UpdatedAt = updated,
             in_CompletedAt = None, in_SlackChannelID = ij_SlackChannelID job, in_SlackThreadTS = [],
             in_Hypotheses = [], in_Timeline = []\<rparr>, w))"

text \<open>Up to the status \<open>collecting\<close>.  An alert that cannot be stored (it may be already) is no error.\<close>

definition start_phase :: "orchestrator \<Rightarrow> investigation_job \<Rightarrow> investigation \<Rightarrow> world \<Rightarrow> (go_error + investigation) \<times> world" where
  "start_phase oc job iv w =
     (let (r, w) = alert_create (ij_Alert job) w
      in and_then (wrap ''create investigation'' (inv_create iv w)) (\<lambda>u w.
           (let (r, w) = audit_log (in_TenantID iv) ''system'' ''investigation.created'' (in_ID iv)
                  (Some [(''alert_id'', al_ID (ij_Alert job))]) w;
                (iv, w) = post_started oc iv w
            in and_then (wrap ''update status to collecting'' (inv_update_status (in_ID iv) StatusCollecting w))
                 (\<lambda>u w. (Inr iv, w)))))"

text \<open>Bodies of more than 4096 bytes go to the blob store and leave their key behind.\<close>

fun offload :: "string \<Rightarrow> evidence list \<Rightarrow> world \<Rightarrow> evidence list \<times> world" where
  "offload invID [] w = ([], w)"
| "offload invID (e # es) w =
     (let (e, w) = (if length (ev_BodyRef e) > 4096 then
            (let blobKey = ''evidence/'' @ invID @ ''/'' @ ev_ID e
             in case send (BlobStored blobKey (ev_BodyRef e)) w of
                  (Some err, w) \<Rightarrow> (e, w) | (None, w) \<Rightarrow> (e\<lparr>ev_BodyRef := blobKey\<rparr>, w))
          else (e, w));
          (es, w) = offload invID es w
      in (e # es, w))"

definition run_collectors :: "orchestrator \<Rightarrow> collect_request \<Rightarrow> world \<Rightarrow> evidence list \<times> world" where
  "run_collectors oc req w = (fst (o_collect oc (w_calls w) req), w\<lparr>w_calls := Suc (w_calls w)\<rparr>)"

text \<open>From the status \<open>collecting\<close> to \<open>analyzing\<close>.\<close>

definition collect_phase :: "orchestrator \<Rightarrow> investigation_job \<Rightarrow> investigation \<Rightarrow> world \<Rightarrow>
    (go_error + investigation \<times> evidence list) \<times> world" where
  "collect_phase oc job iv w =
     (let (t, w) = now w;
          resolved = resolve t (ij_Alert job);
          iv = iv\<lparr>in_Targets := rr_Targets resolved, in_TimeFrom := rr_TimeFrom resolved, in_TimeTo := rr_TimeTo resolved\<rparr>;
          collectReq = \<lparr>cr_InvestigationID = in_ID iv, cr_Alert = ij_Alert job, cr_Targets = rr_Targets resolved,
            cr_TimeFrom = rr_TimeFrom resolved, cr_TimeTo = rr_TimeTo resolved\<rparr>;
          w = post_update oc iv (''Collecting evidence for '' @ itoa (int (length (rr_Targets resolved))) @ '' target(s)...'') w;
          (collected, w) = run_collectors oc collectReq w;
          (collected, w) = (if o_blobStore oc then offload (in_ID iv) collected w else (collected, w))
      in and_then (wrap ''store evidence'' (store_evidence_batch oc collected w)) (\<lambda>u w.
           (let w = post_update oc iv (''Collected '' @ itoa (int (length collected)) @ '' evidence items. Analyzing...'') w
            in and_then (wrap ''update status to analyzing'' (inv_update_status (in_ID iv) StatusAnalyzing w))
                 (\<lambda>u w. (Inr (iv, collected), w)))))"

definition rank_graph :: "orchestrator \<Rightarrow> investigation_graph \<Rightarrow> world \<Rightarrow> (go_error + hypothesis list) option \<times> gomap \<times> world" where
  "rank_graph oc graph w =
     (let (t, w) = now w;
          (r, labels, drawn, sent) = rs_rank (select_rca_engine oc) (\<lambda>i. w_uuid w (w_uuids w + i)) t graph
      in (r, labels, w\<lparr>w_uuids := w_uuids w + drawn, w_events := w_events w @ sent\<rparr>))"

fun merge_fixes :: "string list \<Rightarrow> suggested_fix list \<Rightarrow> suggested_fix list \<Rightarrow> suggested_fix list" where
  "merge_fixes existing [] fixes = fixes"
| "merge_fixes existing (fix # policyFixes) fixes =
     (if sf_Title fix \<in> set existing then merge_fixes existing policyFixes fixes
      else merge_fixes (sf_Title fix # existing) policyFixes (fixes @ [fix]))"

definition apply_policies :: "remediation_engine option \<Rightarrow> hypothesis list \<Rightarrow> hypothesis list" where
  "apply_policies remediation hypotheses =
     (case (remediation, hypotheses) of
        (Some policies, h # hs) \<Rightarrow>
          (let policyFixes = evaluate_fixes policies hypotheses in
           h\<lparr>hy_SuggestedFixes := merge_fixes (map sf_Title (hy_SuggestedFixes h)) policyFixes (hy_SuggestedFixes h)\<rparr> # hs)
      | _ \<Rightarrow> hypotheses)"

definition build_timeline :: "orchestrator \<Rightarrow> investigation_data \<Rightarrow> world \<Rightarrow> timeline_event list \<times> world" where
  "build_timeline oc data w =
     (let events = timeline_build (o_sort oc) (\<lambda>i. w_uuid w (w_uuids w + i)) data
      in (events, w\<lparr>w_uuids := w_uuids w + length events\<rparr>))"

definition headline_of :: "hypothesis list \<Rightarrow> string \<times> f64" where
  "headline_of hypotheses = (case hypotheses of [] \<Rightarrow> (''No clear hypothesis identified'', 0)
     | h # _ \<Rightarrow> (hy_Title h, hy_Confidence h))"

definition make_result :: "orchestrator \<Rightarrow> investigation \<Rightarrow> hypothesis list \<Rightarrow> timeline_event list \<Rightarrow> investigation_result" where
  "make_result oc iv hypotheses events =
     (let (headline, confidence) = headline_of hypotheses in
      \<lparr>ir_InvestigationID = in_ID iv, ir_Status = StatusDone, ir_Headline = headline, ir_Confidence = confidence,
       ir_TopHypotheses = hypotheses, ir_TimelineEventIDs = map te_ID events,
       ir_RecommendedActions = (case hypotheses of [] \<Rightarrow> [] | h # _ \<Rightarrow> hy_SuggestedFixes h),
       ir_RCAEngine = rs_name (select_rca_engine oc), ir_AIProvider = [], ir_AIModel = [], ir_PassCount = 0,
       ir_RootCause = (case hypotheses of [] \<Rightarrow> [] | h # _ \<Rightarrow> hy_Narrative h), ir_Severity = [], ir_BugFixable = False\<rparr>)"

text \<open>From the hypotheses of the engine to the end.\<close>

definition publish_phase :: "orchestrator \<Rightarrow> investigation \<Rightarrow> investigation_data \<Rightarrow> hypothesis list \<Rightarrow> world \<Rightarrow> (go_error + unit) \<times> world" where
  "publish_phase oc iv invData found w =
     (let hypotheses = apply_policies (o_remediation oc) found;
          (events, w) = build_timeline oc invData w;
          (headline, confidence) = headline_of hypotheses
      in and_then (wrap ''store completion batch'' (store_completion_batch oc (in_ID iv) headline confidence hypotheses events w)) (\<lambda>u w.
           (let w = post_result oc iv (make_result oc iv hypotheses events) w;
                (r, w) = audit_log (in_TenantID iv) ''system'' ''investigation.completed'' (in_ID iv)
                  (Some [(''headline'', headline), (''confidence'', format_fixed 2 confidence),
                     (''evidence'', itoa (int (length (id_Evidence invData)))), (''hypotheses'', itoa (int (length hypotheses)))]) w
            in (Inr (), w))))"

text \<open>
  The outcome, and whether \<open>failInvestigation\<close> has counted it already.  \<open>invData\<close> holds the alert of the job itself, so the timeline
  is built from the labels as the engine has left them.
\<close>

definition investigate :: "orchestrator \<Rightarrow> investigation_job \<Rightarrow> world \<Rightarrow> (go_error + unit) option \<times> bool \<times> world" where
  "investigate oc job w =
     (let (iv, w) = new_investigation job w in
      case start_phase oc job iv w of
        (Inl e, w) \<Rightarrow> (Some (Inl e), False, w)
      | (Inr iv, w) \<Rightarrow>
        (case collect_phase oc job iv w of
           (Inl e, w) \<Rightarrow> (Some (Inl e), False, w)
         | (Inr (iv, collected), w) \<Rightarrow>
           (let invData = \<lparr>id_Investigation = iv, id_Alerts = [ij_Alert job], id_Evidence = collected\<rparr> in
            case rank_graph oc (correlate invData) w of
              (None, labels, w) \<Rightarrow> (None, False, w)
            | (Some (Inl err), labels, w) \<Rightarrow>
                (let (e, w) = fail_investigation oc iv (''RCA engine failed: '' @ error_text err) w in (Some (Inl e), True, w))
            | (Some (Inr hypotheses), labels, w) \<Rightarrow>
                (let invData = invData\<lparr>id_Alerts := [(ij_Alert job)\<lparr>al_Labels := labels\<rparr>]\<rparr>;
                     (r, w) = publish_phase oc iv invData hypotheses w
                 in (Some r, False, w)))))"

text \<open>The deferred function counts the outcome by \<open>retErr\<close>, which is nil while a panic unwinds the stack.\<close>

definition run_investigation :: "orchestrator \<Rightarrow> investigation_job \<Rightarrow> world \<Rightarrow> (go_error + unit) option \<times> world" where
  "run_investigation oc job w =
     (let w = emit (Counted ''investigations_started'' []) w;
          (retErr, investigationFailed, w) = investigate oc job w
      in (retErr, if investigationFailed then w
           else emit (Counted ''investigations_completed''
             (case retErr of Some (Inl e) \<Rightarrow> ''failed'' | _ \<Rightarrow> ''done'')) w))"

section \<open>The queue\<close>

datatype queue_reply = Ack | Nak

text \<open>The handler of \<open>Start\<close>: a message that is no job is an error of the handler, which the queue answers with a nak.\<close>

definition handle_message :: "orchestrator \<Rightarrow> investigation_job option \<Rightarrow> world \<Rightarrow> queue_reply \<times> world" where
  "handle_message oc msg w =
     (case msg of None \<Rightarrow> (Nak, w)
      | Some job \<Rightarrow> (case run_investigation oc job w of (Some (Inr u), w) \<Rightarrow> (Ack, w) | (_, w) \<Rightarrow> (Nak, w)))"

text \<open>\<open>EnqueueInvestigation\<close>: the subject is the stream name and \<open>.new\<close>.\<close>

definition enqueue_investigation :: "string \<Rightarrow> normalized_alert \<Rightarrow> string \<Rightarrow> string \<Rightarrow> string \<Rightarrow> world \<Rightarrow> (go_error + string) \<times> world" where
  "enqueue_investigation streamName alert channelID threadTS userID w =
     (let (alert, w) = (if al_ID alert = [] then (let (u, w) = new_uuid w in (alert\<lparr>al_ID := u\<rparr>, w)) else (alert, w));
          job = \<lparr>ij_Alert = alert, ij_SlackChannelID = channelID, ij_SlackThreadTS = threadTS, ij_RequestedBy = userID,
            ij_TraceParent = [], ij_TraceState = []\<rparr>
      in case send (Published (streamName @ ''.new'') job) w of
           (Some e, w) \<Rightarrow> (Inl (ErrOther (''publish job: '' @ error_text e)), w)
         | (None, w) \<Rightarrow> (Inr (al_ID alert), w))"

end
