(* ===== verification/OrchestratorSpec.thy ===== *)
theory OrchestratorSpec
  imports Orchestrator
begin

text \<open>
  What an investigation leaves behind, whatever fails: the effect of each phase on the tables
  (\<open>effect\<close>), composed along \<open>investigate\<close>, and the events it emits (\<open>emits\<close>).
\<close>

section \<open>Results\<close>

lemma wrap_Inr [simp]: "wrap msg r = (Inr a, w) \<longleftrightarrow> r = (Inr a, w)"
  by (cases r; cases "fst r") (auto simp: wrap_def)

lemma wrap_Inl: "wrap msg r = (Inl e, w) \<longleftrightarrow> (\<exists>e'. r = (Inl e', w) \<and> e = ErrOther (msg @ '': '' @ error_text e'))"
  by (cases r; cases "fst r") (auto simp: wrap_def)

lemma and_then_Inr: "and_then r k = (Inr b, w') \<longleftrightarrow> (\<exists>a w. r = (Inr a, w) \<and> k a w = (Inr b, w'))"
  by (cases r; cases "fst r") (auto simp: and_then_def)

lemma and_then_Inl: "and_then r k = (Inl e, w') \<longleftrightarrow> r = (Inl e, w') \<or> (\<exists>a w. r = (Inr a, w) \<and> k a w = (Inl e, w'))"
  by (cases r; cases "fst r") (auto simp: and_then_def)

section \<open>Effects on the tables\<close>

text \<open>The rows of the investigations become \<open>rows\<close>; evidence, hypotheses and timeline are appended to; integrity is kept.\<close>

definition effect :: "(string \<Rightarrow> investigation option) \<Rightarrow> evidence list \<Rightarrow> (string \<times> hypothesis) list \<Rightarrow> timeline_event list \<Rightarrow>
    world \<Rightarrow> world \<Rightarrow> bool" where
  "effect rows es hs evs w w' \<longleftrightarrow>
     inv_row w' = rows \<and> db_evidence (w_db w') = db_evidence (w_db w) @ es \<and>
     db_hypotheses (w_db w') = db_hypotheses (w_db w) @ hs \<and> db_timeline (w_db w') = db_timeline (w_db w) @ evs \<and>
     (db_wf (w_db w) \<longrightarrow> db_wf (w_db w'))"

abbreviation unchanged :: "world \<Rightarrow> world \<Rightarrow> bool" where
  "unchanged w w' \<equiv> effect (inv_row w) [] [] [] w w'"

lemma effect_trans:
  "effect r1 es hs evs w w1 \<Longrightarrow> effect r2 es' hs' evs' w1 w2 \<Longrightarrow> effect r2 (es @ es') (hs @ hs') (evs @ evs') w w2"
  by (simp add: effect_def)

lemma unchanged_trans: "unchanged w w1 \<Longrightarrow> unchanged w1 w2 \<Longrightarrow> unchanged w w2"
  by (simp add: effect_def)

lemma unchanged_left: "unchanged w w1 \<Longrightarrow> effect r es hs evs w1 w2 \<Longrightarrow> effect r es hs evs w w2"
  by (simp add: effect_def)

lemma unchanged_right: "effect r es hs evs w w1 \<Longrightarrow> unchanged w1 w2 \<Longrightarrow> effect r es hs evs w w2"
  by (simp add: effect_def)

lemma effect_rows: "effect r es hs evs w w' \<Longrightarrow> inv_row w' = r"
  by (simp add: effect_def)

lemma unchanged_db: "w_db w' = w_db w \<Longrightarrow> unchanged w w'"
  by (simp add: effect_def inv_row_def fun_eq_iff)

lemma unchanged_basic [simp]:
  "unchanged w w" "unchanged w (snd (now w))" "unchanged w (snd (new_uuid w))" "unchanged w (emit e w)"
  "unchanged w (snd (send e w))" "unchanged w (w\<lparr>w_calls := c\<rparr>)"
  "unchanged w (w\<lparr>w_uuids := n\<rparr>)" "unchanged w (w\<lparr>w_uuids := n, w_events := evs\<rparr>)"
  by (simp_all add: unchanged_db)

lemma send_unchanged: "send e w = (r, w') \<Longrightarrow> unchanged w w'"
  using unchanged_basic(5) [of w e] by simp

lemma exec_unchanged:
  assumes "\<And>a db. stmt (w_db w) = Inr (a, db) \<Longrightarrow> db_investigations db = db_investigations (w_db w) \<and>
      db_evidence db = db_evidence (w_db w) \<and> db_hypotheses db = db_hypotheses (w_db w) \<and> db_timeline db = db_timeline (w_db w)"
    and "db_wf (w_db w) \<Longrightarrow> db_wf (w_db (snd (exec stmt w)))"
  shows "unchanged w (snd (exec stmt w))"
  using exec_db [of stmt w] assms by (auto simp: effect_def inv_row_def fun_eq_iff)

lemma alert_create_unchanged [simp]: "unchanged w (snd (alert_create a w))"
  using alert_create_wf [of w a] unfolding alert_create_def by (intro exec_unchanged) (auto split: if_splits)

lemma audit_create_unchanged [simp]: "unchanged w (snd (audit_create e w))"
  using audit_create_wf [of w e] unfolding audit_create_def by (intro exec_unchanged) (auto split: if_splits)

lemma audit_log_unchanged [simp]: "unchanged w (snd (audit_log t a act tgt md w))"
proof -
  have log: "unchanged w (snd (audit_log_action e w))" for e w
  proof -
    obtain e1 w1 where 1: "(if ae_ID e = [] then (let (u, w) = new_uuid w in (e\<lparr>ae_ID := u\<rparr>, w)) else (e, w)) = (e1, w1)" by fastforce
    obtain e2 w2 where 2: "(if is_zero (ae_Timestamp e1) then (let (t, w) = now w1 in (e1\<lparr>ae_Timestamp := t\<rparr>, w)) else (e1, w1)) = (e2, w2)" by fastforce
    have "unchanged w w1" using 1 unchanged_basic(3) [of w] by (auto simp: split_beta split: if_splits)
    moreover have "unchanged w1 w2" using 2 unchanged_basic(2) [of w1] by (auto simp: split_beta split: if_splits)
    ultimately have "unchanged w w2" by (rule unchanged_trans)
    then show ?thesis
      using unchanged_trans [OF _ audit_create_unchanged] by (simp add: audit_log_action_def 1 2)
  qed
  obtain u w1 where u: "new_uuid w = (u, w1)" by fastforce
  obtain s w2 where s: "now w1 = (s, w2)" by fastforce
  have "unchanged w w1" using unchanged_basic(3) [of w] by (simp add: u)
  moreover have "unchanged w1 w2" using unchanged_basic(2) [of w1] by (simp add: s)
  ultimately show ?thesis using log by (simp add: audit_log_def u s) (blast intro: unchanged_trans)
qed

lemma posts_unchanged [simp]:
  "unchanged w (post_update oc iv msg w)" "unchanged w (snd (post_started oc iv w))" "unchanged w (post_result oc iv r w)"
proof -
  show "unchanged w (snd (post_started oc iv w))"
    by (auto simp: post_started_def dest: send_unchanged split: prod.split option.split)
qed (simp_all add: post_update_def post_result_def)

lemma run_collectors_unchanged [simp]: "unchanged w (snd (run_collectors oc req w))"
  by (simp add: run_collectors_def)

lemma offload_unchanged: "offload i es w = (es', w') \<Longrightarrow> unchanged w w'"
proof (induction es arbitrary: w es' w')
  case (Cons e es)
  obtain e1 w1 where 1: "(if length (ev_BodyRef e) > 4096 then
            (let blobKey = ''evidence/'' @ i @ ''/'' @ ev_ID e
             in case send (BlobStored blobKey (ev_BodyRef e)) w of
                  (Some err, w) \<Rightarrow> (e, w) | (None, w) \<Rightarrow> (e\<lparr>ev_BodyRef := blobKey\<rparr>, w))
          else (e, w)) = (e1, w1)" by fastforce
  have "unchanged w w1"
    using 1 by (auto simp: Let_def dest: send_unchanged split: if_splits prod.splits option.splits)
  moreover obtain es1 w2 where 2: "offload i es w1 = (es1, w2)" by fastforce
  then have "unchanged w1 w2" by (rule Cons.IH)
  moreover have "w' = w2" using Cons.prems by (simp add: 1 2)
  ultimately show ?case using unchanged_trans by simp
qed simp

text \<open>The writes: an error leaves the tables as they were.\<close>

lemma inv_create_effect:
  assumes "inv_create iv w = (r, w')"
  shows "case r of Inl e \<Rightarrow> unchanged w w'
    | Inr u \<Rightarrow> inv_row w (in_ID iv) = None \<and> effect ((inv_row w)(in_ID iv \<mapsto> stored_row iv)) [] [] [] w w'"
proof -
  have frame: "db_evidence (w_db w') = db_evidence (w_db w) \<and> db_hypotheses (w_db w') = db_hypotheses (w_db w) \<and>
      db_timeline (w_db w') = db_timeline (w_db w)"
    using assms by (auto simp: inv_create_def exec_def Let_def split: if_splits)
  have wf: "db_wf (w_db w) \<Longrightarrow> db_wf (w_db w')" using inv_create_wf [of w iv] assms by simp
  show ?thesis
    using assms frame wf pg.create_ok [of iv w _ w'] pg.create_err [of iv w _ w']
    by (cases r) (auto simp: effect_def)
qed

lemma update_frame:
  "update_investigation f i w = (r, w') \<Longrightarrow> db_evidence (w_db w') = db_evidence (w_db w) \<and>
     db_hypotheses (w_db w') = db_hypotheses (w_db w) \<and> db_timeline (w_db w') = db_timeline (w_db w)"
  by (auto simp: update_investigation_def exec_def Let_def split: if_splits)

lemma update_status_effect:
  assumes "inv_update_status i s w = (r, w')"
  shows "case r of Inl e \<Rightarrow> unchanged w w'
    | Inr u \<Rightarrow> \<exists>iv t. inv_row w i = Some iv \<and> effect ((inv_row w)(i \<mapsto> iv\<lparr>in_Status := s, in_UpdatedAt := t\<rparr>)) [] [] [] w w'"
proof -
  have "db_evidence (w_db w') = db_evidence (w_db w) \<and> db_hypotheses (w_db w') = db_hypotheses (w_db w) \<and>
      db_timeline (w_db w') = db_timeline (w_db w)"
    using assms update_frame [of _ i "snd (now w)" r w'] by (simp add: inv_update_status_def split_beta Let_def)
  moreover have "db_wf (w_db w) \<Longrightarrow> db_wf (w_db w')" using inv_updates_wf(1) [of w i s] assms by simp
  ultimately show ?thesis
    using assms pg.update_ok [of i s w _ w'] pg.update_err [of i s w _ w']
    by (cases r) (fastforce simp: effect_def)+
qed

lemma complete_effect:
  assumes "inv_complete i h c w = (r, w')"
  shows "case r of Inl e \<Rightarrow> unchanged w w'
    | Inr u \<Rightarrow> \<exists>iv t. inv_row w i = Some iv \<and> effect ((inv_row w)(i \<mapsto> iv\<lparr>in_Status := StatusDone, in_Headline := h,
        in_Confidence := c, in_UpdatedAt := t, in_CompletedAt := Some t\<rparr>)) [] [] [] w w'"
proof -
  have "db_evidence (w_db w') = db_evidence (w_db w) \<and> db_hypotheses (w_db w') = db_hypotheses (w_db w) \<and>
      db_timeline (w_db w') = db_timeline (w_db w)"
    using assms update_frame [of _ i "snd (now w)" r w'] by (simp add: inv_complete_def split_beta Let_def)
  moreover have "db_wf (w_db w) \<Longrightarrow> db_wf (w_db w')" using inv_updates_wf(2) [of w i h c] assms by simp
  ultimately show ?thesis
    using assms pg.complete_ok [of i h c w _ w'] pg.complete_err [of i h c w _ w']
    by (cases r) (fastforce simp: effect_def)+
qed

text \<open>A batch inserts all of its rows or none.\<close>

lemma evidence_batch_effect:
  assumes "evidence_create_batch es w = (r, w')"
  shows "case r of Inl e \<Rightarrow> unchanged w w' | Inr u \<Rightarrow> effect (inv_row w) es [] [] w w'"
  using assms evidence_create_batch_wf [of w es]
  by (auto simp: evidence_create_batch_def exec_def effect_def inv_row_def fun_eq_iff Let_def split: if_splits)

lemma hypothesis_batch_effect:
  assumes "hypothesis_create_batch i hs w = (r, w')"
  shows "case r of Inl e \<Rightarrow> unchanged w w' | Inr u \<Rightarrow> effect (inv_row w) [] (map (Pair i) hs) [] w w'"
  using assms hypothesis_create_batch_wf [of w i hs]
  by (auto simp: hypothesis_create_batch_def exec_def effect_def inv_row_def fun_eq_iff Let_def split: if_splits)

lemma timeline_batch_effect:
  assumes "timeline_create_batch evs w = (r, w')"
  shows "case r of Inl e \<Rightarrow> unchanged w w' | Inr u \<Rightarrow> effect (inv_row w) [] [] evs w w'"
  using assms timeline_create_batch_wf [of w evs]
  by (auto simp: timeline_create_batch_def exec_def effect_def inv_row_def fun_eq_iff Let_def split: if_splits)

text \<open>A transaction: the writes of its body, or nothing at all.\<close>

lemma in_tx_ok:
  assumes "in_tx body w = (Inr u, w')"
  shows "\<exists>w1 w2. w_db w1 = w_db w \<and> body w1 = (Inr (), w2) \<and> w_db w' = w_db w2"
proof -
  from assms obtain w2 where "body (w\<lparr>w_calls := Suc (w_calls w)\<rparr>) = (Inr (), w2)" "w_db w' = w_db w2"
    by (auto simp: in_tx_def begin_tx_def commit_def exec_def wrap_def Let_def split: prod.splits sum.splits if_splits)
  then show ?thesis by (intro exI [of _ "w\<lparr>w_calls := Suc (w_calls w)\<rparr>"] exI [of _ w2]) simp
qed

lemma in_tx_err: "in_tx body w = (Inl e, w') \<Longrightarrow> unchanged w w'"
  by (intro unchanged_db)
    (auto simp: in_tx_def begin_tx_def commit_def rollback_def exec_def wrap_def Let_def split: prod.splits sum.splits if_splits)

lemma in_tx_effect:
  assumes "in_tx body w = (Inr u, w')"
    and "\<And>w1 w2. w_db w1 = w_db w \<Longrightarrow> body w1 = (Inr (), w2) \<Longrightarrow> effect rows es hs evs w1 w2"
  shows "effect rows es hs evs w w'"
proof -
  from in_tx_ok [OF assms(1)] obtain w1 w2 where "w_db w1 = w_db w" "body w1 = (Inr (), w2)" "w_db w' = w_db w2" by blast
  then show ?thesis
    using assms(2) [of w1 w2] unchanged_db [of w1 w] unchanged_db [of w' w2] unchanged_left unchanged_right by metis
qed

lemma row_of_db: "w_db w1 = w_db w \<Longrightarrow> inv_row w1 = inv_row w"
  by (simp add: inv_row_def fun_eq_iff)

lemma store_evidence_effect:
  assumes "store_evidence_batch oc es w = (r, w')"
  shows "case r of Inl e \<Rightarrow> unchanged w w' | Inr u \<Rightarrow> effect (inv_row w) es [] [] w w'"
proof -
  consider (empty) "es = []" "r = Inr ()" "w' = w" | (tx) "in_tx (evidence_create_batch es) w = (r, w')"
    | (plain) "evidence_create_batch es w = (r, w')"
    using assms by (cases "es = []"; cases "o_tx oc") (auto simp: store_evidence_batch_def)
  then show ?thesis
  proof cases
    case tx
    have body: "effect (inv_row w) es [] [] w1 w2" if "w_db w1 = w_db w" "evidence_create_batch es w1 = (Inr (), w2)" for w1 w2
      using evidence_batch_effect [OF that(2)] by (simp add: row_of_db [OF that(1)])
    show ?thesis
    proof (cases r)
      case (Inl e)
      with tx show ?thesis by (simp add: in_tx_err)
    next
      case (Inr u)
      have "effect (inv_row w) es [] [] w w'" using tx [unfolded Inr] by (rule in_tx_effect) (rule body)
      with Inr show ?thesis by simp
    qed
  qed (use evidence_batch_effect in simp_all)
qed

section \<open>The phases\<close>

lemma start_phase_effect:
  assumes start: "start_phase oc job iv w = (r, w')" and fresh: "stored_row iv = iv"
  shows "case r of
      Inl e \<Rightarrow> unchanged w w' \<or> inv_row w (in_ID iv) = None \<and> effect ((inv_row w)(in_ID iv \<mapsto> iv)) [] [] [] w w'
    | Inr iv' \<Rightarrow> inv_row w (in_ID iv) = None \<and> (\<exists>ts. iv' = iv\<lparr>in_SlackThreadTS := ts\<rparr>) \<and>
        (\<exists>t. effect ((inv_row w)(in_ID iv \<mapsto> iv\<lparr>in_Status := StatusCollecting, in_UpdatedAt := t\<rparr>)) [] [] [] w w')"
proof -
  obtain ra w1 where 1: "alert_create (ij_Alert job) w = (ra, w1)" by fastforce
  obtain rc w2 where 2: "inv_create iv w1 = (rc, w2)" by fastforce
  obtain rl w3 where 3: "audit_log (in_TenantID iv) ''system'' ''investigation.created'' (in_ID iv)
      (Some [(''alert_id'', al_ID (ij_Alert job))]) w2 = (rl, w3)" by fastforce
  obtain iv4 w4 where 4: "post_started oc iv w3 = (iv4, w4)" by fastforce
  obtain ru w5 where 5: "inv_update_status (in_ID iv4) StatusCollecting w4 = (ru, w5)" by fastforce
  have u1: "unchanged w w1" using alert_create_unchanged [of w "ij_Alert job"] by (simp add: 1)
  have row1: "inv_row w1 = inv_row w" using u1 by (rule effect_rows)
  have iv4: "\<exists>ts. iv4 = iv\<lparr>in_SlackThreadTS := ts\<rparr>"
    using 4 by (auto simp: post_started_def split: if_splits prod.splits option.splits intro: exI [of _ "in_SlackThreadTS iv"])
  then have id4: "in_ID iv4 = in_ID iv" by auto
  note same = fresh
  show ?thesis
  proof (cases rc)
    case (Inl e)
    then have "unchanged w1 w2" using inv_create_effect [OF 2] by simp
    then have "unchanged w w2" using u1 by (blast intro: unchanged_trans)
    moreover have "w' = w2" "\<exists>e. r = Inl e" using start Inl by (auto simp: start_phase_def 1 2 and_then_def wrap_def)
    ultimately show ?thesis by auto
  next
    case (Inr u)
    then have none: "inv_row w (in_ID iv) = None" and c: "effect ((inv_row w)(in_ID iv \<mapsto> iv)) [] [] [] w1 w2"
      using inv_create_effect [OF 2] by (simp_all add: row1 same)
    have "unchanged w2 w3" using audit_log_unchanged [of w2] 3 by (metis snd_conv)
    moreover have "unchanged w3 w4" using posts_unchanged(2) [of w3 oc iv] 4 by simp
    ultimately have c4: "effect ((inv_row w)(in_ID iv \<mapsto> iv)) [] [] [] w w4"
      using unchanged_left [OF u1 c] by (blast intro: unchanged_right)
    then have row4: "inv_row w4 = (inv_row w)(in_ID iv \<mapsto> iv)" by (rule effect_rows)
    have end_: "w' = w5" "r = (case ru of Inl e \<Rightarrow> Inl (ErrOther (''update status to collecting'' @ '': '' @ error_text e)) | Inr u \<Rightarrow> Inr iv4)"
      using start Inr by (auto simp: start_phase_def 1 2 3 4 5 and_then_def wrap_def split: sum.splits)
    show ?thesis
    proof (cases ru)
      case (Inl e)
      then have "unchanged w4 w5" using update_status_effect [OF 5] by simp
      then have "effect ((inv_row w)(in_ID iv \<mapsto> iv)) [] [] [] w w5" using c4 by (blast intro: unchanged_right)
      with Inl end_ none show ?thesis by auto
    next
      case (Inr v)
      then obtain t where "effect ((inv_row w)(in_ID iv \<mapsto> iv\<lparr>in_Status := StatusCollecting, in_UpdatedAt := t\<rparr>)) [] [] [] w4 w5"
        using update_status_effect [OF 5] by (auto simp: row4 id4)
      from effect_trans [OF c4 this] Inr end_ none iv4 show ?thesis by auto
    qed
  qed
qed

lemma collect_phase_effect:
  assumes coll: "collect_phase oc job iv w = (r, w')"
  shows "case r of
      Inl e \<Rightarrow> \<exists>es. effect (inv_row w) es [] [] w w'
    | Inr (iv', es) \<Rightarrow> in_ID iv' = in_ID iv \<and> (\<exists>row t. inv_row w (in_ID iv) = Some row \<and>
        effect ((inv_row w)(in_ID iv \<mapsto> row\<lparr>in_Status := StatusAnalyzing, in_UpdatedAt := t\<rparr>)) es [] [] w w')"
proof -
  obtain t w1 where 1: "now w = (t, w1)" by fastforce
  define iv1 where "iv1 = iv\<lparr>in_Targets := rr_Targets (resolve t (ij_Alert job)), in_TimeFrom := rr_TimeFrom (resolve t (ij_Alert job)),
    in_TimeTo := rr_TimeTo (resolve t (ij_Alert job))\<rparr>"
  define w2 where "w2 = post_update oc iv1 (''Collecting evidence for '' @ itoa (int (length (rr_Targets (resolve t (ij_Alert job))))) @ '' target(s)...'') w1"
  obtain es3 w3 where 3: "run_collectors oc \<lparr>cr_InvestigationID = in_ID iv1, cr_Alert = ij_Alert job, cr_Targets = rr_Targets (resolve t (ij_Alert job)),
      cr_TimeFrom = rr_TimeFrom (resolve t (ij_Alert job)), cr_TimeTo = rr_TimeTo (resolve t (ij_Alert job))\<rparr> w2 = (es3, w3)" by fastforce
  obtain es w4 where 4: "(if o_blobStore oc then offload (in_ID iv1) es3 w3 else (es3, w3)) = (es, w4)" by fastforce
  obtain rs w5 where 5: "store_evidence_batch oc es w4 = (rs, w5)" by fastforce
  define w6 where "w6 = post_update oc iv1 (''Collected '' @ itoa (int (length es)) @ '' evidence items. Analyzing...'') w5"
  obtain ru w7 where 7: "inv_update_status (in_ID iv1) StatusAnalyzing w6 = (ru, w7)" by fastforce
  have id1: "in_ID iv1 = in_ID iv" by (simp add: iv1_def)
  have u1: "unchanged w w1" using unchanged_basic(2) [of w] by (simp add: 1)
  have u2: "unchanged w1 w2" unfolding w2_def by simp
  have u3: "unchanged w2 w3" using run_collectors_unchanged [of w2] 3 by (metis snd_conv)
  have "unchanged w3 w4" using 4 by (auto dest: offload_unchanged split: if_splits)
  then have u4: "unchanged w w4" using unchanged_trans [OF unchanged_trans [OF u1 u2] u3] by (rule unchanged_trans [rotated])
  have row4: "inv_row w4 = inv_row w" using u4 by (rule effect_rows)
  have run: "collect_phase oc job iv w = and_then (wrap ''store evidence'' (rs, w5)) (\<lambda>u w.
      (let w = post_update oc iv1 (''Collected '' @ itoa (int (length es)) @ '' evidence items. Analyzing...'') w
       in and_then (wrap ''update status to analyzing'' (inv_update_status (in_ID iv1) StatusAnalyzing w)) (\<lambda>u w. (Inr (iv1, es), w))))"
    unfolding collect_phase_def Let_def 1 split_conv iv1_def [symmetric] w2_def [symmetric] 3 4 5 ..
  show ?thesis
  proof (cases rs)
    case (Inl e)
    then have "unchanged w4 w5" using store_evidence_effect [OF 5] by simp
    then have "unchanged w w5" using u4 by (blast intro: unchanged_trans)
    moreover have "w' = w5" "\<exists>e. r = Inl e" using coll Inl by (auto simp: run and_then_def wrap_def)
    ultimately show ?thesis by auto
  next
    case (Inr u)
    then have "effect (inv_row w) es [] [] w4 w5" using store_evidence_effect [OF 5] by (simp add: row4)
    then have "effect (inv_row w) es [] [] w w5" using u4 by (blast intro: unchanged_left)
    moreover have "unchanged w5 w6" by (simp add: w6_def)
    ultimately have e6: "effect (inv_row w) es [] [] w w6" by (rule unchanged_right)
    then have row6: "inv_row w6 = inv_row w" by (rule effect_rows)
    have "collect_phase oc job iv w = and_then (wrap ''update status to analyzing'' (ru, w7)) (\<lambda>u w. (Inr (iv1, es), w))"
      by (simp only: run Inr wrap_def and_then_def split_conv prod.case sum.case Let_def w6_def [symmetric] 7)
    then have end_: "w' = w7" "r = (case ru of Inl e \<Rightarrow> Inl (ErrOther (''update status to analyzing'' @ '': '' @ error_text e)) | Inr u \<Rightarrow> Inr (iv1, es))"
      using coll by (auto simp: and_then_def wrap_def split: sum.splits)
    show ?thesis
    proof (cases ru)
      case (Inl e)
      then have "unchanged w6 w7" using update_status_effect [OF 7] by simp
      then have "effect (inv_row w) es [] [] w w7" using e6 by (blast intro: unchanged_right)
      with Inl end_ show ?thesis by auto
    next
      case (Inr v)
      then obtain row t where "inv_row w (in_ID iv) = Some row"
        "effect ((inv_row w)(in_ID iv \<mapsto> row\<lparr>in_Status := StatusAnalyzing, in_UpdatedAt := t\<rparr>)) [] [] [] w6 w7"
        using update_status_effect [OF 7] by (auto simp: row6 id1)
      with effect_trans [OF e6 this(2)] Inr end_ id1 show ?thesis by auto
    qed
  qed
qed

lemma completion_writes_effect:
  assumes last: "\<And>x u v. last_error x = (Inr u, v) \<longleftrightarrow> x = (Inr u, v)"
    and "completion_writes last_error i h c hs evs w = (Inr u, w')"
  shows "\<exists>row t. inv_row w i = Some row \<and> effect ((inv_row w)(i \<mapsto> row\<lparr>in_Status := StatusDone, in_Headline := h,
      in_Confidence := c, in_UpdatedAt := t, in_CompletedAt := Some t\<rparr>)) [] (map (Pair i) hs) evs w w'"
proof -
  from assms(2) obtain w1 w2 w3 where
    1: "(if length hs > 0 then wrap ''store hypotheses'' (hypothesis_create_batch i hs w) else (Inr (), w)) = (Inr (), w1)" and
    2: "(if length evs > 0 then wrap ''store timeline'' (timeline_create_batch evs w1) else (Inr (), w1)) = (Inr (), w2)" and
    3: "inv_update_status i StatusPublishing w2 = (Inr (), w3)" and 4: "inv_complete i h c w3 = (Inr u, w')"
    unfolding completion_writes_def by (simp only: and_then_Inr wrap_Inr last) auto
  have e1: "effect (inv_row w) [] (map (Pair i) hs) [] w w1"
    using 1 hypothesis_batch_effect [of i hs w "Inr ()" w1] by (cases hs) simp_all
  have "effect (inv_row w1) [] [] evs w1 w2"
    using 2 timeline_batch_effect [of evs w1 "Inr ()" w2] by (cases evs) simp_all
  from effect_trans [OF e1 this] have e2: "effect (inv_row w) [] (map (Pair i) hs) evs w w2" by (simp add: effect_rows [OF e1])
  obtain row t where row: "inv_row w i = Some row" and
    "effect ((inv_row w)(i \<mapsto> row\<lparr>in_Status := StatusPublishing, in_UpdatedAt := t\<rparr>)) [] [] [] w2 w3"
    using update_status_effect [OF 3] by (auto simp: effect_rows [OF e2])
  with effect_trans [OF e2 this(2)] have e3: "effect ((inv_row w)(i \<mapsto> row\<lparr>in_Status := StatusPublishing, in_UpdatedAt := t\<rparr>))
      [] (map (Pair i) hs) evs w w3" by simp
  obtain t' where "effect ((inv_row w)(i \<mapsto> row\<lparr>in_Status := StatusDone, in_Headline := h,
      in_Confidence := c, in_UpdatedAt := t', in_CompletedAt := Some t'\<rparr>)) [] [] [] w3 w'"
    using complete_effect [OF 4] by (auto simp: effect_rows [OF e3])
  with effect_trans [OF e3 this] row show ?thesis by auto
qed

lemma store_completion_effect:
  assumes "store_completion_batch oc i h c hs evs w = (Inr u, w')"
  shows "\<exists>row t. inv_row w i = Some row \<and> effect ((inv_row w)(i \<mapsto> row\<lparr>in_Status := StatusDone, in_Headline := h,
      in_Confidence := c, in_UpdatedAt := t, in_CompletedAt := Some t\<rparr>)) [] (map (Pair i) hs) evs w w'"
proof (cases "o_tx oc")
  case False
  then show ?thesis using assms completion_writes_effect [of id i h c hs evs w u w'] by (simp add: store_completion_batch_def)
next
  case True
  with assms have "in_tx (completion_writes (wrap ''complete investigation'') i h c hs evs) w = (Inr u, w')"
    by (simp add: store_completion_batch_def)
  then obtain w1 w2 where db: "w_db w1 = w_db w" "w_db w' = w_db w2"
    and body: "completion_writes (wrap ''complete investigation'') i h c hs evs w1 = (Inr (), w2)"
    using in_tx_ok by blast
  from completion_writes_effect [OF wrap_Inr body] obtain row t where row: "inv_row w1 i = Some row" and
    "effect ((inv_row w1)(i \<mapsto> row\<lparr>in_Status := StatusDone, in_Headline := h,
      in_Confidence := c, in_UpdatedAt := t, in_CompletedAt := Some t\<rparr>)) [] (map (Pair i) hs) evs w1 w2" by blast
  with unchanged_db [OF db(1)] unchanged_db [OF db(2)] have
    "effect ((inv_row w1)(i \<mapsto> row\<lparr>in_Status := StatusDone, in_Headline := h,
      in_Confidence := c, in_UpdatedAt := t, in_CompletedAt := Some t\<rparr>)) [] (map (Pair i) hs) evs w w'"
    by (blast intro: unchanged_left unchanged_right)
  with row show ?thesis unfolding row_of_db [OF db(1)] by blast
qed

lemma build_timeline_run:
  "build_timeline oc data w = (events, w') \<Longrightarrow> unchanged w w' \<and> (\<exists>uuid. events = timeline_build (o_sort oc) uuid data)"
  by (auto simp: build_timeline_def Let_def intro: exI)

lemma publish_phase_ok:
  assumes "publish_phase oc iv data found w = (Inr u, w')"
  shows "\<exists>row t uuid. inv_row w (in_ID iv) = Some row \<and>
    (let hs = apply_policies (o_remediation oc) found; (h, c) = headline_of hs in
     effect ((inv_row w)(in_ID iv \<mapsto> row\<lparr>in_Status := StatusDone, in_Headline := h, in_Confidence := c,
       in_UpdatedAt := t, in_CompletedAt := Some t\<rparr>)) [] (map (Pair (in_ID iv)) hs) (timeline_build (o_sort oc) uuid data) w w')"
proof -
  define hs where "hs = apply_policies (o_remediation oc) found"
  obtain h c where hc: "headline_of hs = (h, c)" by fastforce
  obtain evs w1 where 1: "build_timeline oc data w = (evs, w1)" by fastforce
  obtain w2 v where 2: "store_completion_batch oc (in_ID iv) h c hs evs w1 = (Inr v, w2)" and
    end_: "w' = snd (audit_log (in_TenantID iv) ''system'' ''investigation.completed'' (in_ID iv)
      (Some [(''headline'', h), (''confidence'', format_fixed 2 c), (''evidence'', itoa (int (length (id_Evidence data)))),
        (''hypotheses'', itoa (int (length hs)))]) (post_result oc iv (make_result oc iv hs evs) w2))"
    using assms unfolding publish_phase_def Let_def hs_def [symmetric] 1 hc split_conv
    by (auto simp: and_then_Inr split_beta)
  obtain uuid where evs: "evs = timeline_build (o_sort oc) uuid data" and u1: "unchanged w w1"
    using build_timeline_run [OF 1] by blast
  have u3: "unchanged w2 w'" unfolding end_ by (rule unchanged_trans [OF posts_unchanged(3) audit_log_unchanged])
  obtain row t where row: "inv_row w (in_ID iv) = Some row" and
    e2: "effect ((inv_row w)(in_ID iv \<mapsto> row\<lparr>in_Status := StatusDone, in_Headline := h, in_Confidence := c,
      in_UpdatedAt := t, in_CompletedAt := Some t\<rparr>)) [] (map (Pair (in_ID iv)) hs) evs w1 w2"
    using store_completion_effect [OF 2] unfolding effect_rows [OF u1] by blast
  have "effect ((inv_row w)(in_ID iv \<mapsto> row\<lparr>in_Status := StatusDone, in_Headline := h, in_Confidence := c,
      in_UpdatedAt := t, in_CompletedAt := Some t\<rparr>)) [] (map (Pair (in_ID iv)) hs) evs w w'"
    using unchanged_left [OF u1 e2] u3 by (rule unchanged_right)
  with row show ?thesis unfolding hs_def [symmetric] Let_def hc split_conv evs by blast
qed

lemma publish_phase_err:
  assumes "publish_phase oc iv data found w = (Inl e, w')" "o_tx oc"
  shows "unchanged w w'"
proof -
  define hs where "hs = apply_policies (o_remediation oc) found"
  obtain h c where hc: "headline_of hs = (h, c)" by fastforce
  obtain evs w1 where 1: "build_timeline oc data w = (evs, w1)" by fastforce
  have "\<exists>e'. store_completion_batch oc (in_ID iv) h c hs evs w1 = (Inl e', w')"
    using assms(1) unfolding publish_phase_def Let_def hs_def [symmetric] 1 hc split_conv
    by (auto simp: and_then_Inl wrap_Inl split_beta)
  then have "unchanged w1 w'" using assms(2) by (auto simp: store_completion_batch_def dest: in_tx_err)
  moreover have "unchanged w w1" using build_timeline_run [OF 1] by blast
  ultimately show ?thesis by (blast intro: unchanged_trans)
qed

lemma rank_graph_run:
  assumes "rank_graph oc graph w = (r, labels, w')"
  shows "unchanged w w' \<and> (\<exists>uuid t drawn sent. rs_rank (select_rca_engine oc) uuid t graph = (r, labels, drawn, sent))"
proof -
  obtain t w1 where 1: "now w = (t, w1)" by fastforce
  obtain r' labels' n sent where 2: "rs_rank (select_rca_engine oc) (\<lambda>i. w_uuid w1 (w_uuids w1 + i)) t graph = (r', labels', n, sent)"
    by (metis prod.exhaust)
  have "w_db w' = w_db w1" "r' = r" "labels' = labels" using assms by (auto simp: rank_graph_def 1 2 Let_def)
  moreover have "w_db w1 = w_db w" using now_db [of w] by (simp add: 1)
  ultimately show ?thesis using unchanged_db [of w' w] 2 by auto
qed

lemma fail_investigation_effect:
  assumes "fail_investigation oc iv msg w = (e, w')"
  shows "unchanged w w' \<or> (\<exists>row t. inv_row w (in_ID iv) = Some row \<and>
    effect ((inv_row w)(in_ID iv \<mapsto> row\<lparr>in_Status := StatusFailed, in_UpdatedAt := t\<rparr>)) [] [] [] w w')"
proof -
  let ?w1 = "emit (Counted ''investigations_completed'' ''failed'') w"
  obtain r w2 where 2: "inv_update_status (in_ID iv) StatusFailed ?w1 = (r, w2)" by fastforce
  define w3 where "w3 = (if in_SlackChannelID iv \<noteq> [] \<and> o_slack oc
      then snd (send (SlackError (in_SlackChannelID iv) (in_SlackThreadTS iv) msg) w2) else w2)"
  have w': "w' = snd (audit_log (in_TenantID iv) ''system'' ''investigation.failed'' (in_ID iv) (Some [(''error'', msg)]) w3)"
    using assms unfolding fail_investigation_def Let_def 2 split_conv w3_def [symmetric] by (auto simp: split_beta)
  have "unchanged w2 w3" by (simp add: w3_def)
  then have u: "unchanged w2 w'" unfolding w' using audit_log_unchanged by (rule unchanged_trans)
  have u1: "unchanged w ?w1" by simp
  have row1: "inv_row ?w1 = inv_row w" using u1 by (rule effect_rows)
  show ?thesis
  proof (cases r)
    case (Inl e)
    then have "unchanged ?w1 w2" using update_status_effect [OF 2] by simp
    with u1 u show ?thesis by (blast intro: unchanged_trans)
  next
    case (Inr v)
    then obtain row t where "inv_row w (in_ID iv) = Some row" and
      e: "effect ((inv_row w)(in_ID iv \<mapsto> row\<lparr>in_Status := StatusFailed, in_UpdatedAt := t\<rparr>)) [] [] [] ?w1 w2"
      using update_status_effect [OF 2] by (auto simp: row1)
    with unchanged_right [OF unchanged_left [OF u1 e] u] show ?thesis by blast
  qed
qed

section \<open>A successful investigation\<close>

lemma new_investigation_run:
  assumes "new_investigation job w = (iv, w')"
  shows "unchanged w w' \<and> stored_row iv = iv \<and> (\<exists>t u. iv = \<lparr>in_ID = w_uuid w (w_uuids w), in_TenantID = al_TenantID (ij_Alert job), in_Status = StatusPending,
     in_AlertIDs = [al_ID (ij_Alert job)], in_Targets = [], in_TimeFrom = 0, in_TimeTo = 0, in_Headline = [], in_Confidence = 0,
     in_CreatedAt = t, in_UpdatedAt = u, in_CompletedAt = None, in_SlackChannelID = ij_SlackChannelID job, in_SlackThreadTS = [],
     in_Hypotheses = [], in_Timeline = []\<rparr>)"
proof -
  have "w_db w' = w_db w" using assms by (auto simp: new_investigation_def new_uuid_def now_def Let_def)
  then show ?thesis using assms unchanged_db [of w' w]
    by (auto simp: new_investigation_def new_uuid_def now_def Let_def stored_row_def)
qed

text \<open>The phases of a successful run.\<close>

lemma investigate_ok_phases:
  assumes "investigate oc job w = (Some (Inr u), flag, w')"
  shows "\<exists>iv0 w0 iv1 w1 iv es w2 found labels w3. new_investigation job w = (iv0, w0) \<and> start_phase oc job iv0 w0 = (Inr iv1, w1) \<and>
    collect_phase oc job iv1 w1 = (Inr (iv, es), w2) \<and>
    rank_graph oc (correlate \<lparr>id_Investigation = iv, id_Alerts = [ij_Alert job], id_Evidence = es\<rparr>) w2 = (Some (Inr found), labels, w3) \<and>
    publish_phase oc iv \<lparr>id_Investigation = iv, id_Alerts = [(ij_Alert job)\<lparr>al_Labels := labels\<rparr>], id_Evidence = es\<rparr> found w3 = (Inr (), w') \<and> \<not> flag"
  using assms by (auto simp: investigate_def Let_def split: prod.splits sum.splits option.splits)

lemma investigate_ok_collects:
  assumes "investigate oc job w = (Some (Inr u), flag, w')"
  shows "\<exists>row iv es found labels uuid t drawn events uuid'.
    (let i = w_uuid w (w_uuids w); data = \<lparr>id_Investigation = iv, id_Alerts = [ij_Alert job], id_Evidence = es\<rparr>;
         hs = apply_policies (o_remediation oc) found in
     inv_row w i = None \<and> in_ID iv = i \<and> in_ID row = i \<and> in_Status row = StatusDone \<and>
     (in_Headline row, in_Confidence row) = headline_of hs \<and> in_CompletedAt row \<noteq> None \<and>
     in_AlertIDs row = [al_ID (ij_Alert job)] \<and> in_TenantID row = al_TenantID (ij_Alert job) \<and>
     in_SlackChannelID row = ij_SlackChannelID job \<and> in_SlackThreadTS row = [] \<and>
     in_Targets row = [] \<and> in_TimeFrom row = 0 \<and> in_TimeTo row = 0 \<and>
     rs_rank (select_rca_engine oc) uuid t (correlate data) = (Some (Inr found), labels, drawn, events) \<and>
     effect ((inv_row w)(i \<mapsto> row)) es (map (Pair i) hs) (timeline_build (o_sort oc) uuid' (data\<lparr>id_Alerts := [(ij_Alert job)\<lparr>al_Labels := labels\<rparr>]\<rparr>)) w w' \<and>
     (\<exists>iv1 w1 w2. in_ID iv1 = i \<and> collect_phase oc job iv1 w1 = (Inr (iv, es), w2)))"
proof -
  let ?i = "w_uuid w (w_uuids w)"
  from investigate_ok_phases [OF assms] obtain iv0 w0 iv1 w1 iv es w2 found labels w3 where
    0: "new_investigation job w = (iv0, w0)" and 1: "start_phase oc job iv0 w0 = (Inr iv1, w1)" and
    2: "collect_phase oc job iv1 w1 = (Inr (iv, es), w2)" and
    3: "rank_graph oc (correlate \<lparr>id_Investigation = iv, id_Alerts = [ij_Alert job], id_Evidence = es\<rparr>) w2 = (Some (Inr found), labels, w3)" and
    4: "publish_phase oc iv \<lparr>id_Investigation = iv, id_Alerts = [(ij_Alert job)\<lparr>al_Labels := labels\<rparr>], id_Evidence = es\<rparr> found w3 = (Inr (), w')" by blast
  note new = new_investigation_run [OF 0]
  then have u0: "unchanged w w0" and id0: "in_ID iv0 = ?i" and fresh: "stored_row iv0 = iv0" by auto
  note row0 = effect_rows [OF u0]
  from start_phase_effect [OF 1 fresh] obtain t1 where none: "inv_row w ?i = None" and id1: "in_ID iv1 = ?i" and
    e1: "effect ((inv_row w)(?i \<mapsto> iv0\<lparr>in_Status := StatusCollecting, in_UpdatedAt := t1\<rparr>)) [] [] [] w0 w1"
    by (auto simp: id0 row0)
  note e1 = unchanged_left [OF u0 e1]
  from collect_phase_effect [OF 2] obtain t2 where id2: "in_ID iv = ?i" and
    "effect ((inv_row w)(?i \<mapsto> iv0\<lparr>in_Status := StatusAnalyzing, in_UpdatedAt := t2\<rparr>)) es [] [] w1 w2"
    by (auto simp: id1 effect_rows [OF e1])
  from effect_trans [OF e1 this(2)]
  have e2: "effect ((inv_row w)(?i \<mapsto> iv0\<lparr>in_Status := StatusAnalyzing, in_UpdatedAt := t2\<rparr>)) es [] [] w w2" by simp
  from rank_graph_run [OF 3] obtain uuid t drawn events where u3: "unchanged w2 w3" and
    eng: "rs_rank (select_rca_engine oc) uuid t (correlate \<lparr>id_Investigation = iv, id_Alerts = [ij_Alert job], id_Evidence = es\<rparr>) =
      (Some (Inr found), labels, drawn, events)"
    by blast
  note e3 = unchanged_right [OF e2 u3]
  obtain h c where hc: "headline_of (apply_policies (o_remediation oc) found) = (h, c)" by fastforce
  from publish_phase_ok [OF 4] obtain t4 uuid' where
    "effect ((inv_row w)(?i \<mapsto> iv0\<lparr>in_Status := StatusDone, in_Headline := h, in_Confidence := c,
        in_UpdatedAt := t4, in_CompletedAt := Some t4\<rparr>)) [] (map (Pair ?i) (apply_policies (o_remediation oc) found))
      (timeline_build (o_sort oc) uuid' \<lparr>id_Investigation = iv, id_Alerts = [(ij_Alert job)\<lparr>al_Labels := labels\<rparr>], id_Evidence = es\<rparr>) w3 w'"
    by (auto simp: id2 effect_rows [OF e3] hc Let_def)
  from effect_trans [OF e3 this] have final:
    "effect ((inv_row w)(?i \<mapsto> iv0\<lparr>in_Status := StatusDone, in_Headline := h, in_Confidence := c,
        in_UpdatedAt := t4, in_CompletedAt := Some t4\<rparr>)) es (map (Pair ?i) (apply_policies (o_remediation oc) found))
      (timeline_build (o_sort oc) uuid' (\<lparr>id_Investigation = iv, id_Alerts = [ij_Alert job], id_Evidence = es\<rparr>
        \<lparr>id_Alerts := [(ij_Alert job)\<lparr>al_Labels := labels\<rparr>]\<rparr>)) w w'" by simp
  define row where "row = iv0\<lparr>in_Status := StatusDone, in_Headline := h, in_Confidence := c,
      in_UpdatedAt := t4, in_CompletedAt := Some t4\<rparr>"
  have "in_ID row = ?i \<and> in_Status row = StatusDone \<and> (in_Headline row, in_Confidence row) = headline_of (apply_policies (o_remediation oc) found) \<and>
     in_CompletedAt row \<noteq> None \<and> in_AlertIDs row = [al_ID (ij_Alert job)] \<and> in_TenantID row = al_TenantID (ij_Alert job) \<and>
     in_SlackChannelID row = ij_SlackChannelID job \<and> in_SlackThreadTS row = [] \<and>
     in_Targets row = [] \<and> in_TimeFrom row = 0 \<and> in_TimeTo row = 0"
    using new hc by (auto simp: row_def)
  moreover have "\<exists>iv1 w1 w2. in_ID iv1 = ?i \<and> collect_phase oc job iv1 w1 = (Inr (iv, es), w2)" using 2 id1 by blast
  ultimately show ?thesis using none id2 eng final unfolding row_def [symmetric] Let_def
    apply -
    apply (elim conjE)
    apply (rule exI [of _ row], rule exI [of _ iv], rule exI [of _ es], rule exI [of _ found], rule exI [of _ labels])
    apply (rule exI [of _ uuid], rule exI [of _ t])
    apply (rule exI [of _ drawn], rule exI [of _ events], rule exI [of _ uuid'])
    apply (intro conjI)
    apply assumption+
    done
qed

lemma investigate_ok:
  assumes "investigate oc job w = (Some (Inr u), flag, w')"
  shows "\<exists>row iv es found labels uuid t drawn events uuid'.
    (let i = w_uuid w (w_uuids w); data = \<lparr>id_Investigation = iv, id_Alerts = [ij_Alert job], id_Evidence = es\<rparr>;
         hs = apply_policies (o_remediation oc) found in
     inv_row w i = None \<and> in_ID iv = i \<and> in_ID row = i \<and> in_Status row = StatusDone \<and>
     (in_Headline row, in_Confidence row) = headline_of hs \<and> in_CompletedAt row \<noteq> None \<and>
     in_AlertIDs row = [al_ID (ij_Alert job)] \<and> in_TenantID row = al_TenantID (ij_Alert job) \<and>
     in_SlackChannelID row = ij_SlackChannelID job \<and> in_SlackThreadTS row = [] \<and>
     in_Targets row = [] \<and> in_TimeFrom row = 0 \<and> in_TimeTo row = 0 \<and>
     rs_rank (select_rca_engine oc) uuid t (correlate data) = (Some (Inr found), labels, drawn, events) \<and>
     effect ((inv_row w)(i \<mapsto> row)) es (map (Pair i) hs) (timeline_build (o_sort oc) uuid' (data\<lparr>id_Alerts := [(ij_Alert job)\<lparr>al_Labels := labels\<rparr>]\<rparr>)) w w')"
  using investigate_ok_collects [OF assms] unfolding Let_def
  by (elim exE) (intro exI conjI, (elim conjE, assumption)+)

lemma run_investigation_cases:
  assumes "run_investigation oc job w = (r, w')"
  obtains flag w1 where "investigate oc job (emit (Counted ''investigations_started'' []) w) = (r, flag, w1)"
    and "w' = (if flag then w1 else emit (Counted ''investigations_completed'' (case r of Some (Inl e) \<Rightarrow> ''failed'' | _ \<Rightarrow> ''done'')) w1)"
proof -
  obtain r' flag w1 where inves: "investigate oc job (emit (Counted ''investigations_started'' []) w) = (r', flag, w1)"
    by (rule prod_cases3)
  have eq: "(r', if flag then w1 else emit (Counted ''investigations_completed'' (case r' of Some (Inl e) \<Rightarrow> ''failed'' | _ \<Rightarrow> ''done'')) w1) = (r, w')"
    using assms unfolding run_investigation_def Let_def inves split_conv .
  then have "r' = r" by (rule Pair_inject)
  moreover from eq have "w' = (if flag then w1 else emit (Counted ''investigations_completed'' (case r' of Some (Inl e) \<Rightarrow> ''failed'' | _ \<Rightarrow> ''done'')) w1)"
    by (rule Pair_inject) (rule sym)
  ultimately show thesis using inves that by blast
qed

lemma run_investigation_db:
  assumes "run_investigation oc job w = (r, w')"
  obtains flag w1 where "investigate oc job (emit (Counted ''investigations_started'' []) w) = (r, flag, w1)"
    and "w_db w' = w_db w1"
  using assms by (rule run_investigation_cases) (use that in auto)

lemma emit_frame [simp]: "inv_row (emit e w) = inv_row w" "w_uuid (emit e w) = w_uuid w" "w_uuids (emit e w) = w_uuids w"
  by (simp_all add: emit_def inv_row_def fun_eq_iff)

text \<open>C1: A successful investigation adds one row, under a fresh identifier, with the status done, the headline and the confidence of
  the first hypothesis (or the fixed text and 0 when there is none) and the completion time, and touches no other row.
  Stored with it are the collected evidence, the hypotheses the engine found for the graph of that evidence,
  with the fixes of the policies merged in, and the timeline built from the same data, but with the labels of the alert
  as the engine has left them in the map they share.  The targets, the
  time window and the Slack thread of the row stay empty, although the investigation knows them.\<close>

theorem investigation_done:
  assumes run: "run_investigation oc job w = (Some (Inr u), w')"
  shows "\<exists>row iv es found labels uuid t drawn events uuid'.
    (let i = w_uuid w (w_uuids w); data = \<lparr>id_Investigation = iv, id_Alerts = [ij_Alert job], id_Evidence = es\<rparr>;
         hs = apply_policies (o_remediation oc) found in
     inv_row w i = None \<and> inv_row w' = (inv_row w)(i \<mapsto> row) \<and> in_ID row = i \<and> in_Status row = StatusDone \<and>
     (in_Headline row, in_Confidence row) = headline_of hs \<and> in_CompletedAt row \<noteq> None \<and>
     in_AlertIDs row = [al_ID (ij_Alert job)] \<and> in_TenantID row = al_TenantID (ij_Alert job) \<and>
     in_SlackChannelID row = ij_SlackChannelID job \<and> in_SlackThreadTS row = [] \<and>
     in_Targets row = [] \<and> in_TimeFrom row = 0 \<and> in_TimeTo row = 0 \<and> in_ID iv = i \<and>
     rs_rank (select_rca_engine oc) uuid t (correlate data) = (Some (Inr found), labels, drawn, events) \<and>
     db_evidence (w_db w') = db_evidence (w_db w) @ es \<and>
     db_hypotheses (w_db w') = db_hypotheses (w_db w) @ map (Pair i) hs \<and>
     db_timeline (w_db w') = db_timeline (w_db w) @ timeline_build (o_sort oc) uuid' (data\<lparr>id_Alerts := [(ij_Alert job)\<lparr>al_Labels := labels\<rparr>]\<rparr>))"
proof -
  obtain flag w1 where inves: "investigate oc job (emit (Counted ''investigations_started'' []) w) = (Some (Inr u), flag, w1)"
    and db: "w_db w' = w_db w1" using run by (rule run_investigation_db)
  from investigate_ok [OF inves] show ?thesis
    unfolding emit_frame Let_def effect_def row_of_db [OF db] db emit_db
    apply (elim exE)
    subgoal for row iv es found labels uuid t drawn events uuid'
      by (rule exI [of _ row], rule exI [of _ iv], rule exI [of _ es], rule exI [of _ found], rule exI [of _ labels], rule exI [of _ uuid],
          rule exI [of _ t], rule exI [of _ drawn], rule exI [of _ events], rule exI [of _ uuid'], elim conjE, intro conjI; assumption)
    done
qed

section \<open>An investigation that does not succeed\<close>

lemma investigate_not_ok:
  assumes inves: "investigate oc job w = (r, flag, w')" and r: "r \<noteq> Some (Inr ())" and tx: "o_tx oc"
  shows "\<exists>es. unchanged w w' \<or> (inv_row w (w_uuid w (w_uuids w)) = None \<and>
    (\<exists>row. effect ((inv_row w)(w_uuid w (w_uuids w) \<mapsto> row)) es [] [] w w' \<and> in_CompletedAt row = None \<and> in_Headline row = [] \<and>
      in_AlertIDs row = [al_ID (ij_Alert job)] \<and>
      (in_Status row \<in> {StatusPending, StatusCollecting, StatusAnalyzing} \<or>
       in_Status row = StatusFailed \<and> (\<exists>uuid t g e. fst (rs_rank (select_rca_engine oc) uuid t g) = Some (Inl e)))))"
proof -
  let ?i = "w_uuid w (w_uuids w)"
  obtain iv0 w0 where 0: "new_investigation job w = (iv0, w0)" by fastforce
  note new = new_investigation_run [OF 0]
  then have u0: "unchanged w w0" and id0: "in_ID iv0 = ?i" and fresh: "stored_row iv0 = iv0" by auto
  note row0 = effect_rows [OF u0]
  have fields0: "in_CompletedAt iv0 = None" "in_Headline iv0 = []" "in_Status iv0 = StatusPending"
    "in_AlertIDs iv0 = [al_ID (ij_Alert job)]" using new by auto
  obtain r1 w1 where 1: "start_phase oc job iv0 w0 = (r1, w1)" by fastforce
  note start = start_phase_effect [OF 1 fresh]
  show ?thesis
  proof (cases r1)
    case (Inl e)
    with inves 0 1 have "w' = w1" by (simp add: investigate_def)
    with start Inl fields0 show ?thesis
      using unchanged_trans [OF u0, of w1] unchanged_left [OF u0, of "(inv_row w)(?i \<mapsto> iv0)" "[]" "[]" "[]" w1]
      by (auto simp: id0 row0)
  next
    case (Inr iv1)
    with start obtain t1 where none: "inv_row w ?i = None" and id1: "in_ID iv1 = ?i" and
      "effect ((inv_row w)(?i \<mapsto> iv0\<lparr>in_Status := StatusCollecting, in_UpdatedAt := t1\<rparr>)) [] [] [] w0 w1"
      by (auto simp: id0 row0)
    note e1 = unchanged_left [OF u0 this(3)]
    obtain r2 w2 where 2: "collect_phase oc job iv1 w1 = (r2, w2)" by fastforce
    note coll = collect_phase_effect [OF 2]
    show ?thesis
    proof (cases r2)
      case (Inl e)
      with inves 0 1 2 Inr have "w' = w2" by (simp add: investigate_def)
      moreover obtain es where "effect (inv_row w1) es [] [] w1 w2" using coll Inl by auto
      from effect_trans [OF e1 this] have "effect (inv_row w1) es [] [] w w2" by simp
      ultimately show ?thesis using none fields0 by (force simp: effect_rows [OF e1])
    next
      case (Inr p)
      then obtain iv es where p: "r2 = Inr (iv, es)" by (cases p) auto
      with coll obtain t2 where id2: "in_ID iv = ?i" and
        "effect ((inv_row w)(?i \<mapsto> iv0\<lparr>in_Status := StatusAnalyzing, in_UpdatedAt := t2\<rparr>)) es [] [] w1 w2"
        by (auto simp: id1 effect_rows [OF e1])
      from effect_trans [OF e1 this(2)]
      have e2: "effect ((inv_row w)(?i \<mapsto> iv0\<lparr>in_Status := StatusAnalyzing, in_UpdatedAt := t2\<rparr>)) es [] [] w w2" by simp
      obtain r3 labels w3 where 3: "rank_graph oc (correlate \<lparr>id_Investigation = iv, id_Alerts = [ij_Alert job], id_Evidence = es\<rparr>) w2 = (r3, labels, w3)"
        by (metis prod.exhaust)
      from rank_graph_run [OF this] have u3: "unchanged w2 w3" and eng: "\<exists>uuid t g. fst (rs_rank (select_rca_engine oc) uuid t g) = r3"
        by (blast, metis fst_conv)
      note e3 = unchanged_right [OF e2 u3]
      have stay: ?thesis if "unchanged w3 w'"
        using unchanged_right [OF e3 that] none fields0 by force
      consider (panic) "r3 = None" "w' = w3"
        | (err) e e' where "r3 = Some (Inl e)" "fail_investigation oc iv (''RCA engine failed: '' @ error_text e) w3 = (e', w')"
        | (pub) e found where "publish_phase oc iv \<lparr>id_Investigation = iv, id_Alerts = [(ij_Alert job)\<lparr>al_Labels := labels\<rparr>], id_Evidence = es\<rparr> found w3 = (Inl e, w')"
      proof -
        have tail: "investigate oc job w = (case (r3, labels, w3) of
              (None, labels, w) \<Rightarrow> (None, False, w)
            | (Some (Inl err), labels, w) \<Rightarrow>
                (let (e, w) = fail_investigation oc iv (''RCA engine failed: '' @ error_text err) w in (Some (Inl e), True, w))
            | (Some (Inr hypotheses), labels, w) \<Rightarrow>
                (let (r, w) = publish_phase oc iv \<lparr>id_Investigation = iv, id_Alerts = [(ij_Alert job)\<lparr>al_Labels := labels\<rparr>], id_Evidence = es\<rparr> hypotheses w
                 in (Some r, False, w)))"
          by (simp add: investigate_def Let_def 0 1 \<open>r1 = Inr iv1\<close> 2 p 3 split: option.split sum.split)
        obtain rp wp where pub: "publish_phase oc iv \<lparr>id_Investigation = iv, id_Alerts = [(ij_Alert job)\<lparr>al_Labels := labels\<rparr>], id_Evidence = es\<rparr> (projr (the r3)) w3 = (rp, wp)"
          by fastforce
        show thesis
        proof (cases r3)
          case None
          with tail inves panic show thesis by simp
        next
          case (Some x)
          with tail inves err pub that(3) r show thesis by (cases x; cases rp) (auto split: prod.splits)
        qed
      qed
      then show ?thesis
      proof cases
        case panic
        then show ?thesis using stay by simp
      next
        case err
        from fail_investigation_effect [OF err(2)] show ?thesis
        proof
          assume "\<exists>row t. inv_row w3 (in_ID iv) = Some row \<and>
            effect ((inv_row w3)(in_ID iv \<mapsto> row\<lparr>in_Status := StatusFailed, in_UpdatedAt := t\<rparr>)) [] [] [] w3 w'"
          then obtain t where "effect ((inv_row w)(?i \<mapsto> iv0\<lparr>in_Status := StatusFailed, in_UpdatedAt := t\<rparr>)) [] [] [] w3 w'"
            by (auto simp: id2 effect_rows [OF e3])
          from effect_trans [OF e3 this] show ?thesis using none fields0 eng err(1) by force
        qed (rule stay)
      next
        case pub
        then show ?thesis using stay publish_phase_err tx by blast
      qed
    qed
  qed
qed

lemma run_not_ok:
  assumes run: "run_investigation oc job w = (r, w')" and r: "r \<noteq> Some (Inr ())" and tx: "o_tx oc"
  shows "db_hypotheses (w_db w') = db_hypotheses (w_db w) \<and> db_timeline (w_db w') = db_timeline (w_db w) \<and>
    (\<exists>es. db_evidence (w_db w') = db_evidence (w_db w) @ es) \<and> (db_wf (w_db w) \<longrightarrow> db_wf (w_db w')) \<and>
    (inv_row w' = inv_row w \<or>
     inv_row w (w_uuid w (w_uuids w)) = None \<and>
     (\<exists>row. inv_row w' = (inv_row w)(w_uuid w (w_uuids w) \<mapsto> row) \<and> in_CompletedAt row = None \<and> in_Headline row = [] \<and>
        in_AlertIDs row = [al_ID (ij_Alert job)] \<and>
        (in_Status row \<in> {StatusPending, StatusCollecting, StatusAnalyzing} \<or>
         in_Status row = StatusFailed \<and> (\<exists>uuid t g e. fst (rs_rank (select_rca_engine oc) uuid t g) = Some (Inl e)))))"
proof -
  obtain flag w1 where inves: "investigate oc job (emit (Counted ''investigations_started'' []) w) = (r, flag, w1)"
    and db: "w_db w' = w_db w1" using run by (rule run_investigation_db)
  from investigate_not_ok [OF inves r tx] obtain es where
    "effect (inv_row w) [] [] [] w w' \<or> (inv_row w (w_uuid w (w_uuids w)) = None \<and>
    (\<exists>row. effect ((inv_row w)(w_uuid w (w_uuids w) \<mapsto> row)) es [] [] w w' \<and> in_CompletedAt row = None \<and> in_Headline row = [] \<and>
      in_AlertIDs row = [al_ID (ij_Alert job)] \<and>
      (in_Status row \<in> {StatusPending, StatusCollecting, StatusAnalyzing} \<or>
       in_Status row = StatusFailed \<and> (\<exists>uuid t g e. fst (rs_rank (select_rca_engine oc) uuid t g) = Some (Inl e)))))"
    unfolding emit_frame effect_def row_of_db [OF db] db emit_db by (elim exE)
  then show ?thesis
  proof
    assume "effect (inv_row w) [] [] [] w w'"
    then show ?thesis by (simp add: effect_def)
  next
    assume "inv_row w (w_uuid w (w_uuids w)) = None \<and>
    (\<exists>row. effect ((inv_row w)(w_uuid w (w_uuids w) \<mapsto> row)) es [] [] w w' \<and> in_CompletedAt row = None \<and> in_Headline row = [] \<and>
      in_AlertIDs row = [al_ID (ij_Alert job)] \<and>
      (in_Status row \<in> {StatusPending, StatusCollecting, StatusAnalyzing} \<or>
       in_Status row = StatusFailed \<and> (\<exists>uuid t g e. fst (rs_rank (select_rca_engine oc) uuid t g) = Some (Inl e))))"
    then obtain row where row: "inv_row w (w_uuid w (w_uuids w)) = None"
      "effect ((inv_row w)(w_uuid w (w_uuids w) \<mapsto> row)) es [] [] w w'" "in_CompletedAt row = None \<and> in_Headline row = [] \<and>
      in_AlertIDs row = [al_ID (ij_Alert job)] \<and>
      (in_Status row \<in> {StatusPending, StatusCollecting, StatusAnalyzing} \<or>
       in_Status row = StatusFailed \<and> (\<exists>uuid t g e. fst (rs_rank (select_rca_engine oc) uuid t g) = Some (Inl e)))" by blast
    from row(2) have "inv_row w' = (inv_row w)(w_uuid w (w_uuids w) \<mapsto> row)" and
      tables: "db_hypotheses (w_db w') = db_hypotheses (w_db w) \<and> db_timeline (w_db w') = db_timeline (w_db w) \<and>
        (\<exists>es. db_evidence (w_db w') = db_evidence (w_db w) @ es) \<and> (db_wf (w_db w) \<longrightarrow> db_wf (w_db w'))"
      by (simp_all add: effect_def)
    with row(1,3) show ?thesis by blast
  qed
qed

text \<open>C11: An investigation that ends with an error or a panic stores no hypothesis and no timeline event: with transactions the
  completion is all or nothing.  Its row, if it was created at all, is the only one touched; it has no headline and no
  completion time, and its status is pending, collecting or analyzing, or failed when the engine itself
  returned an error.  The integrity of the tables is kept.\<close>

theorem investigation_failed:
  assumes run: "run_investigation oc job w = (r, w')" and r: "r \<noteq> Some (Inr ())" and tx: "o_tx oc"
  shows "db_hypotheses (w_db w') = db_hypotheses (w_db w) \<and> db_timeline (w_db w') = db_timeline (w_db w) \<and>
    (\<exists>es. db_evidence (w_db w') = db_evidence (w_db w) @ es) \<and> (db_wf (w_db w) \<longrightarrow> db_wf (w_db w')) \<and>
    (inv_row w' = inv_row w \<or>
     inv_row w (w_uuid w (w_uuids w)) = None \<and>
     (\<exists>row. inv_row w' = (inv_row w)(w_uuid w (w_uuids w) \<mapsto> row) \<and> in_CompletedAt row = None \<and> in_Headline row = [] \<and>
        in_AlertIDs row = [al_ID (ij_Alert job)] \<and>
        (in_Status row \<in> {StatusPending, StatusCollecting, StatusAnalyzing} \<or>
         in_Status row = StatusFailed \<and> (\<exists>uuid t g e. fst (rs_rank (select_rca_engine oc) uuid t g) = Some (Inl e)))))"
  by (rule run_not_ok [OF run r tx])

text \<open>The rule engine never returns an error, and neither does the model-backed one, which falls back on it: in
  either wiring no investigation is ever marked as failed.\<close>

lemma rule_service_no_error: "fst (rs_rank rule_service uuid t g) \<noteq> Some (Inl e)"
  by (auto simp: rule_service_def split: option.split)

section \<open>What is sent\<close>

text \<open>The events of an investigation on a channel, its own counts apart: evidence that is offloaded, calls of a model, and what goes to
  Slack, which is nothing when there is no channel.\<close>

fun quiet :: "string \<Rightarrow> event \<Rightarrow> bool" where
  "quiet ch (BlobStored k b) = (take 9 k = ''evidence/'')"
| "quiet ch (Counted m l) = (m = ''llm_calls'')"
| "quiet ch (Published s j) = False"
| "quiet ch e = (ch \<noteq> [])"

fun is_completed :: "event \<Rightarrow> bool" where
  "is_completed (Counted m l) = (m = ''investigations_completed'')"
| "is_completed e = False"

definition emits :: "(event \<Rightarrow> bool) \<Rightarrow> world \<Rightarrow> world \<Rightarrow> bool" where
  "emits P w w' \<longleftrightarrow> (\<exists>es. w_events w' = w_events w @ es \<and> list_all P es)"

lemma emits_trans: "emits P w w1 \<Longrightarrow> emits P w1 w2 \<Longrightarrow> emits P w w2"
  by (force simp: emits_def)

lemma emits_none: "w_events w' = w_events w \<Longrightarrow> emits P w w'"
  by (simp add: emits_def)

lemma emits_send: "P e \<Longrightarrow> emits P w (snd (send e w))"
  by (simp add: emits_def send_def emit_def Let_def)

lemma db_calls_events [simp]:
  "w_events (snd (now w)) = w_events w" "w_events (snd (new_uuid w)) = w_events w"
  "w_events (snd (alert_create a w)) = w_events w" "w_events (snd (inv_create iv w)) = w_events w"
  "w_events (snd (inv_update_status i s w)) = w_events w" "w_events (snd (inv_complete i h c w)) = w_events w"
  "w_events (snd (evidence_create_batch es w)) = w_events w" "w_events (snd (hypothesis_create_batch i hs w)) = w_events w"
  "w_events (snd (timeline_create_batch evs w)) = w_events w"
  by (simp_all add: now_def new_uuid_def alert_create_def inv_create_def inv_update_status_def inv_complete_def
      update_investigation_def evidence_create_batch_def hypothesis_create_batch_def timeline_create_batch_def split_beta Let_def)

lemma audit_log_events [simp]: "w_events (snd (audit_log t a act tgt md w)) = w_events w"
  by (simp add: audit_log_def audit_log_action_def audit_create_def split_beta Let_def)

lemma wrap_snd [simp]: "snd (wrap msg r) = snd r"
  by (cases r; cases "fst r") (auto simp: wrap_def)

lemma emits_and_then:
  assumes "emits P w (snd r)" "\<And>a w1. r = (Inr a, w1) \<Longrightarrow> emits P w1 (snd (k a w1))"
  shows "emits P w (snd (and_then r k))"
  using assms by (cases r; cases "fst r") (auto simp: and_then_def intro: emits_trans)

lemma emits_in_tx: "(\<And>w. w_events (snd (body w)) = w_events w) \<Longrightarrow> w_events (snd (in_tx body w)) = w_events w"
proof -
  assume body: "\<And>w. w_events (snd (body w)) = w_events w"
  have ev: "w_events w' = w_events w" if "body w = (r, w')" for w r w' using body [of w] that by simp
  have ex: "w_events w' = w_events w" if "exec stmt w = (r, w')" for stmt :: "database \<Rightarrow> go_error + 'b \<times> database" and w r w'
    using exec_events [of stmt w] that by simp
  show ?thesis
    by (auto simp: in_tx_def begin_tx_def commit_def rollback_def wrap_def split: prod.split sum.split dest!: ev ex)
qed

lemma store_evidence_events [simp]: "w_events (snd (store_evidence_batch oc es w)) = w_events w"
  by (simp add: store_evidence_batch_def emits_in_tx)

lemma and_then_events:
  "w_events (snd r) = ev \<Longrightarrow> (\<And>a w1. w_events w1 = ev \<Longrightarrow> w_events (snd (k a w1)) = ev) \<Longrightarrow> w_events (snd (and_then r k)) = ev"
  by (cases r; cases "fst r") (auto simp: and_then_def)

lemma completion_writes_events:
  assumes "\<And>x. snd (last_error x) = snd x"
  shows "w_events (snd (completion_writes last_error i h c hs evs w)) = w_events w"
  unfolding completion_writes_def by (intro and_then_events) (simp_all add: assms)

lemma store_completion_events [simp]: "w_events (snd (store_completion_batch oc i h c hs evs w)) = w_events w"
  by (simp add: store_completion_batch_def emits_in_tx completion_writes_events)

lemma posts_emit:
  "emits (quiet (in_SlackChannelID iv)) w (post_update oc iv msg w)"
  "emits (quiet (in_SlackChannelID iv)) w (snd (post_started oc iv w))"
  "emits (quiet (in_SlackChannelID iv)) w (post_result oc iv r w)"
proof -
  have "emits (quiet (in_SlackChannelID iv)) w w'" if "send (SlackStarted (in_SlackChannelID iv) (in_ID iv)) w = (x, w')"
    "in_SlackChannelID iv \<noteq> []" for x w'
    using emits_send [of "quiet (in_SlackChannelID iv)" "SlackStarted (in_SlackChannelID iv) (in_ID iv)" w] that by simp
  then show "emits (quiet (in_SlackChannelID iv)) w (snd (post_started oc iv w))"
    by (auto simp: post_started_def emits_none split: prod.split option.split)
qed (simp_all add: post_update_def post_result_def emits_send emits_none)

lemma offload_emits: "emits (quiet ch) w (snd (offload i es w))"
proof (induction es arbitrary: w)
  case (Cons e es)
  obtain e1 w1 where 1: "(if length (ev_BodyRef e) > 4096 then
            (let blobKey = ''evidence/'' @ i @ ''/'' @ ev_ID e
             in case send (BlobStored blobKey (ev_BodyRef e)) w of
                  (Some err, w) \<Rightarrow> (e, w) | (None, w) \<Rightarrow> (e\<lparr>ev_BodyRef := blobKey\<rparr>, w))
          else (e, w)) = (e1, w1)" by fastforce
  have sent: "emits (quiet ch) w w'" if "send (BlobStored k b) w = (x, w')" "take 9 k = ''evidence/''" for k b x w'
    using emits_send [of "quiet ch" "BlobStored k b" w] that by simp
  have "emits (quiet ch) w w1"
    using 1 by (auto simp: Let_def emits_none dest: sent split: if_splits prod.splits option.splits)
  moreover have "emits (quiet ch) w1 (snd (offload i es w1))" by (rule Cons.IH)
  ultimately have "emits (quiet ch) w (snd (offload i es w1))" by (rule emits_trans)
  then show ?case by (simp add: 1 split_beta)
qed (simp add: emits_none)

lemma start_phase_emits: "emits (quiet (in_SlackChannelID iv)) w (snd (start_phase oc job iv w))"
proof -
  obtain ra w1 where 1: "alert_create (ij_Alert job) w = (ra, w1)" by fastforce
  have "w_events w1 = w_events w" using db_calls_events(3) [of "ij_Alert job" w] by (simp add: 1)
  then have "emits (quiet (in_SlackChannelID iv)) w w1" by (rule emits_none)
  moreover have "emits (quiet (in_SlackChannelID iv)) w1 (snd (start_phase oc job iv w))"
    unfolding start_phase_def Let_def 1 split_beta fst_conv snd_conv
  proof (intro emits_and_then)
    fix a w2
    let ?w3 = "snd (audit_log (in_TenantID iv) ''system'' ''investigation.created'' (in_ID iv)
      (Some [(''alert_id'', al_ID (ij_Alert job))]) w2)"
    have "emits (quiet (in_SlackChannelID iv)) w2 ?w3" by (rule emits_none) simp
    moreover have "emits (quiet (in_SlackChannelID iv)) ?w3 (snd (post_started oc iv ?w3))" by (rule posts_emit)
    ultimately have "emits (quiet (in_SlackChannelID iv)) w2 (snd (post_started oc iv ?w3))" by (rule emits_trans)
    then show "emits (quiet (in_SlackChannelID iv)) w2 (snd (wrap ''update status to collecting''
        (inv_update_status (in_ID (fst (post_started oc iv ?w3))) StatusCollecting (snd (post_started oc iv ?w3)))))"
      by (rule emits_trans) (simp add: emits_none)
  qed (simp_all add: emits_none)
  ultimately show ?thesis by (rule emits_trans)
qed

lemma collect_phase_emits:
  assumes "in_SlackChannelID iv = ch"
  shows "emits (quiet ch) w (snd (collect_phase oc job iv w))"
proof -
  obtain t w1 where 1: "now w = (t, w1)" by fastforce
  define iv1 where "iv1 = iv\<lparr>in_Targets := rr_Targets (resolve t (ij_Alert job)), in_TimeFrom := rr_TimeFrom (resolve t (ij_Alert job)),
    in_TimeTo := rr_TimeTo (resolve t (ij_Alert job))\<rparr>"
  have ch: "in_SlackChannelID iv1 = ch" using assms by (simp add: iv1_def)
  define w2 where "w2 = post_update oc iv1 (''Collecting evidence for '' @ itoa (int (length (rr_Targets (resolve t (ij_Alert job))))) @ '' target(s)...'') w1"
  obtain es3 w3 where 3: "run_collectors oc \<lparr>cr_InvestigationID = in_ID iv1, cr_Alert = ij_Alert job, cr_Targets = rr_Targets (resolve t (ij_Alert job)),
      cr_TimeFrom = rr_TimeFrom (resolve t (ij_Alert job)), cr_TimeTo = rr_TimeTo (resolve t (ij_Alert job))\<rparr> w2 = (es3, w3)" by fastforce
  obtain es w4 where 4: "(if o_blobStore oc then offload (in_ID iv1) es3 w3 else (es3, w3)) = (es, w4)" by fastforce
  have a: "emits (quiet ch) w w1" using db_calls_events(1) [of w] by (intro emits_none) (simp add: 1)
  have b: "emits (quiet ch) w1 w2" using posts_emit(1) [of iv1] unfolding w2_def ch .
  have c: "emits (quiet ch) w2 w3" using 3 by (intro emits_none) (auto simp: run_collectors_def)
  have "emits (quiet ch) w3 w4" using 4 offload_emits [of ch w3 "in_ID iv1" es3] by (auto simp: emits_none split: if_splits)
  with emits_trans [OF emits_trans [OF a b] c] have pre: "emits (quiet ch) w w4" by (rule emits_trans)
  have "emits (quiet ch) w4 (snd (collect_phase oc job iv w))"
    unfolding collect_phase_def Let_def 1 split_conv iv1_def [symmetric] w2_def [symmetric] 3 4
  proof (intro emits_and_then)
    fix a w5
    let ?w6 = "post_update oc iv1 (''Collected '' @ itoa (int (length es)) @ '' evidence items. Analyzing...'') w5"
    have "emits (quiet ch) w5 ?w6" using posts_emit(1) [of iv1] unfolding ch .
    then show "emits (quiet ch) w5 (snd (wrap ''update status to analyzing'' (inv_update_status (in_ID iv1) StatusAnalyzing ?w6)))"
      by (rule emits_trans) (simp add: emits_none)
  qed (simp_all add: emits_none)
  with pre show ?thesis by (rule emits_trans)
qed

lemma publish_phase_emits: "emits (quiet (in_SlackChannelID iv)) w (snd (publish_phase oc iv data found w))"
proof -
  obtain h c where hc: "headline_of (apply_policies (o_remediation oc) found) = (h, c)" by fastforce
  obtain evs w1 where 1: "build_timeline oc data w = (evs, w1)" by fastforce
  have "emits (quiet (in_SlackChannelID iv)) w w1" using 1 by (intro emits_none) (auto simp: build_timeline_def Let_def)
  moreover have "emits (quiet (in_SlackChannelID iv)) w1 (snd (publish_phase oc iv data found w))"
    unfolding publish_phase_def Let_def 1 hc split_conv
  proof (rule emits_and_then)
    fix a w2
    let ?w3 = "post_result oc iv (make_result oc iv (apply_policies (o_remediation oc) found) evs) w2"
    have "emits (quiet (in_SlackChannelID iv)) w2 ?w3" by (rule posts_emit)
    then show "emits (quiet (in_SlackChannelID iv)) w2 (snd (case audit_log (in_TenantID iv) ''system'' ''investigation.completed'' (in_ID iv)
        (Some [(''headline'', h), (''confidence'', format_fixed 2 c), (''evidence'', itoa (int (length (id_Evidence data)))),
          (''hypotheses'', itoa (int (length (apply_policies (o_remediation oc) found))))]) ?w3 of (r, w) \<Rightarrow> (Inr (), w)))"
      by (rule emits_trans) (simp add: emits_none split_beta)
  qed (simp add: emits_none)
  ultimately show ?thesis by (rule emits_trans)
qed

lemma fail_investigation_emits:
  "emits (quiet (in_SlackChannelID iv)) (emit (Counted ''investigations_completed'' ''failed'') w) (snd (fail_investigation oc iv msg w))"
proof -
  let ?w1 = "emit (Counted ''investigations_completed'' ''failed'') w"
  obtain r w2 where 2: "inv_update_status (in_ID iv) StatusFailed ?w1 = (r, w2)" by fastforce
  let ?w3 = "if in_SlackChannelID iv \<noteq> [] \<and> o_slack oc
      then snd (send (SlackError (in_SlackChannelID iv) (in_SlackThreadTS iv) msg) w2) else w2"
  have "emits (quiet (in_SlackChannelID iv)) ?w1 w2"
    using db_calls_events(5) [of "in_ID iv" StatusFailed ?w1] by (intro emits_none) (simp add: 2)
  moreover have "emits (quiet (in_SlackChannelID iv)) w2 ?w3" by (simp add: emits_send emits_none)
  moreover have "emits (quiet (in_SlackChannelID iv)) ?w3 (snd (fail_investigation oc iv msg w))"
    unfolding fail_investigation_def Let_def 2 split_conv by (rule emits_none) (simp add: split_beta)
  ultimately show ?thesis by (blast intro: emits_trans)
qed

lemma collect_phase_channel:
  "collect_phase oc job iv w = (Inr (iv', es), w') \<Longrightarrow> in_SlackChannelID iv' = in_SlackChannelID iv"
  by (auto simp: collect_phase_def Let_def and_then_Inr split: prod.splits)

text \<open>What an engine sends while it ranks the graph of an investigation on the channel.\<close>

definition quiet_engine :: "rca_service \<Rightarrow> string \<Rightarrow> bool" where
  "quiet_engine s ch \<longleftrightarrow> (\<forall>uuid t g. in_SlackChannelID (id_Investigation (ig_Data g)) = ch \<longrightarrow>
     list_all (quiet ch) (snd (snd (snd (rs_rank s uuid t g)))))"

lemma rank_graph_emits:
  assumes "\<And>uuid t. list_all P (snd (snd (snd (rs_rank (select_rca_engine oc) uuid t graph))))"
  shows "emits P w (snd (snd (rank_graph oc graph w)))"
proof -
  obtain t w1 where 1: "now w = (t, w1)" by fastforce
  have "w_events w1 = w_events w" using db_calls_events(1) [of w] by (simp add: 1)
  moreover have "list_all P (snd (snd (snd (rs_rank (select_rca_engine oc) (\<lambda>i. w_uuid w1 (w_uuids w1 + i)) t graph))))" by (rule assms)
  ultimately show ?thesis by (auto simp: emits_def rank_graph_def 1 Let_def split: prod.split)
qed

lemma investigate_emits:
  assumes inves: "investigate oc job w = (r, flag, w')"
    and engine: "quiet_engine (select_rca_engine oc) (ij_SlackChannelID job)"
  shows "\<not> flag \<and> emits (quiet (ij_SlackChannelID job)) w w' \<or>
    flag \<and> (\<exists>e. r = Some (Inl e)) \<and> (\<exists>w1. emits (quiet (ij_SlackChannelID job)) w w1 \<and>
      emits (quiet (ij_SlackChannelID job)) (emit (Counted ''investigations_completed'' ''failed'') w1) w')"
proof -
  let ?P = "quiet (ij_SlackChannelID job)"
  obtain iv0 w0 where 0: "new_investigation job w = (iv0, w0)" by fastforce
  obtain r1 w1 where 1: "start_phase oc job iv0 w0 = (r1, w1)" by fastforce
  have fresh: "stored_row iv0 = iv0" and ch0: "in_SlackChannelID iv0 = ij_SlackChannelID job"
    using new_investigation_run [OF 0] by auto
  have "emits ?P w w0" using 0 by (intro emits_none) (auto simp: new_investigation_def new_uuid_def now_def Let_def)
  moreover have "emits ?P w0 w1" using start_phase_emits [of iv0 w0 oc job] by (simp add: 1 ch0)
  ultimately have e1: "emits ?P w w1" by (rule emits_trans)
  show ?thesis
  proof (cases r1)
    case (Inl e)
    with inves 0 1 e1 show ?thesis by (simp add: investigate_def)
  next
    case (Inr iv1)
    then have ch1: "in_SlackChannelID iv1 = ij_SlackChannelID job" using start_phase_effect [OF 1 fresh] ch0 by auto
    obtain r2 w2 where 2: "collect_phase oc job iv1 w1 = (r2, w2)" by fastforce
    have "emits ?P w1 w2" using collect_phase_emits [OF ch1, of w1 oc job] by (simp add: 2)
    with e1 have e2: "emits ?P w w2" by (rule emits_trans)
    show ?thesis
    proof (cases r2)
      case (Inl e)
      with inves 0 1 2 Inr e2 show ?thesis by (simp add: investigate_def)
    next
      case (Inr p)
      then obtain iv es where p: "r2 = Inr (iv, es)" by (cases p) auto
      have ch: "in_SlackChannelID iv = ij_SlackChannelID job" using collect_phase_channel [OF 2 [unfolded p]] ch1 by simp
      obtain r3 labels w3 where 3: "rank_graph oc (correlate \<lparr>id_Investigation = iv, id_Alerts = [ij_Alert job], id_Evidence = es\<rparr>) w2 = (r3, labels, w3)"
        by (metis prod.exhaust)
      have "list_all ?P (snd (snd (snd (rs_rank (select_rca_engine oc) uuid t
          (correlate \<lparr>id_Investigation = iv, id_Alerts = [ij_Alert job], id_Evidence = es\<rparr>)))))" for uuid t
        using engine ch by (simp add: quiet_engine_def correlate_def)
      from rank_graph_emits [of ?P oc, OF this, of w2] 3 have "emits ?P w2 w3" by simp
      with e2 have e3: "emits ?P w w3" by (rule emits_trans)
      have tail: "investigate oc job w = (case (r3, labels, w3) of
              (None, labels, w) \<Rightarrow> (None, False, w)
            | (Some (Inl err), labels, w) \<Rightarrow>
                (let (e, w) = fail_investigation oc iv (''RCA engine failed: '' @ error_text err) w in (Some (Inl e), True, w))
            | (Some (Inr hypotheses), labels, w) \<Rightarrow>
                (let (r, w) = publish_phase oc iv \<lparr>id_Investigation = iv, id_Alerts = [(ij_Alert job)\<lparr>al_Labels := labels\<rparr>], id_Evidence = es\<rparr> hypotheses w
                 in (Some r, False, w)))"
        by (simp add: investigate_def Let_def 0 1 \<open>r1 = Inr iv1\<close> 2 p 3 split: option.split sum.split)
      show ?thesis
      proof (cases r3)
        case None
        with tail inves e3 show ?thesis by simp
      next
        case (Some x)
        show ?thesis
        proof (cases x)
          case (Inl err)
          have "emits ?P (emit (Counted ''investigations_completed'' ''failed'') w3) (snd (fail_investigation oc iv (''RCA engine failed: '' @ error_text err) w3))"
            using fail_investigation_emits [of iv] unfolding ch .
          with tail inves e3 Some Inl show ?thesis by (auto simp: split_beta)
        next
          case (Inr found)
          have "emits ?P w3 (snd (publish_phase oc iv \<lparr>id_Investigation = iv, id_Alerts = [(ij_Alert job)\<lparr>al_Labels := labels\<rparr>], id_Evidence = es\<rparr> found w3))"
            using publish_phase_emits [of iv] unfolding ch .
          with e3 have "emits ?P w (snd (publish_phase oc iv \<lparr>id_Investigation = iv, id_Alerts = [(ij_Alert job)\<lparr>al_Labels := labels\<rparr>], id_Evidence = es\<rparr> found w3))"
            by (rule emits_trans)
          with tail inves Some Inr show ?thesis by (auto simp: split_beta)
        qed
      qed
    qed
  qed
qed

lemma quiet_not_completed: "list_all (quiet ch) es \<Longrightarrow> filter is_completed es = []"
proof (induction es)
  case (Cons e es)
  then show ?case by (cases e) auto
qed simp

fun to_slack :: "event \<Rightarrow> bool" where
  "to_slack (BlobStored k b) = False"
| "to_slack (Counted m l) = False"
| "to_slack (Published s j) = False"
| "to_slack e = True"

lemma quiet_not_slack: "list_all (quiet []) es \<Longrightarrow> filter to_slack es = []"
proof (induction es)
  case (Cons e es)
  then show ?case by (cases e) auto
qed simp

lemma run_emits:
  assumes run: "run_investigation oc job w = (r, w')" and engine: "quiet_engine (select_rca_engine oc) (ij_SlackChannelID job)"
  shows "\<exists>es1 es2. list_all (quiet (ij_SlackChannelID job)) es1 \<and> list_all (quiet (ij_SlackChannelID job)) es2 \<and>
    w_events w' = w_events w @ Counted ''investigations_started'' [] # es1 @
      Counted ''investigations_completed'' (case r of Some (Inl e) \<Rightarrow> ''failed'' | _ \<Rightarrow> ''done'') # es2"
proof -
  let ?P = "quiet (ij_SlackChannelID job)" and ?s = "Counted ''investigations_started'' []"
  let ?d = "Counted ''investigations_completed'' (case r of Some (Inl e) \<Rightarrow> ''failed'' | _ \<Rightarrow> ''done'')"
  obtain flag w1 where inves: "investigate oc job (emit ?s w) = (r, flag, w1)" and w': "w' = (if flag then w1 else emit ?d w1)"
    using run by (rule run_investigation_cases)
  from investigate_emits [OF inves engine] show ?thesis
  proof (elim disjE conjE exE)
    assume "\<not> flag" "emits ?P (emit ?s w) w1"
    then obtain es where "w_events w1 = w_events (emit ?s w) @ es" "list_all ?P es" by (auto simp: emits_def)
    with w' \<open>\<not> flag\<close> show ?thesis by (intro exI [of _ es] exI [of _ "[]"]) (simp add: emit_def)
  next
    fix e w2
    assume a: "flag" "r = Some (Inl e)" "emits ?P (emit ?s w) w2" "emits ?P (emit (Counted ''investigations_completed'' ''failed'') w2) w1"
    then show ?thesis using w' by (auto simp: emits_def emit_def)
  qed
qed

lemma run_events:
  assumes run: "run_investigation oc job w = (r, w')" and engine: "quiet_engine (select_rca_engine oc) (ij_SlackChannelID job)"
  shows "\<exists>es. w_events w' = w_events w @ es \<and>
    filter is_completed es = [Counted ''investigations_completed'' (case r of Some (Inl e) \<Rightarrow> ''failed'' | _ \<Rightarrow> ''done'')] \<and>
    (ij_SlackChannelID job = [] \<longrightarrow> filter to_slack es = [])"
proof -
  let ?s = "Counted ''investigations_started'' []"
  let ?d = "Counted ''investigations_completed'' (case r of Some (Inl e) \<Rightarrow> ''failed'' | _ \<Rightarrow> ''done'')"
  from run_emits [OF run engine] obtain es1 es2 where "list_all (quiet (ij_SlackChannelID job)) es1"
    "list_all (quiet (ij_SlackChannelID job)) es2" "w_events w' = w_events w @ ?s # es1 @ ?d # es2" by blast
  then show ?thesis
    by (intro exI [of _ "?s # es1 @ ?d # es2"]) (auto simp: quiet_not_completed quiet_not_slack)
qed

text \<open>Every investigation is counted once as completed: as failed exactly when it ends with an error, and as done also when
  it panics.  An investigation of a job without a Slack channel sends nothing to Slack.\<close>

theorem outcome_counted_once:
  assumes run: "run_investigation oc job w = (r, w')" and engine: "quiet_engine (select_rca_engine oc) (ij_SlackChannelID job)"
  shows "\<exists>es. w_events w' = w_events w @ es \<and>
    filter is_completed es = [Counted ''investigations_completed'' (case r of Some (Inl e) \<Rightarrow> ''failed'' | _ \<Rightarrow> ''done'')] \<and>
    (ij_SlackChannelID job = [] \<longrightarrow> filter to_slack es = [])"
  by (rule run_events [OF run engine])

section \<open>Example\<close>

definition sample_service :: rca_service where
  "sample_service = \<lparr>rs_name = ''sample'', rs_rank = (\<lambda>uuid t graph. (Some (Inr [\<lparr>hy_ID = uuid 0, hy_Title = ''disk full'',
     hy_Narrative = [], hy_CauseCategory = CauseInfra, hy_Confidence = 0, hy_Supporting = [], hy_Contradicting = [],
     hy_SuggestedFixes = []\<rparr>]), graph_labels graph, 1, []))\<rparr>"

text \<open>Whatever its outcome, a run leaves the rows of the others alone.\<close>

lemma run_other_rows:
  assumes run: "run_investigation oc job w = (r, w')" and tx: "o_tx oc" and other: "i \<noteq> w_uuid w (w_uuids w)"
  shows "inv_row w' i = inv_row w i"
proof (cases "r = Some (Inr ())")
  case True
  obtain flag w1 where inves: "investigate oc job (emit (Counted ''investigations_started'' []) w) = (r, flag, w1)"
    and db: "w_db w' = w_db w1" using run by (rule run_investigation_db)
  from investigate_ok [OF inves [unfolded True]] obtain row' where "inv_row w1 = (inv_row w)(w_uuid w (w_uuids w) \<mapsto> row')"
    unfolding Let_def effect_def emit_frame by (elim exE conjE) (rule that; assumption)
  with other row_of_db [OF db] show ?thesis by simp
next
  case False
  from run_not_ok [OF run False tx] other show ?thesis by (elim conjE disjE exE) simp_all
qed

definition sample_oc :: orchestrator where
  "sample_oc = new_orchestrator \<lparr>od_RCA = sample_service,
       od_Collectors = (\<lambda>n req. ([sample_evidence ''e1'' EvidenceEvent ''disk full'' 0 0\<lparr>ev_InvestigationID := cr_InvestigationID req\<rparr>], None)),
       od_Sort = insertion_sort earlier, od_Slack = Some (\<lambda>n. ''ts''), od_Tx = True\<rparr> [with_blob_store]"

definition sample_job :: investigation_job where
  "sample_job = \<lparr>ij_Alert = normalized_alert0\<lparr>al_ID := ''a1'', al_Fingerprint := ''f'', al_StartsAt := hours 9\<rparr>,
     ij_SlackChannelID = ''C1'', ij_SlackThreadTS = [], ij_RequestedBy = [], ij_TraceParent = [], ij_TraceState = []\<rparr>"

lemma sample_outcome: "(\<lambda>(r, w'). (r, length (db_evidence (w_db w')))) (run_investigation sample_oc sample_job (sample_world empty_db)) = (Some (Inr ()), 1)"
  by code_simp

lemma sample_run: "fst (run_investigation sample_oc sample_job (sample_world empty_db)) = Some (Inr ())"
  using sample_outcome by (simp add: split_beta)

theorem investigation_done_witness:
  "\<exists>u w'. run_investigation sample_oc sample_job (sample_world empty_db) = (Some (Inr u), w') \<and> length (db_evidence (w_db w')) = 1 \<and>
     (\<exists>row. inv_row w' (w_uuid (sample_world empty_db) 0) = Some row \<and> in_Status row = StatusDone)"
proof -
  obtain w' where run: "run_investigation sample_oc sample_job (sample_world empty_db) = (Some (Inr ()), w')"
    using sample_run by (metis prod.collapse)
  then have "length (db_evidence (w_db w')) = 1" using sample_outcome by simp
  moreover have "w_uuids (sample_world empty_db) = 0" by (simp add: sample_world_def)
  ultimately show ?thesis using run investigation_done [OF run] unfolding Let_def by (auto simp del: One_nat_def)
qed

text \<open>The commit of the completion fails: the investigation is still being analyzed, for good.\<close>

definition commit_lost :: world where
  "commit_lost = sample_world empty_db\<lparr>w_fault := (\<lambda>n. n = 17)\<rparr>"

theorem outcome_counted_once_witness:
  "\<exists>r w'. run_investigation sample_oc (sample_job\<lparr>ij_SlackChannelID := []\<rparr>) commit_lost = (r, w') \<and> filter to_slack (w_events w') = []"
proof -
  let ?job = "sample_job\<lparr>ij_SlackChannelID := []\<rparr>"
  have "select_rca_engine sample_oc = sample_service"
    by (simp add: select_rca_engine_def sample_oc_def new_orchestrator_def with_blob_store_def)
  then have engine: "quiet_engine (select_rca_engine sample_oc) (ij_SlackChannelID ?job)"
    by (simp add: sample_service_def quiet_engine_def)
  obtain r w' where run: "run_investigation sample_oc ?job commit_lost = (r, w')" by fastforce
  have "w_events commit_lost = []" by (simp add: commit_lost_def sample_world_def)
  then show ?thesis using outcome_counted_once [OF run engine] run by auto
qed

lemma lost_outcome: "(\<lambda>(r, w'). (map_option isl r, map in_Status (db_investigations (w_db w')),
    map_option in_CreatedAt (inv_row w' (w_uuid commit_lost (w_uuids commit_lost))), db_alerts (w_db w')))
    (run_investigation sample_oc sample_job commit_lost) = (Some True, [StatusAnalyzing], Some (hours 10), [ij_Alert sample_job])"
  by code_simp

lemma lost_run:
  assumes "run_investigation sample_oc sample_job commit_lost = (r, w')"
  shows "r \<noteq> Some (Inr ())" "map in_Status (db_investigations (w_db w')) = [StatusAnalyzing]"
    "map_option in_CreatedAt (inv_row w' (w_uuid commit_lost (w_uuids commit_lost))) = Some (hours 10)"
    "db_alerts (w_db w') = [ij_Alert sample_job]"
  using lost_outcome unfolding assms by auto

theorem investigation_failed_witness:
  "\<exists>r w'. run_investigation sample_oc sample_job commit_lost = (r, w') \<and> r \<noteq> Some (Inr ()) \<and>
     db_hypotheses (w_db w') = [] \<and> map in_Status (db_investigations (w_db w')) = [StatusAnalyzing]"
proof -
  obtain r w' where run: "run_investigation sample_oc sample_job commit_lost = (r, w')" by fastforce
  note r = lost_run(1) [OF run]
  have tx: "o_tx sample_oc" by (simp add: sample_oc_def new_orchestrator_def with_blob_store_def)
  note lost_run(2) [OF run]
  moreover have "db_hypotheses (w_db commit_lost) = []" by (simp add: commit_lost_def sample_world_def empty_db_def)
  ultimately show ?thesis using run r investigation_failed [OF run r tx] by simp
qed

end
