(* ===== verification/Queue.thy ===== *)
theory Queue
  imports OrchestratorSpec
begin

text \<open>
  \<open>internal/queue/queue.go\<close>: the stream of jobs.  NATS JetStream itself is a service; what is used of it is in the configurations the
  program gives it, and in what it documents of them: a message is delivered again after a \<open>Nak\<close>, in all
  \<open>MaxDeliver\<close> times at most, and never after an \<open>Ack\<close>.  Publishing is the event \<open>Published\<close> of the other parts.
\<close>

section \<open>Configurations\<close>

record stream_config =
  sg_Name :: string
  sg_Subjects :: "string list"
  sg_WorkQueue :: bool


definition queue_new :: "string \<Rightarrow> stream_config" where
  "queue_new streamName = \<lparr>sg_Name = streamName, sg_Subjects = [streamName @ ''.*''], sg_WorkQueue = True\<rparr>"

text \<open>The bytes of the first rune of a string, as \<open>range\<close> decodes it; an invalid byte is a rune of its own.\<close>

definition byte_in :: "nat \<Rightarrow> nat \<Rightarrow> char \<Rightarrow> bool" where
  "byte_in lo hi c = (let n = (of_char c :: nat) in lo \<le> n \<and> n \<le> hi)"

fun rune_size :: "string \<Rightarrow> nat" where
  "rune_size (a # b # c # d # s) =
     (if byte_in 0xF0 0xF0 a \<and> byte_in 0x90 0xBF b \<and> byte_in 0x80 0xBF c \<and> byte_in 0x80 0xBF d then 4
      else if byte_in 0xF1 0xF3 a \<and> byte_in 0x80 0xBF b \<and> byte_in 0x80 0xBF c \<and> byte_in 0x80 0xBF d then 4
      else if byte_in 0xF4 0xF4 a \<and> byte_in 0x80 0x8F b \<and> byte_in 0x80 0xBF c \<and> byte_in 0x80 0xBF d then 4
      else rune_size [a, b, c])"
| "rune_size [a, b, c] =
     (if byte_in 0xE0 0xE0 a \<and> byte_in 0xA0 0xBF b \<and> byte_in 0x80 0xBF c then 3
      else if (byte_in 0xE1 0xEC a \<or> byte_in 0xEE 0xEF a) \<and> byte_in 0x80 0xBF b \<and> byte_in 0x80 0xBF c then 3
      else if byte_in 0xED 0xED a \<and> byte_in 0x80 0x9F b \<and> byte_in 0x80 0xBF c then 3
      else rune_size [a, b])"
| "rune_size [a, b] = (if byte_in 0xC2 0xDF a \<and> byte_in 0x80 0xBF b then 2 else 1)"
| "rune_size [a] = 1"
| "rune_size [] = 0"

definition safe_byte :: "char \<Rightarrow> char" where
  "safe_byte c = (if c = CHR ''.'' \<or> c = CHR ''*'' \<or> c = CHR ''>'' then CHR ''-'' else c)"

text \<open>Only the first byte of a rune is copied; the others keep the zero of \<open>make\<close>.  \<open>skip\<close> is the number of bytes left of the rune.\<close>

fun sanitize_loop :: "nat \<Rightarrow> string \<Rightarrow> string" where
  "sanitize_loop skip [] = []"
| "sanitize_loop (Suc skip) (c # s) = CHR 0x00 # sanitize_loop skip s"
| "sanitize_loop 0 (c # s) = safe_byte c # sanitize_loop (rune_size (c # s) - 1) s"

definition sanitize_durable :: "string \<Rightarrow> string" where
  "sanitize_durable subject = sanitize_loop 0 subject"


section \<open>Consumer names\<close>

definition ascii :: "string \<Rightarrow> bool" where
  "ascii s = list_all (\<lambda>c. (of_char c :: nat) < 128) s"

lemma rune_size_ascii: "(of_char c :: nat) < 128 \<Longrightarrow> rune_size (c # s) = 1"
  by (cases "(c # s)" rule: rune_size.cases) (auto simp: byte_in_def Let_def)

lemma sanitize_ascii: "ascii s \<Longrightarrow> sanitize_durable s = map safe_byte s"
  unfolding sanitize_durable_def ascii_def by (induction s) (simp_all add: rune_size_ascii del: rune_size.simps)

lemma sanitize_loop_safe:
  "length (sanitize_loop skip s) = length s \<and> (\<forall>c \<in> set (sanitize_loop skip s). c \<notin> {CHR ''.'', CHR ''*'', CHR ''>''})"
  by (induction skip s rule: sanitize_loop.induct) (auto simp: safe_byte_def)

section \<open>Deliveries of a job\<close>











end
