(* ===== verification/SlackPublisher.thy ===== *)
theory SlackPublisher
  imports Orchestrator
begin

text \<open>
  \<open>internal/slack/publisher.go\<close>: the messages Sherlock writes to Slack, and the retries of the calls that
  post them.  \<open>f n\<close> is the outcome of the \<open>n\<close>-th call of the Slack API (\<open>None\<close> is success) and
  \<open>cancelled n\<close> whether the context ends during the wait after it.  The publisher as the other parts see
  it is one call that may fail, which gives the event it posts.
\<close>

section \<open>Retries\<close>

datatype post_failure = RateLimited duration | ContextDone | PostFailed string

definition retry_delay :: "nat \<Rightarrow> duration \<Rightarrow> duration" where
  "retry_delay attempt retryAfter = (if retryAfter = 0 then seconds (int attempt + 1) else retryAfter)"

text \<open>The loop from an attempt on: the result, the number of calls and the delays waited for.\<close>

function post_loop :: "(nat \<Rightarrow> post_failure option) \<Rightarrow> (nat \<Rightarrow> bool) \<Rightarrow> nat \<Rightarrow> post_failure option \<times> nat \<times> duration list" where
  "post_loop f cancelled attempt =
     (if attempt \<le> 3 then
        (case f attempt of
           None \<Rightarrow> (None, 1, [])
         | Some (RateLimited retryAfter) \<Rightarrow>
             if attempt < 3 then
               (let delay = retry_delay attempt retryAfter in
                if cancelled attempt then (Some ContextDone, 1, [delay])
                else (let (r, calls, delays) = post_loop f cancelled (attempt + 1) in (r, calls + 1, delay # delays)))
             else (Some (RateLimited retryAfter), 1, [])
         | Some err \<Rightarrow> (Some err, 1, []))
      else (None, 0, []))"
  by pat_completeness auto

termination by (relation "measure (\<lambda>(f, cancelled, attempt). 4 - attempt)") auto

declare post_loop.simps [simp del]

definition post_with_retry :: "(nat \<Rightarrow> post_failure option) \<Rightarrow> (nat \<Rightarrow> bool) \<Rightarrow> post_failure option \<times> nat \<times> duration list" where
  "post_with_retry f cancelled = post_loop f cancelled 0"

definition rate_limited :: "post_failure option \<Rightarrow> bool" where
  "rate_limited r = (case r of Some (RateLimited d) \<Rightarrow> True | _ \<Rightarrow> False)"

lemma post_loop_spec:
  assumes "post_loop f cancelled attempt = (r, calls, delays)" "attempt \<le> 3"
  shows "1 \<le> calls \<and> attempt + calls \<le> 4 \<and>
    (\<forall>k<calls - 1. rate_limited (f (attempt + k)) \<and> \<not> cancelled (attempt + k)) \<and>
    (r = f (attempt + calls - 1) \<and> length delays = calls - 1 \<and> (rate_limited r \<longrightarrow> attempt + calls = 4) \<or>
     r = Some ContextDone \<and> length delays = calls \<and> attempt + calls < 4 \<and> rate_limited (f (attempt + calls - 1)) \<and>
       cancelled (attempt + calls - 1))"
  using assms
proof (induction f cancelled attempt arbitrary: r calls delays rule: post_loop.induct)
  case (1 f cancelled attempt)
  show ?case
  proof (cases "rate_limited (f attempt) \<and> attempt < 3 \<and> \<not> cancelled attempt")
    case True
    then obtain d where d: "f attempt = Some (RateLimited d)"
      by (auto simp: rate_limited_def split: option.splits post_failure.splits)
    obtain r' n ds where rest: "post_loop f cancelled (attempt + 1) = (r', n, ds)" by (metis prod_cases3)
    have res: "r = r'" "calls = n + 1" "length delays = length ds + 1"
      using "1.prems"(1) True d rest by (auto simp: post_loop.simps [of f cancelled attempt] Let_def)
    have "(attempt + 1) + n \<le> 4" and all: "\<forall>k<n - 1. rate_limited (f (attempt + 1 + k)) \<and> \<not> cancelled (attempt + 1 + k)" "1 \<le> n"
      and fin: "r' = f (attempt + 1 + n - 1) \<and> length ds = n - 1 \<and> (rate_limited r' \<longrightarrow> attempt + 1 + n = 4) \<or>
        r' = Some ContextDone \<and> length ds = n \<and> attempt + 1 + n < 4 \<and> rate_limited (f (attempt + 1 + n - 1)) \<and> cancelled (attempt + 1 + n - 1)"
      using "1.IH" [OF _ d] True rest by auto
    have "rate_limited (f (attempt + k)) \<and> \<not> cancelled (attempt + k)" if "k < n" for k
      using that all True by (cases k) auto
    with \<open>(attempt + 1) + n \<le> 4\<close> fin all(2) show ?thesis by (auto simp: res)
  next
    case False
    consider "f attempt = None" | d where "f attempt = Some (RateLimited d)" | "f attempt = Some ContextDone"
      | m where "f attempt = Some (PostFailed m)" by (metis post_failure.exhaust not_Some_eq)
    then have "post_loop f cancelled attempt = (f attempt, 1, []) \<and> (rate_limited (f attempt) \<longrightarrow> attempt = 3) \<or>
        (\<exists>d. post_loop f cancelled attempt = (Some ContextDone, 1, [d])) \<and> rate_limited (f attempt) \<and> cancelled attempt \<and> attempt < 3"
      using False "1.prems"(2) by cases (auto simp: post_loop.simps [of f cancelled attempt] rate_limited_def Let_def)
    with "1.prems" show ?thesis by auto
  qed
qed

text \<open>C32: Posting ends after at most four calls and three waits.  Every call but the last was rate limited; the
  result is that of the last call, which is rate limited only if it was the fourth, unless the context ended
  during a wait.\<close>

theorem post_with_retry_spec:
  assumes "post_with_retry f cancelled = (r, calls, delays)"
  shows "1 \<le> calls \<and> calls \<le> 4 \<and> length delays \<le> 3 \<and> (\<forall>k<calls - 1. rate_limited (f k)) \<and>
    (r = f (calls - 1) \<and> (rate_limited r \<longrightarrow> calls = 4) \<or>
     r = Some ContextDone \<and> calls < 4 \<and> rate_limited (f (calls - 1)) \<and> cancelled (calls - 1))"
  using post_loop_spec [of f cancelled 0 r calls delays] assms unfolding post_with_retry_def by auto

theorem post_with_retry_spec_witness:
  "post_with_retry (\<lambda>n. if n < 2 then Some (RateLimited 0) else None) (\<lambda>n. False) = (None, 3, [seconds 1, seconds 2]) \<and>
   rate_limited (Some (RateLimited 0))"
proof -
  have run: "post_with_retry (\<lambda>n. if n < 2 then Some (RateLimited 0) else None) (\<lambda>n. False) = (None, 3, [seconds 1, seconds 2])"
    by code_simp
  from post_with_retry_spec [OF run] have "rate_limited (if (0::nat) < 2 then Some (RateLimited 0) else None)" by fastforce
  with run show ?thesis by simp
qed

section \<open>Messages\<close>

record button =
  bt_ActionID :: string
  bt_Value :: string
  bt_Text :: string
  bt_Danger :: bool

datatype slack_block = HeaderBlock string | SectionBlock string | DividerBlock | ContextBlock string string
  | ActionBlock string "button list"

definition started_text :: "string \<Rightarrow> string" where
  "started_text investigationID =
     (if investigationID \<noteq> [] then ''Investigating ['' @ investigationID @ '']... Sherlock is on the case.''
      else ''Investigating... Sherlock is on the case.'')"

definition failed_text :: "string \<Rightarrow> string" where
  "failed_text errMsg = ''Investigation failed: '' @ errMsg"

definition truncate_slack_text :: "string \<Rightarrow> nat \<Rightarrow> string option" where
  "truncate_slack_text s maxLen =
     (if length s \<le> maxLen then Some s else if maxLen < 3 then None else Some (take (maxLen - 3) s @ ''...''))"

definition confidence_indicator :: "f64 \<Rightarrow> string" where
  "confidence_indicator conf = (if conf > fl (7/10) then ''High'' else if conf \<ge> fl (4/10) then ''Medium'' else ''Low'')"

definition confidence_color :: "f64 \<Rightarrow> string" where
  "confidence_color conf = (if conf > fl (7/10) then '':large_green_circle:''
     else if conf \<ge> fl (4/10) then '':large_yellow_circle:'' else '':red_circle:'')"

definition percent :: "f64 \<Rightarrow> string" where
  "percent conf = format_fixed 0 (fmul conf 100) @ ''%''"

definition dedup_blocks :: "string \<Rightarrow> string \<Rightarrow> slack_block list" where
  "dedup_blocks existingID alertValue =
     [SectionBlock (''Duplicate alert detected '' @ em_dash @ '' linked to existing investigation `'' @ existingID @
        ''`. Skipping re-investigation.''),
      ActionBlock ''dedup_actions'' [\<lparr>bt_ActionID = ''investigate_force_reinvestigate'', bt_Value = alertValue,
        bt_Text = ''Force Re-investigate'', bt_Danger = True\<rparr>]]"

definition action_buttons :: "string \<Rightarrow> slack_block list" where
  "action_buttons investigationID =
     (let btn = (\<lambda>action txt danger. \<lparr>bt_ActionID = action, bt_Value = investigationID, bt_Text = txt, bt_Danger = danger\<rparr>) in
      [ActionBlock ''investigation_actions''
         [btn ''investigate_rerun'' ''Re-run Investigation'' False,
          btn ''investigate_expand_evidence'' ''View Evidence'' False,
          btn ''investigate_open_runbook'' ''Open Runbook'' False,
          btn ''investigate_suppress_similar'' ''Suppress Similar'' True,
          btn ''investigate_compare_deployments'' ''Compare Deployments'' False],
       ActionBlock ''investigation_actions_2'' [btn ''investigate_create_issue'' ''Create Issue'' False]])"

definition events_text :: "investigation_result \<Rightarrow> string" where
  "events_text r = ''*Evidence:* '' @ itoa (int (length (ir_TimelineEventIDs r))) @ '' timeline events referenced''"

definition rule_result_blocks :: "investigation_result \<Rightarrow> slack_block list" where
  "rule_result_blocks r =
     [HeaderBlock (ir_Headline r),
      SectionBlock (''*Confidence:* '' @ confidence_indicator (ir_Confidence r) @ '' ('' @ percent (ir_Confidence r) @ '')'')] @
     (case ir_TopHypotheses r of [] \<Rightarrow> []
      | h # _ \<Rightarrow> [SectionBlock (''*Top Hypothesis:* '' @ hy_Title h @ nl @ hy_Narrative h)]) @
     (if ir_RecommendedActions r = [] then []
      else [SectionBlock (''*Recommended Actions:*'' @ nl @
              str_join (map (\<lambda>a. ''- '' @ sf_Title a) (ir_RecommendedActions r)) nl)]) @
     [SectionBlock (events_text r), DividerBlock] @ action_buttons (ir_InvestigationID r)"

text \<open>At most five recommendations, and a line for the rest.\<close>

definition fix_line :: "nat \<Rightarrow> suggested_fix \<Rightarrow> string" where
  "fix_line i a = ''*'' @ itoa (int i + 1) @ ''.* '' @ sf_Title a @
     (if sf_Description a \<noteq> [] then nl @ ''    '' @ the (truncate_slack_text (sf_Description a) 200) else [])"

fun fix_lines :: "nat \<Rightarrow> nat \<Rightarrow> suggested_fix list \<Rightarrow> string list" where
  "fix_lines n i [] = []"
| "fix_lines n i (a # as) =
     (if i \<ge> 5 then [''_... and '' @ itoa (int n - 5) @ '' more_''] else fix_line i a # fix_lines n (i + 1) as)"

definition llm_result_blocks :: "investigation_result \<Rightarrow> slack_block list" where
  "llm_result_blocks r =
     (let badge = (if ir_PassCount r \<le> 1 then ''AI-Powered Investigation''
             else ''Deep Investigation ('' @ itoa (ir_PassCount r) @ ''-Pass Analysis)'');
          footerParts = (if ir_AIProvider r \<noteq> [] then [''Provider: '' @ ir_AIProvider r] else []) @
             (if ir_AIModel r \<noteq> [] then [''Model: '' @ ir_AIModel r] else []) @
             (if ir_PassCount r > 0 then [''Passes: '' @ itoa (ir_PassCount r)] else [])
      in [HeaderBlock badge,
          SectionBlock (confidence_color (ir_Confidence r) @ '' *Confidence: '' @ confidence_indicator (ir_Confidence r) @ '' ('' @
            percent (ir_Confidence r) @ '')*'' @ nl @ nl @ ''*Summary:* '' @ ir_Headline r)] @
         (if ir_RootCause r \<noteq> [] then [SectionBlock (''*Root Cause:*'' @ nl @ the (truncate_slack_text (ir_RootCause r) 2000))] else []) @
         (if ir_Severity r \<noteq> [] then [SectionBlock (''*Severity:* '' @ to_upper (ir_Severity r) @
            (if ir_BugFixable r then ''  |  *Bug Fixable:* Yes'' else []))] else []) @
         [DividerBlock] @
         (if ir_RecommendedActions r \<noteq> [] then [SectionBlock (''*Recommendations:*'' @ nl @
            str_join (fix_lines (length (ir_RecommendedActions r)) 0 (ir_RecommendedActions r)) nl)] else []) @
         [SectionBlock (events_text r), DividerBlock] @
         (if footerParts \<noteq> [] then [ContextBlock ''investigation_footer'' (''_'' @ str_join footerParts '' | '' @ ''_'')] else []) @
         action_buttons (ir_InvestigationID r))"

definition result_blocks :: "investigation_result \<Rightarrow> slack_block list" where
  "result_blocks r = (if ir_RCAEngine r = ''llm-powered'' then llm_result_blocks r else rule_result_blocks r)"

fun block_buttons :: "slack_block \<Rightarrow> button list" where
  "block_buttons (ActionBlock i bs) = bs"
| "block_buttons _ = []"

definition buttons_of :: "slack_block list \<Rightarrow> button list" where
  "buttons_of blocks = concat (map block_buttons blocks)"

lemma buttons_of_simps [simp]:
  "buttons_of [] = []" "buttons_of (b # bs) = block_buttons b @ buttons_of bs" "buttons_of (bs @ cs) = buttons_of bs @ buttons_of cs"
  by (simp_all add: buttons_of_def)

text \<open>Whatever the engine, the buttons of a result are those of \<open>buildActionButtons\<close>.\<close>

lemma result_buttons: "buttons_of (result_blocks r) = buttons_of (action_buttons (ir_InvestigationID r))"
  by (simp add: result_blocks_def rule_result_blocks_def llm_result_blocks_def Let_def split: list.split)

lemma truncate_slack_length: "truncate_slack_text s n = Some t \<Longrightarrow> length t \<le> n"
  by (auto simp: truncate_slack_text_def split: if_splits)

lemma truncate_slack_total: "3 \<le> n \<Longrightarrow> truncate_slack_text s n \<noteq> None"
  by (simp add: truncate_slack_text_def)

lemma fix_lines_length: "i \<le> 5 \<Longrightarrow> length (fix_lines n i xs) \<le> 6 - i"
proof (induction n i xs rule: fix_lines.induct)
  case (2 n i a as)
  then show ?case by (cases "i = 5") auto
qed simp

section \<open>The calls of the publisher\<close>

definition publish :: "string \<Rightarrow> event \<Rightarrow> 'a \<Rightarrow> world \<Rightarrow> (go_error + 'a) \<times> world" where
  "publish msg e a w = wrap msg (case send e w of (Some err, w) \<Rightarrow> (Inl err, w) | (None, w) \<Rightarrow> (Inr a, w))"

definition post_investigation_started :: "(nat \<Rightarrow> string) \<Rightarrow> string \<Rightarrow> string \<Rightarrow> world \<Rightarrow> (go_error + string) \<times> world" where
  "post_investigation_started ts channelID investigationID w =
     publish ''post investigation started'' (SlackStarted channelID investigationID) (ts (w_calls w)) w"

definition post_evidence_update :: "string \<Rightarrow> string \<Rightarrow> string \<Rightarrow> world \<Rightarrow> (go_error + unit) \<times> world" where
  "post_evidence_update channelID threadTS msg = publish ''post evidence update'' (SlackUpdate channelID threadTS msg) ()"

definition post_error :: "string \<Rightarrow> string \<Rightarrow> string \<Rightarrow> world \<Rightarrow> (go_error + unit) \<times> world" where
  "post_error channelID threadTS errMsg = publish ''post error'' (SlackError channelID threadTS errMsg) ()"

end
