(* ===== verification/SlackApp.thy ===== *)
theory SlackApp
  imports SlackPublisher
begin

text \<open>
  \<open>internal/slack/app.go\<close> and \<open>internal/slack/transport/transport.go\<close>: what a user can ask in Slack.  A handler
  gives its error and the new world.  The enqueuer is a field of the application, as in the code;
  \<open>cmd/sherlock/main.go\<close> supplies it.  Logging is left out.
\<close>

record slash_command =
  sc_Command :: string
  sc_Text :: string
  sc_UserID :: string
  sc_ChannelID :: string
  sc_TeamID :: string
  sc_ResponseURL :: string
  sc_TriggerID :: string

record message_shortcut =
  ms_CallbackID :: string
  ms_UserID :: string
  ms_ChannelID :: string
  ms_MessageTS :: string
  ms_MessageText :: string
  ms_TriggerID :: string
  ms_ResponseURL :: string

record interaction_action =
  ia_ActionID :: string
  ia_Value :: string
  ia_UserID :: string
  ia_ChannelID :: string
  ia_MessageTS :: string
  ia_TriggerID :: string
  ia_ResponseURL :: string

section \<open>The application\<close>

record app_config =
  ac_BotToken :: string
  ac_AppToken :: string
  ac_SigningSecret :: string
  ac_Mode :: string
  ac_HTTPAddress :: string

datatype transport = SocketTransport string string | HTTPTransport string string

type_synonym enqueuer = "string \<Rightarrow> string \<Rightarrow> string \<Rightarrow> string \<Rightarrow> world \<Rightarrow> (go_error + string) \<times> world"

record slack_app =
  ap_transports :: "transport list"
  ap_enqueue :: enqueuer
  ap_ts :: "nat \<Rightarrow> string"
  ap_suppressions :: bool

definition new_app :: "app_config \<Rightarrow> enqueuer \<Rightarrow> (nat \<Rightarrow> string) \<Rightarrow> bool \<Rightarrow> string + slack_app" where
  "new_app cfg enqueue ts suppressions =
     (let app = (\<lambda>transports. Inr \<lparr>ap_transports = transports, ap_enqueue = enqueue, ap_ts = ts, ap_suppressions = suppressions\<rparr>);
          addr = (\<lambda>deflt. if ac_HTTPAddress cfg = [] then deflt else ac_HTTPAddress cfg)
      in if ac_Mode cfg = ''socket'' then
           (if ac_AppToken cfg = [] \<or> ac_BotToken cfg = [] then Inl ''socket mode requires app_token and bot_token''
            else app [SocketTransport (ac_AppToken cfg) (ac_BotToken cfg)])
         else if ac_Mode cfg = ''http'' then
           (if ac_SigningSecret cfg = [] then Inl ''http mode requires signing_secret''
            else app [HTTPTransport (addr '':3000'') (ac_SigningSecret cfg)])
         else if ac_Mode cfg = ''both'' then
           (if ac_AppToken cfg = [] \<or> ac_BotToken cfg = [] then Inl ''both mode requires app_token and bot_token''
            else if ac_SigningSecret cfg = [] then Inl ''both mode requires signing_secret''
            else app [SocketTransport (ac_AppToken cfg) (ac_BotToken cfg), HTTPTransport (addr '':3001'') (ac_SigningSecret cfg)])
         else Inl (''unknown transport mode: '' @ ac_Mode cfg))"

text \<open>\<open>Stop\<close>, over the outcome of each transport's own \<open>Stop\<close>.\<close>

definition stop_app :: "(transport \<Rightarrow> string option) \<Rightarrow> slack_app \<Rightarrow> string option" where
  "stop_app stop app =
     (let errs = List.map_filter stop (ap_transports app)
      in if length errs > 0 then Some (''transport stop errors: '' @ str_join errs ''; '') else None)"

section \<open>Starting an investigation\<close>

text \<open>The sequence five of the handlers share: announce, enqueue, and report a failure in the thread.\<close>

definition start_from_slack :: "slack_app \<Rightarrow> string \<Rightarrow> string \<Rightarrow> string \<Rightarrow> string \<Rightarrow> string \<Rightarrow> world \<Rightarrow> (go_error + unit) \<times> world" where
  "start_from_slack app failure msg channelID userID txt w =
     (case wrap ''post investigation started'' (post_investigation_started (ap_ts app) channelID [] w) of
        (Inl e, w) \<Rightarrow> (Inl e, w)
      | (Inr threadTS, w) \<Rightarrow>
        (case ap_enqueue app channelID threadTS userID txt w of
           (Inl e, w) \<Rightarrow> (let (r, w) = post_error channelID threadTS (failure @ error_text e) w
                        in (Inl (ErrOther (msg @ '': '' @ error_text e)), w))
         | (Inr i, w) \<Rightarrow> (Inr (), w)))"

definition handle_slash_command :: "slack_app \<Rightarrow> slash_command \<Rightarrow> world \<Rightarrow> (go_error + unit) \<times> world" where
  "handle_slash_command app cmd w =
     (let txt = trim_space (sc_Text cmd) in
      if txt = [] then (Inr (), w)
      else start_from_slack app ''Failed to start investigation: '' ''enqueue investigation'' (sc_ChannelID cmd) (sc_UserID cmd) txt w)"

definition handle_message_shortcut :: "slack_app \<Rightarrow> message_shortcut \<Rightarrow> world \<Rightarrow> (go_error + unit) \<times> world" where
  "handle_message_shortcut app sh w =
     (let txt = trim_space (ms_MessageText sh);
          txt = (if txt = [] then ''investigate message '' @ ms_MessageTS sh else txt)
      in start_from_slack app ''Failed to start investigation: '' ''enqueue investigation'' (ms_ChannelID sh) (ms_UserID sh) txt w)"

section \<open>Buttons\<close>

text \<open>Look something up; on an error say so in the thread and return the error.\<close>

definition or_tell :: "interaction_action \<Rightarrow> string \<Rightarrow> string \<Rightarrow> (go_error + 'a) \<times> world \<Rightarrow>
    ('a \<Rightarrow> world \<Rightarrow> (go_error + unit) \<times> world) \<Rightarrow> (go_error + unit) \<times> world" where
  "or_tell action reply msg r k =
     (case r of
        (Inl e, w) \<Rightarrow> (let (u, w) = post_evidence_update (ia_ChannelID action) (ia_MessageTS action) reply w
                     in (Inl (ErrOther (msg @ '': '' @ error_text e)), w))
      | (Inr a, w) \<Rightarrow> k a w)"

definition tell :: "interaction_action \<Rightarrow> string \<Rightarrow> world \<Rightarrow> (go_error + unit) \<times> world" where
  "tell action = post_evidence_update (ia_ChannelID action) (ia_MessageTS action)"

definition kind_order :: "evidence_kind list" where
  "kind_order = [EvidenceK8sState, EvidenceLog, EvidenceMetric, EvidenceEvent, EvidenceDeploy, EvidenceGitChange,
     EvidenceTrace, EvidenceConfig]"

definition item_line :: "evidence \<Rightarrow> string" where
  "item_line item = bullet @ '' '' @ ev_Summary item @ nl"

definition truncated_line :: string where
  "truncated_line = bullet @ '' _... truncated_'' @ nl"

fun add_items :: "string \<Rightarrow> evidence list \<Rightarrow> string" where
  "add_items sb [] = sb"
| "add_items sb (item # items) =
     (if length sb + length (item_line item) > 2800 then sb @ truncated_line else add_items (sb @ item_line item) items)"

definition kind_header :: "evidence_kind \<Rightarrow> nat \<Rightarrow> string" where
  "kind_header kind n = nl @ ''*['' @ evidence_kind_str kind @ '']* ('' @ itoa (int n) @ '' items)'' @ nl"

fun add_kinds :: "evidence list \<Rightarrow> string \<Rightarrow> evidence_kind list \<Rightarrow> string" where
  "add_kinds evs sb [] = sb"
| "add_kinds evs sb (kind # kinds) =
     (case filter (\<lambda>e. ev_Kind e = kind) evs of
        [] \<Rightarrow> add_kinds evs sb kinds
      | items \<Rightarrow> (let sb = add_items (sb @ kind_header kind (length items)) items
                  in if length sb > 2800 then sb else add_kinds evs sb kinds))"

definition evidence_text :: "string \<Rightarrow> evidence list \<Rightarrow> string" where
  "evidence_text investigationID evs =
     add_kinds evs (''*Evidence for investigation '' @ investigationID @ '':*'' @ nl) kind_order"

definition handle_expand_evidence :: "slack_app \<Rightarrow> interaction_action \<Rightarrow> world \<Rightarrow> (go_error + unit) \<times> world" where
  "handle_expand_evidence app action w =
     or_tell action ''Failed to retrieve evidence.'' ''list evidence'' (evidence_list (ia_Value action) w) (\<lambda>evs w.
       if length evs = 0 then tell action ''No evidence collected for this investigation.'' w
       else tell action (evidence_text (ia_Value action) evs) w)"

fun find_runbook :: "string list \<Rightarrow> world \<Rightarrow> string option \<times> world" where
  "find_runbook [] w = (None, w)"
| "find_runbook (alertID # alertIDs) w =
     (case alert_get_by_id alertID w of
        (Inl e, w) \<Rightarrow> find_runbook alertIDs w
      | (Inr alert, w) \<Rightarrow>
          (let url = mget (al_Annotations alert) ''runbook_url'' in
           if url \<noteq> [] then (Some url, w) else find_runbook alertIDs w))"

definition handle_open_runbook :: "slack_app \<Rightarrow> interaction_action \<Rightarrow> world \<Rightarrow> (go_error + unit) \<times> world" where
  "handle_open_runbook app action w =
     or_tell action ''Failed to look up investigation for runbook.'' ''get investigation'' (inv_get_by_id (ia_Value action) w) (\<lambda>iv w.
       case find_runbook (in_AlertIDs iv) w of
         (Some url, w) \<Rightarrow> tell action (''*Runbook:* <'' @ url @ ''|Open Runbook>'') w
       | (None, w) \<Rightarrow> tell action ''No runbook URL configured for this alert.'' w)"

fun first_fingerprint :: "string list \<Rightarrow> world \<Rightarrow> string \<times> world" where
  "first_fingerprint [] w = ([], w)"
| "first_fingerprint (alertID # alertIDs) w =
     (case alert_get_by_id alertID w of
        (Inl e, w) \<Rightarrow> first_fingerprint alertIDs w
      | (Inr alert, w) \<Rightarrow> if al_Fingerprint alert \<noteq> [] then (al_Fingerprint alert, w) else first_fingerprint alertIDs w)"

definition handle_suppress_similar :: "slack_app \<Rightarrow> interaction_action \<Rightarrow> world \<Rightarrow> (go_error + unit) \<times> world" where
  "handle_suppress_similar app action w =
     or_tell action ''Failed to look up investigation.'' ''get investigation'' (inv_get_by_id (ia_Value action) w) (\<lambda>iv w.
       let (fp, w) = first_fingerprint (in_AlertIDs iv) w in
       if fp = [] then tell action ''No fingerprint found for this investigation's alerts.'' w
       else if \<not> ap_suppressions app then tell action ''Suppression store not configured.'' w
       else (let (t, w) = now w in
         or_tell action ''Failed to create suppression.'' ''create suppression''
           (suppression_create fp (time_add t (hours 1)) w) (\<lambda>u w.
             tell action (''Alerts with fingerprint `'' @ fp @ ''` will be suppressed for 1 hour.'') w)))"

definition first_line :: "string \<Rightarrow> string" where
  "first_line s = takeWhile (\<lambda>c. c \<noteq> CHR 0x0A) s"

definition slack_short_sha :: "string \<Rightarrow> string" where
  "slack_short_sha sha = (if length sha > 8 then take 8 sha else sha)"

definition deploy_item :: "evidence \<Rightarrow> string" where
  "deploy_item e =
     (if ev_Kind e = EvidenceDeploy then
        nl @ ''*Deploy:* `'' @ slack_short_sha (mget (ev_Attributes e) ''sha'') @ ''` to `'' @ mget (ev_Attributes e) ''environment'' @
        ''` by '' @ mget (ev_Attributes e) ''creator'' @ '' (status: '' @ mget (ev_Attributes e) ''status'' @ '')'' @ nl
      else
        (if mget (ev_Attributes e) ''files_changed'' \<noteq> [] then
           bullet @ '' '' @ mget (ev_Attributes e) ''files_changed'' @ '' files changed across '' @
           mget (ev_Attributes e) ''commit_count'' @ '' commits'' @ nl else []) @
        (if mget (ev_Attributes e) ''message'' \<noteq> [] then
           bullet @ '' Commit: '' @ the (truncate_slack_text (first_line (mget (ev_Attributes e) ''message'')) 120) @ nl
         else bullet @ '' '' @ the (truncate_slack_text (ev_Summary e) 200) @ nl))"

fun add_deploys :: "string \<Rightarrow> evidence list \<Rightarrow> string" where
  "add_deploys sb [] = sb"
| "add_deploys sb (e # es) =
     (let sb = sb @ deploy_item e in if length sb > 2800 then sb @ ''_... truncated_'' @ nl else add_deploys sb es)"

definition handle_compare_deployments :: "slack_app \<Rightarrow> interaction_action \<Rightarrow> world \<Rightarrow> (go_error + unit) \<times> world" where
  "handle_compare_deployments app action w =
     or_tell action ''Failed to retrieve evidence.'' ''list evidence'' (evidence_list (ia_Value action) w) (\<lambda>evs w.
       let deployItems = filter (\<lambda>e. ev_Kind e = EvidenceDeploy \<or> ev_Kind e = EvidenceGitChange) evs in
       if length deployItems = 0 then tell action ''No deployment data available for this investigation.'' w
       else tell action (add_deploys (''*Deployment Comparison:*'' @ nl) deployItems) w)"

definition issue_text :: "string \<Rightarrow> investigation \<Rightarrow> string" where
  "issue_text investigationID iv =
     (let headline = (if in_Headline iv = [] then ''Investigation '' @ investigationID else in_Headline iv);
          (narrative, confidence, actionLines) = (case in_Hypotheses iv of
             [] \<Rightarrow> (''No hypothesis available.'', in_Confidence iv, [])
           | h # _ \<Rightarrow> (hy_Narrative h, if hy_Confidence h > 0 then hy_Confidence h else in_Confidence iv,
               map (\<lambda>fx. ''- '' @ sf_Title fx) (hy_SuggestedFixes h)));
          actionsText = (if length actionLines > 0 then str_join actionLines nl else ''_No recommended actions_'')
      in ''*Issue Template (copy to create)*'' @ nl @ ''*Title:* [Investigation] '' @ headline @ nl @ nl @ ''*Body:*'' @ nl @
         ''## Root Cause'' @ nl @ narrative @ nl @ nl @ ''## Confidence: '' @ percent confidence @ nl @ nl @
         ''## Recommended Actions'' @ nl @ actionsText)"

definition handle_create_issue :: "slack_app \<Rightarrow> interaction_action \<Rightarrow> world \<Rightarrow> (go_error + unit) \<times> world" where
  "handle_create_issue app action w =
     or_tell action ''Failed to look up investigation.'' ''get investigation'' (inv_get_by_id (ia_Value action) w) (\<lambda>iv w.
       tell action (issue_text (ia_Value action) iv) w)"

definition handle_interaction :: "slack_app \<Rightarrow> interaction_action \<Rightarrow> world \<Rightarrow> (go_error + unit) \<times> world" where
  "handle_interaction app action w =
     (let i = ia_ActionID action in
      if i = ''investigate_rerun'' then
        start_from_slack app ''Failed to re-run investigation: '' ''enqueue re-run investigation''
          (ia_ChannelID action) (ia_UserID action) (ia_Value action) w
      else if i = ''investigate_force_reinvestigate'' then
        start_from_slack app ''Failed to force re-investigate: '' ''enqueue force re-investigate''
          (ia_ChannelID action) (ia_UserID action) (ia_Value action) w
      else if i = ''investigate_expand_evidence'' then handle_expand_evidence app action w
      else if i = ''investigate_open_runbook'' then handle_open_runbook app action w
      else if i = ''investigate_suppress_similar'' then handle_suppress_similar app action w
      else if i = ''investigate_compare_deployments'' then handle_compare_deployments app action w
      else if i = ''investigate_create_issue'' then handle_create_issue app action w
      else (Inr (), w))"

section \<open>Mentions\<close>

text \<open>\<open><@[A-Z0-9]+>\s*\<close> at the head of a string gives the rest after the match; \<open>ReplaceAllString\<close> drops every match.\<close>

definition id_char :: "char \<Rightarrow> bool" where
  "id_char c = (let n = (of_char c :: nat) in (65 \<le> n \<and> n \<le> 90) \<or> (48 \<le> n \<and> n \<le> 57))"

fun match_mention :: "string \<Rightarrow> string option" where
  "match_mention (c # d # s) =
     (let rest = dropWhile id_char s in
      if c = CHR ''<'' \<and> d = CHR ''@'' \<and> takeWhile id_char s \<noteq> [] \<and> rest \<noteq> [] \<and> hd rest = CHR ''>''
      then Some (dropWhile re_space (tl rest)) else None)"
| "match_mention _ = None"

lemma match_mention_shorter: "match_mention s = Some t \<Longrightarrow> length t < length s"
proof (induction s rule: match_mention.induct)
  case (1 c d s)
  have "length (dropWhile re_space (tl (dropWhile id_char s))) \<le> length (tl (dropWhile id_char s))" by (rule length_dropWhile_le)
  also have "\<dots> \<le> length s" using length_dropWhile_le [of id_char s] by simp
  finally show ?case using "1.prems" by (auto simp: Let_def split: if_splits)
qed simp_all

function strip_mentions :: "string \<Rightarrow> string" where
  "strip_mentions [] = []"
| "strip_mentions (c # s) =
     (case match_mention (c # s) of Some rest \<Rightarrow> strip_mentions rest | None \<Rightarrow> c # strip_mentions s)"
  by pat_completeness auto

termination by (relation "measure length") (auto dest: match_mention_shorter)

definition extract_arg :: "string \<Rightarrow> string \<Rightarrow> string" where
  "extract_arg txt keyword =
     (case str_index (to_lower txt) keyword of
        None \<Rightarrow> []
      | Some idx \<Rightarrow> first_word (trim_space (drop (idx + length keyword) txt)))"

definition help_text :: string where
  "help_text = ''*Sherlock Commands:*'' @ nl @
     bullet @ '' `@sherlock investigate <service>` '' @ em_dash @ '' start an investigation'' @ nl @
     bullet @ '' `@sherlock status <investigation-id>` '' @ em_dash @ '' check investigation status'' @ nl @
     bullet @ '' `@sherlock help` '' @ em_dash @ '' show this message''"

definition status_text :: "investigation \<Rightarrow> string" where
  "status_text iv = ''*Investigation '' @ in_ID iv @ ''*'' @ nl @ bullet @ '' Status: `'' @ investigation_status_str (in_Status iv) @ ''`'' @ nl @
     bullet @ '' Headline: '' @ in_Headline iv @ nl @ bullet @ '' Confidence: '' @ percent (in_Confidence iv)"

definition handle_app_mention :: "slack_app \<Rightarrow> string \<Rightarrow> string \<Rightarrow> string \<Rightarrow> world \<Rightarrow> (go_error + unit) \<times> world" where
  "handle_app_mention app channelID userID txt w =
     (let cleaned = trim_space (strip_mentions txt);
          lower = to_lower cleaned;
          say = post_evidence_update channelID []
      in if str_contains lower ''help'' then say help_text w
         else if str_contains lower ''investigate'' then
           (let service = extract_arg cleaned ''investigate'' in
            if service = [] then say ''Please specify a service to investigate. Example: `@sherlock investigate payment-api`'' w
            else start_from_slack app ''Failed to start investigation: '' ''enqueue investigation'' channelID userID service w)
         else if str_contains lower ''status'' then
           (let invID = extract_arg cleaned ''status'' in
            if invID = [] then say ''Please specify an investigation ID. Example: `@sherlock status inv-abc123`'' w
            else (case inv_get_by_id invID w of
                (Inl e, w) \<Rightarrow> say (''Could not find investigation `'' @ invID @ ''`.'') w
              | (Inr iv, w) \<Rightarrow> say (status_text iv) w))
         else say ''I didn't understand that. Try `@sherlock help` for available commands.'' w)"

section \<open>The size of an expanded report\<close>

lemma digits_of_length: "n < 10 ^ k \<Longrightarrow> 0 < k \<Longrightarrow> length (digits_of n) \<le> k"
proof (induction n arbitrary: k rule: digits_of.induct)
  case (1 n)
  show ?case
  proof (cases "n < 10")
    case True
    with "1.prems" show ?thesis by (simp add: digits_of.simps [of n])
  next
    case False
    with "1.prems" have "k \<noteq> 1" by auto
    with "1.prems" obtain j where k: "k = Suc j" "0 < j" by (cases k) auto
    with "1.prems" have "n div 10 < 10 ^ j" by (simp add: less_mult_imp_div_less mult.commute)
    with "1.IH" False k have "length (digits_of (n div 10)) \<le> j" by blast
    with False k show ?thesis by (simp add: digits_of.simps [of n])
  qed
qed

lemma truncated_line_length: "length truncated_line = 20"
  by (simp add: truncated_line_def bullet_def nl_def)

lemma kind_header_length:
  assumes "n < 10 ^ 6" shows "length (kind_header kind n) \<le> 31"
proof -
  have "length (itoa (int n)) \<le> 6" using digits_of_length [OF assms] by (simp add: itoa_def)
  then show ?thesis by (cases kind) (simp_all add: kind_header_def nl_def)
qed

lemma add_items_length: "length (add_items sb items) \<le> max (length sb) 2800 + 20"
proof (induction items arbitrary: sb)
  case (Cons item items)
  show ?case
  proof (cases "length sb + length (item_line item) > 2800")
    case True
    then show ?thesis by (simp add: truncated_line_length)
  next
    case False
    then show ?thesis using Cons.IH [of "sb @ item_line item"] by simp
  qed
qed simp

lemma add_kinds_length:
  assumes "length evs < 10 ^ 6" "length sb \<le> 2800"
  shows "length (add_kinds evs sb kinds) \<le> 2851"
  using assms(2)
proof (induction kinds arbitrary: sb)
  case (Cons kind kinds)
  let ?items = "filter (\<lambda>e. ev_Kind e = kind) evs"
  have "length ?items < 10 ^ 6" using assms(1) length_filter_le [of "\<lambda>e. ev_Kind e = kind" evs] by linarith
  from kind_header_length [OF this] have h: "length (kind_header kind (length ?items)) \<le> 31" .
  have "length (add_items (sb @ kind_header kind (length ?items)) ?items) \<le>
      max (length (sb @ kind_header kind (length ?items))) 2800 + 20" by (rule add_items_length)
  also have "\<dots> \<le> 2851" using h Cons.prems by simp
  finally have "length (add_items (sb @ kind_header kind (length ?items)) ?items) \<le> 2851" .
  then show ?case using Cons by (auto simp: Let_def split: list.split)
qed simp

text \<open>However much evidence an investigation has collected, the message that lists it has at most 2851 bytes, the size of a
  message Slack takes whole, for fewer than a million pieces and an identifier of at most 2700 bytes.\<close>

theorem evidence_text_bounded:
  assumes "length evs < 10 ^ 6" "length i \<le> 2700"
  shows "length (evidence_text i evs) \<le> 2851"
  unfolding evidence_text_def using assms by (intro add_kinds_length) (simp_all add: nl_def)

theorem evidence_text_bounded_witness: "length (evidence_text ''i1'' []) \<le> 2851 \<and> length ''i1'' \<le> 2700"
  using evidence_text_bounded [of "[]" "''i1''"] by simp

section \<open>What a mention starts\<close>

text \<open>The first of the three words decides: a service whose name contains \<open>help\<close> cannot be investigated by a mention.\<close>

lemma mention_help_first:
  assumes "str_contains (to_lower (trim_space (strip_mentions txt))) ''help''"
  shows "handle_app_mention app ch user txt w = post_evidence_update ch [] help_text w"
  using assms by (simp add: handle_app_mention_def Let_def)

end
