(* ===== verification/SlackHttp.thy ===== *)
theory SlackHttp
  imports SlackApp Gateway GoUrl
begin

text \<open>
  \<open>internal/slack/transport\<close>: how the requests of Slack reach the application, over HTTP
  (\<open>http.go\<close>) and over the socket (\<open>socket.go\<close>).  An HTTP handler answers first and leaves the work to a
  goroutine: it gives the response and the task, if any.  The HMAC and \<open>json.Unmarshal\<close> into the
  structs are fields of the transport; the form is parsed as \<open>net/http\<close> and \<open>net/url\<close> do.
\<close>

section \<open>Requests and forms\<close>

text \<open>
  \<open>sr_MediaType\<close> is what \<open>mime.ParseMediaType\<close> finds in the header \<open>Content-Type\<close>, \<open>None\<close> when it is malformed.
  The body is what is left to read of it, \<open>None\<close> when reading fails.
\<close>

record slack_request =
  sr_Timestamp :: string
  sr_Signature :: string
  sr_MediaType :: "string option"
  sr_Query :: string
  sr_Body :: "string option"

text \<open>\<open>io.ReadAll(r.Body)\<close> leaves nothing for the next reader.\<close>

definition read_all :: "slack_request \<Rightarrow> string option \<times> slack_request" where
  "read_all r = (sr_Body r, r\<lparr>sr_Body := map_option (\<lambda>b. []) (sr_Body r)\<rparr>)"

definition max_form_size :: nat where
  "max_form_size = 10 * 1024 * 1024"

text \<open>\<open>r.ParseForm()\<close> on a POST request; the values of the body come before those of the URL.\<close>

definition parse_post_form :: "slack_request \<Rightarrow> (string \<times> string) list \<times> bool" where
  "parse_post_form r =
     (case (sr_Body r, sr_MediaType r) of
        (Some body, Some mt) \<Rightarrow>
          (if mt = ''application/x-www-form-urlencoded'' then
             (if length body > max_form_size then ([], False) else parse_query body)
           else ([], True))
      | _ \<Rightarrow> ([], False))"

definition parse_form :: "slack_request \<Rightarrow> (string \<times> string) list \<times> bool" where
  "parse_form r = (let (post, ok) = parse_post_form r; (query, ok') = parse_query (sr_Query r) in (post @ query, ok \<and> ok'))"

section \<open>Signatures\<close>

definition unix_seconds :: "gotime \<Rightarrow> int" where
  "unix_seconds t = (t - 719162 * day_ns) div 1000000000"

definition verify_slack_signature :: "(string \<Rightarrow> string \<Rightarrow> string) \<Rightarrow> gotime \<Rightarrow> string \<Rightarrow> string \<Rightarrow> string \<Rightarrow> string \<Rightarrow> bool" where
  "verify_slack_signature hmac t signingSecret timestamp body signature =
     (case parse_int timestamp of
        (ts, Some err) \<Rightarrow> False
      | (ts, None) \<Rightarrow>
          if \<bar>fl (of_int (wrap64 (unix_seconds t - ts)))\<bar> > 300 then False
          else ''v0='' @ hmac signingSecret (''v0:'' @ timestamp @ '':'' @ body) = signature)"

lemma parse_int_range: "parse_int s = (n, None) \<Longrightarrow> min_duration \<le> n \<and> n \<le> max_duration"
  by (auto simp: parse_int_def Let_def duration_bounds split: if_splits sum.splits num_error.splits)

lemma fl_int_le: "fl (of_int m) \<le> 300 \<longleftrightarrow> m \<le> 300"
proof
  have "fl (of_int 300) = of_int 300" "fl (of_int 301) = of_int 301" by (rule fl_int, simp)+
  then show "m \<le> 300 \<Longrightarrow> fl (of_int m) \<le> 300" and "fl (of_int m) \<le> 300 \<Longrightarrow> m \<le> 300"
    using fl_mono [of "of_int m" "of_int 300"] fl_mono [of "of_int 301" "of_int m"] by (fastforce, force simp: not_le)
qed

lemma fl_int_abs_le: "\<bar>fl (of_int m)\<bar> \<le> 300 \<longleftrightarrow> \<bar>m\<bar> \<le> 300"
  using fl_int_le [of m] fl_int_le [of "- m"] fl_minus [of "of_int m"] by (auto simp: abs_le_iff)

lemma fl_int_abs_gt: "300 < \<bar>fl (of_int m)\<bar> \<longleftrightarrow> 300 < \<bar>m\<bar>"
  using fl_int_abs_le [of m] by linarith

lemma signature_iff:
  assumes "0 \<le> unix_seconds t" "unix_seconds t < 2 ^ 62"
  shows "verify_slack_signature hmac t secret timestamp body signature \<longleftrightarrow>
    (\<exists>ts. parse_int timestamp = (ts, None) \<and> \<bar>unix_seconds t - ts\<bar> \<le> 300 \<and>
      signature = ''v0='' @ hmac secret (''v0:'' @ timestamp @ '':'' @ body))"
proof -
  obtain ts e where p: "parse_int timestamp = (ts, e)" by fastforce
  show ?thesis
  proof (cases e)
    case None
    with p have r: "min_duration \<le> ts" "ts \<le> max_duration" using parse_int_range by blast+
    have "\<bar>wrap64 (unix_seconds t - ts)\<bar> \<le> 300 \<longleftrightarrow> \<bar>unix_seconds t - ts\<bar> \<le> 300"
    proof (cases "unix_seconds t - ts \<le> max_duration")
      case True
      then show ?thesis using assms r by (subst wrap64_id) (auto simp: duration_bounds)
    next
      case False
      then have "wrap64 (unix_seconds t - ts) = unix_seconds t - ts - 2 ^ 64"
        using assms r by (simp add: wrap64_def duration_bounds mod_pos_geq)
      then show ?thesis using False assms r by (simp add: duration_bounds)
    qed
    then show ?thesis by (auto simp: verify_slack_signature_def p None fl_int_abs_gt not_less [symmetric])
  qed (simp add: verify_slack_signature_def p)
qed

text \<open>C20: A request counts as Slack's exactly when its timestamp is an integer within five minutes of the clock, in either
  direction, and its signature is the HMAC over timestamp and body; the wrap-around of the difference and its
  conversion to \<open>float64\<close> never let another timestamp pass.\<close>

theorem slack_signature_fresh:
  assumes "0 \<le> unix_seconds t" "unix_seconds t < 2 ^ 62"
  shows "verify_slack_signature hmac t secret timestamp body signature \<longleftrightarrow>
    (\<exists>ts. parse_int timestamp = (ts, None) \<and> \<bar>unix_seconds t - ts\<bar> \<le> 300 \<and>
      signature = ''v0='' @ hmac secret (''v0:'' @ timestamp @ '':'' @ body))"
  using assms by (rule signature_iff)

section \<open>The HTTP transport\<close>

record interaction_payload =
  ip_Type :: string
  ip_CallbackID :: string
  ip_TriggerID :: string
  ip_ResponseURL :: string
  ip_UserID :: string
  ip_ChannelID :: string
  ip_MessageTS :: string
  ip_MessageText :: string
  ip_Actions :: "(string \<times> string) list"

record event_envelope =
  ee_Type :: string
  ee_Challenge :: string
  ee_EventType :: string
  ee_User :: string
  ee_Text :: string
  ee_Channel :: string

record http_transport =
  ht_signingSecret :: string
  ht_hmac :: "string \<Rightarrow> string \<Rightarrow> string"
  ht_interaction :: "string \<Rightarrow> interaction_payload option"
  ht_event :: "string \<Rightarrow> event_envelope option"
  ht_quote :: "string \<Rightarrow> string"

datatype slack_task = SlashTask slash_command | ShortcutTask message_shortcut | ActionsTask "interaction_action list"
  | MentionTask string string string

definition verify_request :: "http_transport \<Rightarrow> gotime \<Rightarrow> slack_request \<Rightarrow> string \<Rightarrow> bool" where
  "verify_request ht t r body =
     verify_slack_signature (ht_hmac ht) t (ht_signingSecret ht) (sr_Timestamp r) body (sr_Signature r)"

text \<open>What the three handlers begin with: read the body and verify the request, which is handed on as it is then.\<close>

definition verified :: "http_transport \<Rightarrow> gotime \<Rightarrow> slack_request \<Rightarrow>
    (string \<Rightarrow> slack_request \<Rightarrow> http_response \<times> slack_task option) \<Rightarrow> http_response \<times> slack_task option" where
  "verified ht t r k =
     (case read_all r of
        (None, r) \<Rightarrow> (http_error ''bad request'' 400, None)
      | (Some body, r) \<Rightarrow> if \<not> verify_request ht t r body then (http_error ''invalid signature'' 401, None) else k body r)"

definition ack_body :: "http_transport \<Rightarrow> string" where
  "ack_body ht = ''{'' @ quoted ''response_type'' @ '':'' @ quoted ''in_channel'' @ '','' @ quoted ''text'' @ '':'' @
     quoted ''Acknowledged. Sherlock is on the case.'' @ ''}'' @ nl"

definition form_command :: "(string \<times> string) list \<Rightarrow> slash_command" where
  "form_command form = \<lparr>sc_Command = form_value form ''command'', sc_Text = form_value form ''text'',
     sc_UserID = form_value form ''user_id'', sc_ChannelID = form_value form ''channel_id'', sc_TeamID = form_value form ''team_id'',
     sc_ResponseURL = form_value form ''response_url'', sc_TriggerID = form_value form ''trigger_id''\<rparr>"

definition http_slash_command :: "http_transport \<Rightarrow> gotime \<Rightarrow> slack_request \<Rightarrow> http_response \<times> slack_task option" where
  "http_slash_command ht t r = verified ht t r (\<lambda>body r.
     let (form, ok) = parse_form r in
     if \<not> ok then (http_error ''bad request'' 400, None)
     else (\<lparr>hr_Status = 200, hr_Body = ack_body ht\<rparr>, Some (SlashTask (form_command form))))"

definition payload_shortcut :: "interaction_payload \<Rightarrow> message_shortcut" where
  "payload_shortcut p = \<lparr>ms_CallbackID = ip_CallbackID p, ms_UserID = ip_UserID p, ms_ChannelID = ip_ChannelID p,
     ms_MessageTS = ip_MessageTS p, ms_MessageText = ip_MessageText p, ms_TriggerID = ip_TriggerID p, ms_ResponseURL = ip_ResponseURL p\<rparr>"

definition payload_actions :: "interaction_payload \<Rightarrow> interaction_action list" where
  "payload_actions p = map (\<lambda>(i, v). \<lparr>ia_ActionID = i, ia_Value = v, ia_UserID = ip_UserID p, ia_ChannelID = ip_ChannelID p,
     ia_MessageTS = ip_MessageTS p, ia_TriggerID = ip_TriggerID p, ia_ResponseURL = ip_ResponseURL p\<rparr>) (ip_Actions p)"

definition payload_task :: "interaction_payload \<Rightarrow> slack_task option" where
  "payload_task p = (if ip_Type p = ''message_action'' then Some (ShortcutTask (payload_shortcut p))
     else if ip_Type p = ''block_actions'' then Some (ActionsTask (payload_actions p)) else None)"

definition http_interaction :: "http_transport \<Rightarrow> gotime \<Rightarrow> slack_request \<Rightarrow> http_response \<times> slack_task option" where
  "http_interaction ht t r = verified ht t r (\<lambda>body r.
     let (form, ok) = parse_form r in
     if \<not> ok then (http_error ''bad request'' 400, None)
     else if form_value form ''payload'' = [] then (http_error ''missing payload'' 400, None)
     else case ht_interaction ht (form_value form ''payload'') of
            None \<Rightarrow> (http_error ''bad payload'' 400, None)
          | Some p \<Rightarrow> (\<lparr>hr_Status = 200, hr_Body = []\<rparr>, payload_task p))"

definition http_event :: "http_transport \<Rightarrow> gotime \<Rightarrow> slack_request \<Rightarrow> http_response \<times> slack_task option" where
  "http_event ht t r = verified ht t r (\<lambda>body r.
     case ht_event ht body of
       None \<Rightarrow> (http_error ''bad payload'' 400, None)
     | Some e \<Rightarrow>
         if ee_Type e = ''url_verification''
         then (\<lparr>hr_Status = 200, hr_Body = ''{'' @ quoted ''challenge'' @ '':'' @ ht_quote ht (ee_Challenge e) @ ''}'' @ nl\<rparr>, None)
         else (\<lparr>hr_Status = 200, hr_Body = []\<rparr>,
               if ee_Type e = ''event_callback'' \<and> ee_EventType e = ''app_mention''
               then Some (MentionTask (ee_Channel e) (ee_User e) (ee_Text e)) else None))"

definition http_oauth_callback :: http_response where
  "http_oauth_callback = \<lparr>hr_Status = 200, hr_Body = ''OAuth callback received. Not yet implemented.''\<rparr>"

text \<open>The goroutine: errors are only logged.\<close>

definition run_task :: "slack_app \<Rightarrow> slack_task option \<Rightarrow> world \<Rightarrow> world" where
  "run_task app task w =
     (case task of
        None \<Rightarrow> w
      | Some (SlashTask cmd) \<Rightarrow> snd (handle_slash_command app cmd w)
      | Some (ShortcutTask sh) \<Rightarrow> snd (handle_message_shortcut app sh w)
      | Some (ActionsTask actions) \<Rightarrow> fold (\<lambda>a w. snd (handle_interaction app a w)) actions w
      | Some (MentionTask ch user txt) \<Rightarrow> snd (handle_app_mention app ch user txt w))"

section \<open>The socket transport\<close>

text \<open>An event whose payload has not the expected type carries \<open>None\<close>; a callback event other than a mention has no mention.\<close>

datatype callback_type = MessageAction | BlockActions | OtherCallback

record interaction_callback =
  ic_Type :: callback_type
  ic_CallbackID :: string
  ic_UserID :: string
  ic_ChannelID :: string
  ic_MessageTs :: string
  ic_MessageText :: string
  ic_TriggerID :: string
  ic_ResponseURL :: string
  ic_BlockActions :: "(string \<times> string) list"

record events_api =
  ea_Callback :: bool
  ea_Mention :: "(string \<times> string \<times> string) option"

datatype socket_event = EventsAPI "events_api option" | SlashEvent "slash_command option"
  | InteractiveEvent "interaction_callback option" | OtherEvent

text \<open>Whether the event is acknowledged, and the new world.\<close>

definition dispatch_event :: "slack_app \<Rightarrow> socket_event \<Rightarrow> world \<Rightarrow> bool \<times> world" where
  "dispatch_event app evt w =
     (case evt of
        EventsAPI None \<Rightarrow> (False, w)
      | EventsAPI (Some e) \<Rightarrow>
          (True, if ea_Callback e
             then (case ea_Mention e of Some (ch, user, txt) \<Rightarrow> snd (handle_app_mention app ch user txt w) | None \<Rightarrow> w) else w)
      | SlashEvent None \<Rightarrow> (False, w)
      | SlashEvent (Some cmd) \<Rightarrow> (True, snd (handle_slash_command app cmd w))
      | InteractiveEvent None \<Rightarrow> (False, w)
      | InteractiveEvent (Some cb) \<Rightarrow>
          (True, case ic_Type cb of
             MessageAction \<Rightarrow> snd (handle_message_shortcut app
               \<lparr>ms_CallbackID = ic_CallbackID cb, ms_UserID = ic_UserID cb, ms_ChannelID = ic_ChannelID cb, ms_MessageTS = ic_MessageTs cb,
                ms_MessageText = ic_MessageText cb, ms_TriggerID = ic_TriggerID cb, ms_ResponseURL = ic_ResponseURL cb\<rparr> w)
           | BlockActions \<Rightarrow> fold (\<lambda>(i, v) w. snd (handle_interaction app
               \<lparr>ia_ActionID = i, ia_Value = v, ia_UserID = ic_UserID cb, ia_ChannelID = ic_ChannelID cb, ia_MessageTS = ic_MessageTs cb,
                ia_TriggerID = ic_TriggerID cb, ia_ResponseURL = ic_ResponseURL cb\<rparr> w)) (ic_BlockActions cb) w
           | OtherCallback \<Rightarrow> w)
      | OtherEvent \<Rightarrow> (False, w))"

section \<open>What reaches the application\<close>

lemma empty_form: "sr_Query r = [] \<Longrightarrow> sr_Body r = Some body \<Longrightarrow> sr_MediaType r = Some mt \<Longrightarrow>
    parse_form (snd (read_all r)) = ([], True)"
  by (simp add: parse_form_def parse_post_form_def read_all_def parse_query_def List.map_filter_def)

lemma empty_command: "handle_slash_command app (form_command []) w = (Inr (), w)"
  by (simp add: handle_slash_command_def form_command_def form_value_def)

text \<open>The form in the body of a request is lost: the body is read for the signature before the form is parsed, so only the
  query of the URL counts.  A slash command as Slack posts it is acknowledged and does nothing, and a button or
  a shortcut is rejected for its missing payload, whatever the body says.\<close>

theorem form_body_ignored:
  assumes "sr_Query r = []" "sr_Body r = Some body" "sr_MediaType r = Some mt" "verify_request ht t r body"
  shows "\<exists>cmd. http_slash_command ht t r = (\<lparr>hr_Status = 200, hr_Body = ack_body ht\<rparr>, Some (SlashTask cmd)) \<and>
      run_task app (Some (SlashTask cmd)) w = w \<and>
      http_interaction ht t r = (http_error ''missing payload'' 400, None)"
proof -
  obtain r' where read: "read_all r = (Some body, r')" using assms(2) by (simp add: read_all_def)
  then have ok: "verify_request ht t r' body" using assms(4) by (auto simp: verify_request_def read_all_def)
  have form: "parse_form r' = ([], True)" using empty_form [OF assms(1-3)] by (simp add: read)
  have "http_interaction ht t r = (http_error ''missing payload'' 400, None)"
    by (simp add: http_interaction_def verified_def read ok form form_value_def)
  then show ?thesis
    by (intro exI [of _ "form_command []"])
      (simp add: http_slash_command_def verified_def read ok form run_task_def empty_command)
qed

text \<open>The callback the socket library makes of a payload.\<close>

definition callback_of :: "interaction_payload \<Rightarrow> interaction_callback" where
  "callback_of p = \<lparr>ic_Type = (if ip_Type p = ''message_action'' then MessageAction
       else if ip_Type p = ''block_actions'' then BlockActions else OtherCallback),
     ic_CallbackID = ip_CallbackID p, ic_UserID = ip_UserID p, ic_ChannelID = ip_ChannelID p, ic_MessageTs = ip_MessageTS p,
     ic_MessageText = ip_MessageText p, ic_TriggerID = ip_TriggerID p, ic_ResponseURL = ip_ResponseURL p,
     ic_BlockActions = ip_Actions p\<rparr>"

text \<open>The two transports agree: a payload, a command or a mention has the same effect over HTTP, once its handler has
  accepted it, as over the socket.\<close>

theorem transports_agree:
  "run_task app (payload_task p) w = snd (dispatch_event app (InteractiveEvent (Some (callback_of p))) w) \<and>
   run_task app (Some (SlashTask cmd)) w = snd (dispatch_event app (SlashEvent (Some cmd)) w) \<and>
   run_task app (Some (MentionTask ch user txt)) w =
     snd (dispatch_event app (EventsAPI (Some \<lparr>ea_Callback = True, ea_Mention = Some (ch, user, txt)\<rparr>)) w)"
proof -
  have "run_task app (payload_task p) w = snd (dispatch_event app (InteractiveEvent (Some (callback_of p))) w)"
    by (simp add: run_task_def payload_task_def dispatch_event_def callback_of_def payload_shortcut_def payload_actions_def
        fold_map comp_def case_prod_unfold)
  then show ?thesis by (simp add: run_task_def dispatch_event_def)
qed

definition sample_transport :: http_transport where
  "sample_transport = \<lparr>ht_signingSecret = ''k'', ht_hmac = (\<lambda>k s. k @ itoa (int (length s))), ht_interaction = (\<lambda>s. None),
     ht_event = (\<lambda>s. None), ht_quote = quoted\<rparr>"

definition sample_request :: slack_request where
  "sample_request = \<lparr>sr_Timestamp = ''10'', sr_Signature = ''v0=k23'', sr_MediaType = Some ''application/x-www-form-urlencoded'',
     sr_Query = [], sr_Body = Some ''text=payments-api''\<rparr>"

definition sample_now :: gotime where
  "sample_now = 719162 * day_ns + seconds 12"

lemma sample_time: "unix_seconds sample_now = 12"
  by (simp add: unix_seconds_def sample_now_def seconds_def)

lemma sample_timestamp: "parse_int ''10'' = (10, None)"
  by (simp add: parse_int_def has_prefix_def)

lemma sample_verified: "verify_request sample_transport sample_now sample_request ''text=payments-api''"
proof -
  have "''v0=k23'' = ''v0='' @ ''k'' @ itoa (int (length ''v0:10:text=payments-api''))" by code_simp
  then show ?thesis unfolding verify_request_def
    by (subst signature_iff) (simp_all add: sample_time sample_timestamp sample_transport_def sample_request_def)
qed

theorem form_body_ignored_witness:
  "\<forall>app w. \<exists>cmd. http_slash_command sample_transport sample_now sample_request =
     (\<lparr>hr_Status = 200, hr_Body = ack_body sample_transport\<rparr>, Some (SlashTask cmd)) \<and>
     run_task app (Some (SlashTask cmd)) w = w \<and>
     http_interaction sample_transport sample_now sample_request = (http_error ''missing payload'' 400, None)"
  by (intro allI form_body_ignored [OF _ _ _ sample_verified, of "''application/x-www-form-urlencoded''"])
    (simp_all add: sample_request_def)

theorem slack_signature_fresh_witness:
  "verify_slack_signature (\<lambda>k s. k @ itoa (int (length s))) sample_now ''k'' ''10'' ''b'' ''v0=k7'' \<and>
   unix_seconds sample_now = 12"
proof -
  have "''v0=k7'' = ''v0='' @ ''k'' @ itoa (int (length ''v0:10:b''))" by code_simp
  then show ?thesis
    using slack_signature_fresh [of sample_now "\<lambda>k s. k @ itoa (int (length s))" "''k''" "''10''" "''b''" "''v0=k7''"]
    by (simp add: sample_time sample_timestamp)
qed

end
