(* ===== verification/Api.thy ===== *)
theory Api
  imports Store HttpUtil
begin

text \<open>
  \<open>api/api.go\<close>: the endpoints that read investigations.  A response is its status and the value written as JSON; the
  router and its middleware for panics and request identifiers are left out.
\<close>

datatype api_body = ApiError string | ApiHealth string string | ApiInvestigation investigation
  | ApiEvidence "evidence list" | ApiTimeline "timeline_event list" | ApiHypotheses "hypothesis list"

record api_response =
  as_Status :: nat
  as_Body :: api_body

datatype api_route = HealthRoute | InvestigationRoute string | EvidenceRoute string | TimelineRoute string
  | HypothesesRoute string

definition api_error :: "nat \<Rightarrow> string \<Rightarrow> api_response" where
  "api_error status msg = \<lparr>as_Status = status, as_Body = ApiError msg\<rparr>"

definition handle_health :: api_response where
  "handle_health = \<lparr>as_Status = 200, as_Body = ApiHealth ''ok'' ''sherlock''\<rparr>"

definition lookup_error :: "go_error \<Rightarrow> api_response" where
  "lookup_error err = (if err = ErrNotFound then api_error 404 ''investigation not found''
     else api_error 500 ''internal server error'')"

definition handle_get_investigation :: "string \<Rightarrow> world \<Rightarrow> api_response \<times> world" where
  "handle_get_investigation i w =
     (case inv_get_by_id i w of
        (Inl err, w) \<Rightarrow> (lookup_error err, w)
      | (Inr iv, w) \<Rightarrow> (\<lparr>as_Status = 200, as_Body = ApiInvestigation iv\<rparr>, w))"

text \<open>The three handlers that list the rows of an investigation differ in the repository and its name.\<close>

definition handle_list :: "(string \<Rightarrow> world \<Rightarrow> (go_error + 'a) \<times> world) \<Rightarrow> ('a \<Rightarrow> api_body) \<Rightarrow> string \<Rightarrow> string \<Rightarrow> world \<Rightarrow>
    api_response \<times> world" where
  "handle_list listing body what i w =
     (case inv_get_by_id i w of
        (Inl err, w) \<Rightarrow> (lookup_error err, w)
      | (Inr iv, w) \<Rightarrow>
        (case listing i w of
           (Inl err, w) \<Rightarrow> (api_error 500 (''failed to list '' @ what), w)
         | (Inr rows, w) \<Rightarrow> (\<lparr>as_Status = 200, as_Body = body rows\<rparr>, w)))"

definition handle_list_evidence :: "string \<Rightarrow> world \<Rightarrow> api_response \<times> world" where
  "handle_list_evidence = handle_list evidence_list ApiEvidence ''evidence''"

definition handle_list_timeline :: "string \<Rightarrow> world \<Rightarrow> api_response \<times> world" where
  "handle_list_timeline = handle_list timeline_list ApiTimeline ''timeline''"

definition handle_list_hypotheses :: "string \<Rightarrow> world \<Rightarrow> api_response \<times> world" where
  "handle_list_hypotheses = handle_list hypothesis_list ApiHypotheses ''hypotheses''"

fun api_handler :: "api_route \<Rightarrow> world \<Rightarrow> api_response \<times> world" where
  "api_handler HealthRoute w = (handle_health, w)"
| "api_handler (InvestigationRoute i) w = handle_get_investigation i w"
| "api_handler (EvidenceRoute i) w = handle_list_evidence i w"
| "api_handler (TimelineRoute i) w = handle_list_timeline i w"
| "api_handler (HypothesesRoute i) w = handle_list_hypotheses i w"

text \<open>\<open>Routes\<close>: every route but the health check is behind the key, when there is one.\<close>

definition serve_api :: "string option \<Rightarrow> string \<Rightarrow> string \<Rightarrow> api_route \<Rightarrow> world \<Rightarrow> api_response \<times> world" where
  "serve_api apiKey authorization query route w =
     (case apiKey of
        Some key \<Rightarrow>
          if route \<noteq> HealthRoute \<and> \<not> api_key_auth key authorization query
          then (api_error 401 ''unauthorized: invalid or missing API key'', w)
          else api_handler route w
      | None \<Rightarrow> api_handler route w)"

section \<open>What a client can read\<close>

lemma inv_get_by_id_run:
  "inv_get_by_id i w = (if w_fault w (w_calls w) then Inl ErrUnavailable
     else case w_uuid_in w i of None \<Rightarrow> Inl (ErrOther ''query investigation'')
       | Some c \<Rightarrow> (case inv_row w c of None \<Rightarrow> Inl ErrNotFound | Some iv \<Rightarrow> Inr iv), w\<lparr>w_calls := Suc (w_calls w)\<rparr>)"
  by (simp add: inv_get_by_id_def exec_def inv_row_def Let_def split: option.split)

fun route_id :: "api_route \<Rightarrow> string" where
  "route_id HealthRoute = []"
| "route_id (InvestigationRoute i) = i"
| "route_id (EvidenceRoute i) = i"
| "route_id (TimelineRoute i) = i"
| "route_id (HypothesesRoute i) = i"

text \<open>What the tables hold for a route and an investigation.\<close>

fun stored_body :: "world \<Rightarrow> api_route \<Rightarrow> string \<Rightarrow> api_body" where
  "stored_body w HealthRoute c = ApiHealth ''ok'' ''sherlock''"
| "stored_body w (InvestigationRoute i) c = ApiInvestigation (the (inv_row w c))"
| "stored_body w (EvidenceRoute i) c = ApiEvidence (filter (\<lambda>e. ev_InvestigationID e = c) (db_evidence (w_db w)))"
| "stored_body w (TimelineRoute i) c = ApiTimeline (insertion_sort (\<lambda>a b. te_Timestamp a < te_Timestamp b)
     (filter (\<lambda>e. te_InvestigationID e = c) (db_timeline (w_db w))))"
| "stored_body w (HypothesesRoute i) c = ApiHypotheses (insertion_sort (\<lambda>a b. hy_Confidence a > hy_Confidence b)
     (map snd (filter (\<lambda>(j, h). j = c) (db_hypotheses (w_db w)))))"

definition reads_only :: "world \<Rightarrow> world \<Rightarrow> bool" where
  "reads_only w w' = (w_db w' = w_db w \<and> w_events w' = w_events w)"

text \<open>The identifier of a route is any text; the database reads it as a UUID or refuses it.\<close>

definition answers :: "world \<Rightarrow> api_route \<Rightarrow> api_response \<Rightarrow> bool" where
  "answers w route resp =
     (if route = HealthRoute then resp = handle_health
      else case w_uuid_in w (route_id route) of
        None \<Rightarrow> as_Status resp = 500
      | Some c \<Rightarrow>
          if as_Status resp = 200 then inv_row w c \<noteq> None \<and> as_Body resp = stored_body w route c
          else if as_Status resp = 404 then inv_row w c = None
          else as_Status resp = 500 \<and> (w_fault w (w_calls w) \<or> w_fault w (Suc (w_calls w))))"

lemma exec_read: "exec (\<lambda>db. Inr (f db, db)) w =
    (if w_fault w (w_calls w) then Inl ErrUnavailable else Inr (f (w_db w)), w\<lparr>w_calls := Suc (w_calls w)\<rparr>)"
  by (cases w) (simp add: exec_def)

lemma exec_rows: "w_uuid_in w i = Some c \<Longrightarrow> exec (rows_of w msg i select) w =
    (if w_fault w (w_calls w) then Inl ErrUnavailable else Inr (select c (w_db w)), w\<lparr>w_calls := Suc (w_calls w)\<rparr>)"
  by (cases w) (simp add: exec_def rows_of_def)

lemma handle_list_answers:
  assumes run: "handle_list listing body what i w = (resp, w')"
    and listing: "\<And>v. listing i v = exec (rows_of v msg i select) v"
  shows "reads_only w w' \<and> (case w_uuid_in w i of
      None \<Rightarrow> as_Status resp = 500
    | Some c \<Rightarrow> (case inv_row w c of
        None \<Rightarrow> as_Status resp = 404 \<or> as_Status resp = 500 \<and> w_fault w (w_calls w)
      | Some iv \<Rightarrow> as_Status resp = 200 \<and> as_Body resp = body (select c (w_db w)) \<or>
          as_Status resp = 500 \<and> (w_fault w (w_calls w) \<or> w_fault w (Suc (w_calls w)))))"
proof (cases "w_uuid_in w i")
  case None
  with run show ?thesis
    by (auto simp: handle_list_def inv_get_by_id_run reads_only_def lookup_error_def api_error_def split: if_splits)
next
  case (Some c)
  then have rows: "listing i (w\<lparr>w_calls := n\<rparr>) = (if w_fault w n then Inl ErrUnavailable else Inr (select c (w_db w)), w\<lparr>w_calls := Suc n\<rparr>)" for n
    using exec_rows [of "w\<lparr>w_calls := n\<rparr>" i c msg select] by (simp add: listing)
  show ?thesis using run Some
    by (auto simp: handle_list_def inv_get_by_id_run rows reads_only_def lookup_error_def api_error_def
        split: if_splits option.splits)
qed

lemma api_handler_answers:
  assumes "api_handler route w = (resp, w')"
  shows "reads_only w w' \<and> answers w route resp"
proof (cases route)
  case HealthRoute
  with assms show ?thesis by (simp add: reads_only_def answers_def)
next
  case (InvestigationRoute i)
  with assms show ?thesis
    by (auto simp: handle_get_investigation_def inv_get_by_id_run reads_only_def answers_def lookup_error_def api_error_def
        split: if_splits option.splits)
next
  case (EvidenceRoute i)
  with assms have "handle_list evidence_list ApiEvidence ''evidence'' i w = (resp, w')" by (simp add: handle_list_evidence_def)
  from handle_list_answers [OF this evidence_list_def] EvidenceRoute
  show ?thesis by (auto simp: answers_def split: option.splits)
next
  case (TimelineRoute i)
  with assms have "handle_list timeline_list ApiTimeline ''timeline'' i w = (resp, w')" by (simp add: handle_list_timeline_def)
  from handle_list_answers [OF this timeline_list_def] TimelineRoute
  show ?thesis by (auto simp: answers_def split: option.splits)
next
  case (HypothesesRoute i)
  with assms have "handle_list hypothesis_list ApiHypotheses ''hypotheses'' i w = (resp, w')" by (simp add: handle_list_hypotheses_def)
  from handle_list_answers [OF this hypothesis_list_def] HypothesesRoute
  show ?thesis by (auto simp: answers_def split: option.splits)
qed

text \<open>C21: The API only reads.  With a key configured, a request without it gets a 401 from every route but the health check
  and learns nothing; every other request is answered from the tables: 200 and the rows of the investigation its text denotes
  exactly as they are stored, 404 only if it denotes a UUID and there is no such investigation, 500 when the text is no
  UUID, and otherwise only if one of the at most two queries fails.\<close>

theorem api_answers:
  assumes "serve_api (Some key) authorization query route w = (resp, w')" "key \<noteq> []"
  shows "reads_only w w' \<and>
    (if route \<noteq> HealthRoute \<and> credential authorization query \<noteq> key
     then resp = api_error 401 ''unauthorized: invalid or missing API key''
     else answers w route resp)"
proof (cases "route \<noteq> HealthRoute \<and> credential authorization query \<noteq> key")
  case True
  with assms show ?thesis by (auto simp: serve_api_def api_key_auth_def reads_only_def split: if_splits)
next
  case False
  with assms have "api_handler route w = (resp, w')" by (auto simp: serve_api_def api_key_auth_def split: if_splits)
  from api_handler_answers [OF this] show ?thesis using False by auto
qed

theorem api_answers_witness:
  "fst (serve_api (Some ''k'') ''Bearer no'' [] (EvidenceRoute ''i'') (sample_world empty_db)) = api_error 401 ''unauthorized: invalid or missing API key'' \<and>
   answers (sample_world empty_db) (EvidenceRoute ''i'') (fst (serve_api (Some ''k'') ''Bearer k'' [] (EvidenceRoute ''i'') (sample_world empty_db)))"
proof -
  obtain r w where 1: "serve_api (Some ''k'') ''Bearer no'' [] (EvidenceRoute ''i'') (sample_world empty_db) = (r, w)" by fastforce
  obtain r' w' where 2: "serve_api (Some ''k'') ''Bearer k'' [] (EvidenceRoute ''i'') (sample_world empty_db) = (r', w')" by fastforce
  have "credential ''Bearer no'' [] = ''no''" "credential ''Bearer k'' [] = ''k''" by code_simp+
  with api_answers [OF 1] api_answers [OF 2] show ?thesis by (simp add: 1 2)
qed

end
