(* ===== verification/Collectors.thy ===== *)
theory Collectors
  imports Contracts
begin

text \<open>
  \<open>internal/collector/registry.go\<close>: the collectors run concurrently and append what they found in the order they
  finish.  A state is what is still running and what was found so far; a step is one collector finishing.
\<close>

text \<open>\<open>None\<close> is a panic, which ends the program before \<open>CollectAll\<close> returns.\<close>

record collector =
  cl_Name :: string
  cl_Collect :: "collect_request \<Rightarrow> (go_error + evidence list) option"

definition register_collector :: "collector \<Rightarrow> collector list \<Rightarrow> collector list" where
  "register_collector c registry = registry @ [c]"

record collecting =
  cg_running :: "collector list"
  cg_combined :: "evidence list"
  cg_counts :: "(string \<times> nat) list"

definition start_collecting :: "collector list \<Rightarrow> collecting" where
  "start_collecting registry = \<lparr>cg_running = registry, cg_combined = [], cg_counts = []\<rparr>"

text \<open>The body of a goroutine: a failure is logged and dropped.\<close>

definition finish_collector :: "collect_request \<Rightarrow> collector \<Rightarrow> collecting \<Rightarrow> collecting" where
  "finish_collector req c st =
     (case cl_Collect c req of
        None \<Rightarrow> st
      | Some (Inl err) \<Rightarrow> st
      | Some (Inr ev) \<Rightarrow> st\<lparr>cg_combined := cg_combined st @ ev, cg_counts := cg_counts st @ [(cl_Name c, length ev)]\<rparr>)"

inductive collect_step :: "collect_request \<Rightarrow> collecting \<Rightarrow> collecting \<Rightarrow> bool" for req where
  finishes: "cg_running st = xs @ c # ys \<Longrightarrow> cl_Collect c req \<noteq> None \<Longrightarrow> collect_step req st (finish_collector req c (st\<lparr>cg_running := xs @ ys\<rparr>))"

inductive_cases collect_stepE: "collect_step req st st'"

definition collect_steps :: "collect_request \<Rightarrow> collecting \<Rightarrow> collecting \<Rightarrow> bool" where
  "collect_steps req = (collect_step req)\<^sup>*\<^sup>*"

text \<open>\<open>CollectAll\<close> for one order of the collectors finishing, which is a permutation of the registry; no goroutine returns an error.\<close>

definition collect_in_order :: "collect_request \<Rightarrow> collector list \<Rightarrow> (evidence list \<times> go_error option) option" where
  "collect_in_order req order =
     (if list_ex (\<lambda>c. cl_Collect c req = None) order then None
      else Some (cg_combined (fold (finish_collector req) order (start_collecting [])), None))"

section \<open>The order does not matter\<close>

definition found_by :: "collect_request \<Rightarrow> collector \<Rightarrow> evidence list" where
  "found_by req c = (case cl_Collect c req of Some (Inr ev) \<Rightarrow> ev | _ \<Rightarrow> [])"

lemma finish_collector_simps [simp]:
  "cg_running (finish_collector req c st) = cg_running st"
  "cg_combined (finish_collector req c st) = cg_combined st @ found_by req c"
  by (simp_all add: finish_collector_def found_by_def split: option.split sum.split)

definition evidence_total :: "collect_request \<Rightarrow> collecting \<Rightarrow> evidence multiset" where
  "evidence_total req st = mset (cg_combined st) + mset (concat (map (found_by req) (cg_running st)))"

lemma collect_step_total: "collect_step req st st' \<Longrightarrow> evidence_total req st' = evidence_total req st"
  by (elim collect_stepE) (simp add: evidence_total_def)

lemma collect_step_fewer: "collect_step req st st' \<Longrightarrow> length (cg_running st') < length (cg_running st)"
  by (elim collect_stepE) simp

lemma collect_step_progress:
  "cg_running st \<noteq> [] \<Longrightarrow> list_all (\<lambda>c. cl_Collect c req \<noteq> None) (cg_running st) \<Longrightarrow> \<exists>st'. collect_step req st st'"
  using finishes [of st "[]" _ _ req] by (cases "cg_running st") auto

lemma collect_step_running:
  "collect_step req st st' \<Longrightarrow> \<exists>c. mset (cg_running st) = add_mset c (mset (cg_running st')) \<and> cl_Collect c req \<noteq> None"
  by (elim collect_stepE) auto

lemma collect_steps_total: "collect_steps req st st' \<Longrightarrow> evidence_total req st' = evidence_total req st"
  unfolding collect_steps_def by (induction rule: rtranclp_induct) (simp_all add: collect_step_total)

lemma collect_steps_panic:
  assumes "collect_steps req st st'" "c \<in> set (cg_running st)" "cl_Collect c req = None"
  shows "c \<in> set (cg_running st')"
  using assms(1) unfolding collect_steps_def
proof (induction rule: rtranclp_induct)
  case (step st1 st2)
  from collect_step_running [OF step(2)] obtain d where "mset (cg_running st1) = add_mset d (mset (cg_running st2))" "cl_Collect d req \<noteq> None" by blast
  with step.IH assms(3) show ?case by (metis insertE set_mset_add_mset_insert set_mset_mset)
qed (rule assms(2))

lemma collect_ends: "list_all (\<lambda>c. cl_Collect c req \<noteq> None) (cg_running st) \<Longrightarrow> \<exists>st'. collect_steps req st st' \<and> cg_running st' = []"
proof (induction "length (cg_running st)" arbitrary: st rule: less_induct)
  case less
  show ?case
  proof (cases "cg_running st = []")
    case True
    then show ?thesis by (intro exI [of _ st]) (simp add: collect_steps_def)
  next
    case False
    then obtain st1 where 1: "collect_step req st st1" using collect_step_progress less.prems by blast
    from collect_step_running [OF 1] less.prems have "list_all (\<lambda>c. cl_Collect c req \<noteq> None) (cg_running st1)"
      unfolding list_all_iff by (metis insertI2 set_mset_add_mset_insert set_mset_mset)
    from less.hyps [OF collect_step_fewer [OF 1] this] obtain st2 where "collect_steps req st1 st2" "cg_running st2 = []" by blast
    with 1 show ?thesis unfolding collect_steps_def by (meson converse_rtranclp_into_rtranclp)
  qed
qed

lemma collected_mset:
  "collect_steps req (start_collecting registry) st \<Longrightarrow> cg_running st = [] \<Longrightarrow>
    mset (cg_combined st) = mset (concat (map (found_by req) registry))"
  using collect_steps_total [of req "start_collecting registry" st] by (simp add: evidence_total_def start_collecting_def)

text \<open>C17: Unless a collector panics, in which case it never returns, \<open>CollectAll\<close> ends whatever the order in which the collectors finish,
  and it returns exactly the evidence of those that did not fail, each piece as often as it was found: every complete run
  gives the same multiset, that of the collectors run one after the other, and a failing collector loses nothing
  but its own evidence.\<close>

theorem collect_order_irrelevant:
  "case collect_in_order req registry of
     None \<Rightarrow> (\<forall>st. collect_steps req (start_collecting registry) st \<longrightarrow> cg_running st \<noteq> [])
   | Some (es, err) \<Rightarrow> err = None \<and> (\<exists>st. collect_steps req (start_collecting registry) st \<and> cg_running st = []) \<and>
       (\<forall>st. collect_steps req (start_collecting registry) st \<and> cg_running st = [] \<longrightarrow> mset (cg_combined st) = mset es) \<and>
       mset es = (\<Sum>c\<leftarrow>registry. case cl_Collect c req of Some (Inr ev) \<Rightarrow> mset ev | _ \<Rightarrow> {#})"
proof (cases "list_ex (\<lambda>c. cl_Collect c req = None) registry")
  case True
  then obtain c where "c \<in> set (cg_running (start_collecting registry))" "cl_Collect c req = None"
    by (auto simp: list_ex_iff start_collecting_def)
  with collect_steps_panic have "cg_running st \<noteq> []" if "collect_steps req (start_collecting registry) st" for st
    using that by fastforce
  with True show ?thesis by (simp add: collect_in_order_def)
next
  case False
  have seq: "cg_combined (fold (finish_collector req) cs st) = cg_combined st @ concat (map (found_by req) cs)" for cs st
    by (induction cs arbitrary: st) simp_all
  have sum: "mset (concat (map (found_by req) cs)) = (\<Sum>c\<leftarrow>cs. case cl_Collect c req of Some (Inr ev) \<Rightarrow> mset ev | _ \<Rightarrow> {#})" for cs
    by (induction cs) (simp_all add: found_by_def split: option.split sum.split)
  have "list_all (\<lambda>c. cl_Collect c req \<noteq> None) (cg_running (start_collecting registry))"
    using False by (auto simp: list_ex_iff list_all_iff start_collecting_def)
  from collect_ends [OF this] collected_mset [of req registry] False sum [of registry] show ?thesis
    by (simp add: collect_in_order_def seq) (simp add: start_collecting_def)
qed

theorem collect_order_irrelevant_witness:
  "\<forall>req. \<exists>st. collect_steps req (start_collecting [\<lparr>cl_Name = ''loki'', cl_Collect = (\<lambda>r. Some (Inl ErrUnavailable))\<rparr>]) st \<and>
     cg_running st = [] \<and> mset (cg_combined st) = {#}"
proof
  fix req
  let ?reg = "[\<lparr>cl_Name = ''loki'', cl_Collect = (\<lambda>r. Some (Inl ErrUnavailable))\<rparr>]"
  have "collect_in_order req ?reg = Some ([], None)"
    by (simp add: collect_in_order_def finish_collector_def start_collecting_def)
  with collect_order_irrelevant [of req ?reg]
  show "\<exists>st. collect_steps req (start_collecting ?reg) st \<and> cg_running st = [] \<and> mset (cg_combined st) = {#}" by auto
qed

end
