(* ===== verification/DeployCollector.thy ===== *)
theory DeployCollector
  imports GitProvider
begin

text \<open>
  \<open>internal/collector/deploy/collector.go\<close>: evidence of deployments and of the commits between them.  \<open>de_client n url\<close>
  is the outcome of the \<open>n\<close>-th request; \<open>json.Unmarshal\<close> into the response types, the UUIDs and the clock are
  fields of the environment.  The state counts what was drawn from each.
\<close>

record gh_deploy =
  dp_SHA :: string
  dp_Ref :: string
  dp_Environment :: string
  dp_Description :: string
  dp_CreatedAt :: gotime
  dp_CreatorLogin :: string
  dp_StatusesURL :: string

record gh_commit =
  cm_SHA :: string
  cm_Message :: string
  cm_AuthorName :: string

record gh_file =
  fi_Additions :: int
  fi_Deletions :: int

record gh_comparison =
  cp_HTMLURL :: string
  cp_AheadBy :: int
  cp_BehindBy :: int
  cp_TotalCommits :: int
  cp_Commits :: "gh_commit list"
  cp_Files :: "gh_file list"

record gl_deploy =
  ld_SHA :: string
  ld_Ref :: string
  ld_Environment :: string
  ld_Status :: string
  ld_CreatedAt :: gotime
  ld_Username :: string

record deploy_collector =
  dy_githubToken :: string
  dy_gitlabToken :: string
  dy_githubOrg :: string
  dy_workloadRepos :: gomap

record deploy_env =
  de_client :: "nat \<Rightarrow> string \<Rightarrow> http_outcome"
  de_deployments :: "string \<Rightarrow> gh_deploy list option"
  de_statuses :: "string \<Rightarrow> string list option"
  de_comparison :: "string \<Rightarrow> gh_comparison option"
  de_gitlab :: "string \<Rightarrow> gl_deploy list option"
  de_uuid :: "nat \<Rightarrow> string"
  de_clock :: "nat \<Rightarrow> gotime"

record deploy_state =
  ds_calls :: nat
  ds_uuids :: nat
  ds_reads :: nat

definition additions :: "gh_comparison \<Rightarrow> int" where
  "additions c = fold (\<lambda>f total. wrap64 (total + fi_Additions f)) (cp_Files c) 0"

definition deletions :: "gh_comparison \<Rightarrow> int" where
  "deletions c = fold (\<lambda>f total. wrap64 (total + fi_Deletions f)) (cp_Files c) 0"

section \<open>Requests\<close>

text \<open>\<open>githubGet\<close> and \<open>gitlabGet\<close>, which differ in a header and in the text of an error.\<close>

definition api_get :: "string \<Rightarrow> deploy_env \<Rightarrow> string \<Rightarrow> deploy_state \<Rightarrow> (go_error + string) \<times> deploy_state" where
  "api_get host env url s =
     (let (r, calls, delays) = retry_http (\<lambda>e. e) (\<lambda>status. ''HTTP '' @ itoa (int status)) (\<lambda>k. de_client env (ds_calls s + k) url) 0;
          s = s\<lparr>ds_calls := ds_calls s + calls\<rparr>
      in (case r of
            Inl err \<Rightarrow> Inl err
          | Inr (status, body) \<Rightarrow>
              if status \<noteq> 200 then Inl (ErrOther (host @ '' API returned '' @ itoa (int status) @ '' for '' @ url))
              else (case body of None \<Rightarrow> Inl (ErrOther ''unexpected EOF'') | Some b \<Rightarrow> Inr b), s))"

definition fetch_deployment_status :: "deploy_env \<Rightarrow> string \<Rightarrow> deploy_state \<Rightarrow> string \<times> deploy_state" where
  "fetch_deployment_status env statusesURL s =
     (if statusesURL = [] then (''unknown'', s)
      else case api_get ''github'' env statusesURL s of
             (Inl err, s) \<Rightarrow> (''unknown'', s)
           | (Inr body, s) \<Rightarrow> (case de_statuses env body of Some (st # _) \<Rightarrow> st | _ \<Rightarrow> ''unknown'', s))"

section \<open>Evidence\<close>

definition deploy_score :: "gotime \<Rightarrow> gotime \<Rightarrow> f64" where
  "deploy_score deployTime alertTime =
     (let diff = abs_sub alertTime deployTime
      in if diff \<le> hours 1 then fl (8/10) else if diff \<le> hours 2 then fl (6/10) else fl (4/10))"

text \<open>\<open>sha[:8]\<close> where it is longer, and the first line.\<close>

definition dy_short_sha :: "string \<Rightarrow> string" where
  "dy_short_sha sha = take 8 sha"

definition dy_first_line :: "string \<Rightarrow> string" where
  "dy_first_line s = takeWhile (\<lambda>c. c \<noteq> CHR 0x0A) s"

text \<open>What every piece of evidence of this collector has.\<close>

definition new_evidence :: "collect_request \<Rightarrow> target_ref \<Rightarrow> evidence_kind \<Rightarrow> string \<Rightarrow> string \<Rightarrow> f64 \<Rightarrow> gotime \<Rightarrow> gotime \<Rightarrow>
    gomap \<Rightarrow> deploy_env \<Rightarrow> deploy_state \<Rightarrow> evidence \<times> deploy_state" where
  "new_evidence req target kind summary query score from till attrs env s =
     (\<lparr>ev_ID = de_uuid env (ds_uuids s), ev_InvestigationID = cr_InvestigationID req, ev_Kind = kind, ev_Source = ''deploy'',
       ev_Target = target, ev_CollectedAt = de_clock env (ds_reads s), ev_ObservedAtFrom = from, ev_ObservedAtTo = till,
       ev_Summary = summary, ev_BodyRef = [], ev_Query = query, ev_Score = score, ev_Attributes = attrs,
       ev_RedactionState = RedactionNone\<rparr>,
      s\<lparr>ds_uuids := Suc (ds_uuids s), ds_reads := Suc (ds_reads s)\<rparr>)"

definition compare_attributes :: "gh_comparison \<Rightarrow> string \<Rightarrow> string \<Rightarrow> gomap" where
  "compare_attributes c base head =
     Some [(''files_changed'', itoa (int (length (cp_Files c)))), (''additions'', itoa (additions c)), (''deletions'', itoa (deletions c)),
       (''commit_count'', itoa (cp_TotalCommits c)), (''compare_url'', cp_HTMLURL c), (''base_sha'', base), (''head_sha'', head)]"

definition compare_summary :: "gh_comparison \<Rightarrow> string \<Rightarrow> string \<Rightarrow> string" where
  "compare_summary c base head =
     ''Deployment diff '' @ dy_short_sha base @ ''...'' @ dy_short_sha head @ '': '' @ itoa (int (length (cp_Files c))) @ '' files changed, +'' @
     itoa (cp_AheadBy c) @ '' -'' @ itoa (cp_BehindBy c) @ '' across '' @ itoa (cp_TotalCommits c) @ '' commits''"

text \<open>Commits whose message has fewer than ten bytes are skipped.\<close>

fun commit_evidence :: "collect_request \<Rightarrow> target_ref \<Rightarrow> deploy_env \<Rightarrow> gh_commit list \<Rightarrow> deploy_state \<Rightarrow> evidence list \<times> deploy_state" where
  "commit_evidence req target env [] s = ([], s)"
| "commit_evidence req target env (c # cs) s =
     (if length (cm_Message c) < 10 then commit_evidence req target env cs s
      else
        (let (e, s) = new_evidence req target EvidenceGitChange (''Commit '' @ dy_short_sha (cm_SHA c) @ '': '' @ dy_first_line (cm_Message c)) []
               (fl (5/10)) (cr_TimeFrom req) (cr_TimeTo req)
               (Some [(''sha'', cm_SHA c), (''author'', cm_AuthorName c), (''message'', cm_Message c)]) env s;
             (es, s) = commit_evidence req target env cs s
         in (e # es, s)))"

definition compare_url :: "deploy_collector \<Rightarrow> string \<Rightarrow> string \<Rightarrow> string \<Rightarrow> string" where
  "compare_url c repo base head =
     ''https://api.github.com/repos/'' @ dy_githubOrg c @ ''/'' @ repo @ ''/compare/'' @ base @ ''...'' @ head"

definition collect_github_compare :: "deploy_collector \<Rightarrow> collect_request \<Rightarrow> target_ref \<Rightarrow> deploy_env \<Rightarrow> string \<Rightarrow> string \<Rightarrow> string \<Rightarrow>
    deploy_state \<Rightarrow> (go_error + evidence list) \<times> deploy_state" where
  "collect_github_compare c req target env repo base head s =
     (let url = compare_url c repo base head in
      case api_get ''github'' env url s of
        (Inl err, s) \<Rightarrow> (Inl err, s)
      | (Inr body, s) \<Rightarrow>
        (case de_comparison env body of
           None \<Rightarrow> (Inl (ErrOther ''decode compare''), s)
         | Some cmp \<Rightarrow>
           (let (summaryEv, s) = new_evidence req target EvidenceGitChange (compare_summary cmp base head) url (fl (7/10))
                  (cr_TimeFrom req) (cr_TimeTo req) (compare_attributes cmp base head) env s;
                (es, s) = commit_evidence req target env (cp_Commits cmp) s
            in (Inr (summaryEv # es), s))))"

definition deploy_summary :: "gh_deploy \<Rightarrow> string" where
  "deploy_summary dep = ''Deployment of '' @ dy_short_sha (dp_SHA dep) @ '' to '' @ dp_Environment dep @ '' by '' @ dp_CreatorLogin dep @
     '' at '' @ format_rfc3339 (dp_CreatedAt dep)"

definition deploy_evidence :: "collect_request \<Rightarrow> target_ref \<Rightarrow> deploy_env \<Rightarrow> string \<Rightarrow> gh_deploy \<Rightarrow> deploy_state \<Rightarrow> evidence \<times> deploy_state" where
  "deploy_evidence req target env url dep s =
     (let (status, s) = fetch_deployment_status env (dp_StatusesURL dep) s
      in new_evidence req target EvidenceDeploy (deploy_summary dep) url (deploy_score (dp_CreatedAt dep) (al_StartsAt (cr_Alert req)))
           (dp_CreatedAt dep) (dp_CreatedAt dep)
           (Some [(''sha'', dp_SHA dep), (''ref'', dp_Ref dep), (''environment'', dp_Environment dep), (''creator'', dp_CreatorLogin dep),
             (''status'', status), (''description'', dp_Description dep)]) env s)"

text \<open>The loop over the deployments, newest first, with the SHA the next comparison starts from.  A comparison that fails
  is skipped.\<close>

definition next_prev :: "gh_deploy list \<Rightarrow> string \<Rightarrow> string" where
  "next_prev deps prevSHA = (case deps of [] \<Rightarrow> prevSHA | d # _ \<Rightarrow> dp_SHA d)"

fun deployments_loop :: "deploy_collector \<Rightarrow> collect_request \<Rightarrow> target_ref \<Rightarrow> deploy_env \<Rightarrow> string \<Rightarrow> string \<Rightarrow> gh_deploy list \<Rightarrow> string \<Rightarrow>
    deploy_state \<Rightarrow> evidence list \<times> deploy_state" where
  "deployments_loop c req target env repo url [] prevSHA s = ([], s)"
| "deployments_loop c req target env repo url (dep # deps) prevSHA s =
     (if dp_CreatedAt dep < time_add (cr_TimeFrom req) (- hours 2)
      then deployments_loop c req target env repo url deps (if prevSHA = [] then dp_SHA dep else prevSHA) s
      else if dp_CreatedAt dep > cr_TimeTo req then deployments_loop c req target env repo url deps prevSHA s
      else
        (let (e, s) = deploy_evidence req target env url dep s;
             prevSHA = next_prev deps prevSHA;
             (cmp, s) = (if prevSHA \<noteq> [] \<and> prevSHA \<noteq> dp_SHA dep
               then (case collect_github_compare c req target env repo prevSHA (dp_SHA dep) s of
                       (Inl err, s) \<Rightarrow> ([], s) | (Inr es, s) \<Rightarrow> (es, s))
               else ([], s));
             (es, s) = deployments_loop c req target env repo url deps prevSHA s
         in (e # cmp @ es, s)))"

definition collect_github_deployments :: "deploy_collector \<Rightarrow> collect_request \<Rightarrow> target_ref \<Rightarrow> deploy_env \<Rightarrow> string \<Rightarrow> string \<Rightarrow>
    deploy_state \<Rightarrow> (go_error + evidence list) \<times> deploy_state" where
  "collect_github_deployments c req target env repo environment s =
     (if dy_githubToken c = [] then (Inl (ErrOther ''github token not configured''), s)
      else
        (let url = ''https://api.github.com/repos/'' @ dy_githubOrg c @ ''/'' @ repo @ ''/deployments?per_page=5&environment='' @ environment in
         case api_get ''github'' env url s of
           (Inl err, s) \<Rightarrow> (Inl err, s)
         | (Inr body, s) \<Rightarrow>
           (case de_deployments env body of
              None \<Rightarrow> (Inl (ErrOther ''decode deployments''), s)
            | Some deps \<Rightarrow> (let (es, s) = deployments_loop c req target env repo url deps [] s in (Inr es, s)))))"

section \<open>GitLab\<close>

definition gitlab_summary :: "gl_deploy \<Rightarrow> string" where
  "gitlab_summary dep = ''GitLab deployment of '' @ dy_short_sha (ld_SHA dep) @ '' to '' @ ld_Environment dep @ '' by '' @ ld_Username dep @
     '' at '' @ format_rfc3339 (ld_CreatedAt dep)"

fun gitlab_loop :: "collect_request \<Rightarrow> target_ref \<Rightarrow> deploy_env \<Rightarrow> string \<Rightarrow> gl_deploy list \<Rightarrow> deploy_state \<Rightarrow> evidence list \<times> deploy_state" where
  "gitlab_loop req target env url [] s = ([], s)"
| "gitlab_loop req target env url (dep # deps) s =
     (if ld_CreatedAt dep < time_add (cr_TimeFrom req) (- hours 2) \<or> ld_CreatedAt dep > cr_TimeTo req
      then gitlab_loop req target env url deps s
      else
        (let (e, s) = new_evidence req target EvidenceDeploy (gitlab_summary dep) url
               (deploy_score (ld_CreatedAt dep) (al_StartsAt (cr_Alert req))) (ld_CreatedAt dep) (ld_CreatedAt dep)
               (Some [(''sha'', ld_SHA dep), (''ref'', ld_Ref dep), (''environment'', ld_Environment dep), (''creator'', ld_Username dep),
                 (''status'', ld_Status dep)]) env s;
             (es, s) = gitlab_loop req target env url deps s
         in (e # es, s)))"

definition collect_gitlab_deployments :: "deploy_collector \<Rightarrow> collect_request \<Rightarrow> target_ref \<Rightarrow> deploy_env \<Rightarrow> string \<Rightarrow> string \<Rightarrow>
    deploy_state \<Rightarrow> (go_error + evidence list) \<times> deploy_state" where
  "collect_gitlab_deployments c req target env repo environment s =
     (if dy_gitlabToken c = [] then (Inl (ErrOther ''gitlab token not configured''), s)
      else
        (let url = ''https://gitlab.com/api/v4/projects/'' @ repo @ ''/deployments?per_page=5&environment='' @ environment @
               ''&order_by=created_at&sort=desc'' in
         case api_get ''gitlab'' env url s of
           (Inl err, s) \<Rightarrow> (Inl err, s)
         | (Inr body, s) \<Rightarrow>
           (case de_gitlab env body of
              None \<Rightarrow> (Inl (ErrOther ''decode gitlab deployments''), s)
            | Some deps \<Rightarrow> (let (es, s) = gitlab_loop req target env url deps s in (Inr es, s)))))"

section \<open>Collect\<close>

definition dy_resolve_repo :: "deploy_collector \<Rightarrow> target_ref \<Rightarrow> string" where
  "dy_resolve_repo c target =
     (if tr_Repo target \<noteq> [] then tr_Repo target
      else case mlookup (dy_workloadRepos c) (tr_Name target) of Some repo \<Rightarrow> repo | None \<Rightarrow> [])"

definition collect_target :: "deploy_collector \<Rightarrow> collect_request \<Rightarrow> deploy_env \<Rightarrow> target_ref \<Rightarrow> deploy_state \<Rightarrow> evidence list \<times> deploy_state" where
  "collect_target c req env target s =
     (let repo = dy_resolve_repo c target;
          environment = (if tr_Environment target = [] then ''production'' else tr_Environment target)
      in if repo = [] then ([], s)
         else case collect_github_deployments c req target env repo environment s of
                (Inr es, s) \<Rightarrow> (es, s)
              | (Inl err, s) \<Rightarrow>
                if dy_gitlabToken c \<noteq> [] then
                  (case collect_gitlab_deployments c req target env repo environment s of (Inl e, s) \<Rightarrow> ([], s) | (Inr es, s) \<Rightarrow> (es, s))
                else ([], s))"

fun deploy_collect :: "deploy_collector \<Rightarrow> collect_request \<Rightarrow> deploy_env \<Rightarrow> target_ref list \<Rightarrow> deploy_state \<Rightarrow> evidence list \<times> deploy_state" where
  "deploy_collect c req env [] s = ([], s)"
| "deploy_collect c req env (target # targets) s =
     (let (es, s) = collect_target c req env target s; (rest, s) = deploy_collect c req env targets s in (es @ rest, s))"

section \<open>Which commits are compared\<close>

text \<open>The specification: a deployment in the window is compared with the one before it in time, if there is one.\<close>

fun deployments_ref :: "deploy_collector \<Rightarrow> collect_request \<Rightarrow> target_ref \<Rightarrow> deploy_env \<Rightarrow> string \<Rightarrow> string \<Rightarrow> gh_deploy list \<Rightarrow>
    deploy_state \<Rightarrow> evidence list \<times> deploy_state" where
  "deployments_ref c req target env repo url [] s = ([], s)"
| "deployments_ref c req target env repo url (dep # deps) s =
     (if cr_TimeFrom req - hours 2 \<le> dp_CreatedAt dep \<and> dp_CreatedAt dep \<le> cr_TimeTo req then
        (let (e, s) = deploy_evidence req target env url dep s;
             (cmp, s) = (case deps of
                 d # _ \<Rightarrow> if dp_SHA d \<noteq> [] \<and> dp_SHA d \<noteq> dp_SHA dep
                   then (case collect_github_compare c req target env repo (dp_SHA d) (dp_SHA dep) s of
                           (Inl err, s) \<Rightarrow> ([], s) | (Inr es, s) \<Rightarrow> (es, s))
                   else ([], s)
               | [] \<Rightarrow> ([], s));
             (es, s) = deployments_ref c req target env repo url deps s
         in (e # cmp @ es, s))
      else deployments_ref c req target env repo url deps s)"

lemma deployments_old:
  assumes "\<And>d. d \<in> set deps \<Longrightarrow> dp_CreatedAt d < cr_TimeFrom req - hours 2"
  shows "deployments_loop c req target env repo url deps prevSHA s = ([], s)"
    "deployments_ref c req target env repo url deps s = ([], s)"
  using assms by (induction deps arbitrary: prevSHA) (auto simp: time_add_def not_le [symmetric])

lemma deployments_loop_ref:
  assumes "sorted_wrt (\<lambda>d e. dp_CreatedAt e \<le> dp_CreatedAt d) deps"
    and "prevSHA = [] \<or> (case deps of [] \<Rightarrow> True | d # _ \<Rightarrow> prevSHA = dp_SHA d \<and> dp_CreatedAt d \<le> cr_TimeTo req)"
  shows "deployments_loop c req target env repo url deps prevSHA s = deployments_ref c req target env repo url deps s"
  using assms
proof (induction deps arbitrary: prevSHA s)
  case (Cons dep deps)
  let ?old = "dp_CreatedAt dep < cr_TimeFrom req - hours 2"
  consider "?old" | "\<not> ?old" "dp_CreatedAt dep > cr_TimeTo req" | "\<not> ?old" "dp_CreatedAt dep \<le> cr_TimeTo req" by linarith
  then show ?case
  proof cases
    case 1
    then have "dp_CreatedAt d < cr_TimeFrom req - hours 2" if "d \<in> set deps" for d using Cons.prems(1) that by force
    with 1 show ?thesis by (simp add: time_add_def deployments_old)
  next
    case 2
    then have "prevSHA = []" using Cons.prems(2) by auto
    with 2 Cons.IH [of "[]" s] Cons.prems(1) show ?thesis by (simp add: time_add_def)
  next
    case 3
    have next_ok: "next_prev deps prevSHA = [] \<or> (case deps of [] \<Rightarrow> True | d # _ \<Rightarrow> next_prev deps prevSHA = dp_SHA d \<and> dp_CreatedAt d \<le> cr_TimeTo req)"
      using Cons.prems(1) 3 by (force simp: next_prev_def split: list.split)
    have cmp: "(case deps of
          d # _ \<Rightarrow> if dp_SHA d \<noteq> [] \<and> dp_SHA d \<noteq> dp_SHA dep
            then (case collect_github_compare c req target env repo (dp_SHA d) (dp_SHA dep) s' of
                    (Inl err, s) \<Rightarrow> ([], s) | (Inr es, s) \<Rightarrow> (es, s))
            else ([], s')
        | [] \<Rightarrow> ([], s')) =
        (if next_prev deps prevSHA \<noteq> [] \<and> next_prev deps prevSHA \<noteq> dp_SHA dep
         then (case collect_github_compare c req target env repo (next_prev deps prevSHA) (dp_SHA dep) s' of
                 (Inl err, s) \<Rightarrow> ([], s) | (Inr es, s) \<Rightarrow> (es, s))
         else ([], s'))" for s'
      using Cons.prems(2) by (cases deps) (auto simp: next_prev_def)
    have rest: "deployments_loop c req target env repo url deps (next_prev deps prevSHA) s' = deployments_ref c req target env repo url deps s'" for s'
      using Cons.IH [OF _ next_ok] Cons.prems(1) by simp
    show ?thesis using 3 by (simp add: time_add_def cmp rest Let_def)
  qed
qed simp

text \<open>C38: Over deployments listed newest first, as GitHub lists them, the collector reports each one in the window and compares it
  with the one deployed just before it and with no other: carrying the last SHA from one deployment to the next
  gives what comparing neighbours gives.\<close>

theorem deployments_compare_neighbours:
  assumes "sorted_wrt (\<lambda>d e. dp_CreatedAt e \<le> dp_CreatedAt d) deps"
  shows "deployments_loop c req target env repo url deps [] s = deployments_ref c req target env repo url deps s"
  using assms by (rule deployments_loop_ref) simp

definition sample_deploys :: "gh_deploy list" where
  "sample_deploys = map (\<lambda>(sha, t). \<lparr>dp_SHA = sha, dp_Ref = ''main'', dp_Environment = ''production'', dp_Description = [],
     dp_CreatedAt = hours t, dp_CreatorLogin = ''ann'', dp_StatusesURL = []\<rparr>) [(''c3'', 12), (''c2'', 10), (''c1'', 1)]"

definition sample_deploy_env :: deploy_env where
  "sample_deploy_env = \<lparr>de_client = (\<lambda>n url. Response 200 [] (Some url)), de_deployments = (\<lambda>b. Some sample_deploys),
     de_statuses = (\<lambda>b. None), de_comparison = (\<lambda>b. Some \<lparr>cp_HTMLURL = b, cp_AheadBy = 1, cp_BehindBy = 0, cp_TotalCommits = 1,
       cp_Commits = [], cp_Files = []\<rparr>),
     de_gitlab = (\<lambda>b. None), de_uuid = (\<lambda>n. ''u'' @ itoa (int n)), de_clock = (\<lambda>n. hours 13)\<rparr>"

definition sample_deploy_request :: collect_request where
  "sample_deploy_request = \<lparr>cr_InvestigationID = ''i1'', cr_Alert = normalized_alert0, cr_Targets = [], cr_TimeFrom = hours 10, cr_TimeTo = hours 11\<rparr>"

definition sample_collector :: deploy_collector where
  "sample_collector = \<lparr>dy_githubToken = ''t'', dy_gitlabToken = [], dy_githubOrg = ''acme'', dy_workloadRepos = None\<rparr>"

definition sample_deploy_state :: deploy_state where
  "sample_deploy_state = \<lparr>ds_calls = 0, ds_uuids = 0, ds_reads = 0\<rparr>"

theorem deployments_compare_neighbours_witness:
  "map (\<lambda>e. mget (ev_Attributes e) ''base_sha'' @ mget (ev_Attributes e) ''head_sha'')
     (fst (deployments_ref sample_collector sample_deploy_request target_ref0 sample_deploy_env ''shop'' ''u'' sample_deploys sample_deploy_state)) = [[], ''c1c2'']"
proof -
  have sorted: "sorted_wrt (\<lambda>d e. dp_CreatedAt e \<le> dp_CreatedAt d) sample_deploys" by (simp add: sample_deploys_def hours_def)
  have "map (\<lambda>e. mget (ev_Attributes e) ''base_sha'' @ mget (ev_Attributes e) ''head_sha'')
     (fst (deployments_loop sample_collector sample_deploy_request target_ref0 sample_deploy_env ''shop'' ''u'' sample_deploys [] sample_deploy_state)) = [[], ''c1c2'']"
    by code_simp
  then show ?thesis unfolding deployments_compare_neighbours [OF sorted] .
qed

text \<open>A firing alert without a start time, as every alert requested in Slack, is near every deployment: the difference
  of the two instants is the most negative duration, whose negation is negative again.\<close>

lemma deploy_score_no_start: "2 ^ 63 \<le> deployTime \<Longrightarrow> deploy_score deployTime 0 = fl (8/10)"
  using abs_sub_early [of 0 deployTime] by (simp add: deploy_score_def duration_bounds hours_def)

end
