(* ===== verification/LokiCollector.thy ===== *)
theory LokiCollector
  imports GitProvider
begin

text \<open>
  \<open>internal/collector/loki/collector.go\<close>: log lines as evidence.  The queries of all targets run concurrently, so the
  evidence comes in the order they finish, which is an argument.  The client, the decoding of the JSON of a
  response and the UUIDs and the clock of each query are fields of the environment.  \<open>None\<close> is a panic.
\<close>

record log_query =
  lq_name :: string
  lq_expr :: string
  lq_score :: f64

record loki_stream =
  lt_Stream :: gomap
  lt_Values :: "string list list"

record loki_env =
  le_baseURL :: string
  le_client :: "string \<Rightarrow> http_outcome"
  le_decode :: "string \<Rightarrow> (string \<times> loki_stream list) option"
  le_uuid :: "string \<Rightarrow> nat \<Rightarrow> string"
  le_clock :: "string \<Rightarrow> gotime"

definition score_fatal :: f64 where "score_fatal = fl (9/10)"
definition score_error :: f64 where "score_error = fl (7/10)"
definition score_warning :: f64 where "score_warning = fl (4/10)"

section \<open>Queries\<close>

definition loki_selector :: "target_ref \<Rightarrow> string" where
  "loki_selector target = ''{namespace='' @ quoted (tr_Namespace target) @
     (if tr_Name target \<noteq> [] then '',app='' @ quoted (tr_Name target) else []) @ ''}''"

definition build_log_queries :: "target_ref \<Rightarrow> log_query list" where
  "build_log_queries target =
     [\<lparr>lq_name = ''error_logs'', lq_expr = loki_selector target @ '' |= '' @ quoted ''error'' @ '' or |= '' @ quoted ''Error'' @
        '' or |= '' @ quoted ''ERROR'', lq_score = score_error\<rparr>,
      \<lparr>lq_name = ''fatal_panic'', lq_expr = loki_selector target @ '' |~ '' @ quoted ''(?i)(fatal|panic|exception|oom|killed)'',
        lq_score = score_fatal\<rparr>,
      \<lparr>lq_name = ''stack_traces'', lq_expr = loki_selector target @ '' |~ '' @ quoted ''goroutine|stacktrace|Traceback'',
        lq_score = score_fatal\<rparr>]"

definition epoch :: gotime where "epoch = 719162 * day_ns"

definition unix_nano :: "gotime \<Rightarrow> int" where "unix_nano t = wrap64 (t - epoch)"

text \<open>\<open>url.Values.Encode\<close> sorts by key.\<close>

definition loki_url :: "loki_env \<Rightarrow> collect_request \<Rightarrow> log_query \<Rightarrow> string" where
  "loki_url env req q = le_baseURL env @ ''/loki/api/v1/query_range?end='' @ query_escape (itoa (unix_nano (cr_TimeTo req))) @
     ''&limit=500&query='' @ query_escape (lq_expr q) @ ''&start='' @ query_escape (itoa (unix_nano (cr_TimeFrom req)))"

section \<open>Streams\<close>

fun extract_lines :: "string list list \<Rightarrow> string" where
  "extract_lines [] = []"
| "extract_lines (pair # values) = (case pair of a # b # _ \<Rightarrow> b @ nl @ extract_lines values | _ \<Rightarrow> extract_lines values)"

definition score_for_content :: "string \<Rightarrow> f64 \<Rightarrow> f64" where
  "score_for_content content base =
     (let lower = to_lower content in
      if str_contains lower ''fatal'' \<or> str_contains lower ''panic'' \<or> str_contains lower ''oomkilled'' then score_fatal
      else if str_contains lower ''error'' \<or> str_contains lower ''exception'' then (if base > score_error then base else score_error)
      else if str_contains lower ''warning'' \<or> str_contains lower ''warn'' then (if base > score_warning then base else score_warning)
      else base)"

definition parse_nano_timestamp :: "string \<Rightarrow> gotime option" where
  "parse_nano_timestamp s = (case parse_int s of (ns, None) \<Rightarrow> Some (epoch + ns) | (ns, Some err) \<Rightarrow> None)"

definition truncate_body :: "string \<Rightarrow> nat \<Rightarrow> string" where
  "truncate_body s maxBytes = (if length s \<le> maxBytes then s else take maxBytes s @ nl @ ''... truncated ...'')"

text \<open>\<open>values[0][0]\<close> and \<open>values[len(values)-1][0]\<close>.\<close>

definition first_stamp :: "string list list \<Rightarrow> string option" where
  "first_stamp values = (case hd values of [] \<Rightarrow> None | s # _ \<Rightarrow> Some s)"

definition last_stamp :: "string list list \<Rightarrow> string option" where
  "last_stamp values = (case last values of [] \<Rightarrow> None | s # _ \<Rightarrow> Some s)"

definition stream_evidence :: "loki_env \<Rightarrow> collect_request \<Rightarrow> target_ref \<Rightarrow> log_query \<Rightarrow> string \<Rightarrow> loki_stream \<Rightarrow> evidence option" where
  "stream_evidence env req target q i stream =
     (case (first_stamp (lt_Values stream), last_stamp (lt_Values stream)) of
        (Some first, Some latest) \<Rightarrow>
          (let lines = extract_lines (lt_Values stream) in
           Some \<lparr>ev_ID = i, ev_InvestigationID = cr_InvestigationID req, ev_Kind = EvidenceLog, ev_Source = ''loki'', ev_Target = target,
             ev_CollectedAt = le_clock env (lq_expr q),
             ev_ObservedAtFrom = (case parse_nano_timestamp first of Some t \<Rightarrow> t | None \<Rightarrow> cr_TimeFrom req),
             ev_ObservedAtTo = (case parse_nano_timestamp latest of Some t \<Rightarrow> t | None \<Rightarrow> cr_TimeTo req),
             ev_Summary = ''['' @ tr_Name target @ ''] '' @ itoa (int (length (lt_Values stream))) @ '' '' @ lq_name q @ '' log lines from '' @
               tr_Namespace target,
             ev_BodyRef = truncate_body lines 8192, ev_Query = lq_expr q, ev_Score = score_for_content lines (lq_score q),
             ev_Attributes = Some (fold (\<lambda>(k, v) m. AList.update (''stream.'' @ k) v m) (mentries (lt_Stream stream))
               [(''query'', lq_name q), (''log_count'', itoa (int (length (lt_Values stream))))]),
             ev_RedactionState = RedactionNone\<rparr>)
      | _ \<Rightarrow> None)"

text \<open>A stream without lines is skipped; \<open>n\<close> is the number of UUIDs drawn.\<close>

fun parse_streams :: "loki_env \<Rightarrow> collect_request \<Rightarrow> target_ref \<Rightarrow> log_query \<Rightarrow> nat \<Rightarrow> loki_stream list \<Rightarrow> evidence list option" where
  "parse_streams env req target q n [] = Some []"
| "parse_streams env req target q n (stream # streams) =
     (if lt_Values stream = [] then parse_streams env req target q n streams
      else case stream_evidence env req target q (le_uuid env (lq_expr q) n) stream of
             None \<Rightarrow> None
           | Some e \<Rightarrow> map_option (Cons e) (parse_streams env req target q (Suc n) streams))"

definition loki_execute_query :: "loki_env \<Rightarrow> collect_request \<Rightarrow> target_ref \<Rightarrow> log_query \<Rightarrow> (go_error + evidence list) option" where
  "loki_execute_query env req target q =
     (case le_client env (loki_url env req q) of
        BadURL e \<Rightarrow> Some (Inl (ErrOther (''build request: '' @ e)))
      | NetError e \<Rightarrow> Some (Inl (ErrOther (''loki request: '' @ e)))
      | Response status ra None \<Rightarrow> Some (Inl (ErrOther ''read response''))
      | Response status ra (Some body) \<Rightarrow>
          if status \<noteq> 200 then Some (Inl (ErrOther (''loki returned '' @ itoa (int status) @ '': '' @ body)))
          else (case le_decode env body of
              None \<Rightarrow> Some (Inl (ErrOther ''decode response''))
            | Some (status, streams) \<Rightarrow>
                if status \<noteq> ''success'' then Some (Inl (ErrOther (''loki query status: '' @ status)))
                else map_option Inr (parse_streams env req target q 0 streams)))"

section \<open>Collect\<close>

definition loki_tasks :: "collect_request \<Rightarrow> (target_ref \<times> log_query) list" where
  "loki_tasks req = concat (map (\<lambda>target. map (Pair target) (build_log_queries target)) (cr_Targets req))"

text \<open>The queries in the order they finish, a permutation of \<open>loki_tasks req\<close>; a failing query is logged and dropped.\<close>

fun loki_collect :: "loki_env \<Rightarrow> collect_request \<Rightarrow> (target_ref \<times> log_query) list \<Rightarrow> evidence list option" where
  "loki_collect env req [] = Some []"
| "loki_collect env req ((target, q) # order) =
     (case loki_execute_query env req target q of
        None \<Rightarrow> None
      | Some (Inl err) \<Rightarrow> loki_collect env req order
      | Some (Inr ev) \<Rightarrow> map_option (\<lambda>rest. ev @ rest) (loki_collect env req order))"

section \<open>What the evidence is like\<close>

lemma score_constants: "score_warning < score_error" "score_error < score_fatal" "0 < score_warning" "score_fatal < 1"
  unfolding score_fatal_def score_error_def score_warning_def by code_simp+

lemma score_for_content_range:
  "base \<in> {score_error, score_fatal} \<Longrightarrow> score_for_content content base \<in> {score_error, score_fatal}"
  using score_constants by (auto simp: score_for_content_def Let_def)

definition loki_evidence_ok :: "collect_request \<Rightarrow> evidence \<Rightarrow> bool" where
  "loki_evidence_ok req e =
     (ev_Kind e = EvidenceLog \<and> ev_Source e = ''loki'' \<and> ev_InvestigationID e = cr_InvestigationID req \<and> ev_Target e \<in> set (cr_Targets req) \<and>
      ev_Score e \<in> {score_error, score_fatal} \<and> ev_RedactionState e = RedactionNone \<and> length (ev_BodyRef e) \<le> 8210)"

lemma truncate_body_length: "length (truncate_body s n) \<le> n + 18"
  by (simp add: truncate_body_def nl_def)

lemma stream_evidence_ok:
  assumes "stream_evidence env req target q i stream = Some e" "target \<in> set (cr_Targets req)" "q \<in> set (build_log_queries target)"
  shows "loki_evidence_ok req e"
proof -
  have "lq_score q \<in> {score_error, score_fatal}" using assms(3) by (auto simp: build_log_queries_def)
  then show ?thesis
    using assms(1,2) truncate_body_length [of "extract_lines (lt_Values stream)" 8192] score_for_content_range [of "lq_score q" "extract_lines (lt_Values stream)"]
    by (auto simp: stream_evidence_def loki_evidence_ok_def Let_def split: option.splits)
qed

lemma parse_streams_ok:
  assumes "parse_streams env req target q n streams = Some es" "target \<in> set (cr_Targets req)" "q \<in> set (build_log_queries target)"
  shows "list_all (loki_evidence_ok req) es"
  using assms(1)
proof (induction streams arbitrary: n es)
  case (Cons stream streams)
  then show ?case using stream_evidence_ok [OF _ assms(2,3)] by (fastforce split: if_splits option.splits)
qed simp

lemma loki_collect_ok:
  assumes "loki_collect env req order = Some es" "set order \<subseteq> set (loki_tasks req)"
  shows "list_all (loki_evidence_ok req) es"
  using assms
proof (induction order arbitrary: es)
  case (Cons task order)
  obtain target q where task: "task = (target, q)" by fastforce
  have ts: "target \<in> set (cr_Targets req)" "q \<in> set (build_log_queries target)" "set order \<subseteq> set (loki_tasks req)"
    using Cons.prems(2) by (auto simp: task loki_tasks_def)
  have query: "list_all (loki_evidence_ok req) ev" if "loki_execute_query env req target q = Some (Inr ev)" for ev
    using that parse_streams_ok [OF _ ts(1,2)]
    by (auto simp: loki_execute_query_def split: http_outcome.splits option.splits if_splits)
  show ?case using Cons.prems(1) Cons.IH [OF _ ts(3)] query by (auto simp: task split: option.splits sum.splits)
qed simp

text \<open>Loki lists the lines of a stream newest first unless a query says otherwise, and these queries do not: the
  interval of the evidence then ends where it should begin.\<close>

lemma loki_interval_inverted:
  assumes "stream_evidence env req target q i stream = Some e"
    and "first_stamp (lt_Values stream) = Some a" "parse_nano_timestamp a = Some newest"
    and "last_stamp (lt_Values stream) = Some b" "parse_nano_timestamp b = Some oldest" "oldest < newest"
  shows "ev_ObservedAtTo e < ev_ObservedAtFrom e"
  using assms by (auto simp: stream_evidence_def Let_def)

end
