(* ===== verification/KubernetesCollector.thy ===== *)
theory KubernetesCollector
  imports Contracts
begin

text \<open>
  \<open>internal/collector/kubernetes/collector.go\<close>: the state of pods, the logs of their previous containers and the events
  as evidence.  The cluster is an argument: what the API answers to a list of pods or events (namespace and
  selector) and to a request for logs (namespace, pod and container).  Targets are collected concurrently; the
  order they finish in, the UUIDs and the clock of each are arguments as well.
\<close>

record container_status =
  cn_Name :: string
  cn_Waiting :: "string option"
  cn_LastTerminated :: "string option"
  cn_Terminated :: "string option"
  cn_RestartCount :: int
  cn_Ready :: bool

record pod =
  po_Name :: string
  po_Namespace :: string
  po_Phase :: string
  po_Containers :: "container_status list"

record k8s_event =
  ke_Type :: string
  ke_Reason :: string
  ke_Message :: string
  ke_Count :: int
  ke_ObjectKind :: string
  ke_ObjectName :: string
  ke_FirstTimestamp :: gotime
  ke_LastTimestamp :: gotime

record cluster =
  ku_pods :: "string \<Rightarrow> string \<Rightarrow> go_error + pod list"
  ku_events :: "string \<Rightarrow> string \<Rightarrow> go_error + k8s_event list"
  ku_logs :: "string \<Rightarrow> string \<Rightarrow> string \<Rightarrow> go_error + string"
  ku_uuid :: "target_ref \<Rightarrow> nat \<Rightarrow> string"
  ku_now :: "target_ref \<Rightarrow> nat \<Rightarrow> gotime"

definition score_oom_killed :: f64 where "score_oom_killed = fl (9/10)"
definition score_crash_loop :: f64 where "score_crash_loop = fl (85/100)"
definition k8s_score_warning :: f64 where "k8s_score_warning = fl (6/10)"
definition score_info_event :: f64 where "score_info_event = fl (3/10)"
definition score_pod_not_ready :: f64 where "score_pod_not_ready = fl (5/10)"

definition is_k8s_target :: "target_ref \<Rightarrow> bool" where
  "is_k8s_target t = (tr_Kind t = ''k8s.deployment'' \<or> tr_Kind t = ''k8s.pod'' \<or> tr_Kind t = ''service'')"

definition build_label_selector :: "target_ref \<Rightarrow> string" where
  "build_label_selector target = (if tr_Kind target = ''k8s.pod'' then [] else ''app='' @ tr_Name target)"

definition event_field_selector :: "target_ref \<Rightarrow> string" where
  "event_field_selector target = ''involvedObject.namespace='' @ tr_Namespace target @
     (if tr_Kind target = ''k8s.pod'' then '',involvedObject.name='' @ tr_Name target else [])"

section \<open>Evidence\<close>

text \<open>Every piece of this collector; \<open>n\<close> is the number of UUIDs drawn for the target so far.\<close>

definition k8s_evidence :: "cluster \<Rightarrow> collect_request \<Rightarrow> target_ref \<Rightarrow> nat \<Rightarrow> gotime \<Rightarrow> evidence_kind \<Rightarrow> gotime \<Rightarrow> gotime \<Rightarrow> string \<Rightarrow>
    string \<Rightarrow> f64 \<Rightarrow> gomap \<Rightarrow> evidence" where
  "k8s_evidence cl req target n t kind from till summary body score attrs =
     \<lparr>ev_ID = ku_uuid cl target n, ev_InvestigationID = cr_InvestigationID req, ev_Kind = kind, ev_Source = ''kubernetes'',
      ev_Target = target, ev_CollectedAt = t, ev_ObservedAtFrom = from, ev_ObservedAtTo = till, ev_Summary = summary,
      ev_BodyRef = body, ev_Query = [], ev_Score = score, ev_Attributes = attrs, ev_RedactionState = RedactionNone\<rparr>"

definition container_state :: "container_status \<Rightarrow> (string \<times> f64) option" where
  "container_state c =
     (if cn_Waiting c = Some ''CrashLoopBackOff''
      then Some (''Container '' @ cn_Name c @ '' in CrashLoopBackOff (restarts: '' @ itoa (cn_RestartCount c) @ '')'', score_crash_loop)
      else if cn_LastTerminated c = Some ''OOMKilled''
      then Some (''Container '' @ cn_Name c @ '' OOMKilled (restarts: '' @ itoa (cn_RestartCount c) @ '')'', score_oom_killed)
      else if cn_Terminated c = Some ''OOMKilled'' then Some (''Container '' @ cn_Name c @ '' currently OOMKilled'', score_oom_killed)
      else if cn_RestartCount c > 0
      then Some (''Container '' @ cn_Name c @ '' has restarted '' @ itoa (cn_RestartCount c) @ '' times'', score_pod_not_ready)
      else if \<not> cn_Ready c then Some (''Container '' @ cn_Name c @ '' not ready'', score_pod_not_ready)
      else None)"

fun pod_state_loop :: "cluster \<Rightarrow> collect_request \<Rightarrow> target_ref \<Rightarrow> pod \<Rightarrow> gotime \<Rightarrow> container_status list \<Rightarrow> nat \<Rightarrow> evidence list \<times> nat" where
  "pod_state_loop cl req target pod t [] n = ([], n)"
| "pod_state_loop cl req target pod t (c # cs) n =
     (case container_state c of
        None \<Rightarrow> pod_state_loop cl req target pod t cs n
      | Some (summary, score) \<Rightarrow>
          (let (es, m) = pod_state_loop cl req target pod t cs (Suc n) in
           (k8s_evidence cl req target n t EvidenceK8sState (cr_TimeFrom req) (cr_TimeTo req) (''[pod/'' @ po_Name pod @ ''] '' @ summary) []
              score (Some [(''pod'', po_Name pod), (''container'', cn_Name c), (''restart_count'', itoa (cn_RestartCount c)),
                (''phase'', po_Phase pod)]) # es, m)))"

fun previous_log_loop :: "cluster \<Rightarrow> collect_request \<Rightarrow> target_ref \<Rightarrow> pod \<Rightarrow> gotime \<Rightarrow> container_status list \<Rightarrow> nat \<Rightarrow> evidence list \<times> nat" where
  "previous_log_loop cl req target pod t [] n = ([], n)"
| "previous_log_loop cl req target pod t (c # cs) n =
     (case (if cn_RestartCount c = 0 then Inr [] else ku_logs cl (po_Namespace pod) (po_Name pod) (cn_Name c)) of
        Inl err \<Rightarrow> previous_log_loop cl req target pod t cs n
      | Inr logs \<Rightarrow>
          if length logs = 0 then previous_log_loop cl req target pod t cs n
          else
            (let (es, m) = previous_log_loop cl req target pod t cs (Suc n) in
             (k8s_evidence cl req target n t EvidenceLog (cr_TimeFrom req) (cr_TimeTo req)
                (''[pod/'' @ po_Name pod @ ''] Previous container logs for '' @ cn_Name c @ '' ('' @ itoa (cn_RestartCount c) @ '' restarts)'')
                logs score_pod_not_ready (Some [(''pod'', po_Name pod), (''container'', cn_Name c)]) # es, m)))"

fun event_loop :: "cluster \<Rightarrow> collect_request \<Rightarrow> target_ref \<Rightarrow> gotime \<Rightarrow> k8s_event list \<Rightarrow> nat \<Rightarrow> evidence list" where
  "event_loop cl req target t [] n = []"
| "event_loop cl req target t (e # es) n =
     (if ke_LastTimestamp e < cr_TimeFrom req then event_loop cl req target t es n
      else k8s_evidence cl req target n t EvidenceEvent (ke_FirstTimestamp e) (ke_LastTimestamp e)
             (''['' @ ke_ObjectName e @ ''] '' @ ke_Reason e @ '': '' @ ke_Message e @ '' (x'' @ itoa (ke_Count e) @ '')'') []
             (if ke_Type e = ''Warning'' then k8s_score_warning else score_info_event)
             (Some [(''reason'', ke_Reason e), (''type'', ke_Type e), (''object'', ke_ObjectKind e @ ''/'' @ ke_ObjectName e),
               (''count'', itoa (ke_Count e))]) # event_loop cl req target t es (Suc n))"

section \<open>Collect\<close>

text \<open>The pods one after the other; \<open>k\<close> counts the readings of the clock.\<close>

fun pods_loop :: "cluster \<Rightarrow> collect_request \<Rightarrow> target_ref \<Rightarrow> pod list \<Rightarrow> nat \<Rightarrow> nat \<Rightarrow> evidence list \<times> nat \<times> nat" where
  "pods_loop cl req target [] k n = ([], k, n)"
| "pods_loop cl req target (p # ps) k n =
     (let (es, n) = pod_state_loop cl req target p (ku_now cl target k) (po_Containers p) n;
          (logs, n) = previous_log_loop cl req target p (ku_now cl target (k + 1)) (po_Containers p) n;
          (rest, k, n) = pods_loop cl req target ps (k + 2) n
      in (es @ logs @ rest, k, n))"

definition collect_for_target :: "cluster \<Rightarrow> collect_request \<Rightarrow> target_ref \<Rightarrow> go_error + evidence list" where
  "collect_for_target cl req target =
     (case ku_pods cl (tr_Namespace target) (build_label_selector target) of
        Inl err \<Rightarrow> Inl err
      | Inr pods \<Rightarrow>
        (let (es, k, n) = pods_loop cl req target pods 0 0 in
         case ku_events cl (tr_Namespace target) (event_field_selector target) of
           Inl err \<Rightarrow> Inr es
         | Inr events \<Rightarrow> Inr (es @ event_loop cl req target (ku_now cl target k) events n)))"

text \<open>The targets in the order they finish, a permutation of the Kubernetes targets of the request; a failing one is dropped.\<close>

definition k8s_targets :: "collect_request \<Rightarrow> target_ref list" where
  "k8s_targets req = filter is_k8s_target (cr_Targets req)"

definition k8s_collect :: "cluster \<Rightarrow> collect_request \<Rightarrow> target_ref list \<Rightarrow> evidence list" where
  "k8s_collect cl req order = concat (map (\<lambda>target. case collect_for_target cl req target of Inl err \<Rightarrow> [] | Inr es \<Rightarrow> es) order)"

section \<open>What the evidence is about\<close>

definition reports :: "target_ref \<Rightarrow> pod \<Rightarrow> container_status \<Rightarrow> f64 \<Rightarrow> evidence \<Rightarrow> bool" where
  "reports target p c score e = (ev_Target e = target \<and> ev_Kind e = EvidenceK8sState \<and> mget (ev_Attributes e) ''pod'' = po_Name p \<and>
     mget (ev_Attributes e) ''container'' = cn_Name c \<and> ev_Score e = score)"

lemma pod_state_loop_complete:
  "c \<in> set cs \<Longrightarrow> container_state c = Some (summary, score) \<Longrightarrow>
    \<exists>e \<in> set (fst (pod_state_loop cl req target p t cs n)). reports target p c score e"
proof (induction cs arbitrary: n)
  case (Cons d cs)
  show ?case
  proof (cases "c = d")
    case True
    with Cons.prems show ?thesis by (auto simp: k8s_evidence_def mget_def reports_def Let_def split: prod.split)
  next
    case False
    with Cons have later: "\<exists>e \<in> set (fst (pod_state_loop cl req target p t cs m)). reports target p c score e" for m by simp
    obtain es m where "pod_state_loop cl req target p t cs (Suc n) = (es, m)" by fastforce
    then show ?thesis using later [of n] later [of "Suc n"] by (cases "container_state d") auto
  qed
qed simp

lemma pods_loop_complete:
  "p \<in> set pods \<Longrightarrow> c \<in> set (po_Containers p) \<Longrightarrow> container_state c = Some (summary, score) \<Longrightarrow>
    \<exists>e \<in> set (fst (pods_loop cl req target pods k n)). reports target p c score e"
proof (induction pods arbitrary: k n)
  case (Cons q pods)
  obtain es n1 where 1: "pod_state_loop cl req target q (ku_now cl target k) (po_Containers q) n = (es, n1)" by fastforce
  obtain ls n2 where 2: "previous_log_loop cl req target q (ku_now cl target (k + 1)) (po_Containers q) n1 = (ls, n2)" by fastforce
  obtain rest k3 n3 where 3: "pods_loop cl req target pods (k + 2) n2 = (rest, k3, n3)" by (metis prod_cases3)
  have all: "fst (pods_loop cl req target (q # pods) k n) = es @ ls @ rest" using 1 2 3 by simp
  show ?case
  proof (cases "p = q")
    case True
    with Cons.prems have "\<exists>e \<in> set (fst (pod_state_loop cl req target q (ku_now cl target k) (po_Containers q) n)). reports target p c score e"
      using pod_state_loop_complete [of c "po_Containers q" summary score cl req target q] by simp
    then show ?thesis unfolding all 1 by auto
  next
    case False
    with Cons have "\<exists>e \<in> set (fst (pods_loop cl req target pods (k + 2) n2)). reports target p c score e" by simp
    then show ?thesis unfolding all 3 by auto
  qed
qed simp

text \<open>For a target that is one pod the collector reports on every pod of its namespace: a container that restarts, crashes or is
  not ready in any of them becomes evidence for this target, with the full score, whatever its own name.\<close>

theorem pod_target_takes_namespace:
  assumes "tr_Kind target = ''k8s.pod''" "target \<in> set order"
    and "ku_pods cl (tr_Namespace target) [] = Inr pods" "p \<in> set pods"
    and "c \<in> set (po_Containers p)" "container_state c = Some (summary, score)"
  shows "\<exists>e \<in> set (k8s_collect cl req order). reports target p c score e"
proof -
  obtain es k n where loop: "pods_loop cl req target pods 0 0 = (es, k, n)" by (metis prod_cases3)
  have "\<exists>all. collect_for_target cl req target = Inr all \<and> set es \<subseteq> set all"
    using assms(1,3) by (auto simp: collect_for_target_def build_label_selector_def loop split: sum.split)
  moreover obtain e where "e \<in> set es" "reports target p c score e"
    using pods_loop_complete [OF assms(4-6), of cl req target 0 0] loop by auto
  ultimately show ?thesis using assms(2) by (force simp: k8s_collect_def)
qed

definition sample_cluster :: cluster where
  "sample_cluster = \<lparr>ku_pods = (\<lambda>ns sel. Inr [\<lparr>po_Name = ''cart-7'', po_Namespace = ns, po_Phase = ''Running'',
       po_Containers = [\<lparr>cn_Name = ''app'', cn_Waiting = Some ''CrashLoopBackOff'', cn_LastTerminated = None, cn_Terminated = None,
         cn_RestartCount = 4, cn_Ready = False\<rparr>]\<rparr>]),
     ku_events = (\<lambda>ns sel. Inl ErrUnavailable), ku_logs = (\<lambda>ns p c. Inr []), ku_uuid = (\<lambda>t n. itoa (int n)), ku_now = (\<lambda>t n. 0)\<rparr>"

theorem pod_target_takes_namespace_witness:
  "\<forall>req. \<exists>e \<in> set (k8s_collect sample_cluster req [target_ref0\<lparr>tr_Kind := ''k8s.pod'', tr_Namespace := ''shop'', tr_Name := ''payments-1''\<rparr>]).
     mget (ev_Attributes e) ''pod'' = ''cart-7''"
proof (intro allI)
  fix req
  let ?t = "target_ref0\<lparr>tr_Kind := ''k8s.pod'', tr_Namespace := ''shop'', tr_Name := ''payments-1''\<rparr>"
  obtain p where pods: "ku_pods sample_cluster (tr_Namespace ?t) [] = Inr [p]" and name: "po_Name p = ''cart-7''"
    and c: "\<exists>c \<in> set (po_Containers p). container_state c \<noteq> None"
    by (simp add: sample_cluster_def container_state_def)
  from c obtain c summary score where "c \<in> set (po_Containers p)" "container_state c = Some (summary, score)" by auto
  from pod_target_takes_namespace [OF _ _ pods _ this, of "[?t]" req] name
  show "\<exists>e \<in> set (k8s_collect sample_cluster req [?t]). mget (ev_Attributes e) ''pod'' = ''cart-7''" by (auto simp: reports_def)
qed

end
