(* ===== verification/PrometheusCollector.thy ===== *)
theory PrometheusCollector
  imports Contracts Entity
begin

text \<open>
  \<open>internal/collector/prometheus/collector.go\<close>: metrics as evidence.  The client is an argument: a range query gives an error
  or the sample values of the series of a matrix (\<open>[]\<close> also stands for a result of another type); the values are
  finite.  The queries run concurrently, and the order they finish in is an argument, with a UUID and a time for each.
\<close>

definition score_anomaly :: f64 where "score_anomaly = fl (8/10)"
definition score_elevated :: f64 where "score_elevated = fl (5/10)"
definition score_normal :: f64 where "score_normal = fl (2/10)"

record metric_query =
  mq_name :: string
  mq_expr :: string

record prom_env =
  pe_query :: "string \<Rightarrow> gotime \<Rightarrow> gotime \<Rightarrow> go_error + f64 list list"
  pe_uuid :: "string \<Rightarrow> string"
  pe_clock :: "string \<Rightarrow> gotime"

section \<open>Queries\<close>

definition pod_selector :: "target_ref \<Rightarrow> string" where
  "pod_selector target = ''{namespace='' @ quoted (tr_Namespace target) @ '',pod=~'' @ quoted (tr_Name target @ ''.*'') @ ''}''"

definition build_queries :: "target_ref \<Rightarrow> gomap \<Rightarrow> metric_query list" where
  "build_queries target labels =
     (let svc = first_label labels [''service'', ''job''] in
      [\<lparr>mq_name = ''cpu_usage'', mq_expr = ''rate(container_cpu_usage_seconds_total'' @ pod_selector target @ ''[5m])''\<rparr>,
       \<lparr>mq_name = ''memory_usage'', mq_expr = ''container_memory_working_set_bytes'' @ pod_selector target\<rparr>,
       \<lparr>mq_name = ''restart_count'', mq_expr = ''kube_pod_container_status_restarts_total'' @ pod_selector target\<rparr>] @
      (if svc \<noteq> [] then [\<lparr>mq_name = ''error_rate'', mq_expr = ''rate(http_requests_total{service='' @ quoted svc @
          '',code=~'' @ quoted ''5..'' @ ''}[5m])''\<rparr>] else []))"

section \<open>Analysis\<close>

definition series_sum :: "f64 list \<Rightarrow> f64" where
  "series_sum values = fold (\<lambda>v acc. fadd acc v) values 0"

definition series_avg :: "f64 list \<Rightarrow> f64" where
  "series_avg values = fdiv (series_sum values) (of_nat (length values))"

text \<open>The loop over the series; one of fewer than two values, or whose average is 0, is passed over.\<close>

fun analyze_matrix :: "string \<Rightarrow> f64 list list \<Rightarrow> string \<times> f64" where
  "analyze_matrix name [] = (name @ '' within normal range'', score_normal)"
| "analyze_matrix name (values # matrix) =
     (if length values < 2 then analyze_matrix name matrix
      else
        (let avg = series_avg values; lst = last values in
         if avg = 0 then
           (if lst > 0 then (name @ '' spiked from zero to '' @ format_fixed 4 lst, score_anomaly) else analyze_matrix name matrix)
         else
           (let ratio = fdiv lst avg;
                numbers = '': last='' @ format_fixed 4 lst @ '' avg='' @ format_fixed 4 avg @ '' ('' @ format_fixed 1 ratio @ ''x)''
            in if ratio \<ge> 2 then (name @ '' anomaly'' @ numbers, score_anomaly)
               else if ratio \<ge> fl (15/10) then (name @ '' elevated'' @ numbers, score_elevated)
               else analyze_matrix name matrix)))"

definition prom_execute_query :: "prom_env \<Rightarrow> collect_request \<Rightarrow> target_ref \<Rightarrow> metric_query \<Rightarrow> go_error + evidence option" where
  "prom_execute_query env req target q =
     (case pe_query env (mq_expr q) (cr_TimeFrom req) (cr_TimeTo req) of
        Inl err \<Rightarrow> Inl (ErrOther (''query '' @ mq_name q))
      | Inr matrix \<Rightarrow>
          if length matrix = 0 then Inr None
          else
            (let (summary, score) = analyze_matrix (mq_name q) matrix in
             if score < score_normal then Inr None
             else Inr (Some \<lparr>ev_ID = pe_uuid env (mq_expr q), ev_InvestigationID = cr_InvestigationID req, ev_Kind = EvidenceMetric,
               ev_Source = ''prometheus'', ev_Target = target, ev_CollectedAt = pe_clock env (mq_expr q),
               ev_ObservedAtFrom = cr_TimeFrom req, ev_ObservedAtTo = cr_TimeTo req, ev_Summary = summary, ev_BodyRef = [],
               ev_Query = mq_expr q, ev_Score = score, ev_Attributes = Some [(''metric'', mq_name q)], ev_RedactionState = RedactionNone\<rparr>)))"

definition prom_tasks :: "collect_request \<Rightarrow> (target_ref \<times> metric_query) list" where
  "prom_tasks req = concat (map (\<lambda>target. map (Pair target) (build_queries target (al_Labels (cr_Alert req)))) (cr_Targets req))"

text \<open>The queries in the order they finish, a permutation of \<open>prom_tasks req\<close>.\<close>

definition prom_collect :: "prom_env \<Rightarrow> collect_request \<Rightarrow> (target_ref \<times> metric_query) list \<Rightarrow> evidence list" where
  "prom_collect env req order = List.map_filter (\<lambda>(target, q). case prom_execute_query env req target q of
     Inl err \<Rightarrow> None | Inr e \<Rightarrow> e) order"

section \<open>A spike from zero\<close>

lemma fl_pow2: "- 1074 \<le> e \<Longrightarrow> fl (pow2 e) = pow2 e"
  using fl_exact [of 1 e] by simp

lemma series_sum_ge:
  assumes "\<And>v. v \<in> set values \<Longrightarrow> 0 \<le> v" "values \<noteq> []" "pow2 e \<le> last values" "- 1074 \<le> e"
  shows "pow2 e \<le> series_sum values"
proof -
  obtain vs v where vs: "values = vs @ [v]" using assms(2) by (metis append_butlast_last_id)
  have nonneg: "0 \<le> fold (\<lambda>v acc. fadd acc v) us acc" if "\<And>u. u \<in> set us \<Longrightarrow> 0 \<le> u" "0 \<le> acc" for us acc
    using that by (induction us arbitrary: acc) (simp_all add: fadd_def fl_nonneg)
  have "0 \<le> series_sum vs" unfolding series_sum_def using assms(1) vs by (intro nonneg) auto
  moreover have "series_sum values = fl (series_sum vs + v)" by (simp add: series_sum_def vs fadd_def)
  moreover have "pow2 e \<le> v" using assms(3) vs by simp
  ultimately have "fl (pow2 e) \<le> series_sum values" by (simp add: fl_mono)
  then show ?thesis using fl_pow2 [OF assms(4)] by simp
qed

text \<open>No series of non-negative values, as rates, sizes and counters are, is ever reported as spiking from zero: an average of 0
  implies that the last value is 0 as well, or so small (below \<open>2^-1000\<close>) that the quotient vanishes.  A series that was
  0 all along and rises in the last sample is reported by its ratio, which is then the number of samples.\<close>

theorem spike_from_zero_unreachable:
  assumes "\<And>v. v \<in> set values \<Longrightarrow> 0 \<le> v" "values \<noteq> []" "length values < 2 ^ 50" "series_avg values = 0"
  shows "last values < pow2 (- 1000)"
proof (rule ccontr)
  assume "\<not> last values < pow2 (- 1000)"
  then have "pow2 (- 1000) \<le> series_sum values" using assms(1,2) by (intro series_sum_ge) simp_all
  moreover have "(of_nat (length values) :: rat) \<le> pow2 50" "0 < (of_nat (length values) :: rat)"
    using assms(2,3) of_nat_le_iff [of "length values" "2 ^ 50", where 'a = rat] by (simp_all add: pow2_def)
  ultimately have "pow2 (- 1000) / pow2 50 \<le> series_sum values / of_nat (length values)" by (intro frac_le) (auto intro: order_trans [OF pow2_pos(3)])
  moreover have "pow2 (- 1000) / pow2 50 = pow2 (- 1050)" using pow2_add [of "- 1050" 50] by simp
  ultimately have "pow2 (- 1050) \<le> series_sum values / of_nat (length values)" by simp
  from fl_mono [OF this] have "pow2 (- 1050) \<le> series_avg values" by (simp add: series_avg_def fdiv_def fl_pow2)
  with assms(4) pow2_pos(1) [of "- 1050"] show False by simp
qed

theorem spike_from_zero_unreachable_witness: "series_avg [0, 0] = 0 \<and> last [0, 0 :: f64] < pow2 (- 1000)"
proof -
  have avg: "series_avg [0, 0] = 0" by (simp add: series_avg_def series_sum_def fadd_def fdiv_def)
  moreover have "last [0, 0 :: f64] < pow2 (- 1000)" by (rule spike_from_zero_unreachable) (simp_all add: avg)
  ultimately show ?thesis ..
qed

end
