(* ===== verification/Registry.thy ===== *)
theory Registry
  imports Collectors DeployCollector LokiCollector KubernetesCollector PrometheusCollector
begin

text \<open>
  What the four collectors have in common, \<open>contracts.Collector\<close> of \<open>internal/contracts/evidence.go\<close>: a collection finds evidence of
  its own kinds, about a target of the request, for the investigation of the request, with a score between 0 and 1.
\<close>

section \<open>The contract of a collector\<close>

definition unit_score :: "f64 \<Rightarrow> bool" where
  "unit_score x \<longleftrightarrow> 0 < x \<and> x < 1"

definition typed_evidence :: "string \<Rightarrow> evidence_kind list \<Rightarrow> collect_request \<Rightarrow> evidence \<Rightarrow> bool" where
  "typed_evidence source kinds req e \<longleftrightarrow>
     ev_Source e = source \<and> ev_Kind e \<in> set kinds \<and> ev_InvestigationID e = cr_InvestigationID req \<and> ev_Target e \<in> set (cr_Targets req) \<and>
     unit_score (ev_Score e) \<and> ev_RedactionState e = RedactionNone"

text \<open>The kinds of evidence of each source.\<close>

definition source_kinds :: "string \<Rightarrow> evidence_kind list" where
  "source_kinds source =
     (if source = ''kubernetes'' then [EvidenceK8sState, EvidenceLog, EvidenceEvent]
      else if source = ''prometheus'' then [EvidenceMetric]
      else if source = ''loki'' then [EvidenceLog]
      else if source = ''deploy'' then [EvidenceDeploy, EvidenceGitChange]
      else [])"

text \<open>\<open>finds req es\<close>: a collection for the request can return this evidence.\<close>

locale evidence_source =
  fixes source :: string
    and finds :: "collect_request \<Rightarrow> evidence list \<Rightarrow> bool"
  assumes finds_typed: "finds req es \<Longrightarrow> e \<in> set es \<Longrightarrow> typed_evidence source (source_kinds source) req e"
begin

lemma no_targets: "finds req es \<Longrightarrow> cr_Targets req = [] \<Longrightarrow> es = []"
  using finds_typed [of req es "hd es"] by (cases es) (auto simp: typed_evidence_def)

lemma found_typed:
  assumes "\<And>r. cl_Collect c req = Some (Inr r) \<Longrightarrow> finds req r" "e \<in> set (found_by req c)"
  shows "typed_evidence source (source_kinds source) req e"
proof -
  from assms(2) obtain r where "cl_Collect c req = Some (Inr r)" "e \<in> set r"
    by (cases "cl_Collect c req") (auto simp: found_by_def split: sum.splits)
  with assms(1) finds_typed show ?thesis by blast
qed

end

lemma typed_source: "typed_evidence source kinds req e \<Longrightarrow> ev_Source e = source"
  by (simp add: typed_evidence_def)

section \<open>Kubernetes\<close>

definition k8s_finds :: "cluster \<Rightarrow> collect_request \<Rightarrow> evidence list \<Rightarrow> bool" where
  "k8s_finds cl req es \<longleftrightarrow> (\<exists>order. mset order = mset (k8s_targets req) \<and> es = k8s_collect cl req order)"

text \<open>A piece of the collector is for the request and the target whatever else it holds.\<close>

definition k8s_piece :: "collect_request \<Rightarrow> target_ref \<Rightarrow> evidence \<Rightarrow> bool" where
  "k8s_piece req target e \<longleftrightarrow>
     ev_Source e = ''kubernetes'' \<and> ev_Kind e \<in> {EvidenceK8sState, EvidenceLog, EvidenceEvent} \<and>
     ev_InvestigationID e = cr_InvestigationID req \<and> ev_Target e = target \<and> unit_score (ev_Score e) \<and>
     ev_RedactionState e = RedactionNone"

lemma k8s_evidence_piece:
  "k8s_piece req target (k8s_evidence cl req target n t kind from till summary body score attrs) \<longleftrightarrow>
    kind \<in> {EvidenceK8sState, EvidenceLog, EvidenceEvent} \<and> unit_score score"
  by (simp add: k8s_piece_def k8s_evidence_def)

lemma k8s_scores [simp]:
  "unit_score score_oom_killed" "unit_score score_crash_loop" "unit_score k8s_score_warning" "unit_score score_info_event"
  "unit_score score_pod_not_ready"
  unfolding score_oom_killed_def score_crash_loop_def k8s_score_warning_def score_info_event_def score_pod_not_ready_def by code_simp+

lemma container_state_score: "container_state c = Some (summary, score) \<Longrightarrow> unit_score score"
  unfolding container_state_def by (simp split: if_split_asm)

lemma pod_state_pieces: "list_all (k8s_piece req target) (fst (pod_state_loop cl req target p t cs n))"
proof (induction cs arbitrary: n)
  case (Cons c cs)
  obtain es m where "pod_state_loop cl req target p t cs (Suc n) = (es, m)" by fastforce
  with Cons [of n] Cons [of "Suc n"] show ?case
    by (cases "container_state c") (auto simp: k8s_evidence_piece dest: container_state_score)
qed simp

lemma previous_log_pieces: "list_all (k8s_piece req target) (fst (previous_log_loop cl req target p t cs n))"
proof (induction cs arbitrary: n)
  case (Cons c cs)
  obtain es m where "previous_log_loop cl req target p t cs (Suc n) = (es, m)" by fastforce
  with Cons [of n] Cons [of "Suc n"] show ?case
    by (cases "ku_logs cl (po_Namespace p) (po_Name p) (cn_Name c)") (simp_all add: k8s_evidence_piece)
qed simp

lemma event_pieces: "list_all (k8s_piece req target) (event_loop cl req target t es n)"
  by (induction es arbitrary: n) (simp_all add: k8s_evidence_piece)

lemma pods_pieces: "list_all (k8s_piece req target) (fst (pods_loop cl req target ps k n))"
proof (induction ps arbitrary: k n)
  case (Cons p ps)
  obtain es n1 where 1: "pod_state_loop cl req target p (ku_now cl target k) (po_Containers p) n = (es, n1)" by fastforce
  obtain ls n2 where 2: "previous_log_loop cl req target p (ku_now cl target (k + 1)) (po_Containers p) n1 = (ls, n2)" by fastforce
  obtain rest k3 n3 where 3: "pods_loop cl req target ps (k + 2) n2 = (rest, k3, n3)" by (metis prod_cases3)
  show ?case
    using 1 2 3 Cons.IH [of "k + 2" n2] pod_state_pieces [of req target cl p "ku_now cl target k" "po_Containers p" n]
      previous_log_pieces [of req target cl p "ku_now cl target (k + 1)" "po_Containers p" n1] by simp
qed simp

lemma collect_for_target_pieces: "collect_for_target cl req target = Inr es \<Longrightarrow> list_all (k8s_piece req target) es"
  using pods_pieces [of req target cl _ 0 0] event_pieces [of req target cl]
  by (auto simp: collect_for_target_def Let_def split_beta split: sum.splits)

interpretation k8s: evidence_source "''kubernetes''" "k8s_finds cl" for cl
proof unfold_locales
  fix req es e
  assume "k8s_finds cl req es" "e \<in> set es"
  then obtain order target where order: "mset order = mset (k8s_targets req)" "target \<in> set order"
    "e \<in> set (case collect_for_target cl req target of Inl err \<Rightarrow> [] | Inr es \<Rightarrow> es)"
    unfolding k8s_finds_def k8s_collect_def by (elim exE conjE) (simp, blast)
  then obtain all where "collect_for_target cl req target = Inr all" "e \<in> set all"
    by (cases "collect_for_target cl req target") auto
  moreover from order(1,2) have "target \<in> set (k8s_targets req)" by (metis mset_eq_setD)
  ultimately have "target \<in> set (cr_Targets req)" "k8s_piece req target e"
    using collect_for_target_pieces [of cl req target all] by (auto simp: k8s_targets_def list_all_iff)
  then show "typed_evidence ''kubernetes'' (source_kinds ''kubernetes'') req e"
    by (simp add: k8s_piece_def typed_evidence_def source_kinds_def)
qed

section \<open>Prometheus\<close>

definition prom_finds :: "prom_env \<Rightarrow> collect_request \<Rightarrow> evidence list \<Rightarrow> bool" where
  "prom_finds env req es \<longleftrightarrow> (\<exists>order. mset order = mset (prom_tasks req) \<and> es = prom_collect env req order)"

lemma analyze_matrix_score: "unit_score (snd (analyze_matrix name matrix))"
proof -
  have "unit_score score_anomaly" "unit_score score_elevated" "unit_score score_normal"
    unfolding score_anomaly_def score_elevated_def score_normal_def by code_simp+
  then show ?thesis by (induction matrix) (auto simp: Let_def)
qed

lemma prom_query_typed:
  assumes "prom_execute_query env req target q = Inr (Some e)" "target \<in> set (cr_Targets req)"
  shows "typed_evidence ''prometheus'' [EvidenceMetric] req e"
  using assms(2) analyze_matrix_score [of "mq_name q"] assms(1)
  by (auto simp: prom_execute_query_def typed_evidence_def Let_def split_beta split: sum.splits if_splits)

interpretation prom: evidence_source "''prometheus''" "prom_finds env" for env
proof unfold_locales
  fix req es e
  assume "prom_finds env req es" "e \<in> set es"
  then obtain order target q where "mset order = mset (prom_tasks req)" "(target, q) \<in> set order"
    "prom_execute_query env req target q = Inr (Some e)"
    by (auto simp: prom_finds_def prom_collect_def List.map_filter_def split: sum.splits)
  then have "target \<in> set (cr_Targets req)" "typed_evidence ''prometheus'' [EvidenceMetric] req e"
    using prom_query_typed by (fastforce simp: prom_tasks_def dest: mset_eq_setD)+
  then show "typed_evidence ''prometheus'' (source_kinds ''prometheus'') req e" by (simp add: source_kinds_def)
qed

section \<open>Loki\<close>

definition loki_finds :: "loki_env \<Rightarrow> collect_request \<Rightarrow> evidence list \<Rightarrow> bool" where
  "loki_finds env req es \<longleftrightarrow> (\<exists>order. mset order = mset (loki_tasks req) \<and> loki_collect env req order = Some es)"

interpretation loki: evidence_source "''loki''" "loki_finds env" for env
proof unfold_locales
  fix req es e
  assume "loki_finds env req es" "e \<in> set es"
  then obtain order where order: "loki_collect env req order = Some es" "mset order = mset (loki_tasks req)" unfolding loki_finds_def by blast
  from order(2) have "set order \<subseteq> set (loki_tasks req)" by (metis mset_eq_setD order_refl)
  from loki_collect_ok [OF order(1) this] \<open>e \<in> set es\<close> have "loki_evidence_ok req e" by (simp add: list_all_iff)
  then have e: "ev_Source e = ''loki''" "ev_Kind e = EvidenceLog" "ev_InvestigationID e = cr_InvestigationID req"
    "ev_Target e \<in> set (cr_Targets req)" "ev_Score e = score_error \<or> ev_Score e = score_fatal" "ev_RedactionState e = RedactionNone"
    unfolding loki_evidence_ok_def by blast+
  moreover have "unit_score score_error" "unit_score score_fatal" unfolding score_error_def score_fatal_def by code_simp+
  ultimately show "typed_evidence ''loki'' (source_kinds ''loki'') req e"
    by (elim disjE) (simp_all add: typed_evidence_def source_kinds_def)
qed

section \<open>Deployments\<close>

definition deploy_finds :: "deploy_collector \<Rightarrow> deploy_env \<Rightarrow> collect_request \<Rightarrow> evidence list \<Rightarrow> bool" where
  "deploy_finds c env req es \<longleftrightarrow> (\<exists>s. es = fst (deploy_collect c req env (cr_Targets req) s))"

definition deploy_piece :: "collect_request \<Rightarrow> target_ref \<Rightarrow> evidence \<Rightarrow> bool" where
  "deploy_piece req target e \<longleftrightarrow>
     ev_Source e = ''deploy'' \<and> ev_Kind e \<in> {EvidenceDeploy, EvidenceGitChange} \<and> ev_InvestigationID e = cr_InvestigationID req \<and>
     ev_Target e = target \<and> unit_score (ev_Score e) \<and> ev_RedactionState e = RedactionNone"

lemma new_evidence_piece:
  "new_evidence req target kind summary query score from till attrs env s = (e, s') \<Longrightarrow>
    deploy_piece req target e \<longleftrightarrow> kind \<in> {EvidenceDeploy, EvidenceGitChange} \<and> unit_score score"
  by (auto simp: deploy_piece_def new_evidence_def)

lemma unit_80: "unit_score (fl (8/10))" by code_simp
lemma unit_70: "unit_score (fl (7/10))" by code_simp
lemma unit_60: "unit_score (fl (6/10))" by code_simp
lemma unit_50: "unit_score (fl (5/10))" by code_simp
lemma unit_40: "unit_score (fl (4/10))" by code_simp

lemma deploy_score_unit: "unit_score (deploy_score deployTime alertTime)"
proof -
  have either: "unit_score x \<Longrightarrow> unit_score y \<Longrightarrow> unit_score z \<Longrightarrow> unit_score (if p then x else if q then y else z)" for x y z p q by simp
  show ?thesis unfolding deploy_score_def Let_def by (rule either [OF unit_80 unit_60 unit_40])
qed

lemma commit_pieces: "list_all (deploy_piece req target) (fst (commit_evidence req target env cs s))"
proof (induction cs arbitrary: s)
  case (Cons c cs)
  obtain e s1 where e: "new_evidence req target EvidenceGitChange (''Commit '' @ dy_short_sha (cm_SHA c) @ '': '' @ dy_first_line (cm_Message c)) []
    (fl (5/10)) (cr_TimeFrom req) (cr_TimeTo req) (Some [(''sha'', cm_SHA c), (''author'', cm_AuthorName c), (''message'', cm_Message c)]) env s = (e, s1)"
    by fastforce
  have "deploy_piece req target e" using new_evidence_piece [OF e] unit_50 by blast
  moreover obtain rest s2 where "commit_evidence req target env cs s1 = (rest, s2)" by fastforce
  ultimately show ?case using Cons [of s] Cons [of s1] unfolding commit_evidence.simps e by simp
qed simp

lemma compare_pieces:
  assumes "collect_github_compare c req target env repo base head s = (Inr es, s')"
  shows "list_all (deploy_piece req target) es"
proof -
  obtain body s1 cmp e s2 where
    e: "new_evidence req target EvidenceGitChange (compare_summary cmp base head) (compare_url c repo base head) (fl (7/10))
      (cr_TimeFrom req) (cr_TimeTo req) (compare_attributes cmp base head) env s1 = (e, s2)"
    and es: "es = e # fst (commit_evidence req target env (cp_Commits cmp) s2)"
    using assms unfolding collect_github_compare_def Let_def
    by (auto split: prod.splits sum.splits option.splits)
  have "deploy_piece req target e" using new_evidence_piece [OF e] unit_70 by blast
  then show ?thesis using es commit_pieces by simp
qed

lemma deploy_evidence_piece: "deploy_evidence req target env url dep s = (e, s') \<Longrightarrow> deploy_piece req target e"
  using new_evidence_piece deploy_score_unit unfolding deploy_evidence_def Let_def by (fastforce split: prod.splits)

lemma deployments_pieces: "list_all (deploy_piece req target) (fst (deployments_loop c req target env repo url deps prevSHA s))"
proof (induction deps arbitrary: prevSHA s)
  case (Cons dep deps)
  obtain e s1 where e: "deploy_evidence req target env url dep s = (e, s1)" by fastforce
  obtain cmp s2 where cmp: "(if next_prev deps prevSHA \<noteq> [] \<and> next_prev deps prevSHA \<noteq> dp_SHA dep
      then (case collect_github_compare c req target env repo (next_prev deps prevSHA) (dp_SHA dep) s1 of
              (Inl err, s) \<Rightarrow> ([], s) | (Inr es, s) \<Rightarrow> (es, s))
      else ([], s1)) = (cmp, s2)" by fastforce
  then have "list_all (deploy_piece req target) cmp"
    by (auto dest: compare_pieces split: if_splits prod.splits sum.splits)
  then show ?case
    using Cons deploy_evidence_piece [OF e] by (simp add: e cmp Let_def split_beta)
qed simp

lemma gitlab_pieces: "list_all (deploy_piece req target) (fst (gitlab_loop req target env url deps s))"
proof (induction deps arbitrary: s)
  case (Cons dep deps)
  obtain e s1 where e: "new_evidence req target EvidenceDeploy (gitlab_summary dep) url (deploy_score (ld_CreatedAt dep) (al_StartsAt (cr_Alert req)))
    (ld_CreatedAt dep) (ld_CreatedAt dep) (Some [(''sha'', ld_SHA dep), (''ref'', ld_Ref dep), (''environment'', ld_Environment dep),
      (''creator'', ld_Username dep), (''status'', ld_Status dep)]) env s = (e, s1)" by fastforce
  have "deploy_piece req target e" using new_evidence_piece [OF e] deploy_score_unit by blast
  then show ?case using Cons by (simp add: e Let_def split_beta)
qed simp

lemma collect_target_pieces: "list_all (deploy_piece req target) (fst (collect_target c req env target s))"
proof -
  have "list_all (deploy_piece req target) es" if "collect_github_deployments c req target env repo environment s = (Inr es, s')" for es repo environment s s'
    using that deployments_pieces
    by (fastforce simp: collect_github_deployments_def Let_def split_beta split: if_splits prod.splits sum.splits option.splits)
  moreover have "list_all (deploy_piece req target) es" if "collect_gitlab_deployments c req target env repo environment s = (Inr es, s')" for es repo environment s s'
    using that gitlab_pieces
    by (fastforce simp: collect_gitlab_deployments_def Let_def split_beta split: if_splits prod.splits sum.splits option.splits)
  ultimately show ?thesis by (auto simp: collect_target_def Let_def split: prod.split sum.split)
qed

lemma deploy_collect_pieces:
  "e \<in> set (fst (deploy_collect c req env targets s)) \<Longrightarrow> \<exists>target \<in> set targets. deploy_piece req target e"
proof (induction targets arbitrary: s)
  case (Cons target targets)
  then show ?case using collect_target_pieces [of req target c env s] by (fastforce simp: Let_def split_beta list_all_iff)
qed simp

interpretation deploys: evidence_source "''deploy''" "deploy_finds c env" for c env
proof unfold_locales
  fix req es e
  assume "deploy_finds c env req es" "e \<in> set es"
  with deploy_collect_pieces obtain target where "target \<in> set (cr_Targets req)" "deploy_piece req target e"
    unfolding deploy_finds_def by blast
  then show "typed_evidence ''deploy'' (source_kinds ''deploy'') req e"
    by (auto simp: deploy_piece_def typed_evidence_def source_kinds_def)
qed

end
