(* ===== verification/LlmClients.thy ===== *)
theory LlmClients
  imports LlmResilience GoTime
begin

text \<open>
  \<open>internal/llm/openai.go\<close>, \<open>anthropic.go\<close>, \<open>ollama.go\<close> and \<open>vertex.go\<close>: the clients of the four vendors, and the stack
  \<open>NewProvider\<close> puts them under.  The HTTP client, the decoding of a response and the SDK of Vertex are fields of the
  environment: \<open>ve_post n\<close> is what the \<open>n\<close>-th request of the program meets.
\<close>

section \<open>Requests\<close>

datatype json = JString string | JInt int | JFloat f64 | JBool bool | JArray "json list" | JObject "(string \<times> json) list"

record http_post =
  hp_URL :: string
  hp_Headers :: "(string \<times> string) list"
  hp_Body :: json

text \<open>The request cannot be created, it fails, its response cannot be read, or it is answered.\<close>

datatype post_outcome = PostInvalid string | PostError perror | PostBroken perror | PostReply int string

record provider_config =
  pv_Provider :: string
  pv_Model :: string
  pv_APIKey :: string
  pv_Endpoint :: string
  pv_GCPProject :: string
  pv_GCPRegion :: string
  pv_Temperature :: f64
  pv_MaxTokens :: int
  pv_Timeout :: duration

text \<open>The structs of the three vendors reached over HTTP have the same fields, but for the key, which Ollama has not.\<close>

record http_vendor =
  hv_apiKey :: string
  hv_model :: string
  hv_endpoint :: string
  hv_temperature :: f64
  hv_maxTokens :: int
  hv_timeout :: duration

record vertex_vendor =
  vx_project :: string
  vx_region :: string
  vx_model :: string
  vx_temperature :: f64
  vx_maxTokens :: int
  vx_timeout :: duration

record openai_reply =
  oa_Choices :: "string list"
  oa_PromptTokens :: int
  oa_CompletionTokens :: int
  oa_Model :: string

record anthropic_reply =
  an_Content :: "string list"
  an_InputTokens :: int
  an_OutputTokens :: int
  an_Model :: string

record ollama_reply =
  ol_Content :: string
  ol_Model :: string

record genai_request =
  gq_Model :: string
  gq_Content :: string
  gq_Temperature :: f64
  gq_MaxOutputTokens :: int

text \<open>A candidate is \<open>None\<close> when its content is missing, and otherwise the texts of its parts.\<close>

record genai_reply =
  gy_Candidates :: "string list option list"
  gy_Usage :: "(int \<times> int) option"

record vendor_env =
  ve_post :: "nat \<Rightarrow> http_post \<Rightarrow> post_outcome"
  ve_openai :: "string \<Rightarrow> openai_reply option"
  ve_anthropic :: "string \<Rightarrow> anthropic_reply option"
  ve_ollama :: "string \<Rightarrow> ollama_reply option"
  ve_client :: "perror option"
  ve_generate :: "nat \<Rightarrow> genai_request \<Rightarrow> perror + genai_reply"
  ve_latency :: "nat \<Rightarrow> duration"

definition or_default :: "'a \<Rightarrow> 'a \<Rightarrow> 'a \<Rightarrow> 'a" where
  "or_default zero deflt x = (if x = zero then deflt else x)"

definition new_http_vendor :: "string \<Rightarrow> duration \<Rightarrow> provider_config \<Rightarrow> http_vendor" where
  "new_http_vendor endpoint timeout cfg =
     \<lparr>hv_apiKey = pv_APIKey cfg, hv_model = pv_Model cfg, hv_endpoint = or_default [] endpoint (pv_Endpoint cfg),
      hv_temperature = pv_Temperature cfg, hv_maxTokens = pv_MaxTokens cfg, hv_timeout = or_default 0 timeout (pv_Timeout cfg)\<rparr>"

definition new_openai_provider :: "provider_config \<Rightarrow> http_vendor" where
  "new_openai_provider = new_http_vendor ''https://api.openai.com/v1/chat/completions'' (seconds 60)"

definition new_anthropic_provider :: "provider_config \<Rightarrow> http_vendor" where
  "new_anthropic_provider = new_http_vendor ''https://api.anthropic.com/v1/messages'' (seconds 90)"

definition new_ollama_provider :: "provider_config \<Rightarrow> http_vendor" where
  "new_ollama_provider cfg = (new_http_vendor ''http://localhost:11434'' (seconds 120) cfg)\<lparr>hv_apiKey := []\<rparr>"

definition new_vertex_provider :: "provider_config \<Rightarrow> vertex_vendor" where
  "new_vertex_provider cfg =
     \<lparr>vx_project = pv_GCPProject cfg, vx_region = pv_GCPRegion cfg, vx_model = pv_Model cfg,
      vx_temperature = pv_Temperature cfg, vx_maxTokens = pv_MaxTokens cfg, vx_timeout = or_default 0 (seconds 120) (pv_Timeout cfg)\<rparr>"

definition chat_message :: "string \<Rightarrow> string \<Rightarrow> json" where
  "chat_message role content = JObject [(''role'', JString role), (''content'', JString content)]"

definition chat_messages :: "completion_request \<Rightarrow> json" where
  "chat_messages req = JArray
     ((if cq_SystemPrompt req \<noteq> [] then [chat_message ''system'' (cq_SystemPrompt req)] else []) @ [chat_message ''user'' (cq_UserPrompt req)])"

definition temperature_of :: "http_vendor \<Rightarrow> completion_request \<Rightarrow> f64" where
  "temperature_of p req = or_default 0 (hv_temperature p) (cq_Temperature req)"

definition max_tokens_of :: "http_vendor \<Rightarrow> completion_request \<Rightarrow> int" where
  "max_tokens_of p req = or_default 0 (hv_maxTokens p) (cq_MaxTokens req)"

definition openai_post :: "http_vendor \<Rightarrow> completion_request \<Rightarrow> http_post" where
  "openai_post p req =
     \<lparr>hp_URL = hv_endpoint p,
      hp_Headers = [(''Authorization'', ''Bearer '' @ hv_apiKey p), (''Content-Type'', ''application/json'')],
      hp_Body = JObject [(''model'', JString (hv_model p)), (''messages'', chat_messages req),
        (''temperature'', JFloat (temperature_of p req)), (''max_tokens'', JInt (max_tokens_of p req))]\<rparr>"

definition anthropic_post :: "http_vendor \<Rightarrow> completion_request \<Rightarrow> http_post" where
  "anthropic_post p req =
     \<lparr>hp_URL = hv_endpoint p,
      hp_Headers = [(''x-api-key'', hv_apiKey p), (''anthropic-version'', ''2023-06-01''), (''Content-Type'', ''application/json'')],
      hp_Body = JObject ([(''model'', JString (hv_model p)), (''max_tokens'', JInt (max_tokens_of p req)),
        (''temperature'', JFloat (temperature_of p req)), (''messages'', JArray [chat_message ''user'' (cq_UserPrompt req)])] @
        (if cq_SystemPrompt req \<noteq> [] then [(''system'', JString (cq_SystemPrompt req))] else []))\<rparr>"

definition ollama_post :: "http_vendor \<Rightarrow> completion_request \<Rightarrow> http_post" where
  "ollama_post p req =
     \<lparr>hp_URL = hv_endpoint p @ ''/api/chat'', hp_Headers = [(''Content-Type'', ''application/json'')],
      hp_Body = JObject [(''model'', JString (hv_model p)), (''messages'', chat_messages req), (''stream'', JBool False),
        (''options'', JObject [(''temperature'', JFloat (temperature_of p req)), (''num_predict'', JInt (max_tokens_of p req))])]\<rparr>"

section \<open>Completions\<close>

text \<open>From the request on, the three vendors over HTTP do the same up to the decoding of the body.\<close>

definition exchange :: "string \<Rightarrow> (string \<Rightarrow> outcome) \<Rightarrow> post_outcome \<Rightarrow> outcome" where
  "exchange name decode r =
     (case r of
        PostInvalid e \<Rightarrow> Inl (PWrap (name @ '': create request'') (PText e))
      | PostError err \<Rightarrow> Inl (PWrap (name @ '': request failed'') err)
      | PostBroken err \<Rightarrow> Inl (PWrap (name @ '': read response'') err)
      | PostReply status body \<Rightarrow> if status \<noteq> 200 then Inl (PLlm (new_llm_error name status body)) else decode body)"

definition openai_decode :: "vendor_env \<Rightarrow> nat \<Rightarrow> string \<Rightarrow> outcome" where
  "openai_decode env n body =
     (case ve_openai env body of
        None \<Rightarrow> Inl (PText ''openai: unmarshal response'')
      | Some r \<Rightarrow>
        (case oa_Choices r of
           [] \<Rightarrow> Inl (PText ''openai: no choices in response'')
         | content # _ \<Rightarrow> Inr \<lparr>cp_Content = content, cp_InputTokens = oa_PromptTokens r, cp_OutputTokens = oa_CompletionTokens r,
             cp_Model = oa_Model r, cp_Latency = ve_latency env n\<rparr>))"

definition anthropic_decode :: "vendor_env \<Rightarrow> nat \<Rightarrow> string \<Rightarrow> outcome" where
  "anthropic_decode env n body =
     (case ve_anthropic env body of
        None \<Rightarrow> Inl (PText ''anthropic: unmarshal response'')
      | Some r \<Rightarrow>
        (case an_Content r of
           [] \<Rightarrow> Inl (PText ''anthropic: no content in response'')
         | content # _ \<Rightarrow> Inr \<lparr>cp_Content = content, cp_InputTokens = an_InputTokens r, cp_OutputTokens = an_OutputTokens r,
             cp_Model = an_Model r, cp_Latency = ve_latency env n\<rparr>))"

definition ollama_decode :: "vendor_env \<Rightarrow> nat \<Rightarrow> string \<Rightarrow> outcome" where
  "ollama_decode env n body =
     (case ve_ollama env body of
        None \<Rightarrow> Inl (PText ''ollama: unmarshal response'')
      | Some r \<Rightarrow> Inr \<lparr>cp_Content = ol_Content r, cp_InputTokens = 0, cp_OutputTokens = 0, cp_Model = ol_Model r,
          cp_Latency = ve_latency env n\<rparr>)"

definition openai_complete :: "vendor_env \<Rightarrow> http_vendor \<Rightarrow> nat \<Rightarrow> completion_request \<Rightarrow> outcome" where
  "openai_complete env p n req = exchange ''openai'' (openai_decode env n) (ve_post env n (openai_post p req))"

definition anthropic_complete :: "vendor_env \<Rightarrow> http_vendor \<Rightarrow> nat \<Rightarrow> completion_request \<Rightarrow> outcome" where
  "anthropic_complete env p n req = exchange ''anthropic'' (anthropic_decode env n) (ve_post env n (anthropic_post p req))"

definition ollama_complete :: "vendor_env \<Rightarrow> http_vendor \<Rightarrow> nat \<Rightarrow> completion_request \<Rightarrow> outcome" where
  "ollama_complete env p n req = exchange ''ollama'' (ollama_decode env n) (ve_post env n (ollama_post p req))"

text \<open>The client of Vertex is created once; an error of the first attempt is kept.  The conversion to \<open>int32\<close> wraps.\<close>

definition wrap32 :: "int \<Rightarrow> int" where
  "wrap32 z = (z + 2 ^ 31) mod 2 ^ 32 - 2 ^ 31"

definition genai_query :: "vertex_vendor \<Rightarrow> completion_request \<Rightarrow> genai_request" where
  "genai_query p req =
     \<lparr>gq_Model = vx_model p,
      gq_Content = (if cq_SystemPrompt req \<noteq> [] then cq_SystemPrompt req @ nl @ nl @ cq_UserPrompt req else cq_UserPrompt req),
      gq_Temperature = or_default 0 (vx_temperature p) (cq_Temperature req),
      gq_MaxOutputTokens = wrap32 (or_default 0 (vx_maxTokens p) (cq_MaxTokens req))\<rparr>"

definition candidates_text :: "string list option list \<Rightarrow> string" where
  "candidates_text cs = concat (map (\<lambda>c. case c of None \<Rightarrow> [] | Some parts \<Rightarrow> concat parts) cs)"

definition vertex_complete :: "vendor_env \<Rightarrow> vertex_vendor \<Rightarrow> nat \<Rightarrow> completion_request \<Rightarrow> outcome" where
  "vertex_complete env p n req =
     (case ve_client env of
        Some err \<Rightarrow> Inl (PWrap ''vertex: create client'' err)
      | None \<Rightarrow>
        (case ve_generate env n (genai_query p req) of
           Inl err \<Rightarrow> Inl (PWrap ''vertex: generate content'' err)
         | Inr r \<Rightarrow> Inr \<lparr>cp_Content = candidates_text (gy_Candidates r),
             cp_InputTokens = (case gy_Usage r of Some (i, k) \<Rightarrow> i | None \<Rightarrow> 0),
             cp_OutputTokens = (case gy_Usage r of Some (i, k) \<Rightarrow> k | None \<Rightarrow> 0),
             cp_Model = vx_model p, cp_Latency = ve_latency env n\<rparr>))"

section \<open>The stack\<close>

datatype vendor = VOpenAI http_vendor | VVertex vertex_vendor | VAnthropic http_vendor | VOllama http_vendor

fun vendor_name :: "vendor \<Rightarrow> string" where
  "vendor_name (VOpenAI p) = ''openai''"
| "vendor_name (VVertex p) = ''vertex''"
| "vendor_name (VAnthropic p) = ''anthropic''"
| "vendor_name (VOllama p) = ''ollama''"

fun vendor_complete :: "vendor_env \<Rightarrow> vendor \<Rightarrow> nat \<Rightarrow> completion_request \<Rightarrow> outcome" where
  "vendor_complete env (VOpenAI p) n req = openai_complete env p n req"
| "vendor_complete env (VVertex p) n req = vertex_complete env p n req"
| "vendor_complete env (VAnthropic p) n req = anthropic_complete env p n req"
| "vendor_complete env (VOllama p) n req = ollama_complete env p n req"

fun vendor_of :: "provider_kind \<Rightarrow> provider_config \<Rightarrow> vendor" where
  "vendor_of OpenAI cfg = VOpenAI (new_openai_provider cfg)"
| "vendor_of Vertex cfg = VVertex (new_vertex_provider cfg)"
| "vendor_of Anthropic cfg = VAnthropic (new_anthropic_provider cfg)"
| "vendor_of Ollama cfg = VOllama (new_ollama_provider cfg)"

text \<open>\<open>st_calls\<close> counts the calls of the vendor made so far.\<close>

record llm_stack =
  st_vendor :: vendor
  st_retry :: retry_provider
  st_breaker :: breaker
  st_calls :: nat

definition new_llm_stack :: "provider_config \<Rightarrow> string + llm_stack" where
  "new_llm_stack cfg =
     (case new_provider (pv_Provider cfg) of
        Inl err \<Rightarrow> Inl err
      | Inr (kind, retry, breaker) \<Rightarrow>
          (let v = vendor_of kind cfg in
           Inr \<lparr>st_vendor = v, st_retry = retry, st_breaker = breaker (vendor_name v), st_calls = 0\<rparr>))"

text \<open>
  The retries around the vendor, as the inner provider of the breaker: its state is the number of requests made so far.
\<close>

definition retry_stage :: "vendor_env \<Rightarrow> llm_stack \<Rightarrow> (nat \<Rightarrow> perror option) \<Rightarrow> (nat \<Rightarrow> f64) \<Rightarrow> completion_request \<Rightarrow>
    nat \<Rightarrow> outcome \<times> nat" where
  "retry_stage env st ctx_err rnd req n =
     (case retry_complete (st_retry st) (\<lambda>k. vendor_complete env (st_vendor st) (n + k) req) ctx_err rnd of
        (out, calls, delays) \<Rightarrow> (out, n + calls))"

text \<open>A call of the stack from \<open>t\<close> to \<open>t'\<close>, with no other call in between; \<open>ctx_err\<close> and \<open>rnd\<close> are those of the retries.\<close>

definition stack_complete :: "vendor_env \<Rightarrow> gotime \<Rightarrow> gotime \<Rightarrow> (nat \<Rightarrow> perror option) \<Rightarrow> (nat \<Rightarrow> f64) \<Rightarrow> completion_request \<Rightarrow>
    llm_stack \<Rightarrow> outcome \<times> llm_stack" where
  "stack_complete env t t' ctx_err rnd req st =
     (let (res, cb, n) = cb_call t t' (retry_stage env st ctx_err rnd req) (st_breaker st) (st_calls st)
      in (res, st\<lparr>st_breaker := cb, st_calls := n\<rparr>))"

section \<open>Which failures are tried again\<close>

text \<open>What a vendor's call failed with, as its error reports it.\<close>

fun http_retryable :: "post_outcome \<Rightarrow> bool" where
  "http_retryable (PostReply status body) = (status = 429 \<or> 500 \<le> status \<and> status < 600)"
| "http_retryable (PostError err) = is_deadline_exceeded err"
| "http_retryable (PostBroken err) = is_deadline_exceeded err"
| "http_retryable (PostInvalid e) = False"

fun vendor_retryable :: "vendor_env \<Rightarrow> vendor \<Rightarrow> nat \<Rightarrow> completion_request \<Rightarrow> bool" where
  "vendor_retryable env (VOpenAI p) n req = http_retryable (ve_post env n (openai_post p req))"
| "vendor_retryable env (VAnthropic p) n req = http_retryable (ve_post env n (anthropic_post p req))"
| "vendor_retryable env (VOllama p) n req = http_retryable (ve_post env n (ollama_post p req))"
| "vendor_retryable env (VVertex p) n req =
     (case ve_client env of Some err \<Rightarrow> is_deadline_exceeded err
      | None \<Rightarrow> (case ve_generate env n (genai_query p req) of Inl err \<Rightarrow> is_deadline_exceeded err | Inr r \<Rightarrow> False))"

text \<open>The errors of the HTTP client and of the SDK are none of the program's own.\<close>

definition foreign_errors :: "vendor_env \<Rightarrow> bool" where
  "foreign_errors env \<longleftrightarrow>
     (\<forall>n post err. ve_post env n post \<in> {PostError err, PostBroken err} \<longrightarrow> as_llm_error err = None) \<and>
     (\<forall>err. ve_client env = Some err \<longrightarrow> as_llm_error err = None) \<and>
     (\<forall>n q err. ve_generate env n q = Inl err \<longrightarrow> as_llm_error err = None)"

lemma is_retryable_wrap: "is_retryable (PWrap m err) = is_retryable err"
  by (simp add: is_retryable_def)

lemma exchange_retryable:
  assumes "exchange name decode r = Inl err" "\<And>e. r \<in> {PostError e, PostBroken e} \<Longrightarrow> as_llm_error e = None"
    and "\<And>body e. decode body = Inl e \<Longrightarrow> \<exists>m. e = PText m"
  shows "is_retryable err = http_retryable r"
proof (cases "\<exists>body. r = PostReply 200 body")
  case True
  with assms(1,3) show ?thesis by (fastforce simp: exchange_def is_retryable_def)
next
  case False
  with assms(1,2) show ?thesis
    by (cases r) (auto simp: exchange_def is_retryable_wrap is_retryable_def new_llm_error_def Let_def split: if_splits)
qed

lemma decode_errors:
  "openai_decode env n body = Inl e \<Longrightarrow> \<exists>m. e = PText m"
  "anthropic_decode env n body = Inl e \<Longrightarrow> \<exists>m. e = PText m"
  "ollama_decode env n body = Inl e \<Longrightarrow> \<exists>m. e = PText m"
  by (auto simp: openai_decode_def anthropic_decode_def ollama_decode_def split: option.splits list.splits)

lemma foreign_post: "foreign_errors env \<Longrightarrow> ve_post env n post \<in> {PostError e, PostBroken e} \<Longrightarrow> as_llm_error e = None"
  by (auto simp: foreign_errors_def)

lemma vendor_error_retryable:
  assumes "vendor_complete env v n req = Inl err" "foreign_errors env"
  shows "is_retryable err = vendor_retryable env v n req"
proof (cases v)
  case (VVertex p)
  with assms show ?thesis
    by (auto simp: vertex_complete_def foreign_errors_def is_retryable_wrap is_retryable_def split: option.splits sum.splits)
next
  case (VOpenAI p)
  from assms(1) this have run: "exchange ''openai'' (openai_decode env n) (ve_post env n (openai_post p req)) = Inl err" by (simp add: openai_complete_def)
  from exchange_retryable [OF run foreign_post [OF assms(2)] decode_errors(1)] show ?thesis by (simp add: VOpenAI)
next
  case (VAnthropic p)
  from assms(1) this have run: "exchange ''anthropic'' (anthropic_decode env n) (ve_post env n (anthropic_post p req)) = Inl err" by (simp add: anthropic_complete_def)
  from exchange_retryable [OF run foreign_post [OF assms(2)] decode_errors(2)] show ?thesis by (simp add: VAnthropic)
next
  case (VOllama p)
  from assms(1) this have run: "exchange ''ollama'' (ollama_decode env n) (ve_post env n (ollama_post p req)) = Inl err" by (simp add: ollama_complete_def)
  from exchange_retryable [OF run foreign_post [OF assms(2)] decode_errors(3)] show ?thesis by (simp add: VOllama)
qed

text \<open>C25: Which failures of a vendor are tried again.  For the three vendors over HTTP: a response with the status 429 or 5xx, and a request
  or a body that ran over its deadline; no other status, no refused connection, no answer that does not decode.  For
  Vertex only a deadline: the SDK's own error is wrapped as it is, so a 429 or 503 of Vertex is final.\<close>

theorem vendor_failures_classified:
  assumes "vendor_complete env v n req = Inl err" "foreign_errors env"
  shows "is_retryable err = vendor_retryable env v n req"
  using assms by (rule vendor_error_retryable)

section \<open>What a call of the stack costs and gives\<close>

text \<open>The text a vendor's answer carries, if it is one.\<close>

fun http_answer :: "(string \<Rightarrow> string list option) \<Rightarrow> post_outcome \<Rightarrow> string option" where
  "http_answer contents (PostReply status body) =
     (if status = 200 then (case contents body of Some (c # cs) \<Rightarrow> Some c | _ \<Rightarrow> None) else None)"
| "http_answer contents r = None"

fun vendor_answer :: "vendor_env \<Rightarrow> vendor \<Rightarrow> nat \<Rightarrow> completion_request \<Rightarrow> string option" where
  "vendor_answer env (VOpenAI p) n req = http_answer (map_option oa_Choices \<circ> ve_openai env) (ve_post env n (openai_post p req))"
| "vendor_answer env (VAnthropic p) n req = http_answer (map_option an_Content \<circ> ve_anthropic env) (ve_post env n (anthropic_post p req))"
| "vendor_answer env (VOllama p) n req = http_answer (map_option (\<lambda>r. [ol_Content r]) \<circ> ve_ollama env) (ve_post env n (ollama_post p req))"
| "vendor_answer env (VVertex p) n req =
     (case ve_generate env n (genai_query p req) of Inr r \<Rightarrow> Some (candidates_text (gy_Candidates r)) | Inl err \<Rightarrow> None)"

lemma vendor_complete_answer:
  assumes "vendor_complete env v n req = Inr resp"
  shows "vendor_answer env v n req = Some (cp_Content resp)"
  using assms
  by (cases v) (auto simp: openai_complete_def anthropic_complete_def ollama_complete_def vertex_complete_def exchange_def openai_decode_def
      anthropic_decode_def ollama_decode_def split: post_outcome.splits option.splits list.splits sum.splits if_splits)

text \<open>A rejected call never gets to the inner provider; an admitted one gives its outcome and leaves its state.\<close>

lemma cb_call_result:
  assumes "cb_call t t' inner cb s = (res, cb', s')"
  shows "case fst (cb_enter t cb) of Some err \<Rightarrow> res = Inl err \<and> s' = s | None \<Rightarrow> (res, s') = inner s"
  using assms by (cases "cb_enter t cb") (auto simp: cb_call_def split: option.splits sum.splits prod.splits)

lemma new_llm_stack_retry: "new_llm_stack cfg = Inr st \<Longrightarrow> rp_maxRetries (st_retry st) = 3"
  by (auto simp: new_llm_stack_def new_provider_def new_retry_provider_def Let_def split: if_splits)

lemma stack_complete_frame:
  "stack_complete env t t' ctx_err rnd req st = (res, st') \<Longrightarrow> st_retry st' = st_retry st \<and> st_vendor st' = st_vendor st"
  by (auto simp: stack_complete_def Let_def split: prod.splits)

text \<open>C24: A call of the stack makes no request while the breaker is open, and otherwise between one and four, each but the last one after a
  failure that may be tried again.  It gives a response only if the last request was answered with one, and then the
  text of exactly that answer.\<close>

theorem stack_call_spec:
  assumes "stack_complete env t t' ctx_err rnd req st = (res, st')" "rp_maxRetries (st_retry st) = 3" "foreign_errors env"
  shows "(st_calls st' = st_calls st \<longleftrightarrow> fst (cb_enter t (st_breaker st)) \<noteq> None) \<and> st_calls st' \<le> st_calls st + 4 \<and>
    (\<forall>n. st_calls st \<le> n \<and> n + 1 < st_calls st' \<longrightarrow> vendor_retryable env (st_vendor st) n req) \<and>
    (\<forall>resp. res = Inr resp \<longrightarrow> st_calls st < st_calls st' \<and>
       vendor_answer env (st_vendor st) (st_calls st' - 1) req = Some (cp_Content resp))"
proof -
  let ?v = "\<lambda>k. vendor_complete env (st_vendor st) (st_calls st + k) req"
  obtain out calls delays where run: "retry_complete (st_retry st) ?v ctx_err rnd = (out, calls, delays)" by (metis prod_cases3)
  have inner: "retry_stage env st ctx_err rnd req (st_calls st) = (out, st_calls st + calls)" by (simp add: retry_stage_def run)
  obtain cb n where brk: "cb_call t t' (retry_stage env st ctx_err rnd req) (st_breaker st) (st_calls st) = (res, cb, n)"
    and n: "st_calls st' = n"
    using assms(1) by (auto simp: stack_complete_def Let_def split: prod.splits)
  from cb_call_result [OF brk] have
    st': "st_calls st' = (if fst (cb_enter t (st_breaker st)) = None then st_calls st + calls else st_calls st)"
    and res: "res = (case fst (cb_enter t (st_breaker st)) of Some err \<Rightarrow> Inl err | None \<Rightarrow> out)"
    by (auto simp: inner n split: option.splits)
  note spec = retry_loop_spec [OF run [unfolded retry_complete_def], unfolded add_0]
  have calls: "1 \<le> calls" "calls \<le> 4" using spec assms(2) by simp_all
  have again: "vendor_retryable env (st_vendor st) (st_calls st + k) req" if "k < calls - 1" for k
  proof -
    from spec that obtain e where "?v k = Inl e" "is_retryable e" by blast
    with vendor_error_retryable [OF _ assms(3)] show ?thesis by blast
  qed
  have "?v (calls - 1) = Inr resp" if "out = Inr resp" for resp
    using spec that by (auto split: sum.splits if_splits)
  then have ok: "vendor_answer env (st_vendor st) (st_calls st + (calls - 1)) req = Some (cp_Content resp)" if "out = Inr resp" for resp
    using that vendor_complete_answer by blast
  show ?thesis
  proof (cases "fst (cb_enter t (st_breaker st))")
    case None
    have "vendor_retryable env (st_vendor st) n req" if "st_calls st \<le> n" "n + 1 < st_calls st + calls" for n
      using again [of "n - st_calls st"] that by simp
    with None calls ok res show ?thesis by (auto simp: st' Nat.add_diff_assoc)
  next
    case (Some err)
    with res show ?thesis by (auto simp: st')
  qed
qed

section \<open>Example\<close>

text \<open>OpenAI is overloaded once and then answers.\<close>

definition sample_vendor_env :: vendor_env where
  "sample_vendor_env = \<lparr>ve_post = (\<lambda>n post. if n = 0 then PostReply 503 ''overloaded'' else PostReply 200 ''{}''),
     ve_openai = (\<lambda>b. Some \<lparr>oa_Choices = [''SUMMARY: disk full''], oa_PromptTokens = 9, oa_CompletionTokens = 5, oa_Model = ''m''\<rparr>),
     ve_anthropic = (\<lambda>b. None), ve_ollama = (\<lambda>b. None), ve_client = None, ve_generate = (\<lambda>n q. Inl (PText ''Error 429'')),
     ve_latency = (\<lambda>n. seconds 1)\<rparr>"

definition sample_provider_config :: "string \<Rightarrow> provider_config" where
  "sample_provider_config name = \<lparr>pv_Provider = name, pv_Model = ''m'', pv_APIKey = ''k'', pv_Endpoint = [], pv_GCPProject = [],
     pv_GCPRegion = [], pv_Temperature = 0, pv_MaxTokens = 0, pv_Timeout = 0\<rparr>"

definition sample_prompt :: completion_request where
  "sample_prompt = \<lparr>cq_SystemPrompt = [], cq_UserPrompt = ''why?'', cq_Temperature = 0, cq_MaxTokens = 0\<rparr>"

lemma sample_foreign: "foreign_errors sample_vendor_env"
  by (auto simp: foreign_errors_def sample_vendor_env_def split: if_splits)

theorem vendor_failures_classified_witness:
  "\<exists>err. vendor_complete sample_vendor_env (vendor_of Vertex (sample_provider_config ''vertex'')) 0 sample_prompt = Inl err \<and> \<not> is_retryable err"
proof -
  let ?v = "vendor_of Vertex (sample_provider_config ''vertex'')"
  have run: "vendor_complete sample_vendor_env ?v 0 sample_prompt = Inl (PWrap ''vertex: generate content'' (PText ''Error 429''))"
    by (simp add: vertex_complete_def sample_vendor_env_def)
  from vendor_failures_classified [OF run sample_foreign] run show ?thesis by (simp add: sample_vendor_env_def)
qed

lemma sample_completes:
  assumes "new_llm_stack (sample_provider_config ''openai'') = Inr st"
    and "stack_complete sample_vendor_env 0 1 (\<lambda>n. None) (\<lambda>n. 0) sample_prompt st = (res, st')"
  shows "map_sum (\<lambda>e. ()) cp_Content res = Inr ''SUMMARY: disk full'' \<and> st_calls st' = 2"
proof -
  let ?v = "\<lambda>k. vendor_complete sample_vendor_env (VOpenAI (new_openai_provider (sample_provider_config ''openai''))) k sample_prompt"
  have "?v 0 = Inl (PLlm (new_llm_error ''openai'' 503 ''overloaded''))"
    by (simp add: openai_complete_def exchange_def sample_vendor_env_def)
  moreover have "?v 1 = Inr \<lparr>cp_Content = ''SUMMARY: disk full'', cp_InputTokens = 9, cp_OutputTokens = 5, cp_Model = ''m'', cp_Latency = seconds 1\<rparr>"
    by (simp add: openai_complete_def exchange_def openai_decode_def sample_vendor_env_def)
  moreover have "is_retryable (PLlm (new_llm_error ''openai'' 503 ''overloaded''))" by (simp add: is_retryable_def new_llm_error_def)
  ultimately obtain resp delays where "retry_complete (st_retry st) ?v (\<lambda>n. None) (\<lambda>n. 0) = (Inr resp, 2, delays)" "cp_Content resp = ''SUMMARY: disk full''"
    using assms(1)
    by (auto simp: new_llm_stack_def new_provider_def sample_provider_config_def new_retry_provider_def retry_complete_def retry_loop.simps
        numeral_3_eq_3 Let_def)
  moreover have "st_vendor st = VOpenAI (new_openai_provider (sample_provider_config ''openai''))" "st_calls st = 0"
    "cb_enter 0 (st_breaker st) = (None, st_breaker st)"
    using assms(1) by (auto simp: new_llm_stack_def new_provider_def sample_provider_config_def new_circuit_breaker_def cb_enter_def Let_def)
  ultimately show ?thesis using assms(2) by (auto simp: stack_complete_def cb_call_def retry_stage_def Let_def)
qed

theorem stack_call_spec_witness:
  "\<exists>st res st'. new_llm_stack (sample_provider_config ''openai'') = Inr st \<and>
     stack_complete sample_vendor_env 0 1 (\<lambda>n. None) (\<lambda>n. 0) sample_prompt st = (res, st') \<and> st_calls st' = 2 \<and>
     vendor_answer sample_vendor_env (st_vendor st) 1 sample_prompt = Some ''SUMMARY: disk full''"
proof -
  obtain st where st: "new_llm_stack (sample_provider_config ''openai'') = Inr st"
    by (simp add: new_llm_stack_def new_provider_def sample_provider_config_def Let_def)
  obtain res st' where run: "stack_complete sample_vendor_env 0 1 (\<lambda>n. None) (\<lambda>n. 0) sample_prompt st = (res, st')" by fastforce
  note r = sample_completes [OF st run]
  then obtain resp where "res = Inr resp" "cp_Content resp = ''SUMMARY: disk full''" by (cases res) auto
  with stack_call_spec [OF run new_llm_stack_retry [OF st] sample_foreign] r
  have "st_calls st' = 2" "vendor_answer sample_vendor_env (st_vendor st) 1 sample_prompt = Some ''SUMMARY: disk full''" by simp_all
  with st run show ?thesis by blast
qed

end
