(* ===== verification/Wiring.thy ===== *)
theory Wiring
  imports LlmEngine Gateway OrchestratorSpec SlackHttp Api Registry LlmClients Config
begin

text \<open>
  \<open>cmd/sherlock/main.go\<close>: how a configuration becomes the running program, and the small adapters between
  its parts.  What the third-party libraries supply (hashes, decoders, the answers of the model and of the services the
  collectors ask) are records of arguments.  Flags, signals, servers, migrations and tracing are left out.
\<close>

record libraries =
  li_hmac :: "string \<Rightarrow> string \<Rightarrow> string"
  li_sha256 :: "string \<Rightarrow> string"
  li_alertmanager :: "string \<Rightarrow> am_payload option"
  li_grafana :: "string \<Rightarrow> gf_payload option"
  li_github :: gh_unmarshal
  li_gitlab :: gl_unmarshal
  li_slackTS :: "nat \<Rightarrow> string"
  li_readFile :: "string \<Rightarrow> go_error + string"
  li_policies :: "string \<Rightarrow> go_error + policy list"
  li_llm :: "llm_stack \<Rightarrow> llm_env"
  li_git :: "string \<Rightarrow> string list \<Rightarrow> nat \<Rightarrow> string \<Rightarrow> http_outcome"
  li_collect :: "nat \<Rightarrow> collect_request \<Rightarrow> evidence list"
  li_sort :: "timeline_event list \<Rightarrow> timeline_event list"

section \<open>The webhook gateway\<close>

definition when_enabled :: "bool \<Rightarrow> ('a \<Rightarrow> 'a) \<Rightarrow> 'a \<Rightarrow> 'a" where
  "when_enabled b f x = (if b then f x else x)"

definition wire_gateway :: "libraries \<Rightarrow> config \<Rightarrow> gateway" where
  "wire_gateway li cfg =
     (let rc = cf_Receivers cfg; gr = rc_Grafana rc; ar = rc_Alertmanager rc; gh = rc_GitHub rc; gl = rc_GitLab rc;
          g = when_enabled (gr_Enabled gr) (register (gf_receiver (li_hmac li) (gr_HMACSecret gr) (li_grafana li))) new_gateway;
          g = when_enabled (ar_Enabled ar) (register (am_receiver (ar_Secret ar) (li_alertmanager li))) g;
          g = when_enabled (dc_Enabled (cf_Dedup cfg)) (\<lambda>g. g\<lparr>gw_dedup := Some (dc_Window (cf_Dedup cfg)),
                gw_dedupNotifier := sk_BotToken (cf_Slack cfg) \<noteq> []\<rparr>) g;
          g = g\<lparr>gw_suppress := True\<rparr>;
          g = when_enabled (gh_rc_Enabled gh) (register (gh_receiver (li_hmac li) (li_sha256 li) (gh_rc_WebhookSecret gh) (li_github li))) g
      in when_enabled (gl_rc_Enabled gl) (register (gl_receiver (li_sha256 li) (gl_rc_SecretToken gl) (li_gitlab li))) g)"

section \<open>The orchestrator\<close>

definition wire_remediation :: "libraries \<Rightarrow> remediation_config \<Rightarrow> remediation_engine option" where
  "wire_remediation li mc =
     (if \<not> mc_Enabled mc then None
      else if mc_PoliciesPath mc \<noteq> [] then
        (case load_policies (li_readFile li) (li_policies li) (mc_PoliciesPath mc) remediation_new of
           (Some err, engine) \<Rightarrow> Some (load_defaults engine) | (None, engine) \<Rightarrow> Some engine)
      else Some (load_defaults remediation_new))"

text \<open>
  The model-backed engine as the orchestrator calls it, with the rule engine as its fallback.  It draws a UUID for the hypothesis of an
  analysis and the fallback one for each of its own, here from the second on.  Its follow-ups write into the labels of the alert it was given.
\<close>

fun sent_by_llm :: "llm_event \<Rightarrow> event" where
  "sent_by_llm (PassNotified ch th pass msg) = SlackUpdate ch th msg"
| "sent_by_llm (LLMCallCounted name result) = Counted ''llm_calls'' (name @ '' '' @ result)"

definition llm_service :: "llm_env \<Rightarrow> rca_service" where
  "llm_service env = \<lparr>rs_name = ''llm-powered'', rs_rank = (\<lambda>uuid t graph.
     case llm_rank (env\<lparr>lv_uuid := uuid\<rparr>) (rank (\<lambda>i. uuid (Suc i)) (engine_new t)) graph of
       None \<Rightarrow> (None, graph_labels graph, 0, [])
     | Some (hs, s) \<Rightarrow>
         (Some (Inr hs), fs_labels (ls_fs s),
          Suc (case evaluate_rules (engine_new t) (relabel graph (fs_labels (ls_fs s))) of None \<Rightarrow> 0 | Some hyps \<Rightarrow> length hyps),
          map sent_by_llm (ls_events s)))\<rparr>"

definition wire_provider_config :: "llm_config \<Rightarrow> provider_config" where
  "wire_provider_config lc =
     \<lparr>pv_Provider = lc_Provider lc, pv_Model = lc_Model lc, pv_APIKey = lc_APIKey lc, pv_Endpoint = lc_Endpoint lc,
      pv_GCPProject = lc_GCPProject lc, pv_GCPRegion = lc_GCPRegion lc, pv_Temperature = lc_Temperature lc,
      pv_MaxTokens = lc_MaxTokens lc, pv_Timeout = lc_Timeout lc\<rparr>"

text \<open>The git provider of the follow-ups; the limits on files keep their defaults.\<close>

definition wire_git_config :: "git_config \<Rightarrow> git_provider_config" where
  "wire_git_config gc = \<lparr>gpc_Organization = gc_Organization gc,
     gpc_WorkloadRepos = gc_WorkloadRepos gc, gpc_DefaultBranch = gc_DefaultBranch gc, gpc_MaxFileSize = 0, gpc_MaxFiles = 0\<rparr>"

definition wire_git_provider :: "libraries \<Rightarrow> git_config \<Rightarrow>
    (string \<Rightarrow> string option) \<times> (string \<Rightarrow> string list \<Rightarrow> go_error + (string \<times> string) list)" where
  "wire_git_provider li gc =
     (if gc_Enabled gc then
        (let p = new_github_provider (wire_git_config gc) in
         (resolve_repo p, \<lambda>repo paths. map_sum id mentries (fst (fetch_files p (li_git li repo paths) repo paths 0))))
      else (noop_resolve_repo, \<lambda>repo paths. map_sum id mentries (noop_fetch_files repo paths)))"

text \<open>\<open>li_llm\<close> gives the engine's view of a stack of clients: its answers, UUIDs and follow-up evidence.\<close>

definition wire_llm :: "libraries \<Rightarrow> config \<Rightarrow> (orchestrator \<Rightarrow> orchestrator) list" where
  "wire_llm li cfg =
     (if \<not> lc_Enabled (cf_LLM cfg) then []
      else case new_llm_stack (wire_provider_config (cf_LLM cfg)) of
        Inl err \<Rightarrow> []
      | Inr stack \<Rightarrow>
          (let env = li_llm li stack;
               followUpExec = (lv_followup env)\<lparr>fe_git := Some (wire_git_provider li (cf_Git cfg))\<rparr>
           in [with_llm_engine (llm_service (new_llm_engine (lc_MaxPasses (cf_LLM cfg))
                 (env\<lparr>lv_notifier := sk_BotToken (cf_Slack cfg) \<noteq> [], lv_followup := followUpExec\<rparr>)))]))"

definition wire_options :: "libraries \<Rightarrow> config \<Rightarrow> (orchestrator \<Rightarrow> orchestrator) list" where
  "wire_options li cfg =
     (let vc = cf_Investigation cfg in
      (if vc_MaxConcurrent vc > 0 then [with_max_concurrent (vc_MaxConcurrent vc)] else []) @
      (if vc_Timeout vc > 0 then [with_timeout (vc_Timeout vc)] else []) @
      [with_blob_store] @
      (case wire_remediation li (cf_Remediation cfg) of None \<Rightarrow> [] | Some engine \<Rightarrow> [with_remediation engine]) @
      wire_llm li cfg)"

text \<open>The registry's collectors never give an error.  Without a bot token there is no publisher; the code then stores a typed nil
  pointer, which only a job left over from a run with a token would reach.\<close>

definition wire_orchestrator :: "libraries \<Rightarrow> config \<Rightarrow> orchestrator" where
  "wire_orchestrator li cfg = new_orchestrator
     \<lparr>od_RCA = rule_service, od_Collectors = (\<lambda>n req. (li_collect li n req, None)), od_Sort = li_sort li,
      od_Slack = (if sk_BotToken (cf_Slack cfg) \<noteq> [] then Some (li_slackTS li) else None), od_Tx = True\<rparr>
     (wire_options li cfg)"

text \<open>The subject \<open>Start\<close> subscribes to.\<close>

definition job_subject :: "config \<Rightarrow> string" where
  "job_subject cfg = nc_StreamName (cf_NATS cfg) @ ''.new''"

section \<open>The collectors\<close>

text \<open>
  What the services behind the collectors are and answer: a cluster, unless its configuration cannot be read, a client for
  the address of Prometheus, the parsed address of Loki, unless it is malformed, with what Loki answers, and the
  answers to the deploy collector.  The orders are those in which the targets and queries of a request finish.
\<close>

record collector_sources =
  so_cluster :: "string \<Rightarrow> bool \<Rightarrow> cluster option"
  so_k8s_order :: "collect_request \<Rightarrow> target_ref list"
  so_prom :: "string \<Rightarrow> prom_env option"
  so_prom_order :: "collect_request \<Rightarrow> (target_ref \<times> metric_query) list"
  so_parseURL :: "string \<Rightarrow> string option"
  so_loki :: loki_env
  so_loki_order :: "collect_request \<Rightarrow> (target_ref \<times> log_query) list"
  so_deploy :: deploy_env
  so_deploy_state :: "collect_request \<Rightarrow> deploy_state"

definition new_loki_collector :: "collector_sources \<Rightarrow> string \<Rightarrow> loki_env option" where
  "new_loki_collector so rawURL =
     map_option (\<lambda>u. so_loki so\<lparr>le_baseURL := rev (dropWhile (\<lambda>c. c = CHR ''/'') (rev u))\<rparr>) (so_parseURL so rawURL)"

text \<open>The token for GitLab is not among the fields that are set.\<close>

definition wire_deploy_collector :: "git_config \<Rightarrow> deploy_collector" where
  "wire_deploy_collector gc = \<lparr>dy_githubToken = gc_Token gc, dy_gitlabToken = [], dy_githubOrg = gc_Organization gc,
     dy_workloadRepos = gc_WorkloadRepos gc\<rparr>"

definition register_some :: "collector option \<Rightarrow> collector list \<Rightarrow> collector list" where
  "register_some c registry = (case c of None \<Rightarrow> registry | Some c \<Rightarrow> register_collector c registry)"

definition wire_collectors :: "collector_sources \<Rightarrow> config \<Rightarrow> collector list" where
  "wire_collectors so cfg =
     (let cc = cf_Collectors cfg;
          k8sCol = map_option (\<lambda>cl. \<lparr>cl_Name = ''kubernetes'', cl_Collect = (\<lambda>req. Some (Inr (k8s_collect cl req (so_k8s_order so req))))\<rparr>)
            (so_cluster so (kc_Kubeconfig (cc_Kubernetes cc)) (kc_InCluster (cc_Kubernetes cc)));
          promCol = map_option (\<lambda>env. \<lparr>cl_Name = ''prometheus'', cl_Collect = (\<lambda>req. Some (Inr (prom_collect env req (so_prom_order so req))))\<rparr>)
            (so_prom so (pm_URL (cc_Prometheus cc)));
          lokiCol = map_option (\<lambda>env. \<lparr>cl_Name = ''loki'', cl_Collect = (\<lambda>req. map_option Inr (loki_collect env req (so_loki_order so req)))\<rparr>)
            (new_loki_collector so (lk_URL (cc_Loki cc)));
          deployCol = (if gc_Enabled (cf_Git cfg)
            then Some \<lparr>cl_Name = ''deploy'', cl_Collect = (\<lambda>req. Some (Inr (fst (deploy_collect (wire_deploy_collector (cf_Git cfg)) req
              (so_deploy so) (cr_Targets req) (so_deploy_state so req)))))\<rparr>
            else None)
      in register_some deployCol (register_some lokiCol (register_some promCol (register_some k8sCol []))))"

text \<open>The orders the goroutines finish in are orders of all of them.\<close>

definition fair_orders :: "collector_sources \<Rightarrow> collect_request \<Rightarrow> bool" where
  "fair_orders so req \<longleftrightarrow> mset (so_k8s_order so req) = mset (k8s_targets req) \<and> mset (so_prom_order so req) = mset (prom_tasks req) \<and>
     mset (so_loki_order so req) = mset (loki_tasks req)"

lemma register_some_set: "set (register_some (map_option f x) registry) = f ` set_option x \<union> set registry"
  "set (register_some (if b then Some c else None) registry) = (if b then {c} else {}) \<union> set registry"
  by (cases x) (auto simp: register_some_def register_collector_def)

lemma wired_collectors:
  "set (wire_collectors so cfg) \<subseteq>
     (\<lambda>cl. \<lparr>cl_Name = ''kubernetes'', cl_Collect = (\<lambda>req. Some (Inr (k8s_collect cl req (so_k8s_order so req))))\<rparr>) ` UNIV \<union>
     (\<lambda>env. \<lparr>cl_Name = ''prometheus'', cl_Collect = (\<lambda>req. Some (Inr (prom_collect env req (so_prom_order so req))))\<rparr>) ` UNIV \<union>
     (\<lambda>env. \<lparr>cl_Name = ''loki'', cl_Collect = (\<lambda>req. map_option Inr (loki_collect env req (so_loki_order so req)))\<rparr>) ` UNIV \<union>
     (if gc_Enabled (cf_Git cfg) then {\<lparr>cl_Name = ''deploy'', cl_Collect = (\<lambda>req. Some (Inr (fst (deploy_collect (wire_deploy_collector (cf_Git cfg)) req
        (so_deploy so) (cr_Targets req) (so_deploy_state so req)))))\<rparr>} else {})"
  unfolding wire_collectors_def Let_def register_some_set by (cases "gc_Enabled (cf_Git cfg)") (simp_all, blast+)

lemma wired_evidence_typed:
  assumes "c \<in> set (wire_collectors so cfg)" "fair_orders so req" "e \<in> set (found_by req c)"
  shows "typed_evidence (cl_Name c) (source_kinds (cl_Name c)) req e \<and>
    (cl_Name c = ''deploy'' \<longrightarrow> gc_Enabled (cf_Git cfg)) \<and> cl_Name c \<in> {''kubernetes'', ''prometheus'', ''loki'', ''deploy''}"
proof -
  from assms(1) wired_collectors [of so cfg] consider
    (k8s) cl where "c = \<lparr>cl_Name = ''kubernetes'', cl_Collect = (\<lambda>req. Some (Inr (k8s_collect cl req (so_k8s_order so req))))\<rparr>"
  | (prom) env where "c = \<lparr>cl_Name = ''prometheus'', cl_Collect = (\<lambda>req. Some (Inr (prom_collect env req (so_prom_order so req))))\<rparr>"
  | (loki) env where "c = \<lparr>cl_Name = ''loki'', cl_Collect = (\<lambda>req. map_option Inr (loki_collect env req (so_loki_order so req)))\<rparr>"
  | (deploy) "gc_Enabled (cf_Git cfg)" "c = \<lparr>cl_Name = ''deploy'', cl_Collect = (\<lambda>req. Some (Inr (fst (deploy_collect
      (wire_deploy_collector (cf_Git cfg)) req (so_deploy so) (cr_Targets req) (so_deploy_state so req)))))\<rparr>"
    by (auto split: if_splits)
  then show ?thesis
  proof cases
    case k8s
    have "k8s_finds cl req r" if "cl_Collect c req = Some (Inr r)" for r
      using that assms(2) k8s by (auto simp: k8s_finds_def fair_orders_def)
    from k8s.found_typed [OF this assms(3)] k8s show ?thesis by simp
  next
    case prom
    have "prom_finds env req r" if "cl_Collect c req = Some (Inr r)" for r
      using that assms(2) prom by (auto simp: prom_finds_def fair_orders_def)
    from prom.found_typed [OF this assms(3)] prom show ?thesis by simp
  next
    case loki
    have "loki_finds env req r" if "cl_Collect c req = Some (Inr r)" for r
      using that assms(2) loki by (auto simp: loki_finds_def fair_orders_def)
    from loki.found_typed [OF this assms(3)] loki show ?thesis by simp
  next
    case deploy
    have "deploy_finds (wire_deploy_collector (cf_Git cfg)) (so_deploy so) req r" if "cl_Collect c req = Some (Inr r)" for r
      using that deploy(2) by (auto simp: deploy_finds_def)
    from deploys.found_typed [OF this assms(3)] deploy show ?thesis by simp
  qed
qed

lemma collected_typed:
  assumes "collect_steps req (start_collecting (wire_collectors so cfg)) st" "cg_running st = []" "fair_orders so req" "e \<in> set (cg_combined st)"
  shows "typed_evidence (ev_Source e) (source_kinds (ev_Source e)) req e \<and> (ev_Source e = ''deploy'' \<longrightarrow> gc_Enabled (cf_Git cfg)) \<and>
    ev_Source e \<in> {''kubernetes'', ''prometheus'', ''loki'', ''deploy''}"
proof -
  from collected_mset [OF assms(1,2)] assms(4) obtain c where c: "c \<in> set (wire_collectors so cfg)" "e \<in> set (found_by req c)"
    by (metis (no_types, lifting) UN_E mset_eq_setD set_concat set_map image_iff)
  note typed = wired_evidence_typed [OF c(1) assms(3) c(2)]
  then have "ev_Source e = cl_Name c" by (blast dest: typed_source)
  with typed show ?thesis by simp
qed

text \<open>C18: Whatever the collectors the configuration leads to, whatever the services answer and whatever the order things finish in, a collection
  that ends returns only evidence that belongs to the investigation of the request and to one of its targets, names one of the four
  sources and has a kind this source gives, a score strictly between 0 and 1, and no redaction.  Nothing is collected for a request without targets, and
  nothing about deployments without the git integration.\<close>

theorem collected_evidence_typed:
  assumes "collect_steps req (start_collecting (wire_collectors so cfg)) st" "cg_running st = []" "fair_orders so req"
  shows "list_all (\<lambda>e. typed_evidence (ev_Source e) (source_kinds (ev_Source e)) req e \<and>
      ev_Source e \<in> {''kubernetes'', ''prometheus'', ''loki'', ''deploy''} \<and> (ev_Source e = ''deploy'' \<longrightarrow> gc_Enabled (cf_Git cfg))) (cg_combined st) \<and>
    (cr_Targets req = [] \<longrightarrow> cg_combined st = [])"
proof -
  note typed = collected_typed [OF assms]
  moreover have "cg_combined st = []" if "cr_Targets req = []"
    using typed [of "hd (cg_combined st)"] that by (cases "cg_combined st") (auto simp: typed_evidence_def)
  ultimately show ?thesis by (simp add: list_all_iff)
qed

section \<open>The Slack application\<close>

definition parse_labels_from_text :: "string \<Rightarrow> gomap" where
  "parse_labels_from_text txt = Some ([(''source'', ''slack'')] @ (if txt \<noteq> [] then [(''service'', txt)] else []))"

definition slack_alert :: "string \<Rightarrow> normalized_alert" where
  "slack_alert txt = normalized_alert0\<lparr>al_Title := txt, al_Summary := ''Investigation requested by user in Slack: '' @ txt,
     al_Status := AlertStatusFiring, al_Labels := parse_labels_from_text txt\<rparr>"

definition slack_enqueue :: "string \<Rightarrow> enqueuer" where
  "slack_enqueue streamName channelID threadTS userID txt =
     enqueue_investigation streamName (slack_alert txt) channelID threadTS userID"

definition wire_app_config :: "config \<Rightarrow> app_config" where
  "wire_app_config cfg = \<lparr>ac_BotToken = sk_BotToken (cf_Slack cfg), ac_AppToken = sk_AppToken (cf_Slack cfg),
     ac_SigningSecret = sk_SigningSecret (cf_Slack cfg), ac_Mode = sk_Mode (cf_Slack cfg), ac_HTTPAddress = sv_Address (cf_Server cfg)\<rparr>"

text \<open>\<open>None\<close> when there is no bot token.\<close>

definition wire_slack_app :: "libraries \<Rightarrow> config \<Rightarrow> (string + slack_app) option" where
  "wire_slack_app li cfg =
     (if sk_BotToken (cf_Slack cfg) = [] then None
      else Some (new_app (wire_app_config cfg) (slack_enqueue (nc_StreamName (cf_NATS cfg))) (li_slackTS li) True))"

definition wire_api_key :: "config \<Rightarrow> string option" where
  "wire_api_key cfg = (if sv_APIKey (cf_Server cfg) \<noteq> [] then Some (sv_APIKey (cf_Server cfg)) else None)"

section \<open>Webhooks under strict authentication\<close>

definition right_credential :: "libraries \<Rightarrow> config \<Rightarrow> string \<Rightarrow> http_header \<Rightarrow> string \<Rightarrow> bool" where
  "right_credential li cfg source h body =
     (let rc = cf_Receivers cfg; ar = rc_Alertmanager rc; gr = rc_Grafana rc; gh = rc_GitHub rc; gl = rc_GitLab rc in
      source = ''alertmanager'' \<and> ar_Enabled ar \<and> ar_Secret ar \<noteq> [] \<and> h ''Authorization'' = ''Bearer '' @ ar_Secret ar \<or>
      source = ''grafana'' \<and> gr_Enabled gr \<and> gr_HMACSecret gr \<noteq> [] \<and> h ''X-Grafana-Signature'' = li_hmac li (gr_HMACSecret gr) body \<or>
      source = ''github'' \<and> gh_rc_Enabled gh \<and> gh_rc_WebhookSecret gh \<noteq> [] \<and>
        h ''X-Hub-Signature-256'' = ''sha256='' @ li_hmac li (gh_rc_WebhookSecret gh) body \<or>
      source = ''gitlab'' \<and> gl_rc_Enabled gl \<and> gl_rc_SecretToken gl \<noteq> [] \<and> h ''X-Gitlab-Token'' = gl_rc_SecretToken gl)"

lemma strict_secrets:
  assumes "strict_error rc = None"
  shows "ar_Enabled (rc_Alertmanager rc) \<Longrightarrow> ar_Secret (rc_Alertmanager rc) \<noteq> []"
    "gr_Enabled (rc_Grafana rc) \<Longrightarrow> gr_HMACSecret (rc_Grafana rc) \<noteq> []"
    "gh_rc_Enabled (rc_GitHub rc) \<Longrightarrow> gh_rc_WebhookSecret (rc_GitHub rc) \<noteq> []"
    "gl_rc_Enabled (rc_GitLab rc) \<Longrightarrow> gl_rc_SecretToken (rc_GitLab rc) \<noteq> []"
  using assms by (auto simp: strict_error_def split: if_splits)

lemma wired_receiver:
  assumes "gw_receivers (wire_gateway li cfg) source = Some rv"
  shows "source = ''alertmanager'' \<and> ar_Enabled (rc_Alertmanager (cf_Receivers cfg)) \<and>
      rv = am_receiver (ar_Secret (rc_Alertmanager (cf_Receivers cfg))) (li_alertmanager li) \<or>
    source = ''grafana'' \<and> gr_Enabled (rc_Grafana (cf_Receivers cfg)) \<and>
      rv = gf_receiver (li_hmac li) (gr_HMACSecret (rc_Grafana (cf_Receivers cfg))) (li_grafana li) \<or>
    source = ''github'' \<and> gh_rc_Enabled (rc_GitHub (cf_Receivers cfg)) \<and>
      rv = gh_receiver (li_hmac li) (li_sha256 li) (gh_rc_WebhookSecret (rc_GitHub (cf_Receivers cfg))) (li_github li) \<or>
    source = ''gitlab'' \<and> gl_rc_Enabled (rc_GitLab (cf_Receivers cfg)) \<and>
      rv = gl_receiver (li_sha256 li) (gl_rc_SecretToken (rc_GitLab (cf_Receivers cfg))) (li_gitlab li)"
proof -
  have "rv_Source (am_receiver s u) = ''alertmanager''" "rv_Source (gf_receiver m s v) = ''grafana''"
    "rv_Source (gh_receiver m k s x) = ''github''" "rv_Source (gl_receiver k s y) = ''gitlab''" for s u m v k x y
    by (simp_all add: am_receiver_def gf_receiver_def gh_receiver_def gl_receiver_def)
  with assms show ?thesis
    unfolding wire_gateway_def when_enabled_def register_def new_gateway_def Let_def by (auto split: if_split_asm)
qed

lemma accepted_verified:
  assumes "handle_webhook g source h (Some body) w = (resp, w')" "hr_Status resp = 202"
  shows "\<exists>rv. gw_receivers g source = Some rv \<and> rv_Verify rv h body = None"
proof (cases "gw_receivers g source")
  case None
  with assms show ?thesis by (auto simp: handle_webhook_def http_error_def)
next
  case (Some rv)
  with assms show ?thesis by (cases "rv_Verify rv h body") (auto simp: handle_webhook_def http_error_def split: if_splits)
qed

text \<open>C7: With strict authentication in a configuration that loaded, whatever the file and the environment said, the gateway the program runs
  with accepts a webhook only if its receiver is enabled, has a secret, and the credential of the request is right for it.\<close>

theorem strict_gateway_authenticates:
  assumes "load pf pd unmarshal read_file env path = Inr cfg" "sv_StrictWebhookAuth (cf_Server cfg)"
    and "handle_webhook (wire_gateway li cfg) source h (Some body) w = (resp, w')" "hr_Status resp = 202"
  shows "right_credential li cfg source h body"
proof -
  from validate_fields(5) [OF load_valid [OF assms(1)] assms(2)] have "strict_error (cf_Receivers cfg) = None" .
  note secrets = strict_secrets [OF this]
  from accepted_verified [OF assms(3,4)] obtain rv where
    rv: "gw_receivers (wire_gateway li cfg) source = Some rv" "rv_Verify rv h body = None" by blast
  from wired_receiver [OF rv(1)] show ?thesis
    using rv(2) secrets am.verify_iff gf.verify_iff gh.verify_iff gl.verify_iff
    unfolding right_credential_def Let_def by (elim disjE) simp_all
qed

section \<open>Requests from Slack\<close>

lemma slack_enqueue_events:
  "slack_enqueue streamName ch ts user txt w = (r, w') \<Longrightarrow>
    (case r of Inl e \<Rightarrow> w_events w' = w_events w
     | Inr i \<Rightarrow> \<exists>job. w_events w' = w_events w @ [Published (streamName @ ''.new'') job] \<and> ij_SlackChannelID job = ch \<and>
         ij_Alert job = slack_alert txt\<lparr>al_ID := i\<rparr>)"
  by (auto simp: slack_enqueue_def enqueue_investigation_def new_uuid_def send_def emit_def slack_alert_def
      normalized_alert0_def Let_def split: if_splits)

lemma slack_alert_resolved:
  assumes "a = slack_alert txt\<lparr>al_ID := i\<rparr>"
  shows "rr_TimeFrom (resolve t a) = - minutes 30"
    "txt \<noteq> [] \<Longrightarrow> rr_Targets (resolve t a) = [target_ref0\<lparr>tr_Kind := ''service'', tr_Name := txt\<rparr>]"
  by (simp_all add: assms resolve_def resolve_time_window_def resolve_targets_def slack_alert_def normalized_alert0_def infer_from_labels_def
      parse_labels_from_text_def mget_def mlookup_def dedup_targets_def target_ref0_def time_add_def Let_def split_beta split: option.split)

text \<open>An investigation requested in Slack, whatever the text, is about an alert without a start time: its window opens half an hour
  before the year 1, and every deployment since the year 300 counts as near the alert, with the highest score.
  The alert names a service, the text itself, and has no fingerprint, so no deduplication or suppression sees it.\<close>

theorem slack_request_has_no_start:
  assumes "slack_enqueue streamName ch ts user txt w = (Inr i, w')"
  shows "\<exists>job. w_events w' = w_events w @ [Published (streamName @ ''.new'') job] \<and> ij_SlackChannelID job = ch \<and>
    al_Title (ij_Alert job) = txt \<and> al_Fingerprint (ij_Alert job) = [] \<and>
    rr_TimeFrom (resolve t (ij_Alert job)) = - minutes 30 \<and>
    (txt \<noteq> [] \<longrightarrow> rr_Targets (resolve t (ij_Alert job)) = [target_ref0\<lparr>tr_Kind := ''service'', tr_Name := txt\<rparr>]) \<and>
    (300 * 365 * day_ns \<le> deployTime \<longrightarrow> deploy_score deployTime (al_StartsAt (ij_Alert job)) = fl (8/10))"
proof -
  obtain job where job: "w_events w' = w_events w @ [Published (streamName @ ''.new'') job]" "ij_SlackChannelID job = ch"
    "ij_Alert job = slack_alert txt\<lparr>al_ID := i\<rparr>" using slack_enqueue_events [OF assms] by auto
  have "300 * 365 * day_ns \<le> deployTime \<Longrightarrow> deploy_score deployTime 0 = fl (8/10)"
    by (rule deploy_score_no_start) (simp add: day_ns_def)
  then show ?thesis using job slack_alert_resolved [OF job(3)]
    by (intro exI [of _ job]) (simp add: slack_alert_def normalized_alert0_def)
qed

text \<open>The button that re-runs an investigation forgets the alert: it queues a job for a service named by the identifier of the
  investigation, and neither the alert, its labels nor its fingerprint take part in it.\<close>

theorem rerun_forgets_alert:
  assumes "b \<in> set (buttons_of (result_blocks r))" "bt_ActionID b = ''investigate_rerun''"
    and "ia_ActionID action = bt_ActionID b" "ia_Value action = bt_Value b" "ap_enqueue app = slack_enqueue streamName"
    and "handle_interaction app action w = (Inr (), w')"
  shows "\<exists>job. w_events w' = w_events w @ [SlackStarted (ia_ChannelID action) [], Published (streamName @ ''.new'') job] \<and>
    al_Title (ij_Alert job) = ir_InvestigationID r \<and> al_Labels (ij_Alert job) = parse_labels_from_text (ir_InvestigationID r) \<and>
    al_Fingerprint (ij_Alert job) = [] \<and>
    (ir_InvestigationID r \<noteq> [] \<longrightarrow>
      map tr_Name (rr_Targets (resolve t (ij_Alert job))) = [ir_InvestigationID r])"
proof -
  have val: "bt_Value b = ir_InvestigationID r"
    using assms(1) unfolding result_buttons by (auto simp: action_buttons_def Let_def)
  obtain p w1 where 1: "post_investigation_started (ap_ts app) (ia_ChannelID action) [] w = (p, w1)" by fastforce
  have run: "start_from_slack app ''Failed to re-run investigation: '' ''enqueue re-run investigation''
      (ia_ChannelID action) (ia_UserID action) (ir_InvestigationID r) w = (Inr (), w')"
    using assms(6) unfolding handle_interaction_def Let_def assms(2-4) val by simp
  obtain threadTS where p: "p = Inr threadTS" using run by (cases p) (simp_all add: start_from_slack_def 1 wrap_def)
  then have w1: "w_events w1 = w_events w @ [SlackStarted (ia_ChannelID action) []]"
    using 1 by (auto simp: post_investigation_started_def publish_def wrap_def send_def emit_def Let_def split: if_splits)
  obtain q w2 where 2: "slack_enqueue streamName (ia_ChannelID action) threadTS (ia_UserID action) (ir_InvestigationID r) w1 = (q, w2)" by fastforce
  obtain i where q: "q = Inr i" "w2 = w'"
    using run by (cases q) (simp_all add: start_from_slack_def 1 p assms(5) 2 wrap_def Let_def split_beta)
  from slack_enqueue_events [OF 2] q obtain job where
    job: "w_events w' = w_events w1 @ [Published (streamName @ ''.new'') job]" "ij_Alert job = slack_alert (ir_InvestigationID r)\<lparr>al_ID := i\<rparr>"
    by auto
  then show ?thesis using w1 slack_alert_resolved(2) [OF job(2)]
    by (intro exI [of _ job]) (simp add: slack_alert_def normalized_alert0_def)
qed

section \<open>Addresses and subjects\<close>

lemma wired_stream: "gw_streamName (wire_gateway li cfg) = ''INVESTIGATIONS''"
  by (simp add: wire_gateway_def when_enabled_def register_def new_gateway_def Let_def)

text \<open>The gateway publishes on the stream \<open>INVESTIGATIONS\<close> whatever stream the configuration names: with any other name the
  orchestrator listens to a subject no webhook is published on, while requests from Slack do reach it.\<close>

theorem configured_stream_ignored:
  assumes "handle_webhook (wire_gateway li cfg) source h body w = (resp, w')" "w_events w' = w_events w @ es"
    and "Published subject job \<in> set es" "nc_StreamName (cf_NATS cfg) \<noteq> ''INVESTIGATIONS''"
    and "slack_enqueue (nc_StreamName (cf_NATS cfg)) ch ts user txt v = (Inr i, v')"
  shows "subject \<noteq> job_subject cfg \<and> (\<exists>job'. w_events v' = w_events v @ [Published (job_subject cfg) job'])"
proof -
  from webhook_jobs [OF assms(1)] assms(2) have "gateway_jobs (''INVESTIGATIONS'' @ ''.new'') es" by (simp only: wired_stream) blast
  then have "subject = ''INVESTIGATIONS'' @ ''.new''" using assms(3) by (auto simp: gateway_jobs_def list_all_iff)
  moreover have "job_subject cfg \<noteq> ''INVESTIGATIONS'' @ ''.new''" using assms(4) unfolding job_subject_def by (simp only: append_same_eq) simp
  ultimately show ?thesis using slack_enqueue_events [OF assms(5)] by (auto simp: job_subject_def)
qed

text \<open>In the modes \<open>http\<close> and \<open>both\<close> the server for Slack is given the address of the main server, so the two listen on the same one.\<close>

theorem slack_server_address_taken:
  assumes "load pf pd unmarshal read_file env path = Inr cfg" "wire_slack_app li cfg = Some (Inr app)"
    and "sk_Mode (cf_Slack cfg) \<noteq> ''socket''"
  shows "\<exists>secret. HTTPTransport (sv_Address (cf_Server cfg)) secret \<in> set (ap_transports app)"
proof -
  from validate_fields [OF load_valid [OF assms(1)]] have addr: "sv_Address (cf_Server cfg) \<noteq> []" by blast
  from assms(2) have "new_app (wire_app_config cfg) (slack_enqueue (nc_StreamName (cf_NATS cfg))) (li_slackTS li) True = Inr app"
    by (simp add: wire_slack_app_def split: if_splits)
  with addr assms(3) show ?thesis
    by (auto simp: new_app_def wire_app_config_def Let_def split: if_splits)
qed

section \<open>Failures\<close>

definition wired :: "orchestrator \<Rightarrow> bool" where
  "wired oc = (o_tx oc \<and> o_rca oc = rule_service \<and> (\<forall>engine. o_llmRCA oc = Some engine \<longrightarrow> (\<exists>env. engine = llm_service env)))"

lemma fold_options: "\<lbrakk>\<And>opt oc. opt \<in> set opts \<Longrightarrow> P oc \<Longrightarrow> P (opt oc); P oc\<rbrakk> \<Longrightarrow> P (fold (\<lambda>opt oc. opt oc) opts oc)"
  by (induction opts arbitrary: oc) auto

lemma wire_options_cases:
  "opt \<in> set (wire_options li cfg) \<Longrightarrow> (\<exists>n > 0. opt = with_max_concurrent n) \<or> (\<exists>d. opt = with_timeout d) \<or> opt = with_blob_store \<or>
     (\<exists>e. opt = with_remediation e) \<or> (\<exists>env. opt = with_llm_engine (llm_service env))"
  by (auto simp: wire_options_def wire_llm_def Let_def split: if_splits option.splits sum.splits)

lemma wired_orchestrator: "wired (wire_orchestrator li cfg)"
  unfolding wire_orchestrator_def new_orchestrator_def
proof (rule fold_options)
  show "wired (opt oc)" if "opt \<in> set (wire_options li cfg)" "wired oc" for opt oc
    using wire_options_cases [OF that(1)] that(2)
    by (auto simp: wired_def with_max_concurrent_def with_timeout_def with_blob_store_def with_remediation_def with_llm_engine_def)
qed (simp add: wired_def)

lemma llm_service_no_error: "fst (rs_rank (llm_service env) uuid t g) \<noteq> Some (Inl e)"
  by (auto simp: llm_service_def split: option.split)

text \<open>What the model-backed engine sends to Slack goes to the channel of the investigation it ranks.\<close>

definition sent_on :: "string \<Rightarrow> llm_event \<Rightarrow> bool" where
  "sent_on ch e \<longleftrightarrow> quiet ch (sent_by_llm e)"

lemma sent_on_count [simp]: "sent_on ch (LLMCallCounted name result)"
  by (simp add: sent_on_def)

lemma notify_sent_on [simp]: "list_all (sent_on ch) (ls_events (notify_pass env ch th p m s)) = list_all (sent_on ch) (ls_events s)"
  by (simp add: notify_pass_def log_event_def sent_on_def)

lemma log_sent_on [simp]: "ls_events (log_event e s) = ls_events s @ [e]"
  by (simp add: log_event_def)

lemma deep_passes_sent_on:
  "deep_passes env data alert bundle n pass analysis s = Some (a, s') \<Longrightarrow> list_all (sent_on (in_SlackChannelID (id_Investigation data))) (ls_events s) \<Longrightarrow>
     list_all (sent_on (in_SlackChannelID (id_Investigation data))) (ls_events s')"
proof (induction n arbitrary: pass analysis s)
  case (Suc n)
  from Suc.prems show ?case
    by (auto simp: Let_def complete_def elim!: Suc.IH split: if_splits option.splits sum.splits)
qed simp

lemma llm_rank_sent_on:
  assumes "llm_rank env fallback graph = Some (hs, s)"
  shows "list_all (sent_on (in_SlackChannelID (id_Investigation (ig_Data graph)))) (ls_events s)"
proof -
  have "list_all (sent_on (in_SlackChannelID (id_Investigation (ig_Data graph)))) (ls_events s')"
    if "rank_with_llm env fallback graph (llm_start graph) = Some (r, s')" for r s'
    using that by (auto simp: rank_with_llm_def Let_def complete_def llm_start_def elim!: deep_passes_sent_on
        split: list.splits sum.splits option.splits if_splits)
  with assms show ?thesis by (auto simp: llm_rank_def split: option.splits sum.splits)
qed

lemma wired_engine_quiet: "quiet_engine (select_rca_engine (wire_orchestrator li cfg)) ch"
proof -
  have "quiet_engine rule_service ch" by (simp add: quiet_engine_def rule_service_def split: option.split)
  moreover have "quiet_engine (llm_service env) ch" for env
    unfolding quiet_engine_def llm_service_def
    by (auto simp: list_all_iff sent_on_def [symmetric] split: option.split dest!: llm_rank_sent_on)
  moreover have "select_rca_engine oc = rule_service \<or> (\<exists>env. select_rca_engine oc = llm_service env)" if "wired oc" for oc
    using that by (cases "o_llmRCA oc") (auto simp: wired_def select_rca_engine_def)
  ultimately show ?thesis using wired_orchestrator [of li cfg] by metis
qed

lemma wired_engine_no_error: "fst (rs_rank (select_rca_engine (wire_orchestrator li cfg)) uuid t g) \<noteq> Some (Inl e)"
proof -
  have "select_rca_engine oc = rule_service \<or> (\<exists>env. select_rca_engine oc = llm_service env)" if "wired oc" for oc
    using that by (cases "o_llmRCA oc") (auto simp: wired_def select_rca_engine_def)
  from this [OF wired_orchestrator [of li cfg]] show ?thesis
    by (elim disjE exE) (simp_all add: rule_service_no_error llm_service_no_error)
qed

text \<open>The program never marks an investigation as failed: whatever engine the configuration selects, whatever breaks and wherever, a run
  changes no row to that status, since neither engine returns an error and only an engine's error does.\<close>

theorem no_investigation_marked_failed:
  assumes "run_investigation (wire_orchestrator li cfg) job w = (r, w')" "inv_row w' i = Some row" "in_Status row = StatusFailed"
  shows "inv_row w i = Some row"
proof (cases "r = Some (Inr ())")
  case True
  obtain flag w1 where inves: "investigate (wire_orchestrator li cfg) job (emit (Counted ''investigations_started'' []) w) = (r, flag, w1)"
    and db: "w_db w' = w_db w1" using assms(1) by (rule run_investigation_db)
  from investigate_ok [OF inves [unfolded True]] obtain row' where
    "in_Status row' = StatusDone" "inv_row w1 = (inv_row w)(w_uuid w (w_uuids w) \<mapsto> row')"
    unfolding Let_def effect_def emit_frame by (elim exE conjE) (rule that; assumption)
  with assms(2,3) row_of_db [OF db] show ?thesis by (auto split: if_splits)
next
  case False
  have tx: "o_tx (wire_orchestrator li cfg)" using wired_orchestrator by (simp add: wired_def)
  from run_not_ok [OF assms(1) False tx] show ?thesis
  proof (elim conjE disjE exE)
    assume "inv_row w' = inv_row w"
    with assms(2) show ?thesis by simp
  next
    fix row'
    assume "inv_row w' = (inv_row w)(w_uuid w (w_uuids w) \<mapsto> row')" "in_Status row' \<in> {StatusPending, StatusCollecting, StatusAnalyzing}"
    with assms(2,3) show ?thesis by (auto split: if_splits)
  qed (simp add: wired_engine_no_error)
qed

section \<open>Concrete runs\<close>

text \<open>Libraries, a configuration that the environment made strict, and a world in which every call fails.\<close>

definition sample_li :: libraries where
  "sample_li = \<lparr>li_hmac = (\<lambda>key b. key @ b), li_sha256 = (\<lambda>b. b),
     li_alertmanager = (\<lambda>b. Some \<lparr>am_GroupKey = [], am_CommonLabels = None, am_Alerts =
       [\<lparr>wa_Status = ''firing'', wa_Labels = None, wa_Annotations = None, wa_StartsAt = 1, wa_EndsAt = 0, wa_GeneratorURL = [],
         wa_Fingerprint = ''f''\<rparr>]\<rparr>),
     li_grafana = (\<lambda>b. None), li_github = \<lparr>gu_deployment = (\<lambda>b. None), gu_status = (\<lambda>b. None), gu_push = (\<lambda>b. None)\<rparr>,
     li_gitlab = \<lparr>lu_deployment = (\<lambda>b. None), lu_push = (\<lambda>b. None)\<rparr>, li_slackTS = (\<lambda>n. ''ts''),
     li_readFile = (\<lambda>p. Inl (ErrOther ''no such file'')), li_policies = (\<lambda>b. Inr []), li_llm = (\<lambda>st. failing_env), li_git = (\<lambda>repo paths n url. NetError ''refused''),
     li_collect = (\<lambda>n req. []), li_sort = insertion_sort earlier\<rparr>"

definition sample_environ :: environ where
  "sample_environ name =
     (if name = ''SHERLOCK_STRICT_WEBHOOK_AUTH'' then ''true''
      else if name = ''SHERLOCK_ALERTMANAGER_SECRET'' \<or> name = ''SHERLOCK_GRAFANA_HMAC_SECRET'' then ''key''
      else if name = ''SHERLOCK_NATS_STREAM_NAME'' then ''JOBS''
      else [])"

definition sample_load :: "environ \<Rightarrow> string + config" where
  "sample_load env = load (\<lambda>n s. None) (\<lambda>s. None) (\<lambda>data cfg. Inr cfg) (\<lambda>path. FileMissing) env ''sherlock.yaml''"

definition sample_config :: config where
  "sample_config = config_defaults
     \<lparr>cf_Server := (cf_Server config_defaults)\<lparr>sv_StrictWebhookAuth := True\<rparr>,
      cf_NATS := (cf_NATS config_defaults)\<lparr>nc_StreamName := ''JOBS''\<rparr>,
      cf_Receivers := (cf_Receivers config_defaults)\<lparr>rc_Grafana := \<lparr>gr_Enabled = True, gr_HMACSecret = ''key''\<rparr>,
        rc_Alertmanager := \<lparr>ar_Enabled = True, ar_Secret = ''key''\<rparr>\<rparr>\<rparr>"

lemma sample_loaded: "sample_load sample_environ = Inr sample_config" by code_simp

lemma sample_strict_accepted:
  fixes r
  defines "r \<equiv> handle_webhook (wire_gateway sample_li sample_config) ''alertmanager'' sample_header (Some ''{}'') (sample_world empty_db)"
  shows "hr_Status (fst r) = 202"
    "map (\<lambda>e. case e of Published s j \<Rightarrow> Some s | _ \<Rightarrow> None) (filter is_published (w_events (snd r))) = [Some ''INVESTIGATIONS.new'']"
  unfolding r_def
  by (simp_all add: sample_li_def sample_config_def config_defaults_def wire_gateway_def when_enabled_def gf_receiver_def sample_defs
      handle_webhook_def archived_webhook_def max_body_size_def now_def new_uuid_def send_def emit_def decode_body_def am_alert_def route_alert_def check_dedup_def dedup_check_def inv_find_active_def exec_def not_duplicate_def check_suppress_def
      suppression_is_active_def Let_def List.map_filter_simps normalized_alert0_def time_add_def)

theorem strict_gateway_authenticates_witness:
  "right_credential sample_li sample_config ''alertmanager'' sample_header ''{}'' \<and>
   hr_Status (fst (handle_webhook (wire_gateway sample_li sample_config) ''alertmanager'' sample_header (Some ''{}'') (sample_world empty_db))) = 202"
proof -
  obtain resp w' where req: "handle_webhook (wire_gateway sample_li sample_config) ''alertmanager'' sample_header (Some ''{}'') (sample_world empty_db) = (resp, w')"
    by fastforce
  have "hr_Status resp = 202" using sample_strict_accepted(1) by (simp add: req)
  moreover have "sv_StrictWebhookAuth (cf_Server sample_config)" by (simp add: sample_config_def)
  ultimately show ?thesis using strict_gateway_authenticates [OF sample_loaded [unfolded sample_load_def] _ req] by (simp add: req)
qed

theorem configured_stream_ignored_witness:
  "\<exists>(w'::world) subject job job'. Published subject job \<in> set (w_events w') \<and> subject \<noteq> job_subject sample_config \<and>
     w_events (snd (slack_enqueue ''JOBS'' ''C1'' ''1.0'' ''U1'' ''payments'' (sample_world empty_db))) = [Published (job_subject sample_config) job']"
proof -
  obtain resp w' where req: "handle_webhook (wire_gateway sample_li sample_config) ''alertmanager'' sample_header (Some ''{}'') (sample_world empty_db) = (resp, w')"
    by fastforce
  have ev: "w_events (sample_world empty_db) = []" by (simp add: sample_world_def)
  have "filter is_published (w_events w') \<noteq> []" using sample_strict_accepted(2) by (auto simp: req)
  then obtain e where e: "e \<in> set (w_events w')" "is_published e" by (metis filter_False)
  obtain subject job where "e = Published subject job" using e(2) by (auto elim: is_published.elims)
  then have pub: "Published subject job \<in> set (w_events w')" using e(1) by simp
  have stream: "nc_StreamName (cf_NATS sample_config) = ''JOBS''" by (simp add: sample_config_def)
  have "fst (slack_enqueue ''JOBS'' ''C1'' ''1.0'' ''U1'' ''payments'' (sample_world empty_db)) = Inr (''u'' @ itoa 0)"
    by (simp add: slack_enqueue_def enqueue_investigation_def slack_alert_def normalized_alert0_def new_uuid_def send_def emit_def
        sample_world_def Let_def)
  then have enq: "slack_enqueue ''JOBS'' ''C1'' ''1.0'' ''U1'' ''payments'' (sample_world empty_db) =
      (Inr (''u'' @ itoa 0), snd (slack_enqueue ''JOBS'' ''C1'' ''1.0'' ''U1'' ''payments'' (sample_world empty_db)))"
    by (metis prod.collapse)
  have "w_events w' = w_events (sample_world empty_db) @ w_events w'" by (simp add: ev)
  from configured_stream_ignored [OF req this pub, unfolded stream, OF _ enq] pub show ?thesis by (auto simp: ev)
qed

theorem no_investigation_marked_failed_witness:
  "\<exists>r w' row. run_investigation (wire_orchestrator sample_li sample_config) sample_job
       (sample_world (empty_db\<lparr>db_investigations := [sample_row ''old'' (hours 9) []\<lparr>in_Status := StatusFailed\<rparr>]\<rparr>)) = (r, w') \<and>
     inv_row w' ''old'' = Some row \<and> in_Status row = StatusFailed"
proof -
  let ?w = "sample_world (empty_db\<lparr>db_investigations := [sample_row ''old'' (hours 9) []\<lparr>in_Status := StatusFailed\<rparr>]\<rparr>)"
  obtain r w' where run: "run_investigation (wire_orchestrator sample_li sample_config) sample_job ?w = (r, w')" by fastforce
  have "o_tx (wire_orchestrator sample_li sample_config)" using wired_orchestrator by (simp add: wired_def)
  from run_other_rows [OF run this, of "''old''"] have "inv_row w' ''old'' = Some (sample_row ''old'' (hours 9) []\<lparr>in_Status := StatusFailed\<rparr>)"
    by (simp add: sample_world_def inv_row_def sample_row_def)
  with no_investigation_marked_failed [OF run this] run show ?thesis by simp
qed

text \<open>A crashing pod in every namespace, no Prometheus, an address of Loki that does not parse, and no git integration.\<close>

definition sample_sources :: collector_sources where
  "sample_sources = \<lparr>so_cluster = (\<lambda>kubeconfig inCluster. Some sample_cluster), so_k8s_order = k8s_targets, so_prom = (\<lambda>u. None),
     so_prom_order = prom_tasks, so_parseURL = (\<lambda>u. None),
     so_loki = \<lparr>le_baseURL = [], le_client = (\<lambda>u. NetError ''refused''), le_decode = (\<lambda>b. None), le_uuid = (\<lambda>q n. []), le_clock = (\<lambda>q. 0)\<rparr>,
     so_loki_order = loki_tasks, so_deploy = sample_deploy_env, so_deploy_state = (\<lambda>req. sample_deploy_state)\<rparr>"

lemma sample_fair: "fair_orders sample_sources req"
  by (simp add: fair_orders_def sample_sources_def)

lemma sample_wired: "wire_collectors sample_sources config_defaults =
    [\<lparr>cl_Name = ''kubernetes'', cl_Collect = (\<lambda>req. Some (Inr (k8s_collect sample_cluster req (k8s_targets req))))\<rparr>]"
  by (simp add: wire_collectors_def sample_sources_def new_loki_collector_def register_some_def register_collector_def config_defaults_def Let_def)

lemma sample_collected:
  "\<exists>st. collect_steps req (start_collecting (wire_collectors sample_sources config_defaults)) st \<and> cg_running st = [] \<and>
     cg_combined st = k8s_collect sample_cluster req (k8s_targets req)"
proof -
  let ?c = "\<lparr>cl_Name = ''kubernetes'', cl_Collect = (\<lambda>req. Some (Inr (k8s_collect sample_cluster req (k8s_targets req))))\<rparr>"
  let ?st = "finish_collector req ?c (start_collecting [?c]\<lparr>cg_running := [] @ []\<rparr>)"
  have "collect_step req (start_collecting [?c]) ?st" by (rule finishes) (simp_all add: start_collecting_def)
  moreover have "cg_running ?st = []" "cg_combined ?st = k8s_collect sample_cluster req (k8s_targets req)"
    by (simp_all add: start_collecting_def found_by_def)
  ultimately show ?thesis unfolding sample_wired collect_steps_def by blast
qed

definition sample_k8s_request :: collect_request where
  "sample_k8s_request = \<lparr>cr_InvestigationID = ''i1'', cr_Alert = normalized_alert0, cr_Targets = [target_ref0\<lparr>tr_Kind := ''service'', tr_Name := ''shop''\<rparr>],
     cr_TimeFrom = hours 9, cr_TimeTo = hours 10\<rparr>"

theorem collected_evidence_typed_witness:
  "\<exists>st. collect_steps sample_k8s_request (start_collecting (wire_collectors sample_sources config_defaults)) st \<and> cg_running st = [] \<and>
     map ev_Target (cg_combined st) = cr_Targets sample_k8s_request \<and> list_all (\<lambda>e. ev_InvestigationID e = ''i1'') (cg_combined st)"
proof -
  obtain st where st: "collect_steps sample_k8s_request (start_collecting (wire_collectors sample_sources config_defaults)) st" "cg_running st = []"
    "cg_combined st = k8s_collect sample_cluster sample_k8s_request (k8s_targets sample_k8s_request)" using sample_collected by blast
  have "map ev_Target (k8s_collect sample_cluster sample_k8s_request (k8s_targets sample_k8s_request)) = cr_Targets sample_k8s_request"
    by (simp add: sample_k8s_request_def k8s_collect_def k8s_targets_def is_k8s_target_def collect_for_target_def sample_cluster_def
        container_state_def k8s_evidence_def target_ref0_def Let_def)
  moreover have "list_all (\<lambda>e. ev_InvestigationID e = ''i1'') (cg_combined st)"
    using collected_evidence_typed [OF st(1,2) sample_fair] by (auto simp: list_all_iff typed_evidence_def sample_k8s_request_def)
  ultimately show ?thesis using st by metis
qed

end
