(* ===== verification/Success.thy ===== *)
theory Success
  imports OrchestratorSpec
begin

text \<open>
  When an investigation ends well: with services that answer, identifiers that are new and an engine that returns, every phase of
  \<open>internal/investigation/orchestrator.go\<close> goes through.
\<close>

section \<open>A world in which everything answers\<close>

text \<open>No call fails, the database reads the UUIDs of the generator as such, and those still to come are new.\<close>

definition healthy :: "world \<Rightarrow> bool" where
  "healthy w \<longleftrightarrow> (\<forall>n. \<not> w_fault w n) \<and> (\<forall>n. uuid_column w (w_uuid w n)) \<and> inj (w_uuid w) \<and>
     (\<forall>n \<ge> w_uuids w. w_uuid w n \<notin> inv_ids (w_db w) \<union> (hy_ID \<circ> snd) ` set (db_hypotheses (w_db w)) \<union> te_ID ` set (db_timeline (w_db w)))"

text \<open>What stays the same in a run: the services and the generator, which only moves forward.\<close>

definition onward :: "world \<Rightarrow> world \<Rightarrow> bool" where
  "onward w v \<longleftrightarrow> w_fault v = w_fault w \<and> w_uuid v = w_uuid w \<and> w_uuid_in v = w_uuid_in w \<and> w_uuids w \<le> w_uuids v"

lemma onward_column: "onward w v \<Longrightarrow> uuid_column v = uuid_column w"
  by (simp add: onward_def uuid_column_def fun_eq_iff)

lemma onward_refl [simp]: "onward w w"
  by (simp add: onward_def)

lemma onward_trans: "onward w v \<Longrightarrow> onward v u \<Longrightarrow> onward w u"
  by (auto simp: onward_def)

lemma onward_basic [simp]:
  "onward w (snd (now w))" "onward w (snd (new_uuid w))" "onward w (emit e w)" "onward w (snd (send e w))" "onward w (snd (exec stmt w))"
  "onward w (w\<lparr>w_db := db\<rparr>)" "onward w (rollback db w)"
  by (auto simp: onward_def now_def new_uuid_def emit_def send_def exec_def rollback_def Let_def split: sum.split)

lemma onward_snd: "f w = (r, v) \<Longrightarrow> onward w (snd (f w)) \<Longrightarrow> onward w v"
  by simp

lemma onward_stores [simp]:
  "onward w (snd (alert_create a w))" "onward w (snd (inv_create iv w))" "onward w (snd (evidence_create_batch es w))"
  "onward w (snd (hypothesis_create_batch i hs w))" "onward w (snd (timeline_create_batch evs w))" "onward w (snd (audit_create e w))"
  "onward w (snd (begin_tx w))"
  by (simp_all add: alert_create_def inv_create_def evidence_create_batch_def hypothesis_create_batch_def timeline_create_batch_def
      audit_create_def begin_tx_def)

lemma onward_updates [simp]:
  "onward w (snd (update_investigation f i w))" "onward w (snd (inv_update_status i s w))" "onward w (snd (inv_complete i h c w))"
proof -
  show up: "onward w (snd (update_investigation f i w))" for f w by (simp add: update_investigation_def)
  have "onward w (w\<lparr>w_reads := Suc (w_reads w)\<rparr>)" by (simp add: onward_def)
  then show "onward w (snd (inv_update_status i s w))" "onward w (snd (inv_complete i h c w))"
    using onward_trans [OF _ up] by (simp_all add: inv_update_status_def inv_complete_def now_def)
qed

lemma onward_audit [simp]: "onward w (snd (audit_log t a act tgt md w))"
proof -
  have log: "onward w (snd (audit_log_action e w))" for e w
  proof -
    obtain e1 w1 where 1: "(if ae_ID e = [] then (let (u, w) = new_uuid w in (e\<lparr>ae_ID := u\<rparr>, w)) else (e, w)) = (e1, w1)" by fastforce
    obtain e2 w2 where 2: "(if is_zero (ae_Timestamp e1) then (let (t, w) = now w1 in (e1\<lparr>ae_Timestamp := t\<rparr>, w)) else (e1, w1)) = (e2, w2)" by fastforce
    have "onward w w1" using 1 onward_basic(2) [of w] by (auto simp: split_beta split: if_splits)
    moreover have "onward w1 w2" using 2 onward_basic(1) [of w1] by (auto simp: split_beta split: if_splits)
    ultimately have "onward w w2" by (rule onward_trans)
    then show ?thesis using onward_trans [OF _ onward_stores(6)] by (simp add: audit_log_action_def 1 2)
  qed
  obtain u w1 where u: "new_uuid w = (u, w1)" by fastforce
  obtain s w2 where s: "now w1 = (s, w2)" by fastforce
  have "onward w w1" using onward_basic(2) [of w] by (simp add: u)
  moreover have "onward w1 w2" using onward_basic(1) [of w1] by (simp add: s)
  ultimately show ?thesis using log by (simp add: audit_log_def u s) (blast intro: onward_trans)
qed

lemma onward_posts [simp]:
  "onward w (post_update oc iv msg w)" "onward w (snd (post_started oc iv w))" "onward w (post_result oc iv r w)"
proof -
  have "onward w v" if "send e w = (r, v)" for e r v using onward_basic(4) [of w e] that by simp
  then show "onward w (snd (post_started oc iv w))"
    by (auto simp: post_started_def split: prod.split option.split)
qed (simp_all add: post_update_def post_result_def)

lemma onward_offload: "offload i es w = (es', w') \<Longrightarrow> onward w w'"
proof (induction es arbitrary: w es' w')
  case (Cons e es)
  obtain e1 w1 where 1: "(if length (ev_BodyRef e) > 4096 then
            (let blobKey = ''evidence/'' @ i @ ''/'' @ ev_ID e
             in case send (BlobStored blobKey (ev_BodyRef e)) w of
                  (Some err, w) \<Rightarrow> (e, w) | (None, w) \<Rightarrow> (e\<lparr>ev_BodyRef := blobKey\<rparr>, w))
          else (e, w)) = (e1, w1)" by fastforce
  have "onward w v" if "send x w = (r, v)" for x r v using onward_basic(4) [of w x] that by simp
  then have "onward w w1" using 1 by (auto simp: Let_def split: if_splits prod.splits option.splits)
  moreover obtain es1 w2 where 2: "offload i es w1 = (es1, w2)" by fastforce
  ultimately show ?case using Cons.prems Cons.IH [OF 2] by (auto simp: 1 2 intro: onward_trans)
qed simp

section \<open>Statements that go through\<close>

definition working :: "world \<Rightarrow> bool" where
  "working w \<longleftrightarrow> (\<forall>n. \<not> w_fault w n)"

lemma onward_working: "onward w v \<Longrightarrow> working v = working w"
  by (simp add: onward_def working_def)

lemma exec_working: "working w \<Longrightarrow> exec stmt w =
    (case stmt (w_db w) of Inl err \<Rightarrow> (Inl err, w\<lparr>w_calls := Suc (w_calls w)\<rparr>)
     | Inr (a, db) \<Rightarrow> (Inr a, w\<lparr>w_calls := Suc (w_calls w), w_db := db\<rparr>))"
  by (simp add: working_def exec_def Let_def split: sum.split)

lemma inv_row_ids: "inv_row w i = None \<longleftrightarrow> i \<notin> inv_ids (w_db w)"
  by (auto simp: inv_row_def inv_ids_def find_None_iff)

lemma inv_create_ok: "working w \<Longrightarrow> uuid_column w (in_ID iv) \<Longrightarrow> inv_row w (in_ID iv) = None \<Longrightarrow> fst (inv_create iv w) = Inr ()"
  by (simp add: inv_create_def exec_working inv_row_ids inv_ids_def primary_key_one)

lemma update_ok:
  assumes "working w" "inv_row w i \<noteq> None"
  shows "fst (inv_update_status i s w) = Inr ()" "fst (inv_complete i h c w) = Inr ()"
proof -
  have "working (w\<lparr>w_reads := n\<rparr>)" for n using assms(1) by (simp add: working_def)
  then show "fst (inv_update_status i s w) = Inr ()" "fst (inv_complete i h c w) = Inr ()"
    using assms(2) by (simp_all add: inv_update_status_def inv_complete_def update_investigation_def exec_working now_def inv_row_ids inv_ids_def)
qed

lemma in_tx_succeeds:
  assumes "working w" "\<And>v. working v \<Longrightarrow> w_db v = w_db w \<Longrightarrow> onward w v \<Longrightarrow> fst (body v) = Inr () \<and> onward v (snd (body v))"
  shows "fst (in_tx body w) = Inr () \<and> onward w (snd (in_tx body w))"
proof -
  let ?v = "w\<lparr>w_calls := Suc (w_calls w)\<rparr>"
  have v: "begin_tx w = (Inr (w_db w), ?v)" "working ?v" "onward w ?v"
    using assms(1) by (simp_all add: begin_tx_def exec_working working_def onward_def)
  have "w_db ?v = w_db w" by simp
  from assms(2) [OF v(2) this v(3)] obtain v' where body: "body ?v = (Inr (), v')" "onward ?v v'" by (metis prod.collapse)
  have "working v'" using body(2) v(2) by (simp add: onward_working)
  then have "commit (w_db w) v' = (Inr (), v'\<lparr>w_calls := Suc (w_calls v')\<rparr>)" by (simp add: commit_def exec_working)
  moreover have "onward v' (v'\<lparr>w_calls := Suc (w_calls v')\<rparr>)" by (simp add: onward_def)
  ultimately show ?thesis using onward_trans [OF v(3) body(2)] by (simp add: in_tx_def wrap_def v(1) body(1) onward_trans)
qed

section \<open>The phases\<close>

text \<open>Storing a body elsewhere changes nothing but the body.\<close>

definition same_but_body :: "evidence \<Rightarrow> evidence \<Rightarrow> bool" where
  "same_but_body e e' \<longleftrightarrow> (\<exists>b. e' = e\<lparr>ev_BodyRef := b\<rparr>)"

lemma same_but_body_refl [simp]: "same_but_body e e"
  unfolding same_but_body_def by (intro exI [of _ "ev_BodyRef e"]) simp

lemma offload_bodies: "offload i es w = (es', w') \<Longrightarrow> list_all2 same_but_body es es'"
proof (induction es arbitrary: w es' w')
  case (Cons e es)
  obtain e1 w1 where 1: "(if length (ev_BodyRef e) > 4096 then
            (let blobKey = ''evidence/'' @ i @ ''/'' @ ev_ID e
             in case send (BlobStored blobKey (ev_BodyRef e)) w of
                  (Some err, w) \<Rightarrow> (e, w) | (None, w) \<Rightarrow> (e\<lparr>ev_BodyRef := blobKey\<rparr>, w))
          else (e, w)) = (e1, w1)" by fastforce
  then have "same_but_body e e1"
    by (auto simp: same_but_body_def Let_def split: if_splits prod.splits option.splits intro: exI [of _ "ev_BodyRef e"])
  moreover obtain es1 w2 where 2: "offload i es w1 = (es1, w2)" by fastforce
  ultimately show ?case using Cons.prems Cons.IH [OF 2] by (auto simp: 1 2)
qed simp

lemma start_phase_ok:
  assumes "working w" "inv_row w (in_ID iv) = None" "uuid_column w (in_ID iv)"
  shows "\<exists>iv' w'. start_phase oc job iv w = (Inr iv', w') \<and> onward w w'"
proof -
  obtain r1 w1 where 1: "alert_create (ij_Alert job) w = (r1, w1)" by fastforce
  have o1: "onward w w1" "inv_row w1 = inv_row w"
    using onward_stores(1) [of w "ij_Alert job"] effect_rows [OF alert_create_unchanged [of w "ij_Alert job"]] by (simp_all add: 1)
  have "working w1" using o1(1) assms(1) by (simp add: onward_working)
  then obtain w2 where 2: "inv_create iv w1 = (Inr (), w2)" using inv_create_ok [of w1 iv] o1(2) assms(2,3) onward_column [OF o1(1)] by (metis prod.collapse)
  have o2: "onward w w2" using onward_trans [OF o1(1)] onward_stores(2) [of w1 iv] by (simp add: 2)
  have row2: "inv_row w2 (in_ID iv) \<noteq> None" using inv_create_effect [OF 2] by (simp add: effect_def)
  obtain r3 w3 where 3: "audit_log (in_TenantID iv) ''system'' ''investigation.created'' (in_ID iv)
      (Some [(''alert_id'', al_ID (ij_Alert job))]) w2 = (r3, w3)" by fastforce
  have o3: "onward w2 w3" "inv_row w3 = inv_row w2"
    using onward_audit effect_rows [OF audit_log_unchanged] 3 by (metis snd_conv)+
  obtain iv4 w4 where 4: "post_started oc iv w3 = (iv4, w4)" by fastforce
  have o4: "onward w3 w4" "inv_row w4 = inv_row w3"
    using onward_posts(2) effect_rows [OF posts_unchanged(2)] 4 by (metis snd_conv)+
  note o24 = onward_trans [OF o2 onward_trans [OF o3(1) o4(1)]]
  have id4: "in_ID iv4 = in_ID iv" using 4 by (auto simp: post_started_def split: if_splits prod.splits option.splits)
  have "working w4" using o24 assms(1) by (simp add: onward_working)
  then obtain w5 where 5: "inv_update_status (in_ID iv4) StatusCollecting w4 = (Inr (), w5)"
    using update_ok(1) [of w4 "in_ID iv4" StatusCollecting] row2 o3(2) o4(2) id4 by (metis prod.collapse)
  have "onward w w5" using onward_trans [OF o24] onward_updates(2) [of w4 "in_ID iv4" StatusCollecting] by (simp add: 5)
  then show ?thesis by (simp add: start_phase_def 1 2 3 4 5 [unfolded id4] 5 and_then_def wrap_def)
qed

text \<open>The evidence a collection may return: its identifiers are UUIDs and new, and it belongs to the investigation of the request.\<close>

definition fits :: "world \<Rightarrow> collect_request \<Rightarrow> evidence list \<Rightarrow> bool" where
  "fits w req es \<longleftrightarrow> list_all (uuid_column w) (map ev_ID es) \<and> distinct (map ev_ID es) \<and> set (map ev_ID es) \<inter> ev_ID ` set (db_evidence (w_db w)) = {} \<and>
     set (map ev_InvestigationID es) \<subseteq> {cr_InvestigationID req}"

lemma bodies_ids: "list_all2 same_but_body es es' \<Longrightarrow> map ev_ID es' = map ev_ID es \<and> map ev_InvestigationID es' = map ev_InvestigationID es"
  by (induction rule: list_all2_induct) (auto simp: same_but_body_def)

lemma store_evidence_ok:
  assumes "working w" "inv_row w i \<noteq> None" "fits w req es" "cr_InvestigationID req = i"
  shows "fst (store_evidence_batch oc es w) = Inr () \<and> onward w (snd (store_evidence_batch oc es w))"
proof -
  have ok: "batch_ok w (w_db w) (map ev_ID (db_evidence (w_db w))) (map ev_ID es) (map ev_InvestigationID es)"
    using assms(2-4) by (auto simp: batch_ok_def primary_key_def references_investigation_def fits_def list_all_iff inv_row_ids)
  have create: "fst (evidence_create_batch es v) = Inr () \<and> onward v (snd (evidence_create_batch es v))"
    if "working v" "w_db v = w_db w" "onward w v" for v
    using ok that by (simp add: evidence_create_batch_def exec_working batch_ok_def primary_key_def onward_column)  (simp add: onward_def)
  show ?thesis
    unfolding store_evidence_batch_def using in_tx_succeeds [OF assms(1), of "evidence_create_batch es"] create assms(1) by simp
qed

lemma collect_phase_ok:
  assumes "working w" "inv_row w (in_ID iv) \<noteq> None"
    and evidence: "\<And>n req t. cr_InvestigationID req = in_ID iv \<Longrightarrow> cr_Targets req = rr_Targets (resolve t (ij_Alert job)) \<Longrightarrow>
      fits w req (fst (o_collect oc n req))"
  shows "\<exists>iv' es w'. collect_phase oc job iv w = (Inr (iv', es), w') \<and> onward w w'"
proof -
  obtain t w1 where 1: "now w = (t, w1)" by fastforce
  define iv1 where "iv1 = iv\<lparr>in_Targets := rr_Targets (resolve t (ij_Alert job)), in_TimeFrom := rr_TimeFrom (resolve t (ij_Alert job)),
    in_TimeTo := rr_TimeTo (resolve t (ij_Alert job))\<rparr>"
  define w2 where "w2 = post_update oc iv1 (''Collecting evidence for '' @ itoa (int (length (rr_Targets (resolve t (ij_Alert job))))) @ '' target(s)...'') w1"
  define req where "req = \<lparr>cr_InvestigationID = in_ID iv1, cr_Alert = ij_Alert job, cr_Targets = rr_Targets (resolve t (ij_Alert job)),
      cr_TimeFrom = rr_TimeFrom (resolve t (ij_Alert job)), cr_TimeTo = rr_TimeTo (resolve t (ij_Alert job))\<rparr>"
  obtain es3 w3 where 3: "run_collectors oc req w2 = (es3, w3)" by fastforce
  obtain es w4 where 4: "(if o_blobStore oc then offload (in_ID iv1) es3 w3 else (es3, w3)) = (es, w4)" by fastforce
  have id1: "in_ID iv1 = in_ID iv" "cr_InvestigationID req = in_ID iv" by (simp_all add: iv1_def req_def)
  have o1: "onward w w1" "unchanged w w1" using onward_basic(1) [of w] unchanged_basic(2) [of w] by (simp_all add: 1)
  have o2: "onward w1 w2" "unchanged w1 w2" unfolding w2_def by simp_all
  have w3: "w3 = w2\<lparr>w_calls := Suc (w_calls w2)\<rparr>" "es3 = fst (o_collect oc (w_calls w2) req)" using 3 by (simp_all add: run_collectors_def)
  have o3: "onward w2 w3" "unchanged w2 w3" using run_collectors_unchanged [of w2 oc req] by (simp_all add: 3 onward_def w3(1))
  have o4: "onward w3 w4" "unchanged w3 w4" "list_all2 same_but_body es3 es"
    using 4 onward_offload offload_unchanged offload_bodies by (auto simp: list.rel_refl split: if_splits)
  have o: "onward w w4" using onward_trans [OF onward_trans [OF o1(1) o2(1)] onward_trans [OF o3(1) o4(1)]] .
  have u: "unchanged w w4" using unchanged_trans [OF unchanged_trans [OF o1(2) o2(2)] unchanged_trans [OF o3(2) o4(2)]] .
  have work4: "working w4" using o assms(1) by (simp add: onward_working)
  have row4: "inv_row w4 (in_ID iv) \<noteq> None" using u assms(2) by (simp add: effect_def)
  have "fits w req es3" using evidence [OF id1(2), of t] w3(2) by (simp add: req_def)
  then have "fits w4 req es"
    using bodies_ids [OF o4(3)] u unfolding fits_def effect_def onward_column [OF o] by (simp del: set_map list.pred_map)
  from store_evidence_ok [OF work4 row4 this id1(2)] obtain w5 where
    5: "store_evidence_batch oc es w4 = (Inr (), w5)" "onward w4 w5" by (metis prod.collapse)
  define w6 where "w6 = post_update oc iv1 (''Collected '' @ itoa (int (length es)) @ '' evidence items. Analyzing...'') w5"
  have o6: "onward w5 w6" "unchanged w5 w6" by (simp_all add: w6_def)
  note o46 = onward_trans [OF o onward_trans [OF 5(2) o6(1)]]
  have "inv_row w5 = inv_row w4" using store_evidence_effect [OF 5(1)] by (simp add: effect_def)
  then have row6: "inv_row w6 (in_ID iv) \<noteq> None" using row4 o6(2) by (simp add: effect_def)
  have "working w6" using o46 assms(1) by (simp add: onward_working)
  then obtain w7 where 7: "inv_update_status (in_ID iv1) StatusAnalyzing w6 = (Inr (), w7)"
    using update_ok(1) row6 id1(1) by (metis prod.collapse)
  have "collect_phase oc job iv w = (Inr (iv1, es), w7)"
    unfolding collect_phase_def Let_def 1 split_conv iv1_def [symmetric] w2_def [symmetric] req_def [symmetric] 3 4 5(1)
    by (simp only: wrap_def and_then_def split_conv prod.case sum.case Let_def w6_def [symmetric] 7)
  moreover have "onward w w7" using onward_trans [OF o46] onward_updates(2) [of w6 "in_ID iv1" StatusAnalyzing] by (simp add: 7)
  ultimately show ?thesis by blast
qed

text \<open>An engine that returns, and numbers its hypotheses with the UUIDs it draws.\<close>

definition engine_numbers :: "orchestrator \<Rightarrow> investigation_job \<Rightarrow> bool" where
  "engine_numbers oc job \<longleftrightarrow> (\<forall>uuid t iv es. \<exists>hs labels drawn sent.
     rs_rank (select_rca_engine oc) uuid t (correlate \<lparr>id_Investigation = iv, id_Alerts = [ij_Alert job], id_Evidence = es\<rparr>) = (Some (Inr hs), labels, drawn, sent) \<and>
     map hy_ID hs = map uuid [0..<length hs] \<and> length hs \<le> drawn)"

lemma rule_engine_numbers: "select_rca_engine oc = rule_service \<Longrightarrow> engine_numbers oc job"
proof -
  assume oc: "select_rca_engine oc = rule_service"
  have "\<exists>hs labels drawn sent. rs_rank rule_service uuid t g = (Some (Inr hs), labels, drawn, sent) \<and> map hy_ID hs = map uuid [0..<length hs] \<and> length hs \<le> drawn"
    if "id_Alerts (ig_Data g) \<noteq> []" for uuid t g
  proof -
    have "evaluate_rules (engine_new t) g \<noteq> None"
      using that rca_rule.returns [OF engine_new_rule] by (intro evaluate_rules_returns) blast
    then obtain all where all: "evaluate_rules (engine_new t) g = Some all" by blast
    have "map hy_ID (take 5 (ranked uuid g all)) = map uuid [0..<length (take 5 (ranked uuid g all))]"
      unfolding take_map [symmetric] ranked_ids by (simp add: take_map take_upt min_def)
    with all show ?thesis by (simp add: rule_service_def rank_ranked)
  qed
  then show ?thesis unfolding engine_numbers_def oc by (simp add: correlate_def Let_def)
qed

lemma rank_graph_ok:
  assumes "engine_numbers oc job"
  shows "\<exists>hs labels w' m. rank_graph oc (correlate \<lparr>id_Investigation = iv, id_Alerts = [ij_Alert job], id_Evidence = es\<rparr>) w =
      (Some (Inr hs), labels, w') \<and>
    onward w w' \<and> w_db w' = w_db w \<and> w_uuids w \<le> m \<and> map hy_ID hs = map (\<lambda>i. w_uuid w (m + i)) [0..<length hs]"
proof -
  let ?g = "correlate \<lparr>id_Investigation = iv, id_Alerts = [ij_Alert job], id_Evidence = es\<rparr>"
  let ?w = "snd (now w)"
  obtain hs labels drawn sent where rs: "rs_rank (select_rca_engine oc) (\<lambda>i. w_uuid ?w (w_uuids ?w + i)) (fst (now w)) ?g = (Some (Inr hs), labels, drawn, sent)"
    and ids: "map hy_ID hs = map (\<lambda>i. w_uuid ?w (w_uuids ?w + i)) [0..<length hs]"
    using assms unfolding engine_numbers_def by metis
  have "rank_graph oc ?g w = (Some (Inr hs), labels, ?w\<lparr>w_uuids := w_uuids ?w + drawn, w_events := w_events ?w @ sent\<rparr>)"
    by (simp add: rank_graph_def split_beta rs)
  moreover have "onward w (?w\<lparr>w_uuids := w_uuids ?w + drawn, w_events := w_events ?w @ sent\<rparr>)" "w_db ?w = w_db w"
    "w_uuid ?w = w_uuid w" "w_uuids ?w = w_uuids w" by (simp_all add: onward_def now_def)
  ultimately show ?thesis using ids
    by (intro exI [of _ hs] exI [of _ labels] exI [of _ "?w\<lparr>w_uuids := w_uuids ?w + drawn, w_events := w_events ?w @ sent\<rparr>"] exI [of _ "w_uuids w"]) simp
qed

lemma apply_policies_ids [simp]: "map hy_ID (apply_policies rem hs) = map hy_ID hs"
  by (auto simp: apply_policies_def Let_def split: option.split list.split)

lemma timeline_ids: "map te_ID (timeline_build srt uuid data) = map uuid [0..<length (timeline_build srt uuid data)]"
  unfolding timeline_build_def Let_def by (simp add: number_events_ids)

text \<open>Identifiers drawn from the generator from \<open>n\<close> on are distinct, and new in a table that has none of those to come.\<close>

lemma drawn_fit:
  assumes "inj uuid" "\<forall>k \<ge> n. uuid k \<notin> ids" "n \<le> m"
  shows "distinct (map (\<lambda>i. uuid (m + i)) [0..<k])" "set (map (\<lambda>i. uuid (m + i)) [0..<k]) \<inter> ids = {}"
proof -
  have "inj_on (\<lambda>i. uuid (m + i)) A" for A using injD [OF assms(1)] by (intro inj_onI) (metis add_left_cancel)
  then show "distinct (map (\<lambda>i. uuid (m + i)) [0..<k])" by (simp add: distinct_map)
  show "set (map (\<lambda>i. uuid (m + i)) [0..<k]) \<inter> ids = {}" using assms(2,3) by auto
qed

lemma and_then_ok: "and_then (Inr a, w) k = k a w"
  by (simp add: and_then_def)

lemma wrap_ok: "wrap msg (Inr a, w) = (Inr a, w)"
  by (simp add: wrap_def)

lemma completion_writes_ok:
  assumes "working w" "inv_row w i \<noteq> None"
    and hyps: "batch_ok w (w_db w) (map (hy_ID \<circ> snd) (db_hypotheses (w_db w))) (map hy_ID hs) (map (\<lambda>h. i) hs)"
    and events: "batch_ok w (w_db w) (map te_ID (db_timeline (w_db w))) (map te_ID evs) (map te_InvestigationID evs)"
  shows "fst (completion_writes (wrap msg) i headline c hs evs w) = Inr () \<and> onward w (snd (completion_writes (wrap msg) i headline c hs evs w))"
proof -
  obtain w1 where 1: "(if length hs > 0 then wrap ''store hypotheses'' (hypothesis_create_batch i hs w) else (Inr (), w)) = (Inr (), w1)"
    and o1: "onward w w1" and db1: "db_investigations (w_db w1) = db_investigations (w_db w)" "db_timeline (w_db w1) = db_timeline (w_db w)"
    using hyps assms(1) by (cases "hs = []") (auto simp: hypothesis_create_batch_def exec_working wrap_def onward_def)
  have work1: "working w1" using o1 assms(1) by (simp add: onward_working)
  have "batch_ok w1 (w_db w1) (map te_ID (db_timeline (w_db w1))) (map te_ID evs) (map te_InvestigationID evs)"
    using events db1 by (simp add: batch_ok_def primary_key_def references_investigation_def onward_column [OF o1] inv_ids_def)
  then obtain w2 where 2: "(if length evs > 0 then wrap ''store timeline'' (timeline_create_batch evs w1) else (Inr (), w1)) = (Inr (), w2)"
    and o2: "onward w1 w2" and db2: "db_investigations (w_db w2) = db_investigations (w_db w1)"
    using work1 by (cases "evs = []") (auto simp: timeline_create_batch_def exec_working wrap_def onward_def)
  have work2: "working w2" using o2 work1 by (simp add: onward_working)
  have row2: "inv_row w2 i \<noteq> None" using assms(2) db1 db2 by (simp add: inv_row_def)
  then obtain w3 where 3: "inv_update_status i StatusPublishing w2 = (Inr (), w3)" using update_ok(1) [OF work2] by (metis prod.collapse)
  have o3: "onward w2 w3" using onward_updates(2) [of w2 i StatusPublishing] by (simp add: 3)
  have row3: "inv_row w3 i \<noteq> None" using update_status_effect [OF 3] row2 by (auto simp: effect_def split: if_splits)
  have work3: "working w3" using o3 work2 by (simp add: onward_working)
  obtain w4 where 4: "inv_complete i headline c w3 = (Inr (), w4)" using update_ok(2) [OF work3 row3] by (metis prod.collapse)
  have o4: "onward w3 w4" using onward_updates(3) [of w3 i headline c] by (simp add: 4)
  have "completion_writes (wrap msg) i headline c hs evs w = (Inr (), w4)"
    by (simp only: completion_writes_def 1 and_then_ok 2 3 wrap_ok 4)
  then show ?thesis using onward_trans [OF onward_trans [OF o1 o2] onward_trans [OF o3 o4]] by simp
qed

lemma publish_phase_succeeds:
  assumes "working w" "inv_row w (in_ID iv) \<noteq> None" "o_tx oc" "inj (w_uuid w)" "in_ID (id_Investigation data) = in_ID iv"
    and readable: "\<forall>n. uuid_column w (w_uuid w n)" "list_all (uuid_column w) (map hy_ID found)"
    and hyps: "distinct (map hy_ID found)" "set (map hy_ID found) \<inter> (hy_ID \<circ> snd) ` set (db_hypotheses (w_db w)) = {}"
    and events: "\<forall>n \<ge> w_uuids w. w_uuid w n \<notin> te_ID ` set (db_timeline (w_db w))"
  shows "fst (publish_phase oc iv data found w) = Inr ()"
proof -
  define hs where "hs = apply_policies (o_remediation oc) found"
  define evs where "evs = timeline_build (o_sort oc) (\<lambda>i. w_uuid w (w_uuids w + i)) data"
  define w1 where "w1 = w\<lparr>w_uuids := w_uuids w + length evs\<rparr>"
  have 1: "build_timeline oc data w = (evs, w1)" by (simp add: build_timeline_def evs_def w1_def Let_def)
  have work1: "working w1" using assms(1) by (simp add: working_def w1_def)
  have o1: "onward w w1" by (simp add: w1_def onward_def)
  have ids: "map hy_ID hs = map hy_ID found" "map te_ID evs = map (\<lambda>i. w_uuid w (w_uuids w + i)) [0..<length evs]"
    by (simp add: hs_def) (simp add: evs_def timeline_ids del: length_map)
  have tinv: "\<forall>ev \<in> set evs. te_InvestigationID ev = in_ID iv"
    using assms(5) number_events_inv by (auto simp: evs_def timeline_build_def Let_def)
  obtain h c where h: "headline_of hs = (h, c)" by fastforce
  have writes: "fst (completion_writes (wrap msg) (in_ID iv) h c hs evs v) = Inr () \<and> onward v (snd (completion_writes (wrap msg) (in_ID iv) h c hs evs v))"
    if "working v" "w_db v = w_db w" "onward w v" for v msg
  proof (rule completion_writes_ok [OF that(1)])
    show "inv_row v (in_ID iv) \<noteq> None" using assms(2) that(2) by (simp add: inv_row_def)
    then have "in_ID iv \<in> inv_ids (w_db w)" using that(2) by (simp add: inv_row_ids)
    then show "batch_ok v (w_db v) (map (hy_ID \<circ> snd) (db_hypotheses (w_db v))) (map hy_ID hs) (map (\<lambda>h. in_ID iv) hs)"
      "batch_ok v (w_db v) (map te_ID (db_timeline (w_db v))) (map te_ID evs) (map te_InvestigationID evs)"
      using hyps that(2) tinv drawn_fit [OF assms(4) events order_refl, of "length evs"]
      using readable
      unfolding batch_ok_def primary_key_def references_investigation_def ids onward_column [OF that(3)] by (auto simp: list_all_iff)
  qed
  have "fst (store_completion_batch oc (in_ID iv) h c hs evs w1) = Inr ()"
  proof -
    have "fst (in_tx (completion_writes (wrap ''complete investigation'') (in_ID iv) h c hs evs) w1) = Inr ()"
      by (rule in_tx_succeeds [OF work1, THEN conjunct1]) (use writes onward_trans [OF o1] in \<open>simp add: w1_def\<close>)
    then show ?thesis using assms(3) by (simp add: store_completion_batch_def)
  qed
  then obtain w2 where "store_completion_batch oc (in_ID iv) h c hs evs w1 = (Inr (), w2)" by (metis prod.collapse)
  then show ?thesis
    by (simp add: publish_phase_def Let_def hs_def [symmetric] 1 h wrap_def and_then_def split_beta)
qed

section \<open>The whole run\<close>

lemma run_succeeds:
  assumes "healthy w" "o_tx oc" "engine_numbers oc job"
    and evidence: "\<And>n req t. cr_Targets req = rr_Targets (resolve t (ij_Alert job)) \<Longrightarrow> fits w req (fst (o_collect oc n req))"
  shows "fst (run_investigation oc job w) = Some (Inr ())"
proof -
  let ?w = "emit (Counted ''investigations_started'' []) w"
  let ?i = "w_uuid w (w_uuids w)"
  have work: "working ?w" using assms(1) by (simp add: healthy_def working_def emit_def)
  obtain iv0 w0 where 0: "new_investigation job ?w = (iv0, w0)" by fastforce
  have o0: "onward ?w w0" using 0 by (auto simp: new_investigation_def new_uuid_def now_def emit_def onward_def)
  note new = new_investigation_run [OF 0]
  have id0: "in_ID iv0 = ?i" and fresh: "stored_row iv0 = iv0" and u0: "unchanged ?w w0" using new by (auto simp: emit_def)
  have row0: "inv_row w0 = inv_row w" using effect_rows [OF u0] by simp
  have none: "inv_row w0 (in_ID iv0) = None" using assms(1) by (simp add: row0 id0 inv_row_ids healthy_def)
  have work0: "working w0" using o0 work by (simp add: onward_working)
  have "uuid_column w0 (in_ID iv0)" using assms(1) onward_column [OF o0] by (simp add: id0 healthy_def uuid_column_def emit_def)
  from start_phase_ok [OF work0 none this] obtain iv1 w1 where 1: "start_phase oc job iv0 w0 = (Inr iv1, w1)" "onward w0 w1" by blast
  from start_phase_effect [OF 1(1) fresh] obtain row1 where id1: "in_ID iv1 = ?i" and e1: "effect ((inv_row w)(?i \<mapsto> row1)) [] [] [] w0 w1"
    by (auto simp: id0 row0)
  have o1: "onward ?w w1" using onward_trans [OF o0 1(2)] .
  then have work1: "working w1" using work by (simp add: onward_working)
  have columns1: "uuid_column w1 = uuid_column w" using onward_column [OF o1] by (simp add: uuid_column_def emit_def fun_eq_iff)
  have "db_evidence (w_db w1) = db_evidence (w_db w)" using e1 u0 by (simp add: effect_def emit_def)
  then have fit1: "cr_Targets req = rr_Targets (resolve t (ij_Alert job)) \<Longrightarrow> fits w1 req (fst (o_collect oc n req))" for n req t
    using evidence by (simp add: fits_def columns1)
  have "inv_row w1 (in_ID iv1) \<noteq> None" using e1 id1 by (simp add: effect_def)
  from collect_phase_ok [OF work1 this, of job oc] fit1 obtain iv es w2 where 2: "collect_phase oc job iv1 w1 = (Inr (iv, es), w2)" "onward w1 w2" by blast
  have id2: "in_ID iv = ?i" and e2: "\<exists>row2 es. effect ((inv_row w)(?i \<mapsto> row2)) es [] [] w1 w2"
    using collect_phase_effect [OF 2(1)] e1 id1 by (auto simp: effect_def)
  let ?data = "\<lparr>id_Investigation = iv, id_Alerts = [ij_Alert job], id_Evidence = es\<rparr>"
  from rank_graph_ok [OF assms(3), of iv es w2] obtain hs labels w3 m where 3: "rank_graph oc (correlate ?data) w2 = (Some (Inr hs), labels, w3)" "onward w2 w3"
    "w_db w3 = w_db w2" "w_uuids w2 \<le> m" "map hy_ID hs = map (\<lambda>i. w_uuid w2 (m + i)) [0..<length hs]" by blast
  have o3: "onward ?w w2" "onward ?w w3" using onward_trans [OF o1 2(2)] onward_trans [OF _ 3(2)] by blast+
  let ?shared = "?data\<lparr>id_Alerts := [(ij_Alert job)\<lparr>al_Labels := labels\<rparr>]\<rparr>"
  have "fst (publish_phase oc iv ?shared hs w3) = Inr ()"
  proof (rule publish_phase_succeeds)
    have gen: "w_uuid w2 = w_uuid w" "w_uuids w \<le> m" "w_uuid w3 = w_uuid w" "w_uuids w \<le> w_uuids w3"
      using o3 3(4) by (auto simp: onward_def emit_def)
    have tables: "db_hypotheses (w_db w3) = db_hypotheses (w_db w)" "db_timeline (w_db w3) = db_timeline (w_db w)"
      using e1 e2 u0 3(3) by (auto simp: effect_def emit_def)
    have new: "inj (w_uuid w)" "\<forall>n \<ge> w_uuids w. w_uuid w n \<notin> (hy_ID \<circ> snd) ` set (db_hypotheses (w_db w))"
      "\<forall>n \<ge> w_uuids w. w_uuid w n \<notin> te_ID ` set (db_timeline (w_db w))" using assms(1) by (auto simp: healthy_def)
    show "working w3" using o3(2) work by (simp add: onward_working)
    show "inv_row w3 (in_ID iv) \<noteq> None" using e2 row_of_db [OF 3(3)] by (auto simp: id2 effect_def)
    show "inj (w_uuid w3)" using new(1) by (simp add: gen)
    have columns: "uuid_column w3 = uuid_column w" using onward_column [OF o3(2)] by (simp add: uuid_column_def emit_def fun_eq_iff)
    then show "\<forall>n. uuid_column w3 (w_uuid w3 n)" using assms(1) by (simp add: gen healthy_def)
    then show "list_all (uuid_column w3) (map hy_ID hs)" unfolding 3(5) by (simp add: list_all_iff gen(1,3))
    show "distinct (map hy_ID hs)" "set (map hy_ID hs) \<inter> (hy_ID \<circ> snd) ` set (db_hypotheses (w_db w3)) = {}"
      using drawn_fit [OF new(1,2) gen(2), of "length hs"] unfolding 3(5) gen(1) tables(1) by simp_all
    show "\<forall>n \<ge> w_uuids w3. w_uuid w3 n \<notin> te_ID ` set (db_timeline (w_db w3))"
      using new(3) gen(4) by (auto simp: gen(3) tables(2))
  qed (simp_all add: assms(2))
  then obtain w4 where 4: "publish_phase oc iv ?shared hs w3 = (Inr (), w4)" by (metis prod.collapse)
  have "investigate oc job ?w = (Some (Inr ()), False, w4)"
    unfolding investigate_def Let_def 0 split_conv 1(1) sum.case 2(1) 3(1) option.case prod.case 4 ..
  then show ?thesis by (simp add: run_investigation_def Let_def)
qed

text \<open>C2: With services that answer, an investigation ends well.  If no call fails, the identifiers to come are UUIDs and new, what is collected has
  identifiers of its own and belongs to the investigation it was collected for, and the engine returns and numbers its hypotheses, as the
  rule engine always does, then the run neither fails nor panics, and its message is acknowledged at the first delivery.\<close>

theorem investigation_succeeds:
  assumes "healthy w" "o_tx oc" "engine_numbers oc job"
    and "\<And>n req t. cr_Targets req = rr_Targets (resolve t (ij_Alert job)) \<Longrightarrow> fits w req (fst (o_collect oc n req))"
  shows "fst (run_investigation oc job w) = Some (Inr ()) \<and> fst (handle_message oc (Some job) w) = Ack"
  using run_succeeds [OF assms] by (cases "run_investigation oc job w") (simp add: handle_message_def)

section \<open>Example\<close>

lemma digits_of_inj: "digits_of m = digits_of n \<Longrightarrow> m = n"
proof (induction m arbitrary: n rule: digits_of.induct)
  case (1 m)
  have val: "k < 10 \<Longrightarrow> of_char (char_of (48 + k)) = 48 + k" for k :: nat by (simp add: of_char_of)
  then have char: "j < 10 \<Longrightarrow> k < 10 \<Longrightarrow> (char_of (48 + j) :: char) = char_of (48 + k) \<Longrightarrow> j = k" for j k :: nat
    by (metis add_left_cancel)
  consider "m < 10" "n < 10" | "m < 10" "\<not> n < 10" | "\<not> m < 10" "n < 10" | "\<not> m < 10" "\<not> n < 10" by blast
  then show ?case
  proof cases
    case 1
    with "1.prems" char [of m n] show ?thesis by (simp add: digits_of.simps [of m] digits_of.simps [of n])
  next
    case 2
    with "1.prems" show ?thesis by (simp add: digits_of.simps [of m] digits_of.simps [of n] eq_commute [of "[]"])
  next
    case 3
    with "1.prems" show ?thesis by (simp add: digits_of.simps [of m] digits_of.simps [of n])
  next
    case 4
    then have "digits_of (m div 10) = digits_of (n div 10)" "m mod 10 = n mod 10"
      using "1.prems" char [of "m mod 10" "n mod 10"] by (simp_all add: digits_of.simps [of m] digits_of.simps [of n])
    with "1.IH" [of "n div 10"] 4 show ?thesis by (metis div_mod_decomp)
  qed
qed

lemma sample_healthy: "healthy (sample_world empty_db)"
  by (auto simp: healthy_def sample_world_def empty_db_def inv_ids_def itoa_def inj_def uuid_column_def intro: digits_of_inj)

definition rules_oc :: orchestrator where
  "rules_oc = new_orchestrator \<lparr>od_RCA = rule_service,
       od_Collectors = (\<lambda>n req. ([sample_evidence ''e1'' EvidenceK8sState ''pod in CrashLoopBackOff'' 0 1\<lparr>ev_InvestigationID := cr_InvestigationID req\<rparr>], None)),
       od_Sort = insertion_sort earlier, od_Slack = None, od_Tx = True\<rparr> []"

theorem investigation_succeeds_witness:
  "fst (run_investigation rules_oc sample_job (sample_world empty_db)) = Some (Inr ()) \<and>
   fst (handle_message rules_oc (Some sample_job) (sample_world empty_db)) = Ack"
proof (rule investigation_succeeds [OF sample_healthy])
  show "o_tx rules_oc" by (simp add: rules_oc_def new_orchestrator_def)
  show "engine_numbers rules_oc sample_job"
    by (rule rule_engine_numbers) (simp add: rules_oc_def new_orchestrator_def select_rca_engine_def)
  show "fits (sample_world empty_db) req (fst (o_collect rules_oc n req))" for n req
    by (simp add: fits_def rules_oc_def new_orchestrator_def sample_world_def empty_db_def uuid_column_def)
qed

end
