(* ===== verification/Served.thy ===== *)
theory Served
  imports Wiring Success
begin

text \<open>
  From a finished investigation to its readers: what the API (\<open>api/api.go\<close>) serves for it is what the collectors the
  configuration wires found and what the engine and the policies made of it.
\<close>

section \<open>The evidence of an investigation\<close>

lemma same_but_body_typed: "same_but_body e e' \<Longrightarrow> typed_evidence source kinds req e' = typed_evidence source kinds req e \<and> ev_Source e' = ev_Source e"
  by (auto simp: same_but_body_def typed_evidence_def)

lemma collect_phase_collected:
  assumes "collect_phase oc job iv w = (Inr (iv', es), w')"
  shows "\<exists>n t req. req = \<lparr>cr_InvestigationID = in_ID iv, cr_Alert = ij_Alert job, cr_Targets = rr_Targets (resolve t (ij_Alert job)),
      cr_TimeFrom = rr_TimeFrom (resolve t (ij_Alert job)), cr_TimeTo = rr_TimeTo (resolve t (ij_Alert job))\<rparr> \<and>
    list_all2 same_but_body (fst (o_collect oc n req)) es"
proof -
  obtain t w1 where 1: "now w = (t, w1)" by fastforce
  define iv1 where "iv1 = iv\<lparr>in_Targets := rr_Targets (resolve t (ij_Alert job)), in_TimeFrom := rr_TimeFrom (resolve t (ij_Alert job)),
    in_TimeTo := rr_TimeTo (resolve t (ij_Alert job))\<rparr>"
  define w2 where "w2 = post_update oc iv1 (''Collecting evidence for '' @ itoa (int (length (rr_Targets (resolve t (ij_Alert job))))) @ '' target(s)...'') w1"
  define req where "req = \<lparr>cr_InvestigationID = in_ID iv1, cr_Alert = ij_Alert job, cr_Targets = rr_Targets (resolve t (ij_Alert job)),
      cr_TimeFrom = rr_TimeFrom (resolve t (ij_Alert job)), cr_TimeTo = rr_TimeTo (resolve t (ij_Alert job))\<rparr>"
  obtain es3 w3 where 3: "run_collectors oc req w2 = (es3, w3)" by fastforce
  obtain es4 w4 where 4: "(if o_blobStore oc then offload (in_ID iv1) es3 w3 else (es3, w3)) = (es4, w4)" by fastforce
  have "collect_phase oc job iv w = and_then (wrap ''store evidence'' (store_evidence_batch oc es4 w4)) (\<lambda>u w.
      (let w = post_update oc iv1 (''Collected '' @ itoa (int (length es4)) @ '' evidence items. Analyzing...'') w
       in and_then (wrap ''update status to analyzing'' (inv_update_status (in_ID iv1) StatusAnalyzing w)) (\<lambda>u w. (Inr (iv1, es4), w))))"
    unfolding collect_phase_def Let_def 1 split_conv iv1_def [symmetric] w2_def [symmetric] req_def [symmetric] 3 4 ..
  with assms have "es = es4" by (auto simp: and_then_Inr Let_def split: prod.splits)
  moreover have "list_all2 same_but_body es3 es4"
    using 4 offload_bodies by (auto simp: list.rel_refl split: if_splits)
  moreover have "es3 = fst (o_collect oc (w_calls w2) req)" using 3 by (simp add: run_collectors_def)
  ultimately show ?thesis by (intro exI [of _ "w_calls w2"] exI [of _ t] exI [of _ req]) (simp add: req_def iv1_def)
qed

lemma wired_collect: "o_collect (wire_orchestrator li cfg) = (\<lambda>n req. (li_collect li n req, None))"
  unfolding wire_orchestrator_def new_orchestrator_def
proof (rule fold_options)
  let ?P = "\<lambda>oc. o_collect oc = (\<lambda>n req. (li_collect li n req, None))"
  show "?P (opt oc)" if "opt \<in> set (wire_options li cfg)" "?P oc" for opt oc
    using wire_options_cases [OF that(1)] that(2)
    by (auto simp: with_max_concurrent_def with_timeout_def with_blob_store_def with_remediation_def with_llm_engine_def)
qed simp

lemma wired_rules:
  assumes "\<not> lc_Enabled (cf_LLM cfg)"
  shows "select_rca_engine (wire_orchestrator li cfg) = rule_service"
proof -
  have "o_rca (wire_orchestrator li cfg) = rule_service \<and> o_llmRCA (wire_orchestrator li cfg) = None"
    unfolding wire_orchestrator_def new_orchestrator_def
  proof (rule fold_options)
    let ?P = "\<lambda>oc. o_rca oc = rule_service \<and> o_llmRCA oc = None"
    have "wire_llm li cfg = []" using assms by (simp add: wire_llm_def)
    then show "?P (opt oc)" if "opt \<in> set (wire_options li cfg)" "?P oc" for opt oc
      using that by (auto simp: wire_options_def Let_def with_max_concurrent_def with_timeout_def with_blob_store_def with_remediation_def
          split: if_splits option.splits)
  qed simp
  then show ?thesis by (simp add: select_rca_engine_def)
qed

text \<open>What the wired engine leaves of the labels of the alert: the rule engine only reads them; the follow-ups of the model-backed one may write two.\<close>

lemma wired_engine_labels:
  assumes "rs_rank (select_rca_engine (wire_orchestrator li cfg)) uuid t
      (correlate \<lparr>id_Investigation = iv, id_Alerts = [alert], id_Evidence = es\<rparr>) = (r, labels, drawn, events)"
  shows "if lc_Enabled (cf_LLM cfg) then relabelled (al_Labels alert) labels else labels = al_Labels alert"
proof -
  let ?g = "correlate \<lparr>id_Investigation = iv, id_Alerts = [alert], id_Evidence = es\<rparr>"
  let ?oc = "wire_orchestrator li cfg"
  have alerts: "id_Alerts (ig_Data ?g) = [alert]" by (simp add: correlate_def)
  then have labels: "graph_labels ?g = al_Labels alert" by (simp add: graph_labels_def)
  have rule: "labels = al_Labels alert" if "select_rca_engine ?oc = rule_service"
    using assms labels unfolding that by (auto simp: rule_service_def split: option.splits)
  have "select_rca_engine ?oc = rule_service \<or> (\<exists>env. select_rca_engine ?oc = llm_service env)"
    using wired_orchestrator [of li cfg] by (cases "o_llmRCA ?oc") (auto simp: wired_def select_rca_engine_def)
  then have "relabelled (al_Labels alert) labels"
  proof (elim disjE exE)
    fix env assume "select_rca_engine ?oc = llm_service env"
    with assms labels show ?thesis by (auto simp: llm_service_def split: option.splits dest: llm_rank_labels [OF _ alerts])
  qed (simp add: rule)
  with rule wired_rules [of cfg li] show ?thesis by simp
qed

section \<open>What the API serves\<close>

text \<open>The collection of the orchestrator is a complete run of the collectors of the configuration.\<close>

definition registry_collects :: "libraries \<Rightarrow> (nat \<Rightarrow> collector_sources) \<Rightarrow> config \<Rightarrow> bool" where
  "registry_collects li so cfg \<longleftrightarrow>
     (\<forall>n req. \<exists>st. collect_steps req (start_collecting (wire_collectors (so n) cfg)) st \<and> cg_running st = [] \<and>
        fair_orders (so n) req \<and> li_collect li n req = cg_combined st)"

lemma registry_typed:
  assumes "registry_collects li so cfg" "e \<in> set (li_collect li n req)"
  shows "typed_evidence (ev_Source e) (source_kinds (ev_Source e)) req e"
  using assms collected_typed unfolding registry_collects_def by metis

text \<open>In tables whose rows belong together, nothing refers to an identifier that is not there.\<close>

lemma fresh_rows:
  assumes "db_wf (w_db w)" "inv_row w i = None"
  shows "filter (\<lambda>e. ev_InvestigationID e = i) (db_evidence (w_db w)) = []"
    "filter (\<lambda>e. te_InvestigationID e = i) (db_timeline (w_db w)) = []"
    "filter (\<lambda>(j, h). j = i) (db_hypotheses (w_db w)) = []"
proof -
  have "i \<notin> inv_ids (w_db w)" using assms(2) by (auto simp: inv_row_def inv_ids_def find_None_iff)
  with assms(1) show "filter (\<lambda>e. ev_InvestigationID e = i) (db_evidence (w_db w)) = []"
    "filter (\<lambda>e. te_InvestigationID e = i) (db_timeline (w_db w)) = []"
    "filter (\<lambda>(j, h). j = i) (db_hypotheses (w_db w)) = []"
    by (auto simp: db_wf_def list_all_iff filter_empty_conv)
qed

lemma filter_pairs: "filter (\<lambda>(j, h). j = i) (map (Pair i) hs) = map (Pair i) hs"
  by (induction hs) simp_all

lemma timeline_build_inv: "\<forall>ev \<in> set (timeline_build srt uuid data). te_InvestigationID ev = in_ID (id_Investigation data)"
  by (auto simp: timeline_build_def Let_def dest: bspec [OF number_events_inv])

text \<open>The body of each route for an investigation with this row, evidence, timeline and hypotheses.\<close>

fun served_body :: "investigation \<Rightarrow> evidence list \<Rightarrow> timeline_event list \<Rightarrow> hypothesis list \<Rightarrow> api_route \<Rightarrow> api_body" where
  "served_body row es evs hs (InvestigationRoute i) = ApiInvestigation row"
| "served_body row es evs hs (EvidenceRoute i) = ApiEvidence es"
| "served_body row es evs hs (TimelineRoute i) = ApiTimeline (insertion_sort (\<lambda>a b. te_Timestamp a < te_Timestamp b) evs)"
| "served_body row es evs hs (HypothesesRoute i) = ApiHypotheses (insertion_sort (\<lambda>a b. hy_Confidence a > hy_Confidence b) hs)"
| "served_body row es evs hs HealthRoute = ApiHealth ''ok'' ''sherlock''"

lemma effect_served:
  assumes "effect (rows(i \<mapsto> row)) es (map (Pair i) hs) evs w w'" "db_wf (w_db w)" "inv_row w i = None"
    and "\<forall>e \<in> set es. ev_InvestigationID e = i" "\<forall>ev \<in> set evs. te_InvestigationID ev = i" "w_db v = w_db w'"
    and "route \<noteq> HealthRoute"
  shows "stored_body v route i = served_body row es evs hs route"
proof -
  have row: "inv_row v i = Some row" using assms(1,6) by (simp add: effect_def row_of_db [of v w'])
  have "filter (\<lambda>e. ev_InvestigationID e = i) es = es" "filter (\<lambda>ev. te_InvestigationID ev = i) evs = evs"
    using assms(4,5) by (simp_all add: filter_id_conv)
  with assms(1,6,7) fresh_rows [OF assms(2,3)] row show ?thesis
    by (cases route) (simp_all add: effect_def filter_pairs comp_def)
qed

text \<open>C3: What a client reads about an investigation that ended well is what the investigation found.  Whenever a route of the API
  answers with 200 for it, under any spelling of its identifier and before anything else is written, the body is its completed row, exactly the
  evidence of a complete run of the wired collectors for its own targets (all of it typed as their contract says, none of
  another investigation), the timeline of that evidence and its alert, or the ranked hypotheses for its graph with the fixes of the
  policies.  The alert of the timeline has the labels it came with, but for \<open>trace_id\<close> and \<open>custom_query\<close>, which the follow-ups
  of the model-backed engine can overwrite, and only they.\<close>

theorem api_serves_investigation:
  assumes run: "run_investigation (wire_orchestrator li cfg) job w = (Some (Inr u), w')" and wf: "db_wf (w_db w)"
    and collects: "registry_collects li so cfg" and later: "w_db v = w_db w'"
    and api: "serve_api (wire_api_key cfg) authorization query route v = (resp, v')" "as_Status resp = 200" "route \<noteq> HealthRoute"
      "w_uuid_in v (route_id route) = Some i" "i = w_uuid w (w_uuids w)"
  shows "\<exists>row iv es found labels req n uuid uuid' t t' drawn events.
    (let data = \<lparr>id_Investigation = iv, id_Alerts = [ij_Alert job], id_Evidence = es\<rparr>; oc = wire_orchestrator li cfg;
         shared = data\<lparr>id_Alerts := [(ij_Alert job)\<lparr>al_Labels := labels\<rparr>]\<rparr> in
     as_Body resp = served_body row es (timeline_build (o_sort oc) uuid' shared) (apply_policies (o_remediation oc) found) route \<and>
     in_ID row = i \<and> in_Status row = StatusDone \<and> in_ID iv = i \<and>
     cr_InvestigationID req = i \<and> cr_Targets req = rr_Targets (resolve t' (ij_Alert job)) \<and>
     list_all2 same_but_body (li_collect li n req) es \<and>
     list_all (\<lambda>e. typed_evidence (ev_Source e) (source_kinds (ev_Source e)) req e) es \<and>
     rs_rank (select_rca_engine oc) uuid t (correlate data) = (Some (Inr found), labels, drawn, events) \<and>
     (if lc_Enabled (cf_LLM cfg) then relabelled (al_Labels (ij_Alert job)) labels else labels = al_Labels (ij_Alert job)))"
proof -
  let ?oc = "wire_orchestrator li cfg"
  let ?i = "w_uuid w (w_uuids w)"
  obtain flag w1 where inves: "investigate ?oc job (emit (Counted ''investigations_started'' []) w) = (Some (Inr u), flag, w1)"
    and db: "w_db w' = w_db w1" using run by (rule run_investigation_db)
  from investigate_ok_collects [OF inves] obtain row iv es found labels uuid t drawn events uuid' iv1 v1 v2 where
    fresh: "inv_row w ?i = None" and id: "in_ID iv = ?i" "in_ID row = ?i" "in_Status row = StatusDone" "in_ID iv1 = ?i" and
    engine: "rs_rank (select_rca_engine ?oc) uuid t (correlate \<lparr>id_Investigation = iv, id_Alerts = [ij_Alert job], id_Evidence = es\<rparr>) =
      (Some (Inr found), labels, drawn, events)" and
    effect: "effect ((inv_row w)(?i \<mapsto> row)) es (map (Pair ?i) (apply_policies (o_remediation ?oc) found))
      (timeline_build (o_sort ?oc) uuid' (\<lparr>id_Investigation = iv, id_Alerts = [ij_Alert job], id_Evidence = es\<rparr>
        \<lparr>id_Alerts := [(ij_Alert job)\<lparr>al_Labels := labels\<rparr>]\<rparr>))
      (emit (Counted ''investigations_started'' []) w) w1" and
    coll: "collect_phase ?oc job iv1 v1 = (Inr (iv, es), v2)"
    unfolding Let_def emit_frame by (elim exE conjE) (rule that; assumption)
  from collect_phase_collected [OF coll] obtain n t' req where
    req0: "req = \<lparr>cr_InvestigationID = in_ID iv1, cr_Alert = ij_Alert job, cr_Targets = rr_Targets (resolve t' (ij_Alert job)),
      cr_TimeFrom = rr_TimeFrom (resolve t' (ij_Alert job)), cr_TimeTo = rr_TimeTo (resolve t' (ij_Alert job))\<rparr>"
    and "list_all2 same_but_body (fst (o_collect ?oc n req)) es" by blast
  then have bodies: "list_all2 same_but_body (li_collect li n req) es" by (simp add: wired_collect)
  have req: "cr_InvestigationID req = ?i" "cr_Targets req = rr_Targets (resolve t' (ij_Alert job))" by (simp_all add: req0 id)
  have typed: "typed_evidence (ev_Source e) (source_kinds (ev_Source e)) req e" if "e \<in> set es" for e
  proof -
    from that obtain k where "k < length es" "e = es ! k" by (metis in_set_conv_nth)
    with bodies have "li_collect li n req ! k \<in> set (li_collect li n req)" "same_but_body (li_collect li n req ! k) e"
      by (simp_all add: list_all2_conv_all_nth)
    with registry_typed [OF collects] same_but_body_typed show ?thesis by metis
  qed
  have "\<forall>e \<in> set es. ev_InvestigationID e = ?i" using typed req(1) by (simp add: typed_evidence_def)
  moreover have "w_db v = w_db w1" using later db by simp
  moreover have "db_wf (w_db (emit (Counted ''investigations_started'' []) w))" using wf by simp
  ultimately have stored: "stored_body v route i = served_body row es
      (timeline_build (o_sort ?oc) uuid' (\<lparr>id_Investigation = iv, id_Alerts = [ij_Alert job], id_Evidence = es\<rparr>
        \<lparr>id_Alerts := [(ij_Alert job)\<lparr>al_Labels := labels\<rparr>]\<rparr>))
      (apply_policies (o_remediation ?oc) found) route"
    using effect_served [OF effect, of v route] fresh timeline_build_inv [of "o_sort ?oc" uuid'] id(1) api(3,5) by simp
  have "answers v route resp"
    using api(1-3) api_handler_answers
    by (auto simp: serve_api_def api_error_def split: option.splits if_splits)
  with api(2-4) have "as_Body resp = stored_body v route i" by (simp add: answers_def)
  with stored id req bodies typed engine wired_engine_labels [OF engine] api(5) show ?thesis
    unfolding Let_def
    by (intro exI [of _ row] exI [of _ iv] exI [of _ es] exI [of _ found] exI [of _ labels] exI [of _ req] exI [of _ n] exI [of _ uuid]
        exI [of _ uuid'] exI [of _ t] exI [of _ t'] exI [of _ drawn] exI [of _ events]) (simp add: list_all_iff)
qed

section \<open>Example\<close>

definition crash_li :: libraries where
  "crash_li = sample_li\<lparr>li_collect := (\<lambda>n req. k8s_collect sample_cluster req (k8s_targets req))\<rparr>"

definition crash_job :: investigation_job where
  "crash_job = sample_job\<lparr>ij_Alert := ij_Alert sample_job\<lparr>al_Labels := Some [(''service'', ''shop'')]\<rparr>\<rparr>"

lemma crash_collects: "registry_collects crash_li (\<lambda>n. sample_sources) config_defaults"
  using sample_collected sample_fair unfolding registry_collects_def crash_li_def by (simp, metis)

lemma crash_targets: "rr_Targets (resolve t (ij_Alert crash_job)) = [target_ref0\<lparr>tr_Kind := ''service'', tr_Name := ''shop''\<rparr>]"
  by (simp add: resolve_def resolve_targets_def crash_job_def sample_job_def normalized_alert0_def infer_from_labels_def mget_def mlookup_def
      dedup_targets_def target_ref0_def Let_def split_beta)

lemma crash_evidence:
  assumes "cr_Targets req = rr_Targets (resolve t (ij_Alert crash_job))"
  shows "\<exists>e. k8s_collect sample_cluster req (k8s_targets req) = [e] \<and> ev_Source e = ''kubernetes'' \<and> ev_InvestigationID e = cr_InvestigationID req"
  by (simp add: assms crash_targets k8s_collect_def k8s_targets_def is_k8s_target_def collect_for_target_def sample_cluster_def container_state_def
      k8s_evidence_def target_ref0_def Let_def)

lemma crash_run: "fst (run_investigation (wire_orchestrator crash_li config_defaults) crash_job (sample_world empty_db)) = Some (Inr ())"
proof (rule run_succeeds [OF sample_healthy])
  let ?oc = "wire_orchestrator crash_li config_defaults"
  show "o_tx ?oc" using wired_orchestrator by (simp add: wired_def)
  show "engine_numbers ?oc crash_job" by (rule rule_engine_numbers, rule wired_rules) (simp add: config_defaults_def)
  show "fits (sample_world empty_db) req (fst (o_collect ?oc n req))" if "cr_Targets req = rr_Targets (resolve t (ij_Alert crash_job))" for n req t
    using crash_evidence [OF that] by (auto simp: wired_collect crash_li_def fits_def uuid_column_def sample_world_def empty_db_def)
qed

theorem api_serves_investigation_witness:
  "\<exists>w' resp es. run_investigation (wire_orchestrator crash_li config_defaults) crash_job (sample_world empty_db) = (Some (Inr ()), w') \<and>
     fst (serve_api (wire_api_key config_defaults) [] [] (EvidenceRoute ''u0'') (sample_world (w_db w'))) = resp \<and> as_Body resp = ApiEvidence es \<and>
     map ev_Source es = [''kubernetes''] \<and> list_all (\<lambda>e. unit_score (ev_Score e)) es"
proof -
  let ?oc = "wire_orchestrator crash_li config_defaults"
  obtain w' where run: "run_investigation ?oc crash_job (sample_world empty_db) = (Some (Inr ()), w')"
    using crash_run by (metis prod.collapse)
  let ?v = "sample_world (w_db w')"
  have u0: "''u0'' = w_uuid (sample_world empty_db) (w_uuids (sample_world empty_db))"
  proof -
    have "itoa (int 0) = ''0''" by code_simp
    then show ?thesis by (simp add: sample_world_def)
  qed
  obtain flag w1 where inves: "investigate ?oc crash_job (emit (Counted ''investigations_started'' []) (sample_world empty_db)) = (Some (Inr ()), flag, w1)"
    and db: "w_db w' = w_db w1" using run by (rule run_investigation_db)
  from investigate_ok [OF inves] have "inv_row w1 (w_uuid (sample_world empty_db) (w_uuids (sample_world empty_db))) \<noteq> None"
    unfolding Let_def effect_def emit_frame by (elim exE conjE) simp
  then have row: "inv_row ?v ''u0'' \<noteq> None" using u0 db row_of_db [of ?v w1] by (simp add: sample_world_def)
  obtain resp v' where api: "serve_api (wire_api_key config_defaults) [] [] (EvidenceRoute ''u0'') ?v = (resp, v')" by fastforce
  have "wire_api_key config_defaults = None" by (simp add: wire_api_key_def config_defaults_def)
  then have ok: "as_Status resp = 200"
    using api row by (auto simp: serve_api_def handle_list_evidence_def handle_list_def inv_get_by_id_run evidence_list_def exec_rows sample_world_def
        split: option.splits)
  have "db_wf (w_db (sample_world empty_db))" by (simp add: sample_world_def empty_db_def db_wf_def)
  from api_serves_investigation [OF run this crash_collects _ api ok _ _ u0] obtain es req n t' where
    es: "as_Body resp = ApiEvidence es" "cr_Targets req = rr_Targets (resolve t' (ij_Alert crash_job))"
      "list_all2 same_but_body (li_collect crash_li n req) es"
      "list_all (\<lambda>e. typed_evidence (ev_Source e) (source_kinds (ev_Source e)) req e) es"
    by (auto simp: Let_def sample_world_def)
  from crash_evidence [OF es(2)] es(3) have "map ev_Source es = [''kubernetes'']"
    by (auto simp: crash_li_def list_all2_Cons1 same_but_body_def)
  moreover have "list_all (\<lambda>e. unit_score (ev_Score e)) es" using es(4) by (auto simp: list_all_iff typed_evidence_def)
  ultimately show ?thesis using run api es(1) by (intro exI [of _ w'] exI [of _ resp] exI [of _ es]) simp
qed

end
