(* ===== verification/Workers.thy ===== *)
theory Workers
  imports Queue Wiring
begin

text \<open>
  The concurrency of \<open>Orchestrator.Start\<close> and \<open>Orchestrator.Stop\<close>: the callback of the consumer, which takes one message after the
  other, the goroutines it starts, the channel \<open>sem\<close> that bounds them, the wait group \<open>wg\<close>, and the shutdown of \<open>main.go\<close>, which
  calls \<open>Stop\<close> before it cancels the context.  The steps are those between which another goroutine can be scheduled.  What a worker
  does is left open: it ends with any outcome of \<open>run_investigation\<close>, so the properties hold for all interleavings of the
  investigations themselves.
\<close>

section \<open>The pool\<close>

text \<open>The callback waits for a message, waits for a slot with a decoded job, or has a slot and has not yet called \<open>wg.Add\<close>.\<close>

datatype callback = Listening | Blocked nat investigation_job | Slotted nat investigation_job

text \<open>A worker runs its investigation, has answered the message, or has given its slot back and has not yet called \<open>wg.Done\<close>.\<close>

datatype phase = Running | Answered | Released

record worker =
  wk_delivery :: nat
  wk_job :: investigation_job
  wk_phase :: phase

text \<open>The shutdown: \<open>Stop\<close> is called, \<open>Stop\<close> has returned, the context is cancelled, the consumer has stopped.\<close>

datatype stage = Serving | Stopping | Stopped | Cancelled | Unsubscribed

record pool =
  po_sem :: nat
  po_wg :: nat
  po_callback :: callback
  po_workers :: "worker list"
  po_deliveries :: nat
  po_replies :: "(nat \<times> queue_reply) list"
  po_stage :: stage

definition pool_init :: pool where
  "pool_init = \<lparr>po_sem = 0, po_wg = 0, po_callback = Listening, po_workers = [], po_deliveries = 0, po_replies = [],
     po_stage = Serving\<rparr>"

text \<open>The capacity of \<open>sem\<close>, which \<open>WithMaxConcurrent\<close> replaces.\<close>

definition pool_capacity :: "orchestrator \<Rightarrow> nat" where
  "pool_capacity oc = nat (o_maxConcurrent oc)"

text \<open>What a worker answers: a nak for an error and, from the deferred \<open>recover\<close>, for a panic.\<close>

fun answer :: "(go_error + unit) option \<Rightarrow> queue_reply" where
  "answer (Some (Inr u)) = Ack"
| "answer (Some (Inl e)) = Nak"
| "answer None = Nak"

text \<open>A receive from \<open>sem\<close> waits for a token, and the counter of \<open>wg\<close> must not become negative.\<close>

datatype pool_action =
    Deliver "investigation_job option" | Acquire | Spawn
  | Finish nat "(go_error + unit) option" | Release nat | Leave nat
  | CallStop | StopReturns | Cancel | Unsubscribe

inductive pool_step :: "nat \<Rightarrow> pool \<Rightarrow> pool_action \<Rightarrow> pool \<Rightarrow> bool" for capacity where
  undecodable: "po_callback p = Listening \<Longrightarrow> po_stage p \<noteq> Unsubscribed \<Longrightarrow>
    pool_step capacity p (Deliver None)
      (p\<lparr>po_deliveries := Suc (po_deliveries p), po_replies := po_replies p @ [(po_deliveries p, Nak)]\<rparr>)"
| decoded: "po_callback p = Listening \<Longrightarrow> po_stage p \<noteq> Unsubscribed \<Longrightarrow>
    pool_step capacity p (Deliver (Some job))
      (p\<lparr>po_deliveries := Suc (po_deliveries p), po_callback := Blocked (po_deliveries p) job\<rparr>)"
| acquire: "po_callback p = Blocked d job \<Longrightarrow> po_sem p < capacity \<Longrightarrow>
    pool_step capacity p Acquire (p\<lparr>po_sem := Suc (po_sem p), po_callback := Slotted d job\<rparr>)"
| spawn: "po_callback p = Slotted d job \<Longrightarrow>
    pool_step capacity p Spawn
      (p\<lparr>po_wg := Suc (po_wg p), po_callback := Listening,
         po_workers := po_workers p @ [\<lparr>wk_delivery = d, wk_job = job, wk_phase = Running\<rparr>]\<rparr>)"
| finish: "po_workers p = xs @ \<lparr>wk_delivery = d, wk_job = job, wk_phase = Running\<rparr> # ys \<Longrightarrow>
    pool_step capacity p (Finish d r)
      (p\<lparr>po_workers := xs @ \<lparr>wk_delivery = d, wk_job = job, wk_phase = Answered\<rparr> # ys,
         po_replies := po_replies p @ [(d, answer r)]\<rparr>)"
| release: "po_workers p = xs @ \<lparr>wk_delivery = d, wk_job = job, wk_phase = Answered\<rparr> # ys \<Longrightarrow> po_sem p = Suc n \<Longrightarrow>
    pool_step capacity p (Release d)
      (p\<lparr>po_workers := xs @ \<lparr>wk_delivery = d, wk_job = job, wk_phase = Released\<rparr> # ys, po_sem := n\<rparr>)"
| leave: "po_workers p = xs @ \<lparr>wk_delivery = d, wk_job = job, wk_phase = Released\<rparr> # ys \<Longrightarrow> po_wg p = Suc n \<Longrightarrow>
    pool_step capacity p (Leave d) (p\<lparr>po_workers := xs @ ys, po_wg := n\<rparr>)"
| call_stop: "po_stage p = Serving \<Longrightarrow> pool_step capacity p CallStop (p\<lparr>po_stage := Stopping\<rparr>)"
| stop_returns: "po_stage p = Stopping \<Longrightarrow> po_wg p = 0 \<Longrightarrow> pool_step capacity p StopReturns (p\<lparr>po_stage := Stopped\<rparr>)"
| cancel: "po_stage p = Stopped \<Longrightarrow> pool_step capacity p Cancel (p\<lparr>po_stage := Cancelled\<rparr>)"
| unsubscribe: "po_stage p = Cancelled \<Longrightarrow> pool_step capacity p Unsubscribe (p\<lparr>po_stage := Unsubscribed\<rparr>)"

text \<open>The steps as equations, with which \<open>simp\<close> evaluates a run.\<close>

inductive_simps step_eqs:
  "pool_step capacity p (Deliver None) p'"
  "pool_step capacity p (Deliver (Some job)) p'"
  "pool_step capacity p Acquire p'"
  "pool_step capacity p Spawn p'"
  "pool_step capacity p CallStop p'"
  "pool_step capacity p StopReturns p'"
  "pool_step capacity p Cancel p'"
  "pool_step capacity p Unsubscribe p'"

inductive pool_run :: "nat \<Rightarrow> pool \<Rightarrow> pool_action list \<Rightarrow> pool \<Rightarrow> bool" for capacity where
  nil: "pool_run capacity p [] p"
| cons: "pool_step capacity p a p' \<Longrightarrow> pool_run capacity p' as p'' \<Longrightarrow> pool_run capacity p (a # as) p''"

inductive_simps pool_run_simps [simp]:
  "pool_run capacity p [] p'"
  "pool_run capacity p (a # as) p'"

definition pool_reach :: "nat \<Rightarrow> pool \<Rightarrow> bool" where
  "pool_reach capacity p \<longleftrightarrow> (\<exists>as. pool_run capacity pool_init as p)"

section \<open>The invariant\<close>

fun callback_delivery :: "callback \<Rightarrow> nat list" where
  "callback_delivery Listening = []"
| "callback_delivery (Blocked d job) = [d]"
| "callback_delivery (Slotted d job) = [d]"

fun callback_slots :: "callback \<Rightarrow> nat" where
  "callback_slots (Slotted d job) = 1"
| "callback_slots c = 0"

definition running :: "pool \<Rightarrow> worker list" where
  "running p = filter (\<lambda>wk. wk_phase wk = Running) (po_workers p)"

definition answered :: "pool \<Rightarrow> nat list" where
  "answered p = map fst (po_replies p)"

text \<open>The deliveries that have no answer yet.\<close>

definition pending :: "pool \<Rightarrow> nat list" where
  "pending p = map wk_delivery (running p) @ callback_delivery (po_callback p)"

definition pool_ok :: "nat \<Rightarrow> pool \<Rightarrow> bool" where
  "pool_ok capacity p \<longleftrightarrow>
     po_sem p = length (filter (\<lambda>wk. wk_phase wk \<noteq> Released) (po_workers p)) + callback_slots (po_callback p) \<and>
     po_sem p \<le> capacity \<and> po_wg p = length (po_workers p) \<and>
     mset (answered p) + mset (pending p) = mset [0..<po_deliveries p]"

lemma pool_ok_init: "pool_ok capacity pool_init"
  by (simp add: pool_ok_def pool_init_def answered_def pending_def running_def)

lemma pool_step_ok: "pool_step capacity p a p' \<Longrightarrow> pool_ok capacity p \<Longrightarrow> pool_ok capacity p'"
  by (induction rule: pool_step.induct) (auto simp: pool_ok_def answered_def pending_def running_def)

lemma pool_run_ok: "pool_run capacity p as p' \<Longrightarrow> pool_ok capacity p \<Longrightarrow> pool_ok capacity p'"
  by (induction rule: pool_run.induct) (auto dest: pool_step_ok)

lemma pool_reach_ok: "pool_reach capacity p \<Longrightarrow> pool_ok capacity p"
  using pool_run_ok pool_ok_init by (auto simp: pool_reach_def)

lemma run_append: "pool_run capacity p as p' \<Longrightarrow> pool_run capacity p' bs p'' \<Longrightarrow> pool_run capacity p (as @ bs) p''"
  by (induction rule: pool_run.induct) auto

lemma reach_run: "pool_reach capacity p \<Longrightarrow> pool_run capacity p as p' \<Longrightarrow> pool_reach capacity p'"
  unfolding pool_reach_def by (blast intro: run_append)

lemma reach_step: "pool_reach capacity p \<Longrightarrow> pool_step capacity p a p' \<Longrightarrow> pool_reach capacity p'"
  by (rule reach_run [where as = "[a]"]) auto

text \<open>Every delivery is in exactly one place.\<close>

lemma pool_places:
  assumes "pool_ok capacity p"
  shows "distinct (answered p @ pending p)" "set (answered p) \<union> set (pending p) = {..<po_deliveries p}"
proof -
  from assms have eq: "mset (answered p @ pending p) = mset [0..<po_deliveries p]" by (simp add: pool_ok_def)
  then show "distinct (answered p @ pending p)" by (metis distinct_upt mset_eq_imp_distinct_iff)
  from eq have "set (answered p @ pending p) = set [0..<po_deliveries p]" by (rule mset_eq_setD)
  then show "set (answered p) \<union> set (pending p) = {..<po_deliveries p}" by (simp add: atLeast0LessThan)
qed

text \<open>C5: At no moment do more investigations run than the capacity allows, the wait group counts the workers, and every
  delivered message is either answered, exactly once, or still pending with one worker or with the callback.\<close>

theorem pool_invariant:
  assumes "pool_reach capacity p"
  shows "length (running p) \<le> capacity \<and> po_wg p = length (po_workers p) \<and> distinct (answered p @ pending p) \<and>
    set (answered p) \<union> set (pending p) = {..<po_deliveries p}"
proof -
  note ok = pool_reach_ok [OF assms]
  have "length (filter (\<lambda>wk. wk_phase wk = Running) ws) \<le> length (filter (\<lambda>wk. wk_phase wk \<noteq> Released) ws)" for ws
    by (induction ws) auto
  then have "length (running p) \<le> length (filter (\<lambda>wk. wk_phase wk \<noteq> Released) (po_workers p))" by (simp add: running_def)
  with ok show ?thesis using pool_places [OF ok] by (auto simp: pool_ok_def)
qed

text \<open>Two messages, one slot: the second is taken and waits until the first worker has given its slot back.\<close>

definition busy_pool :: pool where
  "busy_pool = \<lparr>po_sem = 1, po_wg = 1, po_callback = Blocked 1 sample_job,
     po_workers = [\<lparr>wk_delivery = 0, wk_job = sample_job, wk_phase = Running\<rparr>], po_deliveries = 2, po_replies = [], po_stage = Serving\<rparr>"

lemma busy_reached: "pool_run capacity pool_init [Deliver (Some sample_job), Acquire, Spawn, Deliver (Some sample_job)] busy_pool"
  if "0 < capacity"
  using that by (simp add: step_eqs busy_pool_def pool_init_def)

lemma busy_reach: "0 < capacity \<Longrightarrow> pool_reach capacity busy_pool"
  unfolding pool_reach_def by (blast intro: busy_reached)

theorem pool_invariant_witness:
  "length (running busy_pool) = 1 \<and> length (running busy_pool) \<le> 1 \<and> pending busy_pool = [0, 1] \<and> distinct (answered busy_pool @ pending busy_pool)"
proof -
  have "pool_reach 1 busy_pool" by (rule busy_reach) simp
  from pool_invariant [OF this] show ?thesis by (simp add: busy_pool_def running_def pending_def answered_def)
qed

section \<open>Draining\<close>

text \<open>The steps of the workers and of the callback that need no new message.\<close>

fun internal :: "pool_action \<Rightarrow> bool" where
  "internal Acquire = True"
| "internal Spawn = True"
| "internal (Finish d r) = True"
| "internal (Release d) = True"
| "internal (Leave d) = True"
| "internal a = False"

fun phase_work :: "phase \<Rightarrow> nat" where
  "phase_work Running = 3"
| "phase_work Answered = 2"
| "phase_work Released = 1"

fun callback_work :: "callback \<Rightarrow> nat" where
  "callback_work Listening = 0"
| "callback_work (Slotted d job) = 4"
| "callback_work (Blocked d job) = 5"

text \<open>The number of internal steps a state has left.\<close>

definition pool_work :: "pool \<Rightarrow> nat" where
  "pool_work p = callback_work (po_callback p) + (\<Sum>wk \<leftarrow> po_workers p. phase_work (wk_phase wk))"

definition settled :: "pool \<Rightarrow> bool" where
  "settled p \<longleftrightarrow> po_sem p = 0 \<and> po_wg p = 0 \<and> po_workers p = [] \<and> po_callback p = Listening \<and> set (answered p) = {..<po_deliveries p}"

lemma internal_step: "pool_step capacity p a p' \<Longrightarrow> internal a \<Longrightarrow> Suc (pool_work p') = pool_work p"
  by (induction rule: pool_step.induct) (simp_all add: pool_work_def)

lemma internal_run: "pool_run capacity p as p' \<Longrightarrow> list_all internal as \<Longrightarrow> length as + pool_work p' = pool_work p"
  by (induction rule: pool_run.induct) (auto dest: internal_step)

lemma worker_progress:
  assumes "pool_ok capacity p" "wk \<in> set (po_workers p)"
  shows "\<exists>a p'. internal a \<and> pool_step capacity p a p'"
proof -
  obtain d job ph where wk: "wk = \<lparr>wk_delivery = d, wk_job = job, wk_phase = ph\<rparr>" by (cases wk)
  from assms(2) obtain xs ys where ws: "po_workers p = xs @ wk # ys" by (meson split_list)
  show ?thesis
  proof (cases ph)
    case Running
    show ?thesis using pool_step.finish [OF ws [unfolded wk Running]] by (meson internal.simps(3))
  next
    case Answered
    then obtain n where "po_sem p = Suc n" using assms(1) by (auto simp: pool_ok_def ws wk)
    from pool_step.release [OF ws [unfolded wk Answered] this] show ?thesis by (meson internal.simps(4))
  next
    case Released
    obtain n where "po_wg p = Suc n" using assms(1) by (auto simp: pool_ok_def ws)
    from pool_step.leave [OF ws [unfolded wk Released] this] show ?thesis by (meson internal.simps(5))
  qed
qed

lemma pool_progress:
  assumes "pool_ok capacity p" "0 < capacity"
  shows "settled p \<or> (\<exists>a p'. internal a \<and> pool_step capacity p a p')"
proof (cases "po_workers p")
  case Nil
  show ?thesis
  proof (cases "po_callback p")
    case Listening
    with assms(1) Nil pool_places [OF assms(1)] show ?thesis by (auto simp: settled_def pool_ok_def pending_def running_def)
  next
    case (Blocked d job)
    with assms Nil have "po_sem p < capacity" by (simp add: pool_ok_def)
    from pool_step.acquire [OF Blocked this] show ?thesis by (meson internal.simps(1))
  next
    case (Slotted d job)
    from pool_step.spawn [OF this] show ?thesis by (meson internal.simps(2))
  qed
next
  case (Cons wk wks)
  then have "wk \<in> set (po_workers p)" by simp
  from worker_progress [OF assms(1) this] show ?thesis by blast
qed

lemma wired_capacity: "0 < pool_capacity (wire_orchestrator li cfg)"
proof -
  have "0 < o_maxConcurrent (wire_orchestrator li cfg)"
    unfolding wire_orchestrator_def new_orchestrator_def
  proof (rule fold_options)
    show "0 < o_maxConcurrent (opt oc)" if "opt \<in> set (wire_options li cfg)" "0 < o_maxConcurrent oc" for opt oc
      using wire_options_cases [OF that(1)] that(2)
      by (elim disjE exE conjE)
        (simp_all add: with_max_concurrent_def with_timeout_def with_blob_store_def with_remediation_def with_llm_engine_def)
  qed simp
  then show ?thesis by (simp add: pool_capacity_def)
qed

text \<open>C6: The workers of the wired program never deadlock.  From every state they reach, whatever the configuration, every sequence of steps
  without a new message has a bounded length, and as long as a message is unanswered or a slot or a count is held, another step is
  possible: once the investigations end, every delivered message has been answered, all slots are free and \<open>Stop\<close> returns.\<close>

theorem pool_drains:
  assumes "pool_reach (pool_capacity (wire_orchestrator li cfg)) p"
    and "pool_run (pool_capacity (wire_orchestrator li cfg)) p as p'" "list_all internal as"
  shows "length as \<le> pool_work p \<and>
    (settled p' \<or> (\<exists>a p''. internal a \<and> pool_step (pool_capacity (wire_orchestrator li cfg)) p' a p''))"
  using internal_run [OF assms(2,3)] pool_progress [OF pool_reach_ok [OF reach_run [OF assms(1,2)]] wired_capacity] by simp

text \<open>The first of the two investigations panics, and the second gets its slot.\<close>

definition handed_over :: pool where
  "handed_over = busy_pool\<lparr>po_callback := Slotted 1 sample_job, po_replies := [(0, Nak)],
     po_workers := [\<lparr>wk_delivery = 0, wk_job = sample_job, wk_phase = Released\<rparr>]\<rparr>"

lemma handed_over_run:
  "pool_run capacity busy_pool [Finish 0 None, Release 0, Acquire] handed_over" if "0 < capacity"
proof -
  define p1 where "p1 = busy_pool\<lparr>po_replies := [(0, Nak)], po_workers := [\<lparr>wk_delivery = 0, wk_job = sample_job, wk_phase = Answered\<rparr>]\<rparr>"
  define p2 where "p2 = p1\<lparr>po_sem := 0, po_workers := [\<lparr>wk_delivery = 0, wk_job = sample_job, wk_phase = Released\<rparr>]\<rparr>"
  have "pool_step capacity busy_pool (Finish 0 None) p1"
    using pool_step.finish [of busy_pool "[]" 0 sample_job "[]" capacity None] by (simp add: busy_pool_def p1_def)
  moreover have "pool_step capacity p1 (Release 0) p2"
    using pool_step.release [of p1 "[]" 0 sample_job "[]" 0 capacity] by (simp add: busy_pool_def p1_def p2_def)
  moreover have "pool_step capacity p2 Acquire handed_over"
    using that by (simp add: step_eqs busy_pool_def p1_def p2_def handed_over_def)
  ultimately show ?thesis by simp blast
qed

theorem pool_drains_witness:
  "\<exists>a p. internal a \<and> pool_step (pool_capacity (wire_orchestrator sample_li config_defaults)) handed_over a p \<and> pool_work busy_pool = 8"
proof -
  note cap = wired_capacity [of sample_li config_defaults]
  from pool_drains [OF busy_reach [OF cap] handed_over_run [OF cap]]
  have "settled handed_over \<or> (\<exists>a p. internal a \<and> pool_step (pool_capacity (wire_orchestrator sample_li config_defaults)) handed_over a p)"
    by simp
  then show ?thesis by (auto simp: settled_def handed_over_def busy_pool_def pool_work_def)
qed

section \<open>The shutdown\<close>

lemma stop_returns_idle:
  assumes "pool_reach capacity p" "pool_step capacity p StopReturns p'"
  shows "po_workers p' = []" "set (answered p') = {..<po_deliveries p'} - set (callback_delivery (po_callback p'))"
proof -
  note ok = pool_reach_ok [OF reach_step [OF assms]]
  from assms(2) have "po_wg p' = 0" by (auto simp: step_eqs)
  with ok show workers: "po_workers p' = []" by (simp add: pool_ok_def)
  with pool_places [OF ok] show "set (answered p') = {..<po_deliveries p'} - set (callback_delivery (po_callback p'))"
    by (auto simp: pending_def running_def)
qed

lemma outlives:
  assumes "po_stage p = Stopped" "po_workers p = []" "po_callback p = Slotted d job"
  shows "\<exists>p'. pool_run capacity p [Cancel, Unsubscribe, Spawn] p' \<and> map wk_job (running p') = [job] \<and> answered p' = answered p"
  by (simp add: step_eqs assms running_def answered_def)

text \<open>C28: When \<open>Stop\<close> returns no worker is left, and every message has been answered but the one the callback may have just taken.  That one is
  not waited for: the callback takes its slot before it counts the worker, so the job of a callback with a slot still starts when
  \<open>Stop\<close> has returned, the context is cancelled and the consumer has stopped.\<close>

theorem stop_misses_callback:
  assumes "pool_reach capacity p" "pool_step capacity p StopReturns p'"
  shows "po_workers p' = [] \<and> set (answered p') = {..<po_deliveries p'} - set (callback_delivery (po_callback p')) \<and>
    (case po_callback p' of
       Slotted d job \<Rightarrow> d \<notin> set (answered p') \<and>
         (\<exists>p''. pool_run capacity p' [Cancel, Unsubscribe, Spawn] p'' \<and> map wk_job (running p'') = [job] \<and> answered p'' = answered p')
     | _ \<Rightarrow> True)"
proof -
  note idle = stop_returns_idle [OF assms]
  have "po_stage p' = Stopped" using assms(2) by (auto simp: step_eqs)
  then show ?thesis using idle outlives [OF _ idle(1)] by (simp split: callback.split)
qed

theorem stop_misses_callback_witness:
  "\<exists>p p'. pool_run 10 pool_init [Deliver (Some sample_job), Acquire, CallStop] p \<and> pool_step 10 p StopReturns p' \<and>
     po_callback p' = Slotted 0 sample_job \<and> answered p' = [] \<and>
     (\<exists>p''. pool_run 10 p' [Cancel, Unsubscribe, Spawn] p'' \<and> map wk_job (running p'') = [sample_job])"
proof -
  define p where "p = pool_init\<lparr>po_deliveries := 1, po_callback := Slotted 0 sample_job, po_sem := 1, po_stage := Stopping\<rparr>"
  have 1: "pool_run 10 pool_init [Deliver (Some sample_job), Acquire, CallStop] p"
    by (simp add: step_eqs p_def pool_init_def)
  define q where "q = p\<lparr>po_stage := Stopped\<rparr>"
  have 2: "pool_step 10 p StopReturns q" by (simp add: step_eqs p_def q_def pool_init_def)
  have cb: "po_callback q = Slotted 0 sample_job" "answered q = []" by (simp_all add: p_def q_def pool_init_def answered_def)
  from 1 have "pool_reach 10 p" unfolding pool_reach_def by (rule exI)
  from stop_misses_callback [OF this 2, unfolded cb(1)] obtain p'' where
    run: "pool_run 10 q [Cancel, Unsubscribe, Spawn] p''" "map wk_job (running p'') = [sample_job]"
    unfolding callback.case by (elim conjE exE) (rule that)
  show ?thesis
    by (rule exI [of _ p], rule exI [of _ q], intro conjI 1 2 cb exI [of _ p''] run)
qed

end
