(* ===== verification/Lifecycle.thy ===== *)
theory Lifecycle
  imports Wiring Queue "HOL-Library.Word"
begin

text \<open>
  The process itself: the commands of \<open>main\<close>, the start and the end of \<open>run\<close> with what it defers, \<open>New\<close> of the packages
  \<open>postgres\<close>, \<open>queue\<close> and \<open>tracing\<close>, and the lifecycle of the Slack transports.  What the operating system and the libraries
  answer is the record \<open>platform\<close>.  A run is the list of what it opens, begins and closes, and how it ends; a panic
  unwinds what is deferred as a return does.
\<close>

section \<open>What the libraries answer\<close>

datatype migration = MigrationApplied | MigrationNoChange | MigrationFailed go_error

record pool_config =
  px_MaxConns :: int
  px_MinConns :: int
  px_MaxConnLifetime :: duration
  px_MaxConnIdleTime :: duration
  px_HealthCheckPeriod :: duration

text \<open>
  \<open>pl_serve\<close> is the error the server ends with before a signal arrives, and \<open>pl_mount\<close> says whether the router accepts a pattern
  beside those it has; what it does not accept makes it panic.  \<open>pl_quote\<close> is the verb \<open>%q\<close>.  \<open>pl_parseDSN\<close> gives the minimum of connections a DSN asks for.
\<close>

record platform =
  pl_readFile :: "string \<Rightarrow> file_result"
  pl_unmarshal :: "string \<Rightarrow> config \<Rightarrow> string + config"
  pl_parseFloat :: "nat \<Rightarrow> string \<Rightarrow> f64 option"
  pl_parseDuration :: "string \<Rightarrow> duration option"
  pl_resource :: "string \<Rightarrow> string \<Rightarrow> go_error option"
  pl_exporter :: "string option \<Rightarrow> go_error option"
  pl_migrator :: "string \<Rightarrow> go_error option"
  pl_up :: migration
  pl_down :: migration
  pl_version :: "go_error + nat \<times> bool"
  pl_parseDSN :: "string \<Rightarrow> go_error + int"
  pl_pool :: "pool_config \<Rightarrow> go_error option"
  pl_connect :: "string \<Rightarrow> go_error option"
  pl_jetstream :: "go_error option"
  pl_quote :: "string \<Rightarrow> string"
  pl_stream :: "stream_config \<Rightarrow> go_error option"
  pl_mount :: "string list \<Rightarrow> string \<Rightarrow> bool"
  pl_serve :: "string \<Rightarrow> go_error option"
  pl_shutdown :: "go_error option"

text \<open>What a process does, in order, and how it ends.\<close>

datatype resource = TracerProvider | DatabasePool | NatsConnection | LimiterCleanup

datatype service = JobConsumer | SlackTransports | HttpServer

datatype act =
    Opened resource | Closed resource | Migrated | RolledBack | Printed string
  | Begun service | SlackStopped | WorkersAwaited | ContextCancelled | ServerShutDown

datatype ending = Returned | Failed string | Crashed

type_synonym proc = "act list \<times> ending"

definition deferring :: "act \<Rightarrow> proc \<Rightarrow> proc" where
  "deferring a p = (fst p @ [a], snd p)"

definition after :: "act list \<Rightarrow> proc \<Rightarrow> proc" where
  "after as p = (as @ fst p, snd p)"

definition failing :: "string \<Rightarrow> string \<Rightarrow> proc" where
  "failing msg e = ([], Failed (msg @ '': '' @ e))"

section \<open>The packages the run opens\<close>

datatype sampler = AlwaysSample | TraceIDRatioBased f64

definition sampler_of :: "f64 \<Rightarrow> sampler" where
  "sampler_of rate = (if 0 < rate \<and> rate < 1 then TraceIDRatioBased rate else AlwaysSample)"

text \<open>\<open>tracing.Init\<close>: no provider without tracing.\<close>

definition tracing_init :: "platform \<Rightarrow> string \<Rightarrow> tracing_config \<Rightarrow> string + sampler option" where
  "tracing_init pl version tc =
     (if \<not> tc_Enabled tc then Inr None
      else case pl_resource pl ''sherlock'' version of Some e \<Rightarrow> Inl (''create resource: '' @ error_text e)
      | None \<Rightarrow>
        (case pl_exporter pl (if tc_Endpoint tc \<noteq> [] then Some (tc_Endpoint tc) else None) of
           Some e \<Rightarrow> Inl (''create exporter: '' @ error_text e)
         | None \<Rightarrow> Inr (Some (sampler_of (tc_SampleRate tc)))))"

text \<open>The number of connections is converted to 32 bits.\<close>

definition pool_config_of :: "int \<Rightarrow> int \<Rightarrow> pool_config" where
  "pool_config_of minConns maxConns =
     \<lparr>px_MaxConns = sint (word_of_int maxConns :: 32 word), px_MinConns = (if minConns = 0 then 2 else minConns),
      px_MaxConnLifetime = hours 1, px_MaxConnIdleTime = minutes 30, px_HealthCheckPeriod = minutes 1\<rparr>"

definition postgres_new :: "platform \<Rightarrow> string \<Rightarrow> int \<Rightarrow> string + pool_config" where
  "postgres_new pl dsn maxConns =
     (case pl_parseDSN pl dsn of Inl e \<Rightarrow> Inl (''parse dsn: '' @ error_text e)
      | Inr minConns \<Rightarrow>
        (let cfg = pool_config_of minConns maxConns in
         case pl_pool pl cfg of Some e \<Rightarrow> Inl (''connect pool: '' @ error_text e) | None \<Rightarrow> Inr cfg))"

text \<open>\<open>queue.New\<close> closes the connection when it cannot use it; the first component is what it has opened and closed.\<close>

definition queue_connect :: "platform \<Rightarrow> string \<Rightarrow> string \<Rightarrow> act list \<times> string option" where
  "queue_connect pl natsURL streamName =
     (case pl_connect pl natsURL of Some e \<Rightarrow> ([], Some (''connecting to NATS: '' @ error_text e))
      | None \<Rightarrow>
        (case pl_jetstream pl of
           Some e \<Rightarrow> ([Opened NatsConnection, Closed NatsConnection], Some (''creating JetStream context: '' @ error_text e))
         | None \<Rightarrow>
           (case pl_stream pl (queue_new streamName) of
              Some e \<Rightarrow> ([Opened NatsConnection, Closed NatsConnection],
                Some (''creating stream '' @ pl_quote pl streamName @ '': '' @ error_text e))
            | None \<Rightarrow> ([Opened NatsConnection], None))))"

text \<open>The scheme of the DSN is replaced by that of the migration driver.\<close>

definition migrator_url :: "string \<Rightarrow> string" where
  "migrator_url dsn = (if length dsn > 8 \<and> take 8 dsn = ''postgres'' then ''pgx5'' @ drop 8 dsn else dsn)"

definition new_migrator :: "platform \<Rightarrow> string \<Rightarrow> string option" where
  "new_migrator pl dsn = map_option (\<lambda>e. ''new migrate instance: '' @ error_text e) (pl_migrator pl (migrator_url dsn))"

section \<open>run\<close>

text \<open>From the listening server on: a server error returns at once, a signal stops Slack, waits for the workers and shuts down.\<close>

definition serve_phase :: "platform \<Rightarrow> config \<Rightarrow> bool \<Rightarrow> proc" where
  "serve_phase pl cfg slack = after [Begun HttpServer]
     (case pl_serve pl (sv_Address (cf_Server cfg)) of
        Some e \<Rightarrow> failing ''server error'' (error_text e)
      | None \<Rightarrow> after ((if slack then [SlackStopped] else []) @ [WorkersAwaited, ContextCancelled, ServerShutDown])
          (case pl_shutdown pl of Some e \<Rightarrow> failing ''server shutdown'' (error_text e) | None \<Rightarrow> ([], Returned)))"

definition slack_phase :: "libraries \<Rightarrow> platform \<Rightarrow> config \<Rightarrow> proc" where
  "slack_phase li pl cfg =
     (case wire_slack_app li cfg of
        None \<Rightarrow> serve_phase pl cfg False
      | Some (Inl e) \<Rightarrow> failing ''init slack app'' e
      | Some (Inr app) \<Rightarrow> after [Begun SlackTransports] (serve_phase pl cfg True))"

fun mount_all :: "(string list \<Rightarrow> string \<Rightarrow> bool) \<Rightarrow> string list \<Rightarrow> string list \<Rightarrow> bool" where
  "mount_all mount mounted [] = True"
| "mount_all mount mounted (p # ps) = (mount mounted p \<and> mount_all mount (mounted @ [p]) ps)"

text \<open>The routes of the gateway and of the API.\<close>

definition routes_phase :: "libraries \<Rightarrow> platform \<Rightarrow> config \<Rightarrow> proc" where
  "routes_phase li pl cfg = (if mount_all (pl_mount pl) [] [''/'', ''/''] then slack_phase li pl cfg else ([], Crashed))"

definition workers_phase :: "libraries \<Rightarrow> platform \<Rightarrow> config \<Rightarrow> proc" where
  "workers_phase li pl cfg =
     after [Begun JobConsumer, Opened LimiterCleanup] (deferring (Closed LimiterCleanup) (routes_phase li pl cfg))"

definition queue_phase :: "libraries \<Rightarrow> platform \<Rightarrow> config \<Rightarrow> proc" where
  "queue_phase li pl cfg =
     (case queue_connect pl (nc_URL (cf_NATS cfg)) (nc_StreamName (cf_NATS cfg)) of
        (as, Some e) \<Rightarrow> after as (failing ''connect nats'' e)
      | (as, None) \<Rightarrow> after as (deferring (Closed NatsConnection) (workers_phase li pl cfg)))"

definition database_phase :: "libraries \<Rightarrow> platform \<Rightarrow> config \<Rightarrow> proc" where
  "database_phase li pl cfg =
     (case postgres_new pl (pc_DSN (cf_Postgres cfg)) (pc_MaxConns (cf_Postgres cfg)) of
        Inl e \<Rightarrow> failing ''connect postgres'' e
      | Inr pool \<Rightarrow> after [Opened DatabasePool] (deferring (Closed DatabasePool) (queue_phase li pl cfg)))"

definition migrate_phase :: "libraries \<Rightarrow> platform \<Rightarrow> config \<Rightarrow> proc" where
  "migrate_phase li pl cfg =
     (if \<not> cf_AutoMigrate cfg then database_phase li pl cfg
      else case new_migrator pl (pc_DSN (cf_Postgres cfg)) of
        Some e \<Rightarrow> failing ''auto-migrate create migrator'' e
      | None \<Rightarrow>
        (case pl_up pl of
           MigrationFailed e \<Rightarrow> failing ''auto-migrate up'' (error_text e)
         | MigrationApplied \<Rightarrow> after [Migrated] (database_phase li pl cfg)
         | MigrationNoChange \<Rightarrow> database_phase li pl cfg))"

text \<open>A failure of the tracing is only logged.\<close>

definition tracing_phase :: "libraries \<Rightarrow> platform \<Rightarrow> string \<Rightarrow> config \<Rightarrow> proc" where
  "tracing_phase li pl version cfg =
     (case tracing_init pl version (cf_Tracing cfg) of
        Inr (Some s) \<Rightarrow> after [Opened TracerProvider] (deferring (Closed TracerProvider) (migrate_phase li pl cfg))
      | _ \<Rightarrow> migrate_phase li pl cfg)"

definition config_path :: "environ \<Rightarrow> string" where
  "config_path env = (if env ''SHERLOCK_CONFIG'' = [] then ''config.yaml'' else env ''SHERLOCK_CONFIG'')"

definition load_config :: "platform \<Rightarrow> environ \<Rightarrow> string + config" where
  "load_config pl env = load (pl_parseFloat pl) (pl_parseDuration pl) (pl_unmarshal pl) (pl_readFile pl) env (config_path env)"

definition run :: "libraries \<Rightarrow> platform \<Rightarrow> string \<Rightarrow> environ \<Rightarrow> proc" where
  "run li pl version env = deferring ContextCancelled
     (case load_config pl env of Inl e \<Rightarrow> failing ''load config'' e | Inr cfg \<Rightarrow> tracing_phase li pl version cfg)"

section \<open>main\<close>

text \<open>\<open>logger.Fatal\<close> exits with 1, a panic with 2.\<close>

definition migrate_dsn :: "platform \<Rightarrow> environ \<Rightarrow> string + string" where
  "migrate_dsn pl env =
     (if env ''SHERLOCK_POSTGRES_DSN'' \<noteq> [] then Inr (env ''SHERLOCK_POSTGRES_DSN'')
      else map_sum id (\<lambda>cfg. pc_DSN (cf_Postgres cfg)) (load_config pl env))"

definition migrated :: "act \<Rightarrow> migration \<Rightarrow> act list \<times> nat" where
  "migrated a m = (case m of MigrationApplied \<Rightarrow> ([a], 0) | MigrationNoChange \<Rightarrow> ([], 0) | MigrationFailed e \<Rightarrow> ([], 1))"

definition migrate_command :: "platform \<Rightarrow> environ \<Rightarrow> string list \<Rightarrow> act list \<times> nat" where
  "migrate_command pl env args =
     (case migrate_dsn pl env of Inl e \<Rightarrow> ([], 1)
      | Inr dsn \<Rightarrow>
        (let direction = (if length args > 2 then args ! 2 else ''up'') in
         case new_migrator pl dsn of Some e \<Rightarrow> ([], 1)
         | None \<Rightarrow>
           if direction = ''up'' then migrated Migrated (pl_up pl)
           else if direction = ''down'' then migrated RolledBack (pl_down pl)
           else if direction = ''version'' then (case pl_version pl of Inl e \<Rightarrow> ([], 1) | Inr v \<Rightarrow> ([], 0))
           else ([], 1)))"

definition main_command :: "libraries \<Rightarrow> platform \<Rightarrow> string \<Rightarrow> environ \<Rightarrow> string list \<Rightarrow> act list \<times> nat" where
  "main_command li pl version env args =
     (if length args > 1 \<and> args ! 1 = ''version'' then ([Printed (''sherlock '' @ version)], 0)
      else if length args > 1 \<and> args ! 1 = ''migrate'' then migrate_command pl env args
      else case run li pl version env of
        (as, Returned) \<Rightarrow> (as, 0) | (as, Failed e) \<Rightarrow> (as, 1) | (as, Crashed) \<Rightarrow> (as, 2))"

section \<open>What a run opens it closes\<close>

fun needs :: "service \<Rightarrow> resource set" where
  "needs JobConsumer = {DatabasePool, NatsConnection}"
| "needs SlackTransports = {DatabasePool, NatsConnection}"
| "needs HttpServer = {DatabasePool, NatsConnection, LimiterCleanup}"

text \<open>The open resources after some acts, the latest first: only the latest is closed, and a service begins only with what it needs.\<close>

fun unwind :: "resource list \<Rightarrow> act list \<Rightarrow> resource list option" where
  "unwind st [] = Some st"
| "unwind st (Opened r # as) = unwind (r # st) as"
| "unwind st (Closed r # as) = (case st of [] \<Rightarrow> None | r' # st' \<Rightarrow> if r' = r then unwind st' as else None)"
| "unwind st (Begun s # as) = (if needs s \<subseteq> set st then unwind st as else None)"
| "unwind st (a # as) = unwind st as"

lemma unwind_append: "unwind st (as @ bs) = Option.bind (unwind st as) (\<lambda>st'. unwind st' bs)"
  by (induction st as rule: unwind.induct) (simp_all split: list.split)

definition tidy :: "resource list \<Rightarrow> proc \<Rightarrow> bool" where
  "tidy st p \<longleftrightarrow> unwind st (fst p) = Some st"

lemma tidy_basic [simp]:
  "tidy st ([], e)" "tidy st (failing msg err)" "tidy st (after [] p) = tidy st p"
  "tidy st (after (a # as) p) = (case a of Opened r \<Rightarrow> unwind (r # st) (as @ fst p) = Some st
     | Closed r \<Rightarrow> (case st of [] \<Rightarrow> False | r' # st' \<Rightarrow> r' = r \<and> unwind st' (as @ fst p) = Some st)
     | Begun s \<Rightarrow> needs s \<subseteq> set st \<and> tidy st (after as p) | _ \<Rightarrow> tidy st (after as p))"
  by (auto simp: tidy_def failing_def after_def split: act.split list.split)

lemma tidy_open: "tidy (r # st) p \<Longrightarrow> tidy st (after [Opened r] (deferring (Closed r) p))"
  by (simp add: tidy_def after_def deferring_def unwind_append)

lemma tidy_serve: "needs HttpServer \<subseteq> set st \<Longrightarrow> tidy st (serve_phase pl cfg slack)"
  by (simp add: serve_phase_def split: option.split)

lemma tidy_slack: "needs HttpServer \<subseteq> set st \<Longrightarrow> tidy st (slack_phase li pl cfg)"
  using tidy_serve by (auto simp: slack_phase_def split: option.split sum.split)

lemma tidy_workers: "needs JobConsumer \<subseteq> set st \<Longrightarrow> tidy st (workers_phase li pl cfg)"
proof -
  assume st: "needs JobConsumer \<subseteq> set st"
  then have "tidy (LimiterCleanup # st) (routes_phase li pl cfg)" unfolding routes_phase_def by (simp add: tidy_slack)
  then have "tidy st (after [Opened LimiterCleanup] (deferring (Closed LimiterCleanup) (routes_phase li pl cfg)))" by (rule tidy_open)
  with st show ?thesis by (simp add: workers_phase_def after_def tidy_def)
qed

lemma tidy_queue: "DatabasePool \<in> set st \<Longrightarrow> tidy st (queue_phase li pl cfg)"
  using tidy_open [OF tidy_workers [of "NatsConnection # st" li pl cfg]]
  by (auto simp: queue_phase_def queue_connect_def failing_def split: option.split)

lemma tidy_database: "tidy st (database_phase li pl cfg)"
  using tidy_open [OF tidy_queue [of "DatabasePool # st" li pl cfg]]
  by (auto simp: database_phase_def split: sum.split)

lemma tidy_migrate: "tidy st (migrate_phase li pl cfg)"
  by (simp add: migrate_phase_def tidy_database split: option.split migration.split)

lemma tidy_tracing: "tidy st (tracing_phase li pl version cfg)"
  using tidy_open [OF tidy_migrate [of "TracerProvider # st" li pl cfg]] tidy_migrate [of st li pl cfg]
  by (auto simp: tracing_phase_def split: sum.split option.split)

text \<open>C8: Whatever fails at the start, while the program serves or at its end, and also when it panics: what a run has opened it closes,
  exactly once and in the reverse order, a service begins only when the database, the queue and the rate limiter it needs are
  open, and the last act cancels the context.\<close>

theorem run_releases:
  "unwind [] (fst (run li pl version env)) = Some [] \<and> last (fst (run li pl version env)) = ContextCancelled"
proof -
  have "tidy [] (case load_config pl env of Inl e \<Rightarrow> failing ''load config'' e | Inr cfg \<Rightarrow> tracing_phase li pl version cfg)"
    by (simp add: tidy_tracing split: sum.split)
  then show ?thesis by (simp add: run_def deferring_def tidy_def unwind_append)
qed

section \<open>How a run ends\<close>

definition cut_short :: "ending \<Rightarrow> bool" where
  "cut_short e \<longleftrightarrow> e = Crashed \<or> (\<exists>msg. e = Failed (''server error: '' @ msg) \<or> e = Failed (''init slack app: '' @ msg))"

definition stopped :: "ending \<Rightarrow> bool" where
  "stopped e \<longleftrightarrow> e = Returned \<or> (\<exists>msg. e = Failed (''server shutdown: '' @ msg))"

definition consumed :: "proc \<Rightarrow> bool" where
  "consumed p \<longleftrightarrow> (WorkersAwaited \<in> set (fst p) \<longleftrightarrow> stopped (snd p)) \<and> (stopped (snd p) \<or> cut_short (snd p))"

text \<open>A phase before the consumer: it has failed for another reason, or has begun the consumer.\<close>

definition well_ended :: "proc \<Rightarrow> bool" where
  "well_ended p \<longleftrightarrow> (WorkersAwaited \<in> set (fst p) \<longleftrightarrow> stopped (snd p)) \<and>
     (Begun JobConsumer \<in> set (fst p) \<longleftrightarrow> stopped (snd p) \<or> cut_short (snd p))"

lemma well_ended_after: "WorkersAwaited \<notin> set as \<Longrightarrow> Begun JobConsumer \<notin> set as \<Longrightarrow> well_ended (after as p) = well_ended p"
  by (simp add: well_ended_def after_def)

lemma well_ended_deferring: "a \<noteq> WorkersAwaited \<Longrightarrow> a \<noteq> Begun JobConsumer \<Longrightarrow> well_ended (deferring a p) = well_ended p"
  by (auto simp: well_ended_def deferring_def)

lemma well_ended_failing:
  "msg \<in> {''load config'', ''connect postgres'', ''connect nats'', ''auto-migrate up'', ''auto-migrate create migrator''} \<Longrightarrow> well_ended (failing msg e)"
  by (auto simp: well_ended_def failing_def stopped_def cut_short_def)

lemma serve_consumed: "consumed (serve_phase pl cfg slack)"
  by (auto simp: serve_phase_def consumed_def after_def failing_def stopped_def cut_short_def split: option.split)

lemma slack_consumed: "consumed (slack_phase li pl cfg)"
  using serve_consumed by (auto simp: slack_phase_def consumed_def after_def failing_def stopped_def cut_short_def split: option.split sum.split)

lemma workers_well_ended: "well_ended (workers_phase li pl cfg)"
proof -
  have "consumed (routes_phase li pl cfg)"
    using slack_consumed by (simp add: routes_phase_def) (simp add: consumed_def stopped_def cut_short_def)
  then show ?thesis by (auto simp: workers_phase_def well_ended_def consumed_def after_def deferring_def)
qed

lemma queue_well_ended: "well_ended (queue_phase li pl cfg)"
  by (simp add: queue_phase_def queue_connect_def well_ended_after well_ended_deferring well_ended_failing workers_well_ended split: option.split)

lemma migrate_well_ended: "well_ended (migrate_phase li pl cfg)"
  by (simp add: migrate_phase_def database_phase_def well_ended_after well_ended_deferring well_ended_failing queue_well_ended
      split: option.split sum.split migration.split)

text \<open>C37: A run waits for the workers of the consumer only when a signal ends it.  After a failure of the server or of the Slack application,
  and when it panics, the consumer has begun and may have taken jobs, but the run closes the queue and the database without waiting
  for them.\<close>

theorem run_abandons_workers:
  "(WorkersAwaited \<in> set (fst (run li pl version env)) \<longleftrightarrow> stopped (snd (run li pl version env))) \<and>
   (Begun JobConsumer \<in> set (fst (run li pl version env)) \<longleftrightarrow>
      stopped (snd (run li pl version env)) \<or> cut_short (snd (run li pl version env)))"
proof -
  have "well_ended (run li pl version env)"
    by (simp add: run_def tracing_phase_def well_ended_after well_ended_deferring well_ended_failing migrate_well_ended split: option.split sum.split)
  then show ?thesis by (simp add: well_ended_def)
qed

text \<open>C27: The program never serves.  Both the gateway and the API are mounted at the root of one router, which accepts a pattern only once:
  whatever the configuration and however well the services behave, a run either fails at its start or panics after the
  consumer has begun, and never gets to its HTTP server.\<close>

theorem run_never_serves:
  assumes "\<And>mounted p. p \<in> set mounted \<Longrightarrow> \<not> pl_mount pl mounted p"
  shows "Begun HttpServer \<notin> set (fst (run li pl version env)) \<and>
    (snd (run li pl version env) = Crashed \<longleftrightarrow> Begun JobConsumer \<in> set (fst (run li pl version env))) \<and>
    snd (main_command li pl version env [''sherlock'']) \<noteq> 0"
proof -
  have routes: "routes_phase li pl cfg = ([], Crashed)" for cfg using assms [of "''/''" "[''/'']"] by (simp add: routes_phase_def)
  define silent :: "proc \<Rightarrow> bool" where "silent p \<longleftrightarrow> Begun HttpServer \<notin> set (fst p) \<and>
    (snd p = Crashed \<longleftrightarrow> Begun JobConsumer \<in> set (fst p)) \<and> snd p \<noteq> Returned" for p
  have keep: "silent (failing msg e)" "Begun HttpServer \<notin> set as \<Longrightarrow> Begun JobConsumer \<notin> set as \<Longrightarrow> silent (after as p) = silent p"
    "silent (deferring (Closed r) p) = silent p" "silent (deferring ContextCancelled p) = silent p" for msg e as p r
    by (auto simp: silent_def failing_def after_def deferring_def)
  have "silent (workers_phase li pl cfg)" for cfg by (simp add: workers_phase_def routes silent_def after_def deferring_def)
  then have "silent (queue_phase li pl cfg)" for cfg by (simp add: queue_phase_def queue_connect_def keep split: option.split)
  then have "silent (migrate_phase li pl cfg)" for cfg
    by (simp add: migrate_phase_def database_phase_def keep split: option.split sum.split migration.split)
  then have "silent (run li pl version env)" by (simp add: run_def tracing_phase_def keep split: option.split sum.split)
  then show ?thesis by (cases "run li pl version env") (auto simp: silent_def main_command_def split: ending.split)
qed

section \<open>Concrete runs\<close>

text \<open>Services that all answer, without a configuration file and without a variable set.\<close>

definition sample_platform :: platform where
  "sample_platform = \<lparr>pl_readFile = (\<lambda>path. FileMissing), pl_unmarshal = (\<lambda>data cfg. Inr cfg), pl_parseFloat = (\<lambda>n s. None),
     pl_parseDuration = (\<lambda>s. None), pl_resource = (\<lambda>n v. None), pl_exporter = (\<lambda>e. None), pl_migrator = (\<lambda>url. None),
     pl_up = MigrationApplied, pl_down = MigrationApplied, pl_version = Inr (7, False), pl_parseDSN = (\<lambda>dsn. Inr 0),
     pl_pool = (\<lambda>cfg. None), pl_connect = (\<lambda>url. None), pl_jetstream = None, pl_quote = quoted, pl_stream = (\<lambda>cfg. None),
     pl_mount = (\<lambda>mounted p. p \<notin> set mounted), pl_serve = (\<lambda>address. None), pl_shutdown = None\<rparr>"

lemma sample_run_crashes: "run sample_li sample_platform ''dev'' (\<lambda>name. []) =
    ([Opened DatabasePool, Opened NatsConnection, Begun JobConsumer, Opened LimiterCleanup,
      Closed LimiterCleanup, Closed NatsConnection, Closed DatabasePool, ContextCancelled], Crashed)"
  by code_simp

text \<open>With a router that would take both mounts the same run serves, and stops in order.\<close>

lemma accepting_run_serves: "run sample_li (sample_platform\<lparr>pl_mount := (\<lambda>mounted p. True)\<rparr>) ''dev'' (\<lambda>name. []) =
    ([Opened DatabasePool, Opened NatsConnection, Begun JobConsumer, Opened LimiterCleanup, Begun HttpServer,
      WorkersAwaited, ContextCancelled, ServerShutDown,
      Closed LimiterCleanup, Closed NatsConnection, Closed DatabasePool, ContextCancelled], Returned)"
  by code_simp

theorem run_never_serves_witness:
  "Begun HttpServer \<notin> set (fst (run sample_li sample_platform ''dev'' (\<lambda>name. []))) \<and>
   snd (run sample_li sample_platform ''dev'' (\<lambda>name. [])) = Crashed"
proof -
  have "p \<in> set mounted \<Longrightarrow> \<not> pl_mount sample_platform mounted p" for mounted p by (simp add: sample_platform_def)
  from run_never_serves [OF this] show ?thesis by (simp add: sample_run_crashes)
qed

section \<open>Small properties\<close>

text \<open>The URL of the migrations: the scheme \<open>postgres\<close> becomes that of the driver, but \<open>postgresql\<close>, which the pool accepts as
  well, becomes one that does not exist.\<close>

lemma migrator_schemes:
  "migrator_url (''postgres://'' @ rest) = ''pgx5://'' @ rest" "migrator_url (''postgresql://'' @ rest) = ''pgx5ql://'' @ rest"
  "take 8 dsn \<noteq> ''postgres'' \<Longrightarrow> migrator_url dsn = dsn"
  by (simp_all add: migrator_url_def)

lemma pool_conns:
  "- (2 ^ 31) \<le> n \<Longrightarrow> n < 2 ^ 31 \<Longrightarrow> px_MaxConns (pool_config_of m n) = n"
  "px_MaxConns (pool_config_of m (2 ^ 32 + n)) = px_MaxConns (pool_config_of m n)"
proof -
  show "- (2 ^ 31) \<le> n \<Longrightarrow> n < 2 ^ 31 \<Longrightarrow> px_MaxConns (pool_config_of m n) = n"
    by (simp add: pool_config_of_def sint_sbintrunc' signed_take_bit_int_eq_self)
  have "word_of_int (2 ^ 32 + n) = (word_of_int n :: 32 word)" by (simp add: word_of_int_eq_iff take_bit_eq_mod)
  then show "px_MaxConns (pool_config_of m (2 ^ 32 + n)) = px_MaxConns (pool_config_of m n)" by (simp only: pool_config_of_def pool_config.simps)
qed

text \<open>A rate of zero does not switch sampling off.\<close>

lemma zero_rate_samples_all: "sampler_of 0 = AlwaysSample" "sampler_of 1 = AlwaysSample"
  by (simp_all add: sampler_of_def)

end
