(* ===== verification/SlackLifecycle.thy ===== *)
theory SlackLifecycle
  imports Wiring
begin

text \<open>
  \<open>Start\<close> and \<open>Stop\<close> of the Slack application and of its transports (\<open>app.go\<close>, \<open>transport/http.go\<close>, \<open>transport/socket.go\<close>).
  The servers and the socket client are libraries, so what they end with is part of each step; the transports run side by
  side in a group that cancels its context with the first error, as \<open>errgroup\<close> documents.
\<close>

section \<open>The transports\<close>

text \<open>What the server of the HTTP transport does within the 250 milliseconds \<open>Start\<close> waits for it.\<close>

datatype listen_outcome = ListenError go_error | ListenClosed | StillListening

text \<open>A server closed that early leaves a nil error to be wrapped.\<close>

definition http_start :: "listen_outcome \<Rightarrow> go_error option" where
  "http_start outcome =
     (case outcome of
        ListenError e \<Rightarrow> Some (ErrOther (''http transport failed to start: '' @ error_text e))
      | ListenClosed \<Rightarrow> Some (ErrOther ''http transport failed to start: %!w(<nil>)'')
      | StillListening \<Rightarrow> None)"

text \<open>The socket client ends by itself, or the context does.\<close>

datatype socket_outcome = SocketEnded "go_error option" | ContextDone

definition socket_start :: "socket_outcome \<Rightarrow> go_error option" where
  "socket_start outcome =
     (case outcome of
        SocketEnded (Some e) \<Rightarrow> Some (ErrOther (''socket mode failed: '' @ error_text e))
      | SocketEnded None \<Rightarrow> Some (ErrOther ''socket mode failed: %!w(<nil>)'')
      | ContextDone \<Rightarrow> Some (ErrOther ''context canceled''))"

text \<open>
  \<open>listenEvents\<close>: the events of the channel until the context is done, which is \<open>None\<close>, or the channel is closed, the end of
  the list.  The result is the number of acknowledged events and the new world.
\<close>

fun listen_events :: "slack_app \<Rightarrow> socket_event option list \<Rightarrow> world \<Rightarrow> nat \<times> world" where
  "listen_events app [] w = (0, w)"
| "listen_events app (None # evts) w = (0, w)"
| "listen_events app (Some evt # evts) w =
     (let (acked, w) = dispatch_event app evt w; (n, w) = listen_events app evts w in ((if acked then 1 else 0) + n, w))"

text \<open>
  \<open>Stop\<close>: that of the HTTP transport shuts its server down, waits for the handlers at most 30 seconds and gives the error of the
  shutdown whether they have finished or not; that of the socket transport cancels its context.
\<close>

definition http_stop :: "go_error option \<Rightarrow> bool \<Rightarrow> go_error option" where
  "http_stop shutdown finished = shutdown"

definition socket_stop :: "go_error option" where
  "socket_stop = None"

definition transport_stop :: "(string \<Rightarrow> go_error option) \<Rightarrow> (string \<Rightarrow> bool) \<Rightarrow> transport \<Rightarrow> string option" where
  "transport_stop shutdown finished t = map_option error_text
     (case t of SocketTransport a b \<Rightarrow> socket_stop | HTTPTransport addr s \<Rightarrow> http_stop (shutdown addr) (finished addr))"

section \<open>The group\<close>

text \<open>The transports that still run, whether the context of the group is cancelled, and the first error.\<close>

record group =
  gp_running :: "transport list"
  gp_cancelled :: bool
  gp_error :: "go_error option"

definition group_init :: "slack_app \<Rightarrow> group" where
  "group_init app = \<lparr>gp_running = ap_transports app, gp_cancelled = False, gp_error = None\<rparr>"

definition ends :: "transport \<Rightarrow> go_error option \<Rightarrow> group \<Rightarrow> group" where
  "ends t err g = g\<lparr>gp_running := remove1 t (gp_running g), gp_cancelled := gp_cancelled g \<or> err \<noteq> None,
     gp_error := (case gp_error g of None \<Rightarrow> err | Some e \<Rightarrow> Some e)\<rparr>"

text \<open>\<open>listen\<close> says what listening on an address can lead to.  Only the socket transport watches its context, which is done when the
  group or the caller, by \<open>Stop\<close> or at the end of the program, cancels it.\<close>

inductive group_step :: "(string \<Rightarrow> listen_outcome \<Rightarrow> bool) \<Rightarrow> bool \<Rightarrow> group \<Rightarrow> group \<Rightarrow> bool" for listen stopping where
  http_ends: "HTTPTransport addr secret \<in> set (gp_running g) \<Longrightarrow> listen addr outcome \<Longrightarrow>
    group_step listen stopping g (ends (HTTPTransport addr secret) (http_start outcome) g)"
| socket_ends: "SocketTransport app_token bot_token \<in> set (gp_running g) \<Longrightarrow>
    group_step listen stopping g (ends (SocketTransport app_token bot_token) (socket_start (SocketEnded err)) g)"
| socket_cancelled: "SocketTransport app_token bot_token \<in> set (gp_running g) \<Longrightarrow> gp_cancelled g \<or> stopping \<Longrightarrow>
    group_step listen stopping g (ends (SocketTransport app_token bot_token) (socket_start ContextDone) g)"

text \<open>\<open>Start\<close> returns when no transport runs any more, with the first error.\<close>

inductive start_app :: "(string \<Rightarrow> listen_outcome \<Rightarrow> bool) \<Rightarrow> bool \<Rightarrow> group \<Rightarrow> go_error option \<Rightarrow> bool" for listen stopping where
  ended: "gp_running g = [] \<Longrightarrow> start_app listen stopping g (gp_error g)"
| going: "group_step listen stopping g g' \<Longrightarrow> start_app listen stopping g' r \<Longrightarrow> start_app listen stopping g r"

section \<open>How the application ends\<close>

lemma socket_start_error [simp]: "socket_start outcome \<noteq> None"
  by (auto simp: socket_start_def split: socket_outcome.split option.split)

lemma http_start_error: "http_start outcome = None \<longleftrightarrow> outcome = StillListening"
  by (simp add: http_start_def split: listen_outcome.split)

text \<open>The application of the mode \<open>both\<close> on an address where nothing can listen: the group is cancelled once the HTTP transport has ended.\<close>

definition group_ok :: "transport \<Rightarrow> transport \<Rightarrow> group \<Rightarrow> bool" where
  "group_ok s h g \<longleftrightarrow> gp_running g \<in> {[s, h], [s], [h], []} \<and> (h \<in> set (gp_running g) \<or> gp_cancelled g) \<and>
     (gp_cancelled g \<longleftrightarrow> gp_error g \<noteq> None)"

lemma group_step_ok:
  assumes "group_step listen stopping g g'" "group_ok (SocketTransport a b) (HTTPTransport addr secret) g"
    and "\<And>outcome. listen addr outcome \<Longrightarrow> outcome \<noteq> StillListening"
  shows "group_ok (SocketTransport a b) (HTTPTransport addr secret) g'"
  using assms(1,2)
proof (induction rule: group_step.induct)
  case (http_ends addr' secret' g outcome)
  then have "addr' = addr" "secret' = secret" by (auto simp: group_ok_def)
  with http_ends assms(3) have "http_start outcome \<noteq> None" by (auto simp: http_start_error)
  with http_ends \<open>addr' = addr\<close> \<open>secret' = secret\<close> show ?case by (auto simp: group_ok_def ends_def split: option.split)
next
  case (socket_ends a' b' g err)
  then show ?case using socket_start_error [of "SocketEnded err"]
    by (auto simp: group_ok_def ends_def simp del: socket_start_error split: option.split)
next
  case (socket_cancelled a' b' g)
  then show ?case using socket_start_error [of ContextDone]
    by (auto simp: group_ok_def ends_def simp del: socket_start_error split: option.split)
qed

lemma both_transports:
  assumes "load pf pd unmarshal read_file env path = Inr cfg" "wire_slack_app li cfg = Some (Inr app)" "sk_Mode (cf_Slack cfg) = ''both''"
  shows "\<exists>a b secret. ap_transports app = [SocketTransport a b, HTTPTransport (sv_Address (cf_Server cfg)) secret]"
proof -
  from validate_fields [OF load_valid [OF assms(1)]] have "sv_Address (cf_Server cfg) \<noteq> []" by blast
  with assms(2,3) show ?thesis
    by (auto simp: wire_slack_app_def new_app_def wire_app_config_def Let_def split: if_splits)
qed

text \<open>In the mode \<open>both\<close> the HTTP transport is to listen on the address of the main server.  Where that is taken its failure cancels the
  context of the group, so the socket transport, although it works and nobody stops the application, ends as well, and \<open>Start\<close>
  returns an error: the application is gone in both ways.\<close>

theorem taken_address_stops_socket:
  assumes "load pf pd unmarshal read_file env path = Inr cfg" "wire_slack_app li cfg = Some (Inr app)" "sk_Mode (cf_Slack cfg) = ''both''"
    and "\<And>outcome. listen (sv_Address (cf_Server cfg)) outcome \<Longrightarrow> outcome \<noteq> StillListening"
    and "(group_step listen False)\<^sup>*\<^sup>* (group_init app) g"
  shows "(\<exists>secret. HTTPTransport (sv_Address (cf_Server cfg)) secret \<in> set (gp_running g)) \<or>
    (\<exists>e. start_app listen False g (Some e) \<and> gp_error g = Some e)"
proof -
  from both_transports [OF assms(1-3)] obtain a b secret where
    ts: "ap_transports app = [SocketTransport a b, HTTPTransport (sv_Address (cf_Server cfg)) secret]" by blast
  have "group_ok (SocketTransport a b) (HTTPTransport (sv_Address (cf_Server cfg)) secret) g"
    using assms(5)
  proof (induction rule: rtranclp_induct)
    case base
    show ?case by (simp add: group_ok_def group_init_def ts)
  next
    case (step g g')
    from group_step_ok [OF step.hyps(2) step.IH assms(4)] show ?case .
  qed
  then consider "HTTPTransport (sv_Address (cf_Server cfg)) secret \<in> set (gp_running g)"
    | e where "gp_running g = []" "gp_error g = Some e"
    | e where "gp_running g = [SocketTransport a b]" "gp_cancelled g" "gp_error g = Some e"
    by (auto simp: group_ok_def)
  then show ?thesis
  proof cases
    case 1
    then show ?thesis by blast
  next
    case (2 e)
    with start_app.ended [of g listen False] show ?thesis by simp
  next
    case (3 e)
    let ?g = "ends (SocketTransport a b) (socket_start ContextDone) g"
    have "group_step listen False g ?g" using 3 by (intro group_step.socket_cancelled) simp_all
    moreover have "start_app listen False ?g (gp_error ?g)" by (rule start_app.ended) (simp add: ends_def 3)
    ultimately have "start_app listen False g (gp_error ?g)" by (rule start_app.going)
    with 3 show ?thesis by (simp add: ends_def)
  qed
qed

definition both_environ :: environ where
  "both_environ name =
     (if name = ''SHERLOCK_SLACK_MODE'' then ''both''
      else if name \<in> {''SHERLOCK_SLACK_BOT_TOKEN'', ''SHERLOCK_SLACK_APP_TOKEN'', ''SHERLOCK_SLACK_SIGNING_SECRET''} then ''t''
      else [])"

definition both_config :: config where
  "both_config = config_defaults\<lparr>cf_Slack := \<lparr>sk_BotToken = ''t'', sk_AppToken = ''t'', sk_SigningSecret = ''t'', sk_Mode = ''both''\<rparr>\<rparr>"

lemma both_loaded: "sample_load both_environ = Inr both_config" by code_simp

text \<open>The server of Slack finds the address taken, and the socket is cancelled.\<close>

theorem taken_address_stops_socket_witness:
  "\<exists>app g e. wire_slack_app sample_li both_config = Some (Inr app) \<and> map (\<lambda>t. t = SocketTransport ''t'' ''t'') (gp_running g) = [True] \<and>
     start_app (\<lambda>addr outcome. outcome = ListenError ErrUnavailable) False g (Some e) \<and> gp_error g = Some e"
proof -
  let ?listen = "\<lambda>addr outcome. outcome = ListenError ErrUnavailable"
  obtain app where app: "wire_slack_app sample_li both_config = Some (Inr app)"
    "ap_transports app = [SocketTransport ''t'' ''t'', HTTPTransport '':8080'' ''t'']"
    by (simp add: wire_slack_app_def new_app_def wire_app_config_def both_config_def config_defaults_def Let_def)
  let ?g = "ends (HTTPTransport '':8080'' ''t'') (http_start (ListenError ErrUnavailable)) (group_init app)"
  have "group_step ?listen False (group_init app) ?g" by (rule group_step.http_ends) (simp_all add: group_init_def app)
  then have run: "(group_step ?listen False)\<^sup>*\<^sup>* (group_init app) ?g" by (rule r_into_rtranclp)
  have mode: "sk_Mode (cf_Slack both_config) = ''both''" by (simp add: both_config_def)
  have left: "gp_running ?g = [SocketTransport ''t'' ''t'']" by (simp add: ends_def group_init_def app)
  from taken_address_stops_socket [OF both_loaded [unfolded sample_load_def] app(1) mode _ run]
  obtain e where "start_app ?listen False ?g (Some e)" "gp_error ?g = Some e" by (auto simp: left)
  with app(1) left show ?thesis by (intro exI [of _ app] exI [of _ ?g] exI [of _ e]) simp
qed

text \<open>Stopping fails exactly when a server could not be shut down.\<close>

lemma stop_app_error:
  "stop_app (transport_stop shutdown finished) app = None \<longleftrightarrow>
     (\<forall>addr secret. HTTPTransport addr secret \<in> set (ap_transports app) \<longrightarrow> shutdown addr = None)"
proof -
  have "List.map_filter f xs = [] \<longleftrightarrow> (\<forall>x \<in> set xs. f x = None)" for f :: "transport \<Rightarrow> string option" and xs
    by (induction xs) (auto simp: List.map_filter_simps split: option.split)
  moreover have "transport_stop shutdown finished t = None \<longleftrightarrow> (case t of HTTPTransport addr s \<Rightarrow> shutdown addr = None | _ \<Rightarrow> True)" for t
    by (simp add: transport_stop_def http_stop_def socket_stop_def split: transport.split)
  ultimately show ?thesis by (auto simp: stop_app_def Let_def split: transport.splits) (metis transport.exhaust)
qed

section \<open>The socket's events\<close>

text \<open>The events before the context is done are dispatched in order, and none after it.\<close>

lemma listen_events_until_done:
  "listen_events app (map Some evts @ None # rest) w = listen_events app (map Some evts) w"
  by (induction evts arbitrary: w) (simp_all add: split_beta Let_def)

lemma listen_events_world:
  "snd (listen_events app (map Some evts) w) = fold (\<lambda>evt w. snd (dispatch_event app evt w)) evts w"
  by (induction evts arbitrary: w) (simp_all add: split_beta Let_def)

end
