(* ===== verification/Activity.thy ===== *)
theory Activity
  imports Wiring Success
begin

text \<open>
  The program at work: the webhooks and jobs of a wired program, one after the other, whatever fails.  The services and the UUID
  generator stay what they are, and the generator only moves forward (\<open>onward\<close>).
\<close>

section \<open>Investigations move forward\<close>

lemma onward_and_then:
  assumes "onward w (snd r)" "\<And>a w1. onward w w1 \<Longrightarrow> onward w (snd (k a w1))"
  shows "onward w (snd (and_then r k))"
  using assms by (cases r; cases "fst r") (auto simp: and_then_def)

lemma onward_in_tx: "(\<And>v. onward v (snd (body v))) \<Longrightarrow> onward w (snd (in_tx body w))"
proof -
  assume body: "\<And>v. onward v (snd (body v))"
  obtain r w1 where 1: "wrap ''begin tx'' (begin_tx w) = (r, w1)" by fastforce
  have w1: "onward w w1" using wrap_snd [of "''begin tx''" "begin_tx w"] onward_stores(7) [of w] by (simp add: 1)
  show ?thesis
  proof (cases r)
    case (Inl e)
    then show ?thesis using w1 by (simp add: in_tx_def 1)
  next
    case (Inr snapshot)
    obtain q w2 where 2: "body w1 = (q, w2)" by fastforce
    have w2: "onward w w2" using body [of w1] onward_trans [OF w1] by (simp add: 2)
    have "onward w2 (snd (commit snapshot w2))"
      using onward_basic(5) [of w2 "\<lambda>db. Inr ((), db)"] by (auto simp: commit_def rollback_def onward_def split: sum.split prod.split)
    then have "onward w (rollback snapshot w2)" "onward w (snd (commit snapshot w2))"
      using onward_trans [OF w2] by simp_all
    then show ?thesis by (simp add: in_tx_def 1 2 Inr split: sum.split)
  qed
qed

lemma onward_store_evidence [simp]: "onward w (snd (store_evidence_batch oc es w))"
  by (simp add: store_evidence_batch_def onward_in_tx)

lemma onward_step: "onward w v \<Longrightarrow> onward v (snd (f v)) \<Longrightarrow> onward w (snd (f v))"
  by (rule onward_trans)

lemma onward_completion:
  assumes "\<And>x. snd (last_error x) = snd x"
  shows "onward w (snd (completion_writes last_error i h c hs evs w))"
  unfolding completion_writes_def
  by (intro onward_and_then) (auto simp: assms intro: onward_step)

lemma onward_store_completion [simp]: "onward w (snd (store_completion_batch oc i h c hs evs w))"
  by (simp add: store_completion_batch_def onward_in_tx onward_completion)

lemma onward_start_phase [simp]: "onward w (snd (start_phase oc job iv w))"
proof -
  obtain r w1 where 1: "alert_create (ij_Alert job) w = (r, w1)" by fastforce
  have w1: "onward w w1" using onward_stores(1) [of w "ij_Alert job"] by (simp add: 1)
  have tail: "onward w (snd (let (r, w) = audit_log t act1 act2 tgt md w2; (iv', w) = post_started oc iv w
        in and_then (wrap ''update status to collecting'' (inv_update_status (in_ID iv') StatusCollecting w)) (\<lambda>u w. (Inr iv', w))))"
    if "onward w w2" for w2 t act1 act2 tgt md
  proof -
    obtain q w3 where 3: "audit_log t act1 act2 tgt md w2 = (q, w3)" by fastforce
    have w3: "onward w w3" by (rule onward_trans [OF that]) (metis 3 snd_conv onward_audit)
    obtain iv' w4 where 4: "post_started oc iv w3 = (iv', w4)" by fastforce
    have "onward w w4" by (rule onward_trans [OF w3]) (metis 4 snd_conv onward_posts(2))
    then show ?thesis unfolding 3 4 Let_def split_conv by (intro onward_and_then) (auto intro: onward_step)
  qed
  show ?thesis unfolding start_phase_def Let_def 1 split_conv
    using w1 tail [unfolded Let_def] by (intro onward_and_then) (auto intro: onward_step)
qed

lemma onward_collect_phase [simp]: "onward w (snd (collect_phase oc job iv w))"
proof -
  obtain t w1 where 1: "now w = (t, w1)" by fastforce
  have w1: "onward w w1" using onward_basic(1) [of w] by (simp add: 1)
  define iv' where "iv' = iv\<lparr>in_Targets := rr_Targets (resolve t (ij_Alert job)), in_TimeFrom := rr_TimeFrom (resolve t (ij_Alert job)),
    in_TimeTo := rr_TimeTo (resolve t (ij_Alert job))\<rparr>"
  define req where "req = \<lparr>cr_InvestigationID = in_ID iv', cr_Alert = ij_Alert job, cr_Targets = rr_Targets (resolve t (ij_Alert job)),
    cr_TimeFrom = rr_TimeFrom (resolve t (ij_Alert job)), cr_TimeTo = rr_TimeTo (resolve t (ij_Alert job))\<rparr>"
  define w2 where "w2 = post_update oc iv' (''Collecting evidence for '' @ itoa (int (length (rr_Targets (resolve t (ij_Alert job))))) @ '' target(s)...'') w1"
  have w2: "onward w w2" unfolding w2_def by (rule onward_trans [OF w1 onward_posts(1)])
  obtain es w3 where 3: "run_collectors oc req w2 = (es, w3)" by fastforce
  have w3: "onward w w3" using 3 by (intro onward_trans [OF w2]) (auto simp: run_collectors_def onward_def)
  obtain es' w4 where 4: "(if o_blobStore oc then offload (in_ID iv') es w3 else (es, w3)) = (es', w4)" by fastforce
  have w4: "onward w w4" using 4 onward_offload by (intro onward_trans [OF w3]) (auto split: if_splits)
  show ?thesis
    unfolding collect_phase_def Let_def 1 split_conv iv'_def [symmetric] req_def [symmetric] w2_def [symmetric] 3 4
    by (intro onward_and_then)
      (use w4 in \<open>auto intro: onward_step onward_trans [OF _ onward_posts(1)]\<close>)
qed

lemma onward_rank_graph [simp]: "onward w (snd (snd (rank_graph oc graph w)))"
  by (simp add: rank_graph_def onward_def now_def Let_def split: prod.split)

lemma onward_publish_phase [simp]: "onward w (snd (publish_phase oc iv data found w))"
proof -
  define hs where "hs = apply_policies (o_remediation oc) found"
  obtain evs w1 where 1: "build_timeline oc data w = (evs, w1)" by fastforce
  have w1: "onward w w1" using 1 by (auto simp: build_timeline_def onward_def Let_def)
  obtain headline confidence where h: "headline_of hs = (headline, confidence)" by fastforce
  have tail: "onward w (snd (let w = post_result oc iv r w2; (q, w) = audit_log t a act tgt md w in (Inr (), w)))"
    if "onward w w2" for w2 r t a act tgt md
  proof -
    have "onward w (post_result oc iv r w2)" by (rule onward_trans [OF that onward_posts(3)])
    then show ?thesis using onward_trans [OF _ onward_audit] by (simp add: split_beta Let_def)
  qed
  show ?thesis unfolding publish_phase_def hs_def [symmetric] Let_def 1 split_conv h
    using tail w1 by (intro onward_and_then) (auto simp: Let_def intro: onward_step)
qed

lemma onward_fail_investigation [simp]: "onward w (snd (fail_investigation oc iv msg w))"
proof -
  obtain r w2 where 2: "inv_update_status (in_ID iv) StatusFailed (emit (Counted ''investigations_completed'' ''failed'') w) = (r, w2)" by fastforce
  have "onward (emit (Counted ''investigations_completed'' ''failed'') w) w2" by (metis 2 snd_conv onward_updates(2))
  then have w2: "onward w w2" by (rule onward_trans [OF onward_basic(3)])
  define w3 where "w3 = (if in_SlackChannelID iv \<noteq> [] \<and> o_slack oc
      then snd (send (SlackError (in_SlackChannelID iv) (in_SlackThreadTS iv) msg) w2) else w2)"
  have "onward w w3" unfolding w3_def using onward_trans [OF w2] w2 by simp
  then show ?thesis using onward_trans [OF _ onward_audit]
    unfolding fail_investigation_def Let_def 2 split_conv w3_def [symmetric] by (simp add: split_beta)
qed

lemma onward_investigate: "onward w (snd (snd (investigate oc job w)))"
proof -
  obtain iv w0 where 0: "new_investigation job w = (iv, w0)" by fastforce
  have w0: "onward w w0" using 0 by (auto simp: new_investigation_def new_uuid_def now_def onward_def Let_def)
  obtain r1 w1 where 1: "start_phase oc job iv w0 = (r1, w1)" by fastforce
  have w1: "onward w w1" by (rule onward_trans [OF w0]) (metis 1 snd_conv onward_start_phase)
  have collect: "onward w w2" if "collect_phase oc job iv1 w1 = (r2, w2)" for iv1 r2 w2
    by (rule onward_trans [OF w1]) (metis that snd_conv onward_collect_phase)
  have rank: "onward w2 w3" if "rank_graph oc g w2 = (r3, labels, w3)" for g w2 r3 labels w3 by (metis that snd_conv onward_rank_graph)
  have publish: "onward w3 w4" if "publish_phase oc iv' data hs w3 = (r4, w4)" for iv' data hs w3 r4 w4
    by (metis that snd_conv onward_publish_phase)
  have fails: "onward w3 w4" if "fail_investigation oc iv' msg w3 = (r4, w4)" for iv' msg w3 r4 w4
    by (metis that snd_conv onward_fail_investigation)
  show ?thesis
    by (auto simp: investigate_def 0 1 Let_def split: sum.split prod.split option.split
        intro: w1 collect onward_trans [OF collect rank] onward_trans [OF onward_trans [OF collect rank] publish]
          onward_trans [OF onward_trans [OF collect rank] fails])
qed

lemma onward_run [simp]: "onward w (snd (run_investigation oc job w))"
proof -
  obtain r flag w1 where 1: "investigate oc job (emit (Counted ''investigations_started'' []) w) = (r, flag, w1)" by (metis prod_cases3)
  have "onward (emit (Counted ''investigations_started'' []) w) w1" by (metis 1 snd_conv onward_investigate)
  then have w1: "onward w w1" by (rule onward_trans [OF onward_basic(3)])
  then show ?thesis using onward_trans [OF w1 onward_basic(3)] by (simp add: run_investigation_def 1)
qed

section \<open>Webhooks\<close>

text \<open>What routing the alerts of a webhook sends: jobs, notices of duplicates and their counts.\<close>

fun routing :: "event \<Rightarrow> bool" where
  "routing (Published s j) = True"
| "routing (SlackDedup c t i v) = True"
| "routing (Counted m l) = (m = ''dedup_hits'' \<or> m = ''suppress_hits'')"
| "routing e = False"

text \<open>A part of a webhook: it moves forward and sends only this.\<close>

definition routes :: "world \<Rightarrow> world \<Rightarrow> bool" where
  "routes w w' \<longleftrightarrow> onward w w' \<and> emits routing w w'"

lemma routes_refl [simp]: "routes w w"
  by (simp add: routes_def emits_none)

lemma routes_trans: "routes w w1 \<Longrightarrow> routes w1 w2 \<Longrightarrow> routes w w2"
  by (auto simp: routes_def intro: onward_trans emits_trans)

lemma routes_send: "routing e \<Longrightarrow> routes w (snd (send e w))"
  by (simp add: routes_def emits_send)

lemma routes_exec: "routes w (snd (exec stmt w))"
  using exec_events [of stmt w] by (simp add: routes_def emits_none)

lemma routes_now: "routes w (snd (now w))"
  by (simp add: routes_def emits_none)

lemma routes_new_uuid: "routes w (snd (new_uuid w))"
  by (simp add: routes_def emits_none)

lemma routes_emit: "routing e \<Longrightarrow> routes w (emit e w)"
  by (simp add: routes_def emits_def emit_def) (simp add: onward_def)

lemma routes_dedup_check:
  assumes "dedup_check window a w = (r, w')"
  shows "routes w w'"
proof -
  have "onward w (snd (dedup_check window a w))"
  proof (cases "al_Fingerprint a = []")
    case False
    obtain t w1 where 1: "now w = (t, w1)" by fastforce
    have w1: "onward w w1" by (metis 1 snd_conv onward_basic(1))
    obtain x w2 where 2: "inv_find_active (al_Fingerprint a) (time_add t (- window)) w1 = (x, w2)" by fastforce
    have find: "onward v (snd (inv_find_active f s v))" for f s v by (simp add: inv_find_active_def)
    have "onward w1 w2" using find [of w1 "al_Fingerprint a" "time_add t (- window)"] by (simp add: 2)
    with w1 have w2: "onward w w2" by (rule onward_trans)
    have up: "onward v (snd (inv_link_alert i j v))" for i j v
    proof -
      have "onward v (v\<lparr>w_reads := Suc (w_reads v)\<rparr>)" by (simp add: onward_def)
      then show ?thesis using onward_trans [OF _ onward_updates(1)] by (simp add: inv_link_alert_def now_def)
    qed
    have link: "onward w w3" if "inv_link_alert i j w2 = (y, w3)" for i j y w3
      using onward_trans [OF w2 up [of w2 i j]] by (simp add: that)
    show ?thesis using False w2 link by (auto simp: dedup_check_def 1 2 split: sum.split option.split prod.split)
  qed (simp add: dedup_check_def)
  then show ?thesis using dedup_check_events [OF assms] assms by (simp add: routes_def emits_none)
qed

lemma routes_check_dedup: "check_dedup g a w = (dup, w') \<Longrightarrow> routes w w'"
  by (auto simp: check_dedup_def notify_dedup_def split: option.splits sum.splits prod.splits if_splits
      dest!: routes_dedup_check intro: routes_trans [OF _ routes_emit] routes_trans [OF routes_trans [OF _ routes_emit] routes_send])

lemma routes_check_suppress: "check_suppress g a w = (muted, w') \<Longrightarrow> routes w w'"
proof -
  have "routes w (snd (suppression_is_active f w))" for f w
    using routes_trans [OF routes_now routes_exec] by (simp add: suppression_is_active_def split_beta Let_def)
  then have act: "suppression_is_active f w = (r, v) \<Longrightarrow> routes w v" for f w r v by (metis snd_conv)
  show "check_suppress g a w = (muted, w') \<Longrightarrow> routes w w'"
    by (auto simp: check_suppress_def split: sum.splits prod.splits if_splits dest!: act intro: routes_trans [OF _ routes_emit])
qed

lemma routes_route_alert: "route_alert g a w = (f, w') \<Longrightarrow> routes w w'"
proof -
  have send: "send (Published s j) w = (x, w') \<Longrightarrow> routes w w'" for s j w x w' using routes_send [of "Published s j" w] by simp
  show "route_alert g a w = (f, w') \<Longrightarrow> routes w w'"
    by (auto simp: route_alert_def split: prod.splits bool.splits option.splits
        dest!: routes_check_dedup routes_check_suppress send intro: routes_trans)
qed

lemma routes_route_alerts: "route_alerts g key alerts n w = (r, w') \<Longrightarrow> routes w w'"
proof (induction alerts arbitrary: n w)
  case (Cons a alerts)
  obtain i w1 where 1: "new_uuid w = (i, w1)" by fastforce
  have w1: "routes w w1" by (metis 1 snd_conv routes_new_uuid)
  obtain f w2 where 2: "route_alert g (a\<lparr>al_ID := i, al_RawRef := key\<rparr>) w1 = (f, w2)" by fastforce
  have w2: "routes w w2" by (rule routes_trans [OF w1 routes_route_alert [OF 2]])
  show ?case using Cons.prems Cons.IH [THEN routes_trans [OF w2]] w2 by (auto simp: 1 2 split: fate.splits)
qed simp

text \<open>The count of an answered request, by its status: a request that is refused or breaks is not counted.\<close>

definition webhook_counts :: "string \<Rightarrow> nat \<Rightarrow> event list" where
  "webhook_counts source status =
     (if status = 401 then [Counted ''webhooks_received'' (source @ '' rejected'')]
      else if status = 400 then [Counted ''webhooks_received'' (source @ '' decode_error'')]
      else if status = 202 then [Counted ''webhooks_received'' (source @ '' accepted'')] else [])"

definition raw_key :: "string \<Rightarrow> gotime \<Rightarrow> string \<Rightarrow> string" where
  "raw_key source t u = ''raw/'' @ source @ ''/'' @ format_date t @ ''/'' @ u"

text \<open>What a request does, in order: it archives its body under a key that ends in the next UUID, routes its alerts, and counts itself.\<close>

lemma webhook_anatomy:
  assumes req: "handle_webhook g source h body w = (resp, w')"
  shows "onward w w' \<and> hr_Status resp \<in> {202, 400, 401, 404, 413, 500} \<and>
    (\<exists>stores routed. w_events w' = w_events w @ stores @ routed @ webhook_counts source (hr_Status resp) \<and> list_all routing routed \<and>
      (hr_Status resp \<in> {202, 400} \<longrightarrow> stores \<noteq> []) \<and>
      (stores = [] \<or> w_uuids w < w_uuids w' \<and>
        (\<exists>b t. body = Some b \<and> stores = [BlobStored (raw_key source t (w_uuid w (w_uuids w))) b])))"
  using req
proof (cases rule: webhook_cases)
  case refused
  then show ?thesis by (intro conjI exI [of _ "[]"]) (auto simp: webhook_counts_def)
next
  case rejected
  then show ?thesis by (intro conjI exI [of _ "[]"]) (auto simp: webhook_counts_def emit_def onward_def)
next
  case later: (archived rv b u t wa wb key x w1)
  have u: "u = w_uuid w (w_uuids w)" and wb: "onward w wb" "w_uuids w < w_uuids wb" "w_events wb = w_events w"
    using later(1,2) by (auto simp: now_def new_uuid_def onward_def)
  have key: "key = raw_key source t (w_uuid w (w_uuids w))" using later(6) u by (simp add: raw_key_def)
  have "onward wb w1" using later(3) onward_basic(4) [of wb "BlobStored key b"] by simp
  then have w1: "onward w w1" "w_uuids w < w_uuids w1" using wb by (auto simp: onward_def)
  show ?thesis
  proof (cases x)
    case (Some e)
    then have "w_events w1 = w_events w" using later(3) wb(3) by (auto simp: send_def emit_def Let_def split: if_splits)
    then show ?thesis using later(4) Some w1 by (intro conjI exI [of _ "[]"]) (auto simp: http_error_def webhook_counts_def)
  next
    case None
    then have e1: "w_events w1 = w_events w @ [BlobStored key b]"
      using later(3) wb(3) by (auto simp: send_def emit_def Let_def split: if_splits)
    have run: "(resp, w') = archived_webhook g source rv h key b w1" using later(4) None by simp
    obtain d w2 where 2: "decode_body rv h b w1 = (d, w2)" by fastforce
    then have e2: "w_events w2 = w_events w1" and o2: "onward w1 w2"
      by (auto simp: decode_body_def now_def onward_def Let_def split: sum.splits)
    have "\<exists>routed. onward w1 w' \<and> hr_Status resp \<in> {202, 400, 500} \<and> list_all routing routed \<and>
        w_events w' = w_events w1 @ routed @ webhook_counts source (hr_Status resp)"
    proof (cases d)
      case (Inl e)
      then show ?thesis using run onward_trans [OF o2 onward_basic(3)] e2
        by (intro exI [of _ "[]"]) (auto simp: archived_webhook_def 2 http_error_def webhook_counts_def emit_def)
    next
      case (Inr alerts)
      obtain r w3 where 3: "route_alerts g key alerts 0 w2 = (r, w3)" by fastforce
      from routes_route_alerts [OF 3] obtain es where o3: "onward w1 w3" and es: "w_events w3 = w_events w1 @ es" "list_all routing es"
        using onward_trans [OF o2] e2 by (auto simp: routes_def emits_def)
      show ?thesis
      proof (cases r)
        case None
        then show ?thesis using run o3 es
          by (intro exI [of _ es]) (auto simp: archived_webhook_def 2 Inr 3 http_error_def webhook_counts_def)
      next
        case (Some m)
        then have "w' = emit (Counted ''webhooks_received'' (source @ '' accepted'')) w3" "hr_Status resp = 202"
          using run by (auto simp: archived_webhook_def 2 Inr 3 Let_def split: if_splits)
        then show ?thesis using onward_trans [OF o3 onward_basic(3)] es
          by (intro exI [of _ es]) (simp add: webhook_counts_def emit_def)
      qed
    qed
    then obtain routed where r: "onward w1 w'" "hr_Status resp \<in> {202, 400, 500}" "list_all routing routed"
      "w_events w' = w_events w1 @ routed @ webhook_counts source (hr_Status resp)" by blast
    have "w_uuids w < w_uuids w'" using w1 r(1) by (auto simp: onward_def)
    with r e1 later(5) key show ?thesis
      by (intro conjI onward_trans [OF w1(1) r(1)] exI [of _ "[BlobStored key b]"] exI [of _ routed]) auto
  qed
qed

section \<open>The program at work\<close>

datatype activity =
    Webhook string http_header "string option"
  | Job investigation_job

fun perform :: "libraries \<Rightarrow> config \<Rightarrow> activity \<Rightarrow> world \<Rightarrow> world" where
  "perform li cfg (Webhook source h body) w = snd (handle_webhook (wire_gateway li cfg) source h body w)"
| "perform li cfg (Job job) w = snd (run_investigation (wire_orchestrator li cfg) job w)"

definition perform_all :: "libraries \<Rightarrow> config \<Rightarrow> activity list \<Rightarrow> world \<Rightarrow> world" where
  "perform_all li cfg = fold (perform li cfg)"

lemma onward_perform: "onward w (perform li cfg a w)"
proof (cases a)
  case (Webhook source h body)
  then show ?thesis using webhook_anatomy [of "wire_gateway li cfg" source h body w] by (simp add: prod_eq_iff)
qed simp

lemma onward_perform_all: "onward w (perform_all li cfg acts w)"
  unfolding perform_all_def
proof (induction acts arbitrary: w)
  case (Cons a acts)
  from onward_trans [OF onward_perform Cons.IH] show ?case by simp
qed simp

end
