(* ===== verification/ObjectStore.thy ===== *)
theory ObjectStore
  imports Activity
begin

text \<open>
  \<open>internal/storage/objectstore/store.go\<close>: the store of raw payloads and of large evidence.  S3 itself is a service: a write that does not
  fail is the event \<open>BlobStored\<close>, and a read gives what was last written under its key.
\<close>

section \<open>The store\<close>

record object_store =
  ob_Region :: string
  ob_Credentials :: "string \<times> string"
  ob_BaseEndpoint :: "string option"
  ob_UsePathStyle :: bool
  ob_bucket :: string

definition object_store_new :: "string \<Rightarrow> string \<Rightarrow> string \<Rightarrow> string \<Rightarrow> string \<Rightarrow> bool \<Rightarrow> object_store" where
  "object_store_new endpoint bucket region accessKey secretKey usePathStyle =
     \<lparr>ob_Region = region, ob_Credentials = (accessKey, secretKey), ob_BaseEndpoint = (if endpoint \<noteq> [] then Some endpoint else None),
      ob_UsePathStyle = usePathStyle, ob_bucket = bucket\<rparr>"

definition blob_put :: "string \<Rightarrow> string \<Rightarrow> world \<Rightarrow> go_error option \<times> world" where
  "blob_put key data w =
     (case send (BlobStored key data) w of
        (Some e, w) \<Rightarrow> (Some (ErrOther (''put object '' @ key @ '': '' @ error_text e)), w)
      | (None, w) \<Rightarrow> (None, w))"

definition put_raw_payload :: "string \<Rightarrow> string \<Rightarrow> world \<Rightarrow> go_error option \<times> world" where
  "put_raw_payload = blob_put"

definition put_evidence_blob :: "string \<Rightarrow> string \<Rightarrow> world \<Rightarrow> go_error option \<times> world" where
  "put_evidence_blob = blob_put"

text \<open>The objects after the events of a log.\<close>

definition blobs :: "event list \<Rightarrow> string \<Rightarrow> string option" where
  "blobs es = fold (\<lambda>e m. case e of BlobStored k b \<Rightarrow> m(k \<mapsto> b) | _ \<Rightarrow> m) es Map.empty"

text \<open>The text of the service's error for a missing key is not that of \<open>ErrNotFound\<close>, which stands for it.\<close>

definition get_blob :: "string \<Rightarrow> world \<Rightarrow> (go_error + string) \<times> world" where
  "get_blob key w =
     (let failed = (\<lambda>e. Inl (ErrOther (''get object '' @ key @ '': '' @ error_text e))) in
      (if w_fault w (w_calls w) then failed ErrUnavailable
       else case blobs (w_events w) key of None \<Rightarrow> failed ErrNotFound | Some b \<Rightarrow> Inr b,
       w\<lparr>w_calls := Suc (w_calls w)\<rparr>))"

text \<open>The gateway and the orchestrator look only at whether a write failed.\<close>

lemma blob_put_send:
  "snd (blob_put key data w) = snd (send (BlobStored key data) w)"
  "fst (blob_put key data w) = None \<longleftrightarrow> fst (send (BlobStored key data) w) = None"
  by (auto simp: blob_put_def split: prod.split option.split)

section \<open>Objects by key\<close>

lemma blobs_append: "blobs (es @ fs) k = (case blobs fs k of Some b \<Rightarrow> Some b | None \<Rightarrow> blobs es k)"
proof (induction fs rule: rev_induct)
  case (snoc e fs)
  then show ?case by (cases e) (simp_all add: blobs_def)
qed (simp add: blobs_def)

lemma blobs_simps [simp]: "blobs [] k = None" "blobs (BlobStored k' b # es) k = (case blobs es k of Some c \<Rightarrow> Some c | None \<Rightarrow> if k = k' then Some b else None)"
proof -
  have "blobs [BlobStored k' b] k = (if k = k' then Some b else None)" by (simp add: blobs_def)
  then show "blobs (BlobStored k' b # es) k = (case blobs es k of Some c \<Rightarrow> Some c | None \<Rightarrow> if k = k' then Some b else None)"
    using blobs_append [of "[BlobStored k' b]" es k] by (auto split: option.split)
qed (simp add: blobs_def)

definition stores_to :: "string \<Rightarrow> event \<Rightarrow> bool" where
  "stores_to key e \<longleftrightarrow> (\<exists>b. e = BlobStored key b)"

lemma blobs_none: "list_all (\<lambda>e. \<not> stores_to key e) es \<Longrightarrow> blobs es key = None"
proof (induction es rule: rev_induct)
  case (snoc e es)
  then show ?case by (cases e) (auto simp: blobs_def stores_to_def)
qed simp

lemma blobs_other: "list_all (\<lambda>e. \<not> stores_to key e) fs \<Longrightarrow> blobs (es @ fs) key = blobs es key"
  by (simp add: blobs_append blobs_none)

theorem put_get:
  assumes "blob_put key data w = (None, w')" "\<not> w_fault w' (w_calls w')"
  shows "fst (get_blob key w') = Inr data \<and> (k \<noteq> key \<longrightarrow> blobs (w_events w') k = blobs (w_events w) k)"
proof -
  have "w_events w' = w_events w @ [BlobStored key data]"
    using assms(1) by (auto simp: blob_put_def send_def emit_def Let_def split: if_splits)
  with assms(2) show ?thesis by (simp add: get_blob_def blobs_append Let_def)
qed

section \<open>Raw payloads\<close>

text \<open>The key ends in the UUID, which has no slash.\<close>

lemma raw_key_end: "CHR ''/'' \<notin> set u \<Longrightarrow> takeWhile (\<lambda>c. c \<noteq> CHR ''/'') (rev (raw_key s t u)) = rev u"
  by (auto simp: raw_key_def takeWhile_append)

lemma raw_key_inj:
  assumes "raw_key s t u = raw_key s' t' u'" "CHR ''/'' \<notin> set u" "CHR ''/'' \<notin> set u'"
  shows "u = u'"
  using raw_key_end [OF assms(2), of s t] raw_key_end [OF assms(3), of s' t'] by (simp add: assms(1))

lemma raw_not_evidence: "take 9 (raw_key s t u) \<noteq> ''evidence/''"
  by (simp add: raw_key_def)

lemma quiet_keeps_raw: "list_all (quiet ch) es \<Longrightarrow> list_all (\<lambda>e. \<not> stores_to (raw_key s t u) e) es"
  using raw_not_evidence [of s t u] by (auto simp: list_all_iff stores_to_def)

lemma routing_stores_nothing: "list_all routing es \<Longrightarrow> list_all (\<lambda>e. \<not> stores_to k e) es"
  by (auto simp: list_all_iff stores_to_def)

lemma counts_store_nothing: "list_all (\<lambda>e. \<not> stores_to k e) (webhook_counts source status)"
  by (simp add: webhook_counts_def stores_to_def)

text \<open>A key of a request that has passed is not written again.\<close>

lemma perform_keeps_raw:
  assumes "inj (w_uuid w)" "\<And>i. CHR ''/'' \<notin> set (w_uuid w i)" "n < w_uuids w"
  shows "blobs (w_events (perform li cfg a w)) (raw_key s t (w_uuid w n)) = blobs (w_events w) (raw_key s t (w_uuid w n))"
proof (cases a)
  case (Webhook source h body)
  obtain resp w' where req: "handle_webhook (wire_gateway li cfg) source h body w = (resp, w')" by fastforce
  from webhook_anatomy [OF req] obtain stores routed where
    ev: "w_events w' = w_events w @ stores @ routed @ webhook_counts source (hr_Status resp)" and routed: "list_all routing routed"
    and stores: "stores = [] \<or> (\<exists>b t'. stores = [BlobStored (raw_key source t' (w_uuid w (w_uuids w))) b])" by blast
  have "w_uuid w (w_uuids w) \<noteq> w_uuid w n" using assms(1,3) by (auto dest: injD)
  then have "raw_key source t' (w_uuid w (w_uuids w)) \<noteq> raw_key s t (w_uuid w n)" for t'
    using raw_key_inj assms(2) by metis
  then have "list_all (\<lambda>e. \<not> stores_to (raw_key s t (w_uuid w n)) e) stores" using stores by (auto simp: stores_to_def)
  with routing_stores_nothing [OF routed] counts_store_nothing show ?thesis
    by (simp add: Webhook req ev blobs_other)
next
  case (Job job)
  obtain r w' where run: "run_investigation (wire_orchestrator li cfg) job w = (r, w')" by fastforce
  from run_emits [OF run wired_engine_quiet] obtain es1 es2 where q: "list_all (quiet (ij_SlackChannelID job)) es1" "list_all (quiet (ij_SlackChannelID job)) es2"
    and ev: "w_events w' = w_events w @ Counted ''investigations_started'' [] # es1 @
      Counted ''investigations_completed'' (case r of Some (Inl e) \<Rightarrow> ''failed'' | _ \<Rightarrow> ''done'') # es2" by blast
  have "list_all (\<lambda>e. \<not> stores_to (raw_key s t (w_uuid w n)) e) (Counted ''investigations_started'' [] # es1 @
      Counted ''investigations_completed'' (case r of Some (Inl e) \<Rightarrow> ''failed'' | _ \<Rightarrow> ''done'') # es2)"
    using quiet_keeps_raw [OF q(1)] quiet_keeps_raw [OF q(2)] by (simp add: stores_to_def)
  then show ?thesis by (simp add: Job run ev blobs_other)
qed

lemma perform_all_keeps_raw:
  assumes "inj (w_uuid w)" "\<And>i. CHR ''/'' \<notin> set (w_uuid w i)" "n < w_uuids w"
  shows "blobs (w_events (perform_all li cfg acts w)) (raw_key s t (w_uuid w n)) = blobs (w_events w) (raw_key s t (w_uuid w n))"
  using assms
proof (induction acts arbitrary: w)
  case (Cons a acts)
  let ?w = "perform li cfg a w"
  have o: "w_uuid ?w = w_uuid w" "n < w_uuids ?w" using onward_perform [of w li cfg a] Cons.prems(3) by (auto simp: onward_def)
  have "blobs (w_events (perform_all li cfg acts ?w)) (raw_key s t (w_uuid ?w n)) = blobs (w_events ?w) (raw_key s t (w_uuid ?w n))"
    by (rule Cons.IH) (simp_all add: o Cons.prems)
  then show ?case using perform_keeps_raw [OF Cons.prems] by (simp add: perform_all_def o)
qed (simp add: perform_all_def)

text \<open>C12: The body of every accepted webhook is kept.  Whatever the program does afterwards, its webhooks and investigations in any number and
  order and with any failures, the body can be read back unchanged under the key that each of the queued alerts carries.
  UUIDs are distinct and have no slash.\<close>

theorem raw_payload_kept:
  assumes req: "handle_webhook (wire_gateway li cfg) source h (Some body) w = (resp, w')" and ok: "hr_Status resp = 202"
    and uuids: "inj (w_uuid w)" "\<And>i. CHR ''/'' \<notin> set (w_uuid w i)"
    and later: "v = perform_all li cfg acts w'" "\<not> w_fault v (w_calls v)"
  shows "\<exists>key es. w_events w' = w_events w @ es \<and> fst (get_blob key v) = Inr body \<and>
    list_all (\<lambda>e. case e of Published subject job \<Rightarrow> al_RawRef (ij_Alert job) = key | _ \<Rightarrow> True) es"
proof -
  from accepted_phases [OF req ok] obtain rv key w1 alerts w2 m w3 where
    e1: "w_events w1 = w_events w @ [BlobStored key body]" and dec: "decode_body rv h body w1 = (Inr alerts, w2)"
    and route: "route_alerts (wire_gateway li cfg) key alerts 0 w2 = (Some m, w3)"
    and w': "w' = emit (Counted ''webhooks_received'' (source @ '' accepted'')) w3" by blast
  from dec have e2: "w_events w2 = w_events w1" by (auto simp: decode_body_def now_def Let_def split: sum.splits)
  from route_alerts_events [OF route] obtain sent fates es where
    sent: "sent = identified key (map (w_uuid w2) [w_uuids w2..<w_uuids w2 + length alerts]) alerts" and es: "w_events w3 = w_events w2 @ es"
    and pub: "filter is_published es = map (\<lambda>(a, f). Published (gw_streamName (wire_gateway li cfg) @ ''.new'') (webhook_job a))
      (filter (\<lambda>(a, f). f = Queued) (zip sent fates))" by blast
  have ev: "w_events w' = w_events w @ BlobStored key body # es @ [Counted ''webhooks_received'' (source @ '' accepted'')]"
    by (simp add: w' emit_def es e2 e1)
  have ref: "al_RawRef a = key" if "a \<in> set sent" for a
    using that by (auto simp: sent identified_def)
  have jobs: "al_RawRef (ij_Alert job) = key" if "Published subject job \<in> set es" for subject job
  proof -
    have "Published subject job \<in> set (filter is_published es)" using that by simp
    then obtain a f where "(a, f) \<in> set (zip sent fates)" "job = webhook_job a" unfolding pub by auto
    with ref show ?thesis by (auto simp: webhook_job_def dest: set_zip_leftD)
  qed
  from webhook_anatomy [OF req] ok obtain stores routed where
    stores: "w_events w' = w_events w @ stores @ routed @ webhook_counts source 202" "list_all routing routed" "stores \<noteq> []"
    and own: "stores = [] \<or> w_uuids w < w_uuids w' \<and> (\<exists>b t. Some body = Some b \<and> stores = [BlobStored (raw_key source t (w_uuid w (w_uuids w))) b])"
    and on: "onward w w'" by auto
  from own stores(3) obtain t where st: "stores = [BlobStored (raw_key source t (w_uuid w (w_uuids w))) body]" and n: "w_uuids w < w_uuids w'" by auto
  with stores(1) ev have key: "key = raw_key source t (w_uuid w (w_uuids w))" by simp
  have same: "w_uuid w' = w_uuid w" using on by (simp add: onward_def)
  have "blobs (w_events v) key = blobs (w_events w') key"
    using perform_all_keeps_raw [of w' "w_uuids w" li cfg acts source t] uuids n same by (simp add: later(1) key)
  also have "\<dots> = Some body"
    unfolding stores(1) st key
    using routing_stores_nothing [OF stores(2)] counts_store_nothing by (simp add: blobs_append blobs_none)
  finally have "fst (get_blob key v) = Inr body" using later(2) by (simp add: get_blob_def Let_def)
  with ev jobs show ?thesis
    by (intro exI [of _ key] exI [of _ "BlobStored key body # es @ [Counted ''webhooks_received'' (source @ '' accepted'')]"])
      (auto simp: list_all_iff split: event.split)
qed

section \<open>Example\<close>

lemma digits_no_slash: "CHR ''/'' \<notin> set (digits_of n)"
proof (induction n rule: digits_of.induct)
  case (1 n)
  have "char_of (48 + k) \<noteq> CHR ''/''" if "k < 10" for k :: nat
  proof
    assume "char_of (48 + k) = CHR ''/''"
    then have "of_char (char_of (48 + k)) = (of_char (CHR ''/'') :: nat)" by (rule arg_cong)
    with that show False by (simp add: of_char_of)
  qed
  note not_slash = this [THEN not_sym]
  with 1 show ?case by (subst digits_of.simps) (simp add: not_slash)
qed

text \<open>After the webhook, another one and an investigation, each of which works on other things.\<close>

theorem raw_payload_kept_witness:
  "\<exists>key v. v = perform_all sample_li sample_config [Webhook ''grafana'' sample_header (Some ''x''), Job sample_job]
       (snd (handle_webhook (wire_gateway sample_li sample_config) ''alertmanager'' sample_header (Some ''{}'') (sample_world empty_db))) \<and>
     fst (get_blob key v) = Inr ''{}''"
proof -
  let ?w = "sample_world empty_db"
  obtain resp w' where req: "handle_webhook (wire_gateway sample_li sample_config) ''alertmanager'' sample_header (Some ''{}'') ?w = (resp, w')"
    by fastforce
  have ok: "hr_Status resp = 202" using sample_strict_accepted(1) by (simp add: req)
  have inj: "inj (w_uuid ?w)" using sample_healthy by (simp add: healthy_def)
  have slash: "CHR ''/'' \<notin> set (w_uuid ?w i)" for i by (simp add: sample_world_def itoa_def digits_no_slash)
  define v where "v = perform_all sample_li sample_config [Webhook ''grafana'' sample_header (Some ''x''), Job sample_job] w'"
  have "onward ?w w'" using webhook_anatomy [OF req] by blast
  then have "onward ?w v" unfolding v_def by (rule onward_trans [OF _ onward_perform_all])
  then have "\<not> w_fault v (w_calls v)" by (simp add: onward_def sample_world_def)
  from raw_payload_kept [OF req ok inj slash v_def this] show ?thesis unfolding v_def by (auto simp: req)
qed

end
