(* ===== verification/Metrics.thy ===== *)
theory Metrics
  imports Activity
begin

text \<open>
  \<open>internal/metrics/metrics.go\<close>: what is counted.  The metrics as they are registered, and what the counters of a running program add up
  to: the event \<open>Counted m l\<close> increments the counter \<open>sherlock_m_total\<close> at the label values in \<open>l\<close>.  Durations are not measured in the
  model, nor are the collectors' counts.
\<close>

section \<open>The registered metrics\<close>

text \<open>\<open>None\<close> are the default buckets of the library.\<close>

datatype metric_kind = CounterMetric | GaugeMetric | HistogramMetric "rat list option"

record metric =
  mt_Name :: string
  mt_Help :: string
  mt_Labels :: "string list"
  mt_Kind :: metric_kind

definition sherlock_metric :: "metric_kind \<Rightarrow> string \<Rightarrow> string \<Rightarrow> string list \<Rightarrow> metric" where
  "sherlock_metric kind name help labels = \<lparr>mt_Name = ''sherlock_'' @ name, mt_Help = help, mt_Labels = labels, mt_Kind = kind\<rparr>"

definition webhook_metrics :: "metric list" where
  "webhook_metrics =
    [sherlock_metric CounterMetric ''webhooks_received_total'' ''Total webhooks received by source and status.'' [''source'', ''status''],
     sherlock_metric (HistogramMetric None) ''webhook_duration_seconds'' ''Webhook processing duration in seconds.'' [''source'']]"

definition investigation_metrics :: "metric list" where
  "investigation_metrics =
    [sherlock_metric CounterMetric ''investigations_started_total'' ''Total investigations started.'' [],
     sherlock_metric CounterMetric ''investigations_completed_total'' ''Total investigations completed by status.'' [''status''],
     sherlock_metric (HistogramMetric (Some [1, 5, 10, 30, 60, 120, 300])) ''investigation_duration_seconds''
       ''Investigation processing duration in seconds.'' []]"

definition llm_metrics :: "metric list" where
  "llm_metrics =
    [sherlock_metric CounterMetric ''llm_calls_total'' ''Total LLM calls by provider and status.'' [''provider'', ''status''],
     sherlock_metric (HistogramMetric (Some [1, 5, 10, 30, 60, 120])) ''llm_call_duration_seconds'' ''LLM call duration in seconds.'' [''provider'']]"

definition alert_metrics :: "metric list" where
  "alert_metrics =
    [sherlock_metric CounterMetric ''dedup_hits_total'' ''Total duplicate alerts detected.'' [],
     sherlock_metric CounterMetric ''suppress_hits_total'' ''Total suppressed alerts.'' []]"

definition evidence_metrics :: "metric list" where
  "evidence_metrics =
    [sherlock_metric CounterMetric ''evidence_collected_total'' ''Total evidence items collected by collector.'' [''collector''],
     sherlock_metric GaugeMetric ''active_investigations'' ''Number of currently running investigations.'' []]"

definition registered_metrics :: "metric list" where
  "registered_metrics = webhook_metrics @ investigation_metrics @ llm_metrics @ alert_metrics @ evidence_metrics"

definition counter_labels :: "string \<Rightarrow> string list option" where
  "counter_labels m = map_option mt_Labels
     (find (\<lambda>mt. mt_Kind mt = CounterMetric \<and> mt_Name mt = ''sherlock_'' @ m @ ''_total'') registered_metrics)"

text \<open>Registering a name twice panics, as does a counter used with another number of label values than it has: neither happens.\<close>

lemma metric_names_distinct: "distinct (map mt_Name registered_metrics)"
  by code_simp

lemma counters_registered:
  "map (map_option length \<circ> counter_labels) [''webhooks_received'', ''llm_calls'', ''investigations_completed'', ''investigations_started'',
     ''dedup_hits'', ''suppress_hits''] = [Some 2, Some 2, Some 1, Some 0, Some 0, Some 0]"
  by code_simp

section \<open>What the counters add up to\<close>

fun counts_as :: "string \<Rightarrow> event \<Rightarrow> bool" where
  "counts_as m (Counted m' l) = (m' = m)"
| "counts_as m e = False"

text \<open>The value of a counter, over all its labels.\<close>

definition counter :: "string \<Rightarrow> world \<Rightarrow> nat" where
  "counter m w = length (filter (counts_as m) (w_events w))"

lemma filter_counts_none: "list_all (\<lambda>e. \<not> counts_as m e) es \<Longrightarrow> filter (counts_as m) es = []"
  by (simp add: filter_empty_conv list_all_iff)

lemma quiet_counts: "list_all (quiet ch) es \<Longrightarrow> m \<noteq> ''llm_calls'' \<Longrightarrow> filter (counts_as m) es = []"
  by (rule filter_counts_none) (fastforce simp: list_all_iff elim!: counts_as.elims(2))

lemma routing_counts: "list_all routing es \<Longrightarrow> m \<noteq> ''dedup_hits'' \<Longrightarrow> m \<noteq> ''suppress_hits'' \<Longrightarrow> filter (counts_as m) es = []"
  by (rule filter_counts_none) (fastforce simp: list_all_iff elim!: counts_as.elims(2))

lemma run_counters:
  assumes "run_investigation (wire_orchestrator li cfg) job w = (r, w')"
  shows "counter ''investigations_started'' w' = Suc (counter ''investigations_started'' w)"
    "counter ''investigations_completed'' w' = Suc (counter ''investigations_completed'' w)"
    "counter ''webhooks_received'' w' = counter ''webhooks_received'' w"
proof -
  from run_emits [OF assms wired_engine_quiet] obtain es1 es2 where q: "list_all (quiet (ij_SlackChannelID job)) es1" "list_all (quiet (ij_SlackChannelID job)) es2"
    and ev: "w_events w' = w_events w @ Counted ''investigations_started'' [] # es1 @
      Counted ''investigations_completed'' (case r of Some (Inl e) \<Rightarrow> ''failed'' | _ \<Rightarrow> ''done'') # es2" by blast
  show "counter ''investigations_started'' w' = Suc (counter ''investigations_started'' w)"
    "counter ''investigations_completed'' w' = Suc (counter ''investigations_completed'' w)"
    "counter ''webhooks_received'' w' = counter ''webhooks_received'' w"
    by (simp_all add: counter_def ev quiet_counts [OF q(1)] quiet_counts [OF q(2)])
qed

lemma webhook_counters:
  assumes "handle_webhook g source h body w = (resp, w')"
  shows "counter ''investigations_started'' w' = counter ''investigations_started'' w"
    "counter ''investigations_completed'' w' = counter ''investigations_completed'' w"
    "counter ''webhooks_received'' w' = counter ''webhooks_received'' w + (if hr_Status resp \<in> {202, 400, 401} then 1 else 0)"
proof -
  from webhook_anatomy [OF assms] obtain stores routed where
    ev: "w_events w' = w_events w @ stores @ routed @ webhook_counts source (hr_Status resp)" and routed: "list_all routing routed"
    and stores: "stores = [] \<or> (\<exists>k b. stores = [BlobStored k b])" by blast
  have none: "filter (counts_as m) stores = []" for m using stores by auto
  show "counter ''investigations_started'' w' = counter ''investigations_started'' w"
    "counter ''investigations_completed'' w' = counter ''investigations_completed'' w"
    "counter ''webhooks_received'' w' = counter ''webhooks_received'' w + (if hr_Status resp \<in> {202, 400, 401} then 1 else 0)"
    by (simp_all add: counter_def ev none routing_counts [OF routed] webhook_counts_def)
qed

text \<open>How many of the activities are investigations, and how many are requests that are answered by 202, 400 or 401.\<close>

fun jobs_in :: "activity list \<Rightarrow> nat" where
  "jobs_in [] = 0"
| "jobs_in (Job job # acts) = Suc (jobs_in acts)"
| "jobs_in (Webhook source h body # acts) = jobs_in acts"

fun answered_in :: "libraries \<Rightarrow> config \<Rightarrow> activity list \<Rightarrow> world \<Rightarrow> nat" where
  "answered_in li cfg [] w = 0"
| "answered_in li cfg (Job job # acts) w = answered_in li cfg acts (perform li cfg (Job job) w)"
| "answered_in li cfg (Webhook source h body # acts) w =
     (if hr_Status (fst (handle_webhook (wire_gateway li cfg) source h body w)) \<in> {202, 400, 401} then 1 else 0) +
     answered_in li cfg acts (perform li cfg (Webhook source h body) w)"

text \<open>C30: The counters of a running program add up, whatever fails: every investigation is counted once as started and once as completed, also when it
  panics, and a webhook is counted once exactly when it is answered by 202, 400 or 401; those that are refused or break are not
  counted at all.\<close>

theorem counters_add_up:
  "counter ''investigations_started'' (perform_all li cfg acts w) = counter ''investigations_started'' w + jobs_in acts \<and>
   counter ''investigations_completed'' (perform_all li cfg acts w) = counter ''investigations_completed'' w + jobs_in acts \<and>
   counter ''webhooks_received'' (perform_all li cfg acts w) = counter ''webhooks_received'' w + answered_in li cfg acts w"
proof (induction acts arbitrary: w)
  case (Cons a acts)
  show ?case
  proof (cases a)
    case (Webhook source h body)
    obtain resp w' where req: "handle_webhook (wire_gateway li cfg) source h body w = (resp, w')" by fastforce
    show ?thesis using Cons.IH [of w'] webhook_counters [OF req] by (simp add: Webhook perform_all_def req)
  next
    case (Job job)
    obtain r w' where run: "run_investigation (wire_orchestrator li cfg) job w = (r, w')" by fastforce
    show ?thesis using Cons.IH [of w'] run_counters [OF run] by (simp add: Job perform_all_def run)
  qed
qed (simp add: perform_all_def)

end
