(* ===== verification/Results.thy ===== *)
theory Results
  imports Served Activity
begin

text \<open>
  What the tables say of an investigation between the activities of the program (\<open>Activity\<close>): a completed row and the hypotheses and the timeline that
  are stored for it always belong together, and a row that is not completed has none.  The rows are written by the orchestrator, the results
  by its last transaction, and the gateway writes to the same rows when it links an alert, at any time in between.
\<close>

section \<open>The results of a row\<close>

definition stored_hypotheses :: "database \<Rightarrow> string \<Rightarrow> hypothesis list" where
  "stored_hypotheses db i = map snd (filter (\<lambda>(j, h). j = i) (db_hypotheses db))"

definition stored_timeline :: "database \<Rightarrow> string \<Rightarrow> timeline_event list" where
  "stored_timeline db i = filter (\<lambda>e. te_InvestigationID e = i) (db_timeline db)"

definition no_results :: "database \<Rightarrow> string \<Rightarrow> bool" where
  "no_results db i \<longleftrightarrow> stored_hypotheses db i = [] \<and> stored_timeline db i = []"

fun outcome :: "investigation \<Rightarrow> investigation_status \<times> string \<times> f64 \<times> gotime option" where
  "outcome row = (in_Status row, in_Headline row, in_Confidence row, in_CompletedAt row)"

definition result_agrees :: "database \<Rightarrow> string \<Rightarrow> investigation_status \<times> string \<times> f64 \<times> gotime option \<Rightarrow> bool" where
  "result_agrees db i = (\<lambda>(status, headline, confidence, completed).
     if status = StatusDone
     then completed \<noteq> None \<and> (headline, confidence) = headline_of (stored_hypotheses db i) \<and> stored_timeline db i \<noteq> []
     else status \<noteq> StatusFailed \<and> completed = None \<and> headline = [] \<and> no_results db i)"

definition results_agree :: "world \<Rightarrow> bool" where
  "results_agree w \<longleftrightarrow> (\<forall>i. case map_option outcome (inv_row w i) of
     None \<Rightarrow> no_results (w_db w) i | Some out \<Rightarrow> result_agrees (w_db w) i out)"

lemma agrees_cong:
  assumes "stored_hypotheses db' i = stored_hypotheses db i" "stored_timeline db' i = stored_timeline db i"
  shows "no_results db' i = no_results db i" "result_agrees db' i = result_agrees db i"
  by (simp_all add: no_results_def result_agrees_def assms)

section \<open>A webhook links alerts\<close>

text \<open>Nothing changes but the alerts of rows, their times of change and what is not in these tables.\<close>

definition links :: "world \<Rightarrow> world \<Rightarrow> bool" where
  "links w w' \<longleftrightarrow> db_hypotheses (w_db w') = db_hypotheses (w_db w) \<and> db_timeline (w_db w') = db_timeline (w_db w) \<and>
     (\<forall>i. map_option outcome (inv_row w' i) = map_option outcome (inv_row w i))"

lemma links_db:
  assumes "w_db w' = w_db w"
  shows "links w w'"
  by (simp add: links_def assms row_of_db [OF assms])

lemma links_trans: "links w w1 \<Longrightarrow> links w1 w2 \<Longrightarrow> links w w2"
  by (simp add: links_def)

lemma links_agree:
  assumes "links w w'" "results_agree w"
  shows "results_agree w'"
proof -
  have "stored_hypotheses (w_db w') i = stored_hypotheses (w_db w) i" "stored_timeline (w_db w') i = stored_timeline (w_db w) i" for i
    using assms(1) by (simp_all add: links_def stored_hypotheses_def stored_timeline_def)
  note same = agrees_cong [OF this]
  have "map_option outcome (inv_row w' i) = map_option outcome (inv_row w i)" for i using assms(1) by (simp add: links_def)
  then show ?thesis using assms(2) unfolding results_agree_def same by presburger
qed

lemma links_link_alert:
  assumes "inv_link_alert i a w = (r, w')"
  shows "links w w'"
proof -
  have "db_hypotheses (w_db (snd (inv_link_alert i a w))) = db_hypotheses (w_db w)" "db_timeline (w_db (snd (inv_link_alert i a w))) = db_timeline (w_db w)"
    by (auto simp: inv_link_alert_def now_def update_investigation_def exec_def Let_def split: sum.split)
  moreover have "map_option outcome (inv_row w' j) = map_option outcome (inv_row w j)" for j
    using link_alert_cases [OF assms] by (cases r) auto
  ultimately show ?thesis using assms by (simp add: links_def)
qed

lemma links_dedup_check:
  assumes "dedup_check window a w = (r, w')"
  shows "links w w'"
proof (cases "al_Fingerprint a = []")
  case True
  then show ?thesis using assms by (simp add: dedup_check_def links_db)
next
  case False
  obtain t w1 where 1: "now w = (t, w1)" by fastforce
  obtain x w2 where 2: "inv_find_active (al_Fingerprint a) (time_add t (- window)) w1 = (x, w2)" by fastforce
  have db: "w_db w2 = w_db w" using 1 2 by (auto simp: now_def inv_find_active_def exec_def Let_def split: if_splits)
  consider e where "x = Inl e" | "x = Inr None" | b where "x = Inr (Some b)" by (metis sum.exhaust option.exhaust)
  then show ?thesis
  proof cases
    case (3 b)
    obtain y w3 where link: "inv_link_alert (ai_ID b) (al_ID a) w2 = (y, w3)" by fastforce
    have "w' = w3" using assms False 3 by (simp add: dedup_check_def 1 2 link)
    then show ?thesis using links_trans [OF links_db [OF db] links_link_alert [OF link]] by simp
  qed (use assms False db in \<open>simp_all add: dedup_check_def 1 2 links_db\<close>)
qed

lemma links_check_dedup:
  assumes "check_dedup g a w = (dup, w')"
  shows "links w w'"
proof (cases "gw_dedup g")
  case None
  then show ?thesis using assms by (simp add: check_dedup_def links_db)
next
  case (Some window)
  obtain r w1 where 1: "dedup_check window a w = (r, w1)" by fastforce
  have "w_db (notify_dedup g a res (emit e w1)) = w_db w1" for res e by (simp add: notify_dedup_def)
  then have "links w (notify_dedup g a res (emit e w1))" for res e
    using links_trans [OF links_dedup_check [OF 1] links_db] by blast
  then show ?thesis using assms links_dedup_check [OF 1] by (auto simp: check_dedup_def Some 1 split: sum.splits if_splits)
qed

lemma check_suppress_db:
  assumes "check_suppress g a w = (muted, w')"
  shows "w_db w' = w_db w"
proof -
  obtain r w1 where 1: "suppression_is_active (al_Fingerprint a) w = (r, w1)" by fastforce
  then have "w_db w1 = w_db w" by (auto simp: suppression_is_active_def now_def exec_def Let_def split: if_splits)
  then show ?thesis using assms by (auto simp: check_suppress_def 1 split: sum.splits if_splits)
qed

lemma links_route_alert:
  assumes "route_alert g a w = (f, w')"
  shows "links w w'"
proof -
  obtain dup w1 where 1: "check_dedup g a w = (dup, w1)" by fastforce
  obtain muted w2 where 2: "check_suppress g a w1 = (muted, w2)" by fastforce
  obtain x w3 where 3: "send (Published (gw_streamName g @ ''.new'') (webhook_job a)) w2 = (x, w3)" by fastforce
  have "w' \<in> {w1, w2, w3}" using assms by (cases dup; cases muted; cases x) (simp_all add: route_alert_def 1 2 3)
  moreover have "w_db w2 = w_db w1" "w_db w3 = w_db w2"
    using check_suppress_db [OF 2] send_db [of "Published (gw_streamName g @ ''.new'') (webhook_job a)" w2] by (simp_all add: 3)
  then have "links w1 w1" "links w1 w2" "links w1 w3" by (simp_all add: links_db)
  ultimately show ?thesis using links_trans [OF links_check_dedup [OF 1]] by auto
qed

lemma links_route_alerts: "route_alerts g key alerts n w = (r, w') \<Longrightarrow> links w w'"
proof (induction alerts arbitrary: n w)
  case (Cons a alerts)
  obtain i w1 where 1: "new_uuid w = (i, w1)" by fastforce
  have w1: "links w w1" using new_uuid_db [of w] by (simp add: 1 links_db)
  obtain f w2 where 2: "route_alert g (a\<lparr>al_ID := i, al_RawRef := key\<rparr>) w1 = (f, w2)" by fastforce
  have w2: "links w w2" by (rule links_trans [OF w1 links_route_alert [OF 2]])
  show ?case using Cons.prems Cons.IH [THEN links_trans [OF w2]] w2 by (auto simp: 1 2 split: fate.splits)
qed (simp add: links_db)

lemma links_webhook:
  assumes req: "handle_webhook g source h body w = (resp, w')"
  shows "links w w'"
  using req
proof (cases rule: webhook_cases)
  case later: (archived rv b u t wa wb key x w1)
  have db1: "w_db w1 = w_db w" using later(1-3) by (auto simp: now_def new_uuid_def send_def emit_def Let_def split: if_splits)
  obtain d w2 where 2: "decode_body rv h b w1 = (d, w2)" by fastforce
  have db2: "w_db w2 = w_db w" using 2 db1 by (auto simp: decode_body_def now_def Let_def split: sum.splits)
  show ?thesis
  proof (cases "x = None \<and> isl d = False")
    case False
    then have "w_db w' = w_db w" using later(4) db1 db2 by (cases x; cases d) (auto simp: archived_webhook_def 2)
    then show ?thesis by (rule links_db)
  next
    case True
    then obtain alerts where d: "d = Inr alerts" by (cases d) auto
    obtain r w3 where 3: "route_alerts g key alerts 0 w2 = (r, w3)" by fastforce
    have "w_db w' = w_db w3" using later(4) True by (cases r) (auto simp: archived_webhook_def 2 d 3 Let_def split: if_splits)
    then show ?thesis using links_trans [OF links_trans [OF links_db [OF db2] links_route_alerts [OF 3]] links_db] by blast
  qed
qed (simp_all add: links_db)

section \<open>A job stores its results together\<close>

lemma timeline_build_nonempty:
  assumes "slice_sorter earlier srt" "id_Alerts data \<noteq> []"
  shows "timeline_build srt uuid data \<noteq> []"
proof -
  let ?evs = "map alert_event (id_Alerts data) @ List.map_filter evidence_event (id_Evidence data)"
  have "mset (srt ?evs) = mset ?evs" using assms(1) by (rule slice_sorter.srt_perm)
  then have "length (srt ?evs) = length ?evs" by (rule mset_eq_length)
  then have "length (timeline_build srt uuid data) = length ?evs" by (simp add: timeline_build_def collect_events_filter Let_def)
  then show ?thesis using assms(2) by (cases "timeline_build srt uuid data"; cases "id_Alerts data") simp_all
qed

lemma wired_sort: "o_sort (wire_orchestrator li cfg) = li_sort li"
  unfolding wire_orchestrator_def new_orchestrator_def
proof (rule fold_options)
  let ?P = "\<lambda>oc. o_sort oc = li_sort li"
  show "?P (opt oc)" if "opt \<in> set (wire_options li cfg)" "?P oc" for opt oc
    using wire_options_cases [OF that(1)] that(2)
    by (auto simp: with_max_concurrent_def with_timeout_def with_blob_store_def with_remediation_def with_llm_engine_def)
qed simp

text \<open>The rows and results of others stay when rows, hypotheses and events of one investigation are added.\<close>

lemma agree_added:
  assumes agree: "results_agree w" and new: "inv_row w i = None"
    and rows: "inv_row w' = (inv_row w)(i \<mapsto> row)" and hyps: "db_hypotheses (w_db w') = db_hypotheses (w_db w) @ map (Pair i) hs"
    and events: "db_timeline (w_db w') = db_timeline (w_db w) @ evs" "\<forall>ev \<in> set evs. te_InvestigationID ev = i"
    and own: "if in_Status row = StatusDone then in_CompletedAt row \<noteq> None \<and> (in_Headline row, in_Confidence row) = headline_of hs \<and> evs \<noteq> []
      else in_Status row \<noteq> StatusFailed \<and> in_CompletedAt row = None \<and> in_Headline row = [] \<and> hs = [] \<and> evs = []"
  shows "results_agree w'"
proof -
  have none: "no_results (w_db w) i" using agree new by (auto simp: results_agree_def dest: spec [of _ i])
  have "filter (\<lambda>e. te_InvestigationID e = i) evs = evs" using events(2) by (simp add: filter_id_conv)
  with none have mine: "stored_hypotheses (w_db w') i = hs" "stored_timeline (w_db w') i = evs"
    by (simp_all add: no_results_def stored_hypotheses_def stored_timeline_def hyps events(1) filter_pairs comp_def)
  have others: "stored_hypotheses (w_db w') j = stored_hypotheses (w_db w) j" "stored_timeline (w_db w') j = stored_timeline (w_db w) j"
    if "j \<noteq> i" for j
  proof -
    have "filter (\<lambda>(k, h). k = j) (map (Pair i) hs) = []" "filter (\<lambda>e. te_InvestigationID e = j) evs = []"
      using that events(2) by (auto simp: filter_empty_conv)
    then show "stored_hypotheses (w_db w') j = stored_hypotheses (w_db w) j" "stored_timeline (w_db w') j = stored_timeline (w_db w) j"
      by (simp_all add: stored_hypotheses_def stored_timeline_def hyps events(1))
  qed
  show ?thesis unfolding results_agree_def
  proof
    fix j
    show "case map_option outcome (inv_row w' j) of None \<Rightarrow> no_results (w_db w') j | Some out \<Rightarrow> result_agrees (w_db w') j out"
    proof (cases "j = i")
      case True
      then show ?thesis using own by (simp add: rows result_agrees_def no_results_def mine)
    next
      case False
      have "case map_option outcome (inv_row w j) of None \<Rightarrow> no_results (w_db w) j | Some out \<Rightarrow> result_agrees (w_db w) j out"
        using agree by (simp add: results_agree_def)
      then show ?thesis unfolding agrees_cong [OF others [OF False]] using False by (simp add: rows)
    qed
  qed
qed

lemma job_agrees:
  assumes run: "run_investigation (wire_orchestrator li cfg) job w = (r, w')" and sort: "slice_sorter earlier (li_sort li)" and agree: "results_agree w"
  shows "results_agree w'"
proof (cases "r = Some (Inr ())")
  case True
  let ?oc = "wire_orchestrator li cfg" and ?i = "w_uuid w (w_uuids w)"
  obtain flag w1 where inves: "investigate ?oc job (emit (Counted ''investigations_started'' []) w) = (r, flag, w1)"
    and db: "w_db w' = w_db w1" using run by (rule run_investigation_db)
  from investigate_ok [OF inves [unfolded True]] obtain row iv es hs labels uuid' where
    new: "inv_row w ?i = None" and id: "in_ID iv = ?i" and row: "in_Status row = StatusDone" "(in_Headline row, in_Confidence row) = headline_of hs"
      "in_CompletedAt row \<noteq> None" and
    eff: "effect ((inv_row w)(?i \<mapsto> row)) es (map (Pair ?i) hs) (timeline_build (o_sort ?oc) uuid'
      (\<lparr>id_Investigation = iv, id_Alerts = [ij_Alert job], id_Evidence = es\<rparr>\<lparr>id_Alerts := [(ij_Alert job)\<lparr>al_Labels := labels\<rparr>]\<rparr>))
      (emit (Counted ''investigations_started'' []) w) w1"
    unfolding Let_def emit_frame by (elim exE conjE) (rule that; assumption)
  let ?evs = "timeline_build (o_sort ?oc) uuid' (\<lparr>id_Investigation = iv, id_Alerts = [ij_Alert job], id_Evidence = es\<rparr>
    \<lparr>id_Alerts := [(ij_Alert job)\<lparr>al_Labels := labels\<rparr>]\<rparr>)"
  show ?thesis
  proof (rule agree_added [OF agree new])
    show "inv_row w' = (inv_row w)(?i \<mapsto> row)" "db_hypotheses (w_db w') = db_hypotheses (w_db w) @ map (Pair ?i) hs"
      "db_timeline (w_db w') = db_timeline (w_db w) @ ?evs" using eff row_of_db [OF db] by (simp_all add: effect_def db)
    show "\<forall>ev \<in> set ?evs. te_InvestigationID ev = ?i" using timeline_build_inv [of "o_sort ?oc" uuid'] id by simp
    have "?evs \<noteq> []" using sort by (intro timeline_build_nonempty) (simp_all add: wired_sort)
    then show "if in_Status row = StatusDone then in_CompletedAt row \<noteq> None \<and> (in_Headline row, in_Confidence row) = headline_of hs \<and> ?evs \<noteq> []
      else in_Status row \<noteq> StatusFailed \<and> in_CompletedAt row = None \<and> in_Headline row = [] \<and> hs = [] \<and> ?evs = []" using row by simp
  qed
next
  case False
  have tx: "o_tx (wire_orchestrator li cfg)" using wired_orchestrator by (simp add: wired_def)
  note frame = run_not_ok [OF run False tx]
  then have same: "db_hypotheses (w_db w') = db_hypotheses (w_db w)" "db_timeline (w_db w') = db_timeline (w_db w)" by auto
  consider "inv_row w' = inv_row w"
    | row where "inv_row w (w_uuid w (w_uuids w)) = None" "inv_row w' = (inv_row w)(w_uuid w (w_uuids w) \<mapsto> row)" "in_CompletedAt row = None"
      "in_Headline row = []" "in_Status row \<in> {StatusPending, StatusCollecting, StatusAnalyzing}"
    using frame wired_engine_no_error by blast
  then show ?thesis
  proof cases
    case 1
    then have "links w w'" by (simp add: links_def same)
    then show ?thesis using agree by (rule links_agree)
  next
    case (2 row)
    show ?thesis by (rule agree_added [OF agree 2(1,2), of "[]" "[]"]) (use 2 same in auto)
  qed
qed

lemma perform_agrees:
  assumes "slice_sorter earlier (li_sort li)" "results_agree w"
  shows "results_agree (perform li cfg a w)"
proof (cases a)
  case (Webhook source h body)
  then show ?thesis using links_agree [OF links_webhook assms(2)] by (metis perform.simps(1) prod.collapse)
next
  case (Job job)
  then show ?thesis using job_agrees [OF _ assms] by (metis perform.simps(2) prod.collapse)
qed

text \<open>C15: Whatever the program does, its webhooks and jobs in any number and order and with any failures and panics, it leaves no half
  result in the tables.  From empty tables on, an investigation that is done has its completion time and a timeline, and its headline and
  confidence are those of the first of the hypotheses that are stored for it, or the fixed ones when there are none; one that is
  not done has no completion time, no headline, no hypothesis and no event, and is not marked as failed; and nothing is stored for an investigation
  that does not exist.\<close>

theorem results_always_agree:
  assumes "w_db w = empty_db" "slice_sorter earlier (li_sort li)"
  shows "results_agree (perform_all li cfg acts w)"
proof -
  have "results_agree w"
    by (simp add: results_agree_def no_results_def stored_hypotheses_def stored_timeline_def inv_row_def assms(1) empty_db_def)
  then show ?thesis unfolding perform_all_def
  proof (induction acts arbitrary: w)
    case (Cons a acts)
    from Cons.IH [OF perform_agrees [OF assms(2) Cons.prems]] show ?case by simp
  qed simp
qed

theorem results_always_agree_witness:
  "\<exists>w row. w = perform_all crash_li config_defaults [Job crash_job, Webhook ''alertmanager'' sample_header (Some ''{}'')] (sample_world empty_db) \<and>
     inv_row w ''u0'' = Some row \<and> in_Status row = StatusDone \<and>
     (in_Headline row, in_Confidence row) = headline_of (stored_hypotheses (w_db w) ''u0'') \<and> stored_timeline (w_db w) ''u0'' \<noteq> []"
proof -
  let ?oc = "wire_orchestrator crash_li config_defaults" and ?w = "sample_world empty_db" and ?hook = "Webhook ''alertmanager'' sample_header (Some ''{}'')"
  obtain w1 where run: "run_investigation ?oc crash_job ?w = (Some (Inr ()), w1)" using crash_run by (metis prod.collapse)
  have "itoa (int 0) = ''0''" by code_simp
  then have u0: "w_uuid ?w (w_uuids ?w) = ''u0''" by (simp add: sample_world_def)
  obtain flag v where inves: "investigate ?oc crash_job (emit (Counted ''investigations_started'' []) ?w) = (Some (Inr ()), flag, v)"
    and db: "w_db w1 = w_db v" using run by (rule run_investigation_db)
  from investigate_ok [OF inves] obtain row where "inv_row v = (inv_row ?w)(w_uuid ?w (w_uuids ?w) \<mapsto> row)" "in_Status row = StatusDone"
    unfolding Let_def effect_def emit_frame by (elim exE conjE) (rule that; assumption)
  then have done1: "map_option in_Status (inv_row w1 ''u0'') = Some StatusDone" using row_of_db [OF db] by (simp add: u0)
  let ?v = "perform_all crash_li config_defaults [Job crash_job, ?hook] ?w"
  have v: "?v = perform crash_li config_defaults ?hook w1" by (simp add: perform_all_def run)
  have "links w1 ?v" unfolding v perform.simps by (rule links_webhook) (rule prod.collapse [symmetric])
  then have "map_option outcome (inv_row ?v ''u0'') = map_option outcome (inv_row w1 ''u0'')" by (simp add: links_def)
  with done1 obtain row' where row': "inv_row ?v ''u0'' = Some row'" "in_Status row' = StatusDone" by auto
  have "slice_sorter earlier (li_sort crash_li)" by (simp add: crash_li_def sample_li_def time_order.ins.slice_sorter_axioms)
  from results_always_agree [OF _ this, of ?w config_defaults "[Job crash_job, ?hook]"] have "results_agree ?v" by (simp add: sample_world_def)
  then have "result_agrees (w_db ?v) ''u0'' (outcome row')" using row'(1) by (auto simp: results_agree_def dest: spec [of _ "''u0''"])
  with row' show ?thesis by (intro exI [of _ ?v] exI [of _ row']) (simp add: result_agrees_def)
qed

end
