(* ===== verification/Spec2Isabelle.thy ===== *)
theory Spec2Isabelle
  imports Correlation Timeline Entity Remediation LlmEngine Gateway HttpUtil GitProvider Queue Served
    Workers Lifecycle SlackLifecycle ObjectStore Metrics Results
begin

text \<open>
  Sherlock (\<open>cmd/sherlock/main.go\<close>) is an incident investigator.  This library models its Go code and proves what makes it correct.

  \<^bold>\<open>The program and how its parts interact.\<close>  Monitoring and deployment systems post webhooks to the gateway (\<open>internal/receiver\<close>).  A receiver
  verifies the credential of a request and decodes its body into alerts; the gateway archives the body, asks the
  deduplication (\<open>internal/dedup\<close>) and the suppressions, and publishes one job per alert that is new.  The queue (\<open>internal/queue\<close>)
  delivers the jobs to the orchestrator (\<open>internal/investigation\<close>), which resolves the targets of the alert (\<open>internal/entity\<close>), has the
  registered collectors find evidence (\<open>internal/collector\<close>: Kubernetes, Prometheus, Loki, deployments), correlates it
  (\<open>internal/correlation\<close>), has an engine rank hypotheses (\<open>internal/rca\<close>: rules, or a language model over \<open>internal/llm\<close> with the
  rules as its fallback), adds the actions of the remediation policies (\<open>internal/remediation\<close>), builds a timeline
  (\<open>internal/timeline\<close>), stores everything (\<open>internal/storage/postgres\<close>, \<open>internal/audit\<close>) and reports to Slack (\<open>internal/slack\<close>), from where
  users can start, re-run and suppress investigations.  The API (\<open>api/api.go\<close>) reads what was stored, behind the key of \<open>internal/httputil\<close>.
  \<open>internal/config\<close> loads the configuration and \<open>main.go\<close> connects the parts.

  \<^bold>\<open>The library.\<close>  Theories on the left, with the code they model.

  \<^item> \<open>GoPrelude\<close>, \<open>GoTime\<close>, \<open>GoFloat\<close>, \<open>GoUrl\<close>: the part of Go and its standard library the code relies on.  A string is a byte list, an \<open>int\<close> or
    a \<open>time.Duration\<close> wraps or saturates where its width matters, a \<open>float64\<close> is a rational with every operation rounded, a
    \<open>map[string]string\<close> is an association list that may be nil, \<open>sort.Slice\<close> is whatever meets its contract (locale \<open>slice_sorter\<close>).
  \<^item> \<open>Contracts\<close> (\<open>internal/contracts\<close>): the records and enumerations all parts exchange.
  \<^item> \<open>Receivers\<close>, \<open>Gateway\<close>, \<open>Dedup\<close>: from a request to jobs (\<open>handle_webhook\<close>, \<open>route_alerts\<close>, \<open>dedup_check\<close>); \<open>HttpUtil\<close>: API key and rate limit.
  \<^item> \<open>Store\<close>: the tables as lists of rows and every statement of the repositories, with the constraints of \<open>migrations/*.up.sql\<close>, in the record \<open>world\<close>
    of all effects: the tables, a clock and a UUID generator read in order, the log of what was sent outside, \<open>w_uuid_in\<close>, which says how PostgreSQL
    reads a text as a UUID, and \<open>w_fault\<close>, which says which of the calls that leave the process fail.  A theorem about every
    world is about every pattern of outages.
  \<^item> \<open>Entity\<close>, \<open>Correlation\<close>, \<open>Timeline\<close>, \<open>Remediation\<close>, \<open>RcaRules\<close>, \<open>DeployRule\<close>, \<open>RcaEngine\<close>: the analysis, one theory per package or file.
  \<^item> \<open>LlmResilience\<close> (retries, circuit breaker), \<open>LlmClients\<close> (the four vendors and the stack of \<open>NewProvider\<close>), \<open>LlmPrompt\<close>, \<open>LlmParser\<close>,
    \<open>LlmFollowup\<close>, \<open>LlmEngine\<close>: the engine that asks a model in passes.
  \<^item> \<open>Orchestrator\<close>: \<open>run_investigation\<close> and its phases, transactions and errors, and the label map of the alert, which the job shares with the
    engine (\<open>rs_rank\<close> gives back what it leaves there) and with the timeline; \<open>OrchestratorSpec\<close>: what each phase leaves behind whatever fails;
    \<open>Success\<close>: when it ends well; \<open>Queue\<close>: the deliveries of a job; \<open>Workers\<close>: \<open>Start\<close> and \<open>Stop\<close> of the orchestrator, with the goroutines, the
    semaphore and the wait group, as a step relation.
  \<^item> \<open>GitProvider\<close>, \<open>DeployCollector\<close>, \<open>LokiCollector\<close>, \<open>KubernetesCollector\<close>, \<open>PrometheusCollector\<close>, \<open>Collectors\<close> (the registry as a step
    relation of collectors finishing), \<open>Registry\<close> (their common contract).
  \<^item> \<open>SlackPublisher\<close>, \<open>SlackApp\<close>, \<open>SlackHttp\<close>: messages, user commands and the two transports.  \<open>Api\<close>: the read API.
  \<^item> \<open>Config\<close>, \<open>Wiring\<close> (\<open>main.go\<close>), \<open>Served\<close>: loading, composition, and the path from the collectors to the readers of the API.
  \<^item> \<open>Lifecycle\<close>: the commands of \<open>main\<close> and the phases of \<open>run\<close>, with everything it opens, defers and closes; \<open>SlackLifecycle\<close>: \<open>Start\<close> and \<open>Stop\<close> of the
    Slack application and its transports.
  \<^item> \<open>Activity\<close>: the webhooks and jobs of a wired program in any number and order; \<open>Results\<close>: what the tables say of the investigations meanwhile; \<open>ObjectStore\<close> (\<open>internal/storage/objectstore\<close>) and \<open>Metrics\<close>
    (\<open>internal/metrics\<close>): what such a program archives and counts.

  \<^bold>\<open>Interfaces.\<close>  A locale states what one part relies on of another, and each is interpreted on the code's own definitions: \<open>rca_rule\<close> (all six rules),
  \<open>rca_engine\<close> (the rule engine and the model-backed one), \<open>webhook_receiver\<close> (all four), \<open>investigation_store\<close> (the PostgreSQL
  repository), \<open>evidence_source\<close> (all four collectors), \<open>go_map\<close>, \<open>weak_order\<close> and \<open>slice_sorter\<close>.

  \<^bold>\<open>What is shown.\<close>
  \<^item> Investigations: a run that succeeds stores one completed row with its evidence, hypotheses and timeline, and with working services every run
    succeeds; a run that fails stores nothing of its result and touches no other row; a job is delivered at most three times, each time for
    a new investigation; what the API serves is what the wired collectors found, and it is typed; the
    timeline shows the labels of the alert but for the two a follow-up can write.
  \<^item> Storage: the repository refines a map of investigations, with its errors; whatever happens an investigation is done exactly if all its results are
    stored; and deduplication finds exactly the investigations it should and links the alert to the latest.
  \<^item> Concurrency: in every interleaving of the workers no more investigations run than allowed, no message is lost or answered twice, and the workers
    of the wired program never deadlock.
  \<^item> The process: whatever fails, a run closes what it opened, once and in the reverse order; the bodies of accepted webhooks can be read back
    whatever follows; the counters add up.
  \<^item> Entry points: who gets in (receivers, strict configuration, Slack signatures, API key), what becomes of every alert, that rejected requests change
    nothing, and that the rate limit of an address depends on its own requests only.
  \<^item> Analysis: hypotheses are ranked, bounded and grounded in evidence, timelines ordered and complete, targets and actions without duplicates,
    correlations exactly within their threshold.
  \<^item> The model: the breaker in every interleaving, which failures are tried again and how often, the prompts sent, the fallback, the parser with its round
    trip and its panic, and safe paths of the files it may ask for.
  \<^item> Collectors: the order they finish in does not matter, the evidence has its type, commits are compared with their neighbours, requests are
    bounded.
  \<^item> Limits of the program that the model shows are theorems as well: the router that refuses the second of two mounts, so that the program never serves;
    workers that are not awaited when the server fails, and one that \<open>Stop\<close> can miss; alerts that an unfinished investigation hides; reports that an
    alert from a webhook never gets; an answer of a model that panics the parser.  Some smaller ones are lemmas of the theory concerned: bodies of forms
    that a check consumes, a status that is never set.

  \<^bold>\<open>Bounds and fuel.\<close>  No definition runs on fuel.  Loops are recursions on the data they range over, retries on the attempts that are left (three for Slack, HTTP
  and the model, so at most four calls), deliveries on the three of \<open>MaxDeliver\<close>, passes on those of the configuration.
  The steps of the workers without a new message are bounded by \<open>pool_work\<close>, which each of them decreases.
  A panic is \<open>None\<close>, an error a value of a sum type, and where a result is promised it is shown to be returned.

  \<^bold>\<open>What is not modelled.\<close>  Logging; the spans of the tracer and the observations of the histograms and the gauge, on which nothing depends; the migrations beyond the types, keys
  and references of the columns that are written; texts that PostgreSQL refuses for their encoding, spellings of identifiers other than the canonical one
  in writing statements, and the JSON of a queued job, which comes back as it was; chi's routing beyond \<open>Mount\<close>; the unused types of \<open>action.go\<close> and
  \<open>installation.go\<close>, which nothing in the program reads.  Code outside the repository is an argument: hashes, JSON and YAML decoding, the HTTP client and server,
  the operating system, the Kubernetes, Prometheus, NATS, S3, Slack and Vertex libraries, the token bucket.  Timeouts of contexts are failures of the calls
  they cut off.  Goroutines are interleavings where they share state that matters (the workers, the breaker, the registry) and an order given as
  an argument elsewhere; the effects of requests and investigations on the tables are taken one after the other.  Case and
  white space outside ASCII follow the bytes, and floats have no infinities, NaN or signed zero.
\<close>

section \<open>From the webhook to the report\<close>

text \<open>C39: The investigation of an alert that came in through a webhook sends nothing to Slack, whatever the configuration, the engine it
  selects and the outcome: the job the alert is queued in names no channel.\<close>

theorem webhook_investigation_silent:
  assumes req: "handle_webhook g source h body w = (resp, w')"
    and sent: "w_events w' = w_events w @ es" and queued: "Published subject job \<in> set es"
    and run: "run_investigation (wire_orchestrator li cfg) job v = (r, v')"
  shows "\<exists>es. w_events v' = w_events v @ es \<and> filter to_slack es = []"
proof -
  from webhook_jobs [OF req] sent have "gateway_jobs (gw_streamName g @ ''.new'') es" by auto
  then have ch: "ij_SlackChannelID job = []" using queued by (auto simp: gateway_jobs_def list_all_iff)
  from run_events [OF run wired_engine_quiet] ch show ?thesis by auto
qed

text \<open>C40: An investigation that ended with an error hides later alerts with the same fingerprint: as long as its row is within the window,
  the deduplication reports them as duplicates of it, although there is no result and none will come.  The engine
  returns no error, as is the case for both engines of the program.\<close>

theorem unfinished_investigation_hides_alerts:
  assumes run: "run_investigation oc job w = (r, w')" and failed: "r \<noteq> Some (Inr ())" and tx: "o_tx oc"
    and engine: "\<And>uuid t gr e. fst (rs_rank (select_rca_engine oc) uuid t gr) \<noteq> Some (Inl e)"
    and row: "inv_row w (w_uuid w (w_uuids w)) = None" "inv_row w' (w_uuid w (w_uuids w)) = Some row"
    and stored: "ij_Alert job \<in> set (db_alerts (w_db w'))"
    and later: "w_db v = w_db w'" "\<not> w_fault v (w_calls v)" "w_clock v (w_reads v) - window \<le> in_CreatedAt row"
    and again: "al_Fingerprint a = al_Fingerprint (ij_Alert job)" "al_Fingerprint a \<noteq> []"
  shows "in_Status row \<in> {StatusPending, StatusCollecting, StatusAnalyzing} \<and>
    (\<exists>res v'. dedup_check window a v = (Inr res, v') \<and> dr_IsDuplicate res)"
proof -
  have "inv_row w' \<noteq> inv_row w" using row by auto
  with run_not_ok [OF run failed tx] engine obtain row' where "inv_row w' = (inv_row w)(w_uuid w (w_uuids w) \<mapsto> row')"
    "in_AlertIDs row' = [al_ID (ij_Alert job)]" "in_Status row' \<in> {StatusPending, StatusCollecting, StatusAnalyzing}" by blast
  then have st: "in_Status row \<in> {StatusPending, StatusCollecting, StatusAnalyzing}" and al: "al_ID (ij_Alert job) \<in> set (in_AlertIDs row)"
    using row(2) by auto
  have mem: "row \<in> set (db_investigations (w_db v))"
    using row(2) later(1) by (auto simp: inv_row_def find_Some_iff)
  have "matches_fingerprint (w_db v) (al_Fingerprint a) (w_clock v (w_reads v) - window) row"
    using stored st al later(1,3) again(1) by (auto simp: matches_fingerprint_def list_ex_iff)
  from dedup_finds [OF later(2) again(2) mem this] st show ?thesis by blast
qed

theorem unfinished_investigation_hides_alerts_witness:
  "\<exists>w' v. run_investigation sample_oc sample_job commit_lost = (fst (run_investigation sample_oc sample_job commit_lost), w') \<and> w_db v = w_db w' \<and>
     (\<exists>res v'. dedup_check (hours 1) (normalized_alert0\<lparr>al_ID := ''a2'', al_Fingerprint := ''f''\<rparr>) v = (Inr res, v') \<and> dr_IsDuplicate res)"
proof -
  obtain r w' where run: "run_investigation sample_oc sample_job commit_lost = (r, w')" by fastforce
  note r = lost_run(1) [OF run]
  have tx: "o_tx sample_oc" by (simp add: sample_oc_def new_orchestrator_def with_blob_store_def)
  have "select_rca_engine sample_oc = sample_service"
    by (simp add: select_rca_engine_def sample_oc_def new_orchestrator_def with_blob_store_def)
  then have engine: "fst (rs_rank (select_rca_engine sample_oc) uuid t gr) \<noteq> Some (Inl e)" for uuid t gr e
    by (simp add: sample_service_def)
  have none: "inv_row commit_lost (w_uuid commit_lost (w_uuids commit_lost)) = None"
    by (simp add: inv_row_def commit_lost_def sample_world_def empty_db_def)
  from lost_run(3) [OF run] obtain row where row: "inv_row w' (w_uuid commit_lost (w_uuids commit_lost)) = Some row" "in_CreatedAt row = hours 10"
    by auto
  have stored: "ij_Alert sample_job \<in> set (db_alerts (w_db w'))" using lost_run(4) [OF run] by simp
  let ?v = "sample_world (w_db w')"
  have "w_db ?v = w_db w'" "\<not> w_fault ?v (w_calls ?v)" "w_clock ?v (w_reads ?v) - hours 1 \<le> in_CreatedAt row"
    by (simp_all add: sample_world_def row(2) hours_def)
  from unfinished_investigation_hides_alerts [OF run r tx engine none row(1) stored this]
  have "\<exists>res v'. dedup_check (hours 1) (normalized_alert0\<lparr>al_ID := ''a2'', al_Fingerprint := ''f''\<rparr>) ?v = (Inr res, v') \<and> dr_IsDuplicate res"
    by (simp add: sample_job_def)
  then show ?thesis using run by (intro exI [of _ w'] exI [of _ ?v]) (simp add: sample_world_def)
qed

theorem webhook_investigation_silent_witness:
  "\<exists>subject job v'. Published subject job \<in> set (w_events (snd (handle_webhook sample_gateway ''alertmanager'' sample_header (Some ''{}'') (sample_world empty_db)))) \<and>
     snd (run_investigation (wire_orchestrator sample_li sample_config) job (sample_world empty_db)) = v' \<and> filter to_slack (w_events v') = []"
proof -
  let ?w = "sample_world empty_db"
  obtain resp w' where req: "handle_webhook sample_gateway ''alertmanager'' sample_header (Some ''{}'') ?w = (resp, w')" by fastforce
  have start: "w_events ?w = []" by (simp add: sample_world_def)
  have "length (filter is_published (w_events w')) = 1" using sample_accepted(3) by (simp add: req)
  then obtain subject job where pub: "Published subject job \<in> set (w_events w')"
    by (metis One_nat_def filter_True filter_empty_conv is_published.elims(2) length_0_conv nat.distinct(1))
  obtain r v' where run: "run_investigation (wire_orchestrator sample_li sample_config) job ?w = (r, v')" by fastforce
  have "w_events w' = w_events ?w @ w_events w'" by (simp add: start)
  from webhook_investigation_silent [OF req this pub run] start have "filter to_slack (w_events v') = []" by auto
  with pub show ?thesis by (intro exI [of _ subject] exI [of _ job] exI [of _ v']) (simp add: req run)
qed

end
